(* ===== verification/Go_Prelude.thy ===== *)
theory Go_Prelude
  imports
    Main
    "HOL-Library.Sublist"
    "HOL-Library.Finite_Map"
    "HOL-Library.List_Lexorder"
    "HOL-Library.Char_ord"
begin

text \<open>
  The vocabulary every component shares.

  \<^item> Errors: the sentinel errors of \<open>pkgerr\<close>, \<open>claims\<close>, \<open>signing\<close> and \<open>cmd\<close>, and an error
    value as the list of the sentinels its wrap tree holds (outermost first). Code classifies
    errors with \<open>errors.Is\<close>, which is membership; message texts are not kept.
  \<^item> Time: \<open>time.Time\<close> as nanoseconds since the Unix epoch and \<open>time.Duration\<close> as nanoseconds,
    with the saturation of \<open>Time.Sub\<close> and the two's complement wrap-around of \<open>int64\<close>.
  \<^item> Strings: the functions of \<open>strings\<close> and \<open>strconv\<close> the code calls, on byte strings
    (Go strings are byte sequences; the model assumes they are valid UTF-8).
  \<^item> Slices: a Go slice is nil or a list; the two differ for the JSON encoder only.
  \<^item> Generic lemmas on lists, options and finite maps, and the collections
    \<open>err_simps\<close>, \<open>time_simps\<close> and \<open>str_simps\<close> the component proofs use.
\<close>

named_theorems err_simps \<open>evaluation of errors.Is and of results\<close>
named_theorems time_simps \<open>durations and time arithmetic\<close>
named_theorems str_simps \<open>Go string functions\<close>

section \<open>Errors\<close>

datatype sentinel =
    ErrParse | ErrEncode | ErrDecode | ErrSign | ErrVerify | ErrCheck | ErrRead | ErrWrite
  | ErrInvalidValue | ErrInvalidType | ErrInvalidMethod | ErrInvalidSize | ErrInvalidKeyPair
  | ErrInvalidToken | ErrInvalidClaims | ErrInvalidParam | ErrNotFound | ErrEmptyValue
  | ErrExpired | ErrNotReady | ErrRevoked
  | ErrNoGroups | ErrNoAudience | ErrNoRoles
  | ErrReservedHeader
  | ErrUsage | ErrAbort
  | CtxCanceled | CtxDeadlineExceeded
  | ErrExternal string

type_synonym gerror = "sentinel list"
type_synonym 'a result = "gerror + 'a"

text \<open>\<open>errors.Is(err, s)\<close>: some error of the wrap tree is \<open>s\<close>.\<close>

definition errors_Is :: "gerror \<Rightarrow> sentinel \<Rightarrow> bool" where
  "errors_Is e s \<longleftrightarrow> s \<in> set e"

lemma errors_Is_Nil [simp, err_simps]: "\<not> errors_Is [] s"
  by (simp add: errors_Is_def)

lemma errors_Is_Cons [simp, err_simps]: "errors_Is (x # e) s \<longleftrightarrow> x = s \<or> errors_Is e s"
  by (auto simp: errors_Is_def)

lemma errors_Is_append [simp, err_simps]:
  "errors_Is (d @ e) s \<longleftrightarrow> errors_Is d s \<or> errors_Is e s"
  by (auto simp: errors_Is_def)

text \<open>\<open>context.Context\<close> as the code reads it: \<open>ctx.Err()\<close>.\<close>

type_synonym ctx_err = "gerror option"

abbreviation is_ok :: "'a result \<Rightarrow> bool" where
  "is_ok r \<equiv> \<not> isl r"

section \<open>Time\<close>

type_synonym gtime = int
type_synonym duration = int

definition Nanosecond :: duration where "Nanosecond = 1"
definition Second :: duration where "Second = 1000000000"
definition Minute :: duration where "Minute = 60 * Second"
definition Hour :: duration where "Hour = 60 * Minute"

text \<open>The zero \<open>time.Time\<close> is January 1 of year 1, 00:00:00 UTC.\<close>

definition zero_time :: gtime where "zero_time = - 62135596800000000000"

definition maxDuration :: duration where "maxDuration = 2 ^ 63 - 1"
definition minDuration :: duration where "minDuration = - (2 ^ 63)"

text \<open>\<open>int64\<close> arithmetic wraps around in two's complement.\<close>

definition wrap64 :: "int \<Rightarrow> int" where
  "wrap64 n = (n + 2 ^ 63) mod 2 ^ 64 - 2 ^ 63"

definition time_IsZero :: "gtime \<Rightarrow> bool" where "time_IsZero t \<longleftrightarrow> t = zero_time"
definition time_Add :: "gtime \<Rightarrow> duration \<Rightarrow> gtime" where "time_Add t d = t + d"
definition time_Before :: "gtime \<Rightarrow> gtime \<Rightarrow> bool" where "time_Before t u \<longleftrightarrow> t < u"
definition time_After :: "gtime \<Rightarrow> gtime \<Rightarrow> bool" where "time_After t u \<longleftrightarrow> t > u"

text \<open>\<open>Time.Sub\<close> saturates at the smallest and the largest \<open>Duration\<close>.\<close>

definition time_Sub :: "gtime \<Rightarrow> gtime \<Rightarrow> duration" where
  "time_Sub t u = max minDuration (min maxDuration (t - u))"

text \<open>
  \<open>time.Unix(sec, nsec)\<close>, whose seconds since year 1 are an \<open>int64\<close>, and \<open>Time.Unix()\<close>, whole
  seconds rounded down.
\<close>

definition time_Unix :: "int \<Rightarrow> int \<Rightarrow> gtime" where
  "time_Unix sec nsec = (wrap64 (sec + 62135596800) - 62135596800) * Second + nsec"

definition unix_seconds :: "gtime \<Rightarrow> int" where
  "unix_seconds t = t div Second"

text \<open>Truncation to whole seconds since the zero time, which is itself a whole second.\<close>

definition trunc_second :: "gtime \<Rightarrow> gtime" where
  "trunc_second t = Second * (t div Second)"

lemmas time_defs [time_simps] =
  time_IsZero_def time_Add_def time_Before_def time_After_def

lemma Second_pos [simp]: "0 < Second"
  by (simp add: Second_def)

lemma trunc_second_le: "trunc_second t \<le> t"
  by (simp add: trunc_second_def Second_def)

lemma trunc_second_gt: "t - Second < trunc_second t"
  by (simp add: trunc_second_def Second_def)

lemma trunc_second_mono: "s \<le> t \<Longrightarrow> trunc_second s \<le> trunc_second t"
  by (simp add: trunc_second_def Second_def zdiv_mono1)

lemma trunc_second_idem [simp]: "trunc_second (trunc_second t) = trunc_second t"
  by (simp add: trunc_second_def Second_def)

lemma trunc_second_add_mult [simp]: "trunc_second (t + Second * k) = trunc_second t + Second * k"
  by (simp add: trunc_second_def Second_def div_add1_eq algebra_simps)

lemma trunc_second_mult [simp]: "trunc_second (Second * k) = Second * k"
  by (simp add: trunc_second_def Second_def)

lemma time_Sub_exact:
  "minDuration \<le> t - u \<Longrightarrow> t - u \<le> maxDuration \<Longrightarrow> time_Sub t u = t - u"
  by (simp add: time_Sub_def)

lemma wrap64_id: "- (2 ^ 63) \<le> n \<Longrightarrow> n < 2 ^ 63 \<Longrightarrow> wrap64 n = n"
  by (simp add: wrap64_def)

lemma time_Unix_exact:
  "- (2 ^ 63) \<le> sec + 62135596800 \<Longrightarrow> sec + 62135596800 < 2 ^ 63 \<Longrightarrow> time_Unix sec nsec = sec * Second + nsec"
  by (simp add: time_Unix_def wrap64_id)

lemma wrap64_bounds: "- (2 ^ 63) \<le> wrap64 n \<and> wrap64 n < 2 ^ 63"
proof -
  have "0 \<le> (n + 2 ^ 63) mod 2 ^ 64" "(n + 2 ^ 63) mod 2 ^ 64 < (2 ^ 64 :: int)"
    by (simp_all only: pos_mod_sign pos_mod_bound zero_less_power zero_less_numeral)
  then show ?thesis by (simp add: wrap64_def)
qed

section \<open>Functional options\<close>

text \<open>Options are applied in order and the first error aborts the construction.\<close>

fun apply_opts :: "('s \<Rightarrow> 's result) list \<Rightarrow> 's \<Rightarrow> 's result" where
  "apply_opts [] s = Inr s"
| "apply_opts (opt # opts) s = (case opt s of Inl e \<Rightarrow> Inl e | Inr s' \<Rightarrow> apply_opts opts s')"

text \<open>
  The options interface: every option keeps an invariant of the configuration, so the construction
  loop does. The signer, the verifier and the refresher use the same loop.
\<close>

locale opts_invariant =
  fixes inv :: "'s \<Rightarrow> bool"
    and option_of :: "('s \<Rightarrow> 's result) \<Rightarrow> bool"
  assumes opt_keeps: "option_of opt \<Longrightarrow> inv s \<Longrightarrow> opt s = Inr s' \<Longrightarrow> inv s'"
begin

lemma apply_opts_keeps: "\<forall>opt \<in> set opts. option_of opt \<Longrightarrow> inv s \<Longrightarrow> apply_opts opts s = Inr s' \<Longrightarrow> inv s'"
proof (induction opts s rule: apply_opts.induct)
  case (2 opt opts s)
  then obtain s1 where s1: "opt s = Inr s1" "apply_opts opts s1 = Inr s'" by (auto split: sum.splits)
  with 2 have "inv s1" by (auto intro: opt_keeps)
  with 2 s1 show ?case by simp
qed simp

end

lemma list_all2_matches:
  assumes "list_all2 P xs ys"
  shows "x \<in> set xs \<Longrightarrow> \<exists>y \<in> set ys. P x y" and "y \<in> set ys \<Longrightarrow> \<exists>x \<in> set xs. P x y"
  using assms by (fastforce simp: list_all2_conv_all_nth in_set_conv_nth)+

end
