(* ===== verification/Go_Float.thy ===== *)
theory Go_Float
  imports Go_Prelude "HOL-Library.Log_Nat"
begin

text \<open>
  Go's \<open>float64\<close>, as far as jwtmint computes with it: finite values as rationals, the two
  infinities and NaN; rounding to 53 significant bits, ties to even, for values of normal
  magnitude; truncating conversion to \<open>int64\<close>. A conversion whose result does not fit is left to
  the implementation by the language specification, so it is \<open>None\<close> here and the caller asks the
  platform parameter.
\<close>

datatype float64 = Fin rat | PosInf | NegInf | NaN

definition flog2 :: "rat \<Rightarrow> int" where
  "flog2 x =
    (let (p, q) = quotient_of x;
         e = int (floorlog 2 (nat p)) - int (floorlog 2 (nat q))
     in if 2 powi e \<le> x then e else e - 1)"

definition round_even :: "rat \<Rightarrow> int" where
  "round_even m =
    (let f = \<lfloor>m\<rfloor>; d = m - of_int f in
     if d < 1 / 2 then f else if d > 1 / 2 then f + 1 else if even f then f else f + 1)"

definition rnd64 :: "rat \<Rightarrow> rat" where
  "rnd64 x =
    (if x = 0 then 0
     else let e = flog2 \<bar>x\<bar> - 52
          in sgn x * of_int (round_even (\<bar>x\<bar> / 2 powi e)) * 2 powi e)"

definition trunc_rat :: "rat \<Rightarrow> int" where
  "trunc_rat r = (if 0 \<le> r then \<lfloor>r\<rfloor> else \<lceil>r\<rceil>)"

text \<open>\<open>int64(v)\<close>: truncation towards zero; \<open>None\<close> where the result is implementation-dependent.\<close>

fun int64_of_float :: "float64 \<Rightarrow> int option" where
  "int64_of_float (Fin r) =
    (if - (2 ^ 63) \<le> trunc_rat r \<and> trunc_rat r < 2 ^ 63 then Some (trunc_rat r) else None)"
| "int64_of_float _ = None"

fun float_less :: "float64 \<Rightarrow> rat \<Rightarrow> bool" where
  "float_less (Fin r) q \<longleftrightarrow> r < q"
| "float_less PosInf q \<longleftrightarrow> False"
| "float_less NegInf q \<longleftrightarrow> True"
| "float_less NaN q \<longleftrightarrow> False"

text \<open>Go's \<open>==\<close> on \<open>float64\<close>: NaN is not equal to itself.\<close>

fun float_eq :: "float64 \<Rightarrow> float64 \<Rightarrow> bool" where
  "float_eq (Fin r) (Fin q) \<longleftrightarrow> r = q"
| "float_eq PosInf PosInf \<longleftrightarrow> True"
| "float_eq NegInf NegInf \<longleftrightarrow> True"
| "float_eq _ _ \<longleftrightarrow> False"

text \<open>\<open>float64(n)\<close> for an integer.\<close>

definition float_of_int :: "int \<Rightarrow> float64" where
  "float_of_int n = Fin (rnd64 (of_int n))"

section \<open>Rounding of integers\<close>

lemma trunc_rat_of_int [simp]: "trunc_rat (of_int n) = n"
  by (simp add: trunc_rat_def)

lemma round_even_of_int [simp]: "round_even (of_int n) = n"
  by (simp add: round_even_def)

lemma rnd64_zero [simp]: "rnd64 0 = 0"
  by (simp add: rnd64_def)

lemma flog2_of_int:
  assumes "0 < n"
  shows "flog2 (of_int n) = int (floorlog 2 (nat n)) - 1"
proof -
  define k where "k = floorlog 2 (nat n) - 1"
  from assms have "0 < nat n" by simp
  then have fl: "0 < floorlog 2 (nat n)" and b: "2 ^ k \<le> nat n"
    using floorlog_bounds [of "nat n" 2] floorlog_eq_zero_iff [of 2 "nat n"]
    unfolding k_def by auto
  have "(2 :: int) ^ k \<le> n"
    using b assms by (metis int_nat_eq less_imp_le nat_int_comparison(3) of_nat_numeral of_nat_power)
  then have "(2 :: rat) ^ k \<le> of_int n"
    by (metis of_int_le_iff of_int_numeral of_int_power)
  have e: "int (floorlog 2 (nat n)) - int (floorlog 2 (nat 1)) = int k"
    using fl by (simp add: k_def floorlog_def)
  with \<open>(2 :: rat) ^ k \<le> of_int n\<close> have "flog2 (of_int n) = int k"
    unfolding flog2_def quotient_of_rat_of_int prod.case e Let_def
    by (simp only: power_int_of_nat if_True)
  then show ?thesis
    using fl by (simp add: k_def)
qed

lemma rnd64_pos_int:
  assumes "0 < n" "n < 2 ^ 53"
  shows "rnd64 (of_int n) = of_int n"
proof -
  define e where "e = flog2 (of_int n) - 52"
  define j where "j = nat (- e)"
  have "nat n < 2 ^ 53"
    using assms by (metis nat_less_numeral_power_cancel_iff)
  then have "floorlog 2 (nat n) \<le> 53"
    by (intro floorlog_leI) simp_all
  then have "e \<le> 0"
    using assms by (simp add: e_def flog2_of_int)
  then have "e = - int j"
    by (simp add: j_def)
  then have pw: "(2 :: rat) powi e = 1 / 2 ^ j"
    by (simp only: power_int_minus power_int_of_nat inverse_eq_divide)
  have "of_int n / (1 / (2 :: rat) ^ j) = of_int (n * 2 ^ j)"
    by simp
  then have r: "round_even (of_int n / (1 / (2 :: rat) ^ j)) = n * 2 ^ j"
    by (simp only: round_even_of_int)
  have "rnd64 (of_int n) = of_int (round_even (of_int n / 2 powi e)) * 2 powi e"
    using assms by (simp add: rnd64_def Let_def e_def)
  also have "\<dots> = of_int (n * 2 ^ j) * (1 / 2 ^ j)"
    by (simp only: pw r)
  finally show ?thesis by simp
qed

lemma rnd64_of_int:
  assumes "\<bar>n\<bar> < 2 ^ 53"
  shows "rnd64 (of_int n) = of_int n"
proof -
  consider "n = 0" | "0 < n" | "n < 0" by linarith
  then show ?thesis
  proof cases
    case 3
    with assms have "rnd64 (of_int (- n)) = of_int (- n)"
      by (intro rnd64_pos_int) simp_all
    moreover have "rnd64 (of_int n) = - rnd64 (of_int (- n))"
      using 3 by (simp add: rnd64_def Let_def)
    ultimately show ?thesis by simp
  qed (use assms rnd64_pos_int in simp_all)
qed

lemma float_of_int_small: "\<bar>n\<bar> < 2 ^ 53 \<Longrightarrow> float_of_int n = Fin (of_int n)"
  by (simp add: float_of_int_def rnd64_of_int)

section \<open>Bounds of rounding\<close>

lemma flog2_le:
  assumes "0 < x"
  shows "2 powi flog2 x \<le> x"
proof -
  obtain p q where pq: "quotient_of x = (p, q)" by force
  have q: "0 < q" using quotient_of_denom_pos [OF pq] .
  have x: "x = of_int p / of_int q" using quotient_of_div [OF pq] .
  have p: "0 < p" using assms q by (simp add: x zero_less_divide_iff)
  let ?a = "floorlog 2 (nat p)" and ?b = "floorlog 2 (nat q)"
  have "2 ^ (?a - 1) \<le> nat p" "0 < ?a"
    using floorlog_bounds [of "nat p" 2] floorlog_eq_zero_iff [of 2 "nat p"] p by auto
  then have "int (2 ^ (?a - 1)) \<le> int (nat p)" by (simp only: of_nat_le_iff)
  then have "(2::int) ^ (?a - 1) \<le> p" using p by simp
  then have lp: "(2::rat) ^ (?a - 1) \<le> of_int p" by (metis of_int_le_iff of_int_numeral of_int_power)
  have "nat q < 2 ^ ?b" using floorlog_bounds [of "nat q" 2] q by auto
  then have "int (nat q) < int (2 ^ ?b)" by (simp only: of_nat_less_iff)
  then have "q < 2 ^ ?b" using q by simp
  then have lq: "of_int q \<le> (2::rat) ^ ?b" by (metis of_int_le_iff of_int_numeral of_int_power less_imp_le)
  have "(2::rat) powi (int ?a - int ?b - 1) = 2 ^ (?a - 1) / 2 ^ ?b"
    using \<open>0 < ?a\<close> by (simp add: power_int_diff of_nat_diff power_diff)
  also have "\<dots> \<le> of_int p / of_int q"
    using lp lq q p by (intro frac_le) simp_all
  finally have "2 powi (int ?a - int ?b - 1) \<le> x" by (simp only: x)
  then show ?thesis by (simp add: flog2_def pq Let_def)
qed

lemma round_even_floor: "\<lfloor>m\<rfloor> \<le> round_even m"
  by (simp add: round_even_def Let_def)

lemma round_even_near: "\<bar>of_int (round_even m) - m\<bar> \<le> 1 / 2"
  by (auto simp: round_even_def Let_def abs_if) linarith+

lemma rnd64_nonneg:
  assumes "0 \<le> x"
  shows "0 \<le> rnd64 x"
proof -
  have "0 \<le> \<lfloor>x / 2 powi (flog2 x - 52)\<rfloor>" using assms by simp
  then have "0 \<le> round_even (x / 2 powi (flog2 x - 52))" using round_even_floor by (rule order_trans)
  then show ?thesis using assms by (auto simp: rnd64_def Let_def sgn_if)
qed

text \<open>Rounding moves a value by at most one part in \<open>2 ^ 53\<close>.\<close>

lemma rnd64_error:
  assumes "0 \<le> x"
  shows "\<bar>rnd64 x - x\<bar> \<le> x / 2 ^ 53"
proof (cases "x = 0")
  case False
  define e where "e = flog2 x - 52"
  have x: "0 < x" using assms False by simp
  have pos: "(0::rat) < 2 powi e" by simp
  have "(2::rat) powi e * 2 ^ 52 = 2 powi flog2 x" by (simp add: e_def power_int_diff)
  then have e: "2 powi e * 2 ^ 52 \<le> x" using flog2_le [OF x] by simp
  have "rnd64 x - x = (of_int (round_even (x / 2 powi e)) - x / 2 powi e) * 2 powi e"
    using x by (simp add: rnd64_def Let_def e_def left_diff_distrib)
  then have "\<bar>rnd64 x - x\<bar> = \<bar>of_int (round_even (x / 2 powi e)) - x / 2 powi e\<bar> * 2 powi e"
    using pos by (simp add: abs_mult)
  also have "\<dots> \<le> 1 / 2 * 2 powi e" using round_even_near pos by (intro mult_right_mono) simp_all
  also have "\<dots> \<le> x / 2 ^ 53" using e by simp
  finally show ?thesis .
qed simp

end
