(* ===== verification/Go_Bytes.thy ===== *)
theory Go_Bytes
  imports Go_Strings
begin

text \<open>
  Byte-level encodings of the standard library: base64 (\<open>StdEncoding\<close> and \<open>RawURLEncoding\<close>) and
  the big-endian magnitudes of \<open>big.Int\<close>. Bytes are \<open>char\<close>s. The lemmas are the round trips the
  JWK conversions rest on.
\<close>

section \<open>Base64\<close>

definition std_alphabet :: string where
  "std_alphabet = ''ABCDEFGHIJKLMNOPQRSTUVWXYZabcdefghijklmnopqrstuvwxyz0123456789+/''"

definition url_alphabet :: string where
  "url_alphabet = ''ABCDEFGHIJKLMNOPQRSTUVWXYZabcdefghijklmnopqrstuvwxyz0123456789-_''"

text \<open>Three bytes to four sextets; a last group of one or two bytes gives two or three.\<close>

fun sextets :: "nat list \<Rightarrow> nat list" where
  "sextets [] = []"
| "sextets [a] = [a div 4, (a mod 4) * 16]"
| "sextets [a, b] = [a div 4, (a mod 4) * 16 + b div 16, (b mod 16) * 4]"
| "sextets (a # b # c # r) =
    [a div 4, (a mod 4) * 16 + b div 16, (b mod 16) * 4 + c div 64, c mod 64] @ sextets r"

fun octets :: "nat list \<Rightarrow> nat list option" where
  "octets [] = Some []"
| "octets [w] = None"
| "octets [w, x] = Some [w * 4 + x div 16]"
| "octets [w, x, y] = Some [w * 4 + x div 16, (x mod 16) * 16 + y div 4]"
| "octets (w # x # y # z # r) =
    map_option (\<lambda>bs. [w * 4 + x div 16, (x mod 16) * 16 + y div 4, (y mod 4) * 64 + z] @ bs) (octets r)"

fun index_of :: "'a \<Rightarrow> 'a list \<Rightarrow> nat option" where
  "index_of x [] = None"
| "index_of x (y # ys) = (if x = y then Some 0 else map_option Suc (index_of x ys))"

definition byte_nats :: "string \<Rightarrow> nat list" where
  "byte_nats s = map of_char s"

definition nat_bytes :: "nat list \<Rightarrow> string" where
  "nat_bytes ns = map char_of ns"

definition b64_encode :: "string \<Rightarrow> string \<Rightarrow> string" where
  "b64_encode al s = map (\<lambda>i. al ! i) (sextets (byte_nats s))"

text \<open>\<open>DecodeString\<close> skips carriage returns and line feeds and rejects every other stray byte.\<close>

definition b64_decode :: "string \<Rightarrow> string \<Rightarrow> string option" where
  "b64_decode al s =
    (case those (map (\<lambda>c. index_of c al) (filter (\<lambda>c. c \<noteq> CHR 0x0A \<and> c \<noteq> CHR 0x0D) s)) of
       None \<Rightarrow> None
     | Some is \<Rightarrow> map_option nat_bytes (octets is))"

definition RawURL_EncodeToString :: "string \<Rightarrow> string" where
  "RawURL_EncodeToString s = b64_encode url_alphabet s"

definition RawURL_DecodeString :: "string \<Rightarrow> string option" where
  "RawURL_DecodeString s = b64_decode url_alphabet s"

text \<open>\<open>StdEncoding\<close> pads the last group to four characters.\<close>

definition Std_EncodeToString :: "string \<Rightarrow> string" where
  "Std_EncodeToString s =
    (let e = b64_encode std_alphabet s
     in e @ replicate ((4 - length e mod 4) mod 4) (CHR ''=''))"

text \<open>
  Its decoder wants whole groups of four and accepts one or two padding characters at the very end;
  a padding character anywhere else is not in the alphabet.
\<close>

definition strip_pad :: "string \<Rightarrow> string" where
  "strip_pad u =
    (if length u \<ge> 2 \<and> drop (length u - 2) u = ''=='' then take (length u - 2) u
     else if u \<noteq> [] \<and> last u = CHR ''='' then butlast u else u)"

definition Std_DecodeString :: "string \<Rightarrow> string option" where
  "Std_DecodeString s =
    (let u = filter (\<lambda>c. c \<noteq> CHR 0x0A \<and> c \<noteq> CHR 0x0D) s
     in if length u mod 4 = 0 then b64_decode std_alphabet (strip_pad u) else None)"

section \<open>Big-endian magnitudes\<close>

definition SetBytes :: "string \<Rightarrow> nat" where
  "SetBytes bs = foldl (\<lambda>n b. 256 * n + of_char b) 0 bs"

function be_bytes :: "nat \<Rightarrow> string" where
  "be_bytes n = (if n = 0 then [] else be_bytes (n div 256) @ [char_of (n mod 256)])"
  by pat_completeness auto
termination
  by (relation "measure id") auto

declare be_bytes.simps [simp del]

text \<open>The fixed-width form of an EC coordinate.\<close>

definition be_pad :: "nat \<Rightarrow> nat \<Rightarrow> string" where
  "be_pad len n = replicate (len - length (be_bytes n)) (CHR 0x00) @ be_bytes n"

section \<open>Base64 round trip\<close>

lemma those_Some_iff: "those xs = Some ys \<longleftrightarrow> xs = map Some ys"
proof (induction xs arbitrary: ys)
  case (Cons x xs)
  then show ?case by (cases x; cases ys) auto
qed auto

lemma those_map_total: "(\<And>x. x \<in> set xs \<Longrightarrow> f x = Some (g x)) \<Longrightarrow> those (map f xs) = Some (map g xs)"
  by (simp add: those_Some_iff)

lemma octets_sextets: "\<forall>b \<in> set bs. b < 256 \<Longrightarrow> octets (sextets bs) = Some bs"
proof (induction bs rule: sextets.induct)
  case (3 a b)
  have "a div 4 * 4 + ((a mod 4) * 16 + b div 16) div 16 = a"
    using 3 by auto
  moreover have "((a mod 4) * 16 + b div 16) mod 16 * 16 + ((b mod 16) * 4) div 4 = b"
  proof -
    have "((a mod 4) * 16 + b div 16) mod 16 = b div 16" using 3 by auto
    then show ?thesis by simp
  qed
  ultimately show ?case by simp
next
  case (4 a b c r)
  have "a div 4 * 4 + ((a mod 4) * 16 + b div 16) div 16 = a"
    using 4(2) by auto
  moreover have "((a mod 4) * 16 + b div 16) mod 16 * 16 + ((b mod 16) * 4 + c div 64) div 4 = b"
  proof -
    have "((a mod 4) * 16 + b div 16) mod 16 = b div 16" using 4(2) by auto
    moreover have "((b mod 16) * 4 + c div 64) div 4 = b mod 16" using 4(2) by auto
    ultimately show ?thesis by simp
  qed
  moreover have "((b mod 16) * 4 + c div 64) mod 4 * 64 + c mod 64 = c"
  proof -
    have "((b mod 16) * 4 + c div 64) mod 4 = c div 64" using 4(2) by auto
    then show ?thesis by simp
  qed
  ultimately show ?case using 4 by simp
qed auto

lemma sextets_bound: "\<forall>b \<in> set bs. b < 256 \<Longrightarrow> i \<in> set (sextets bs) \<Longrightarrow> i < 64"
proof (induction bs rule: sextets.induct)
  case (4 a b c r)
  then have "a < 256" "b < 256" "c < 256" and r: "\<forall>b \<in> set r. b < 256" by simp_all
  then have "a div 4 < 64" "(a mod 4) * 16 + b div 16 < 64" "(b mod 16) * 4 + c div 64 < 64" "c mod 64 < 64"
    by (auto; presburger)+
  with 4 r show ?case by auto
qed (auto; presburger)+

lemma index_of_nth: "distinct xs \<Longrightarrow> i < length xs \<Longrightarrow> index_of (xs ! i) xs = Some i"
proof (induction xs arbitrary: i)
  case (Cons x xs)
  then show ?case by (cases i) auto
qed simp

text \<open>Decoding what was encoded, for an alphabet of 64 distinct characters without line breaks.\<close>

lemma b64_roundtrip:
  assumes "distinct al" "length al = 64" "CHR 0x0A \<notin> set al" "CHR 0x0D \<notin> set al"
  shows "b64_decode al (b64_encode al s) = Some s"
proof -
  let ?is = "sextets (byte_nats s)"
  have b: "\<forall>b \<in> set (byte_nats s). b < 256" by (auto simp: byte_nats_def nat_of_char_less_256)
  then have lt: "i < 64" if "i \<in> set ?is" for i
    using sextets_bound that by blast
  have "filter (\<lambda>c. c \<noteq> CHR 0x0A \<and> c \<noteq> CHR 0x0D) (b64_encode al s) = b64_encode al s"
  proof (intro filter_True ballI)
    fix c
    assume "c \<in> set (b64_encode al s)"
    then obtain i where "i \<in> set ?is" "c = al ! i" by (auto simp: b64_encode_def)
    with lt assms(2) have "c \<in> set al" by simp
    with assms(3,4) show "c \<noteq> CHR 0x0A \<and> c \<noteq> CHR 0x0D" by auto
  qed
  moreover have "those (map (\<lambda>c. index_of c al) (b64_encode al s)) = Some (map (\<lambda>i. i) ?is)"
    using assms lt by (simp add: b64_encode_def comp_def those_map_total index_of_nth)
  moreover have "nat_bytes (byte_nats s) = s"
    by (simp add: nat_bytes_def byte_nats_def comp_def)
  ultimately show ?thesis
    by (simp add: b64_decode_def octets_sextets [OF b])
qed

lemma RawURL_roundtrip [simp]: "RawURL_DecodeString (RawURL_EncodeToString s) = Some s"
  unfolding RawURL_DecodeString_def RawURL_EncodeToString_def
  by (rule b64_roundtrip) (code_simp+)

lemma length_sextets_mod: "length (sextets bs) mod 4 \<noteq> 1"
  by (induction bs rule: sextets.induct) auto

lemma strip_pad_append:
  assumes "CHR ''='' \<notin> set e" "k \<le> 2"
  shows "strip_pad (e @ replicate k (CHR ''='')) = e"
proof -
  have last: "e = [] \<or> last e \<noteq> CHR ''=''" using assms(1) by (metis last_in_set)
  have two: "drop (length e - 2) e \<noteq> ''==''" using assms(1) in_set_dropD [of "CHR ''=''" "length e - 2" e] by auto
  have one: "drop (length e - 1) e \<noteq> ''=''"
    using last by (cases e rule: rev_cases) auto
  consider "k = 0" | "k = 1" | "k = 2" using assms(2) by linarith
  then show ?thesis
    by cases (use last two one in \<open>auto simp: strip_pad_def numeral_2_eq_2\<close>)
qed

lemma b64_encode_chars: "length al = 64 \<Longrightarrow> set (b64_encode al s) \<subseteq> set al"
proof -
  assume al: "length al = 64"
  have "\<forall>b \<in> set (byte_nats s). b < 256" by (auto simp: byte_nats_def nat_of_char_less_256)
  then have "i < 64" if "i \<in> set (sextets (byte_nats s))" for i using sextets_bound that by blast
  then show ?thesis using al by (auto simp: b64_encode_def)
qed

lemma Std_roundtrip [simp]: "Std_DecodeString (Std_EncodeToString s) = Some s"
proof -
  let ?e = "b64_encode std_alphabet s"
  define k where "k = (4 - length ?e mod 4) mod 4"
  have al: "length std_alphabet = 64" "distinct std_alphabet" "CHR 0x0A \<notin> set std_alphabet"
    "CHR 0x0D \<notin> set std_alphabet" "CHR ''='' \<notin> set std_alphabet"
    by (code_simp+)
  note chars = b64_encode_chars [OF al(1), of s]
  have "length ?e mod 4 \<noteq> 1" using length_sextets_mod by (simp add: b64_encode_def)
  then consider "length ?e mod 4 = 0" | "length ?e mod 4 = 2" | "length ?e mod 4 = 3" by linarith
  then have "k \<le> 2 \<and> (length ?e mod 4 + k) mod 4 = 0" by cases (simp_all add: k_def)
  then have k: "k \<le> 2" "(length ?e + k) mod 4 = 0" by (simp_all add: mod_add_left_eq)
  have "filter (\<lambda>c. c \<noteq> CHR 0x0A \<and> c \<noteq> CHR 0x0D) (?e @ replicate k (CHR ''='')) = ?e @ replicate k (CHR ''='')"
    using chars al(3,4) by (intro filter_True) auto
  moreover have "strip_pad (?e @ replicate k (CHR ''='')) = ?e"
    using chars al(5) k by (intro strip_pad_append) auto
  ultimately show ?thesis
    using k b64_roundtrip [OF al(2,1,3,4)]
    by (simp add: Std_DecodeString_def Std_EncodeToString_def Let_def k_def [symmetric])
qed

section \<open>Big-endian round trip\<close>

lemma SetBytes_Nil [simp]: "SetBytes [] = 0"
  by (simp add: SetBytes_def)

lemma SetBytes_snoc [simp]: "SetBytes (bs @ [b]) = 256 * SetBytes bs + of_char b"
  by (simp add: SetBytes_def)

lemma SetBytes_be_bytes [simp]: "SetBytes (be_bytes n) = n"
proof (induction n rule: be_bytes.induct)
  case (1 n)
  then show ?case by (subst be_bytes.simps) simp
qed

lemma SetBytes_zeros [simp]: "SetBytes (replicate k (CHR 0x00) @ bs) = SetBytes bs"
  by (induction k) (simp_all add: SetBytes_def)

lemma SetBytes_be_pad [simp]: "SetBytes (be_pad len n) = n"
  by (simp add: be_pad_def)

lemma be_bytes_eq_Nil [simp]: "be_bytes n = [] \<longleftrightarrow> n = 0"
  by (subst be_bytes.simps) simp

lemma length_be_bytes_le: "n < 256 ^ k \<Longrightarrow> length (be_bytes n) \<le> k"
proof (induction k arbitrary: n)
  case 0
  then show ?case by simp
next
  case (Suc k)
  then have "n div 256 < 256 ^ k" by (simp add: less_mult_imp_div_less mult.commute)
  with Suc.IH have "length (be_bytes (n div 256)) \<le> k" by blast
  then show ?case by (subst be_bytes.simps) simp
qed

lemma length_be_pad: "n < 256 ^ len \<Longrightarrow> length (be_pad len n) = len"
  using length_be_bytes_le [of n len] by (simp add: be_pad_def)

lemma SetBytes_lt: "SetBytes bs < 256 ^ length bs"
proof (induction bs rule: rev_induct)
  case (snoc b bs)
  have "(of_char b :: nat) < 256" by (rule nat_of_char_less_256)
  moreover from snoc have "256 * SetBytes bs + 256 \<le> 256 * 256 ^ length bs" by simp
  ultimately have "256 * SetBytes bs + of_char b < 256 * 256 ^ length bs" by linarith
  then show ?case by simp
qed simp

end
