(* ===== verification/Jwt_Model.thy ===== *)
theory Jwt_Model
  imports Go_Strings Go_Float Go_Bytes
begin

text \<open>
  The data the components exchange and the code they call that is not part of the repository.

  \<^item> \<open>gval\<close>: the dynamic values an \<open>any\<close> of a claim or header map holds, one constructor per
    case of the type switches in \<open>claims\<close>; \<open>mapclaims\<close>: \<open>jwt.MapClaims\<close> and header maps as
    finite maps (a nil map reads like an empty one; where the code tests for nil the model has
    an \<open>option\<close>).
  \<^item> \<open>smethod\<close>, \<open>pkey\<close>, \<open>token\<close>: signing methods, key values and \<open>*jwt.Token\<close>.
  \<^item> \<open>lib\<close>: the functions of \<open>golang-jwt\<close>, and of the standard library's number, time and
    duration parsers, that the code calls; every definition that uses one takes the record as
    an argument. What the code relies on is stated as the predicates at the end of this theory,
    each the documented behaviour of one function.
\<close>

section \<open>Dynamic values\<close>

datatype gval =
    VNil
  | VString string
  | VStringPtr "string option"
  | VBytes "char slice"
  | VBool bool
  | VFloat float64
  | VFloatPtr "float64 option"
  | VInt int
  | VIntPtr "int option"
  | VInt64 int
  | VInt64Ptr "int option"
  | VNumber string
  | VStrings "string slice"
  | VAnys "gval slice"
  | VMap "(string \<times> gval) list"
  | VNumericDate gtime
  | VNumericDatePtr "gtime option"
  | VTime gtime
  | VTimePtr "gtime option"
  | VUUID string
  | VOther nat

type_synonym mapclaims = "(string, gval) fmap"
type_synonym headers = "(string, gval) fmap"

section \<open>Signing methods and keys\<close>

text \<open>
  The concrete types behind \<open>jwt.SigningMethod\<close>, with the \<open>alg\<close> name each returns and, for ECDSA,
  \<open>CurveBits\<close>. A nil interface is \<open>None\<close> of \<open>smethod option\<close> where the code tests for it.
\<close>

datatype smethod =
    SigningMethodECDSA string int
  | SigningMethodRSA string
  | SigningMethodRSAPSS string
  | SigningMethodEd25519 string
  | SigningMethodHMAC string
  | SigningMethodOther string

primrec Alg :: "smethod \<Rightarrow> string" where
  "Alg (SigningMethodECDSA a b) = a"
| "Alg (SigningMethodRSA a) = a"
| "Alg (SigningMethodRSAPSS a) = a"
| "Alg (SigningMethodEd25519 a) = a"
| "Alg (SigningMethodHMAC a) = a"
| "Alg (SigningMethodOther a) = a"

datatype curve = P256 | P384 | P521 | OtherCurve int

primrec BitSize :: "curve \<Rightarrow> int" where
  "BitSize P256 = 256"
| "BitSize P384 = 384"
| "BitSize P521 = 521"
| "BitSize (OtherCurve n) = n"

record ecdsa_public =
  ec_curve :: curve
  ec_X :: nat
  ec_Y :: nat

record ecdsa_private =
  ec_pub :: ecdsa_public
  ec_D :: nat

record rsa_public =
  rsa_N :: nat
  rsa_E :: int

record rsa_private =
  rsa_pub :: rsa_public
  rsa_D :: nat

text \<open>
  Key values by dynamic type. \<open>None\<close> inside a pointer type is a typed nil pointer; a nil \<open>any\<close> is
  \<open>None\<close> of \<open>pkey option\<close>.
\<close>

datatype pkey =
    EcdsaPrivate "ecdsa_private option"
  | EcdsaPublic "ecdsa_public option"
  | RsaPrivate "rsa_private option"
  | RsaPublic "rsa_public option"
  | Ed25519Private string
  | Ed25519Public string
  | OtherKey nat

definition is_public_key :: "pkey \<Rightarrow> bool" where
  "is_public_key k =
    (case k of EcdsaPublic _ \<Rightarrow> True | RsaPublic _ \<Rightarrow> True | Ed25519Public _ \<Rightarrow> True | _ \<Rightarrow> False)"

section \<open>Tokens\<close>

record token =
  t_method :: smethod
  t_header :: headers
  t_claims :: mapclaims
  t_signature :: string
  t_valid :: bool

type_synonym keyfunc = "token \<Rightarrow> pkey result"

text \<open>The options \<open>jwt.NewParser\<close> is called with.\<close>

record parser =
  valid_methods :: "string list option"
  parser_leeway :: duration
  skip_claims :: bool

section \<open>The library the code calls\<close>

record lib =
  newNumericDate :: "gtime \<Rightarrow> gtime"
  numericDate_json :: "gtime \<Rightarrow> float64"
  newWithClaims :: "smethod \<Rightarrow> mapclaims \<Rightarrow> token"
  signedString :: "token \<Rightarrow> pkey \<Rightarrow> string result"
  parseWithClaims :: "parser \<Rightarrow> gtime \<Rightarrow> string \<Rightarrow> keyfunc \<Rightarrow> token result"
  parseUnverified :: "string \<Rightarrow> token result"
  sigVerifies :: "smethod \<Rightarrow> string \<Rightarrow> pkey \<Rightarrow> bool"
  timeParseRFC3339 :: "string \<Rightarrow> gtime option"
  timeFormatJSON :: "gtime \<Rightarrow> string option"
  parseFloat :: "string \<Rightarrow> float64 option"
  parseDuration :: "string \<Rightarrow> duration option"
  float_overflow_time :: "float64 \<Rightarrow> gtime"
  float_overflow_int :: "float64 \<Rightarrow> int"
  json_other :: "nat \<Rightarrow> gval option"
  validatorOK :: "duration \<Rightarrow> gtime \<Rightarrow> mapclaims \<Rightarrow> bool"
  keyPair :: "pkey \<Rightarrow> pkey \<Rightarrow> bool"

section \<open>The JSON round trip of a value\<close>

text \<open>
  What \<open>json.Unmarshal\<close> into an \<open>any\<close> gives for the text \<open>json.Marshal\<close> produced: objects, arrays,
  strings, \<open>float64\<close>, booleans and null. \<open>None\<close> where either call fails.
\<close>

primrec seq_anys :: "gval option slice \<Rightarrow> gval option" where
  "seq_anys NilSlice = Some VNil"
| "seq_anys (Slice xs) = map_option (\<lambda>ys. VAnys (Slice ys)) (those xs)"

definition seq_pair :: "'k \<times> 'v option \<Rightarrow> ('k \<times> 'v) option" where
  "seq_pair kv = map_option (Pair (fst kv)) (snd kv)"

definition json_float :: "float64 \<Rightarrow> gval option" where
  "json_float f = (case f of Fin r \<Rightarrow> Some (VFloat (Fin r)) | _ \<Rightarrow> None)"

definition json_opt :: "('a \<Rightarrow> gval option) \<Rightarrow> 'a option \<Rightarrow> gval option" where
  "json_opt f p = (case p of None \<Rightarrow> Some VNil | Some x \<Rightarrow> f x)"

text \<open>The grammar \<open>json.Marshal\<close> requires of a \<open>json.Number\<close>.\<close>

definition skip_digits :: "string \<Rightarrow> string" where
  "skip_digits s = dropWhile is_digit s"

fun number_exponent :: "string \<Rightarrow> bool" where
  "number_exponent [] = True"
| "number_exponent [c] = False"
| "number_exponent (c # d # s) =
    (if c = CHR ''e'' \<or> c = CHR ''E''
     then (if d = CHR ''+'' \<or> d = CHR ''-'' then s \<noteq> [] \<and> skip_digits s = []
           else skip_digits (d # s) = [])
     else False)"

definition number_fraction :: "string \<Rightarrow> string" where
  "number_fraction s =
    (case s of c # d # r \<Rightarrow> if c = CHR ''.'' \<and> is_digit d then skip_digits r else s | _ \<Rightarrow> s)"

definition isValidNumber :: "string \<Rightarrow> bool" where
  "isValidNumber s =
    (let u = (case s of [] \<Rightarrow> [] | c # cs \<Rightarrow> if c = CHR ''-'' then cs else s) in
     case u of
       [] \<Rightarrow> False
     | c # cs \<Rightarrow>
         if c = CHR ''0'' then number_exponent (number_fraction cs)
         else if is_digit c then number_exponent (number_fraction (skip_digits cs))
         else False)"

text \<open>The values a decoded JSON text holds in an \<open>any\<close>; the round trip leaves them as they are.\<close>

primrec json_value :: "gval \<Rightarrow> bool" where
  "json_value VNil = True"
| "json_value (VString s) = True"
| "json_value (VStringPtr p) = False"
| "json_value (VBytes b) = False"
| "json_value (VBool b) = True"
| "json_value (VFloat f) = (case f of Fin r \<Rightarrow> True | _ \<Rightarrow> False)"
| "json_value (VFloatPtr p) = False"
| "json_value (VInt n) = False"
| "json_value (VIntPtr p) = False"
| "json_value (VInt64 n) = False"
| "json_value (VInt64Ptr p) = False"
| "json_value (VNumber s) = False"
| "json_value (VStrings ss) = False"
| "json_value (VAnys vs) =
    (case map_slice json_value vs of NilSlice \<Rightarrow> False | Slice bs \<Rightarrow> list_all id bs)"
| "json_value (VMap kvs) = list_all snd (map (map_prod id json_value) kvs)"
| "json_value (VNumericDate t) = False"
| "json_value (VNumericDatePtr p) = False"
| "json_value (VTime t) = False"
| "json_value (VTimePtr p) = False"
| "json_value (VUUID u) = False"
| "json_value (VOther n) = False"

text \<open>A value of a type the sources do not name: what its JSON decodes to, which is a decoded value.\<close>

definition other_json :: "lib \<Rightarrow> nat \<Rightarrow> gval option" where
  "other_json L n = (case json_other L n of Some w \<Rightarrow> if json_value w then Some w else None | None \<Rightarrow> None)"

primrec json_rt :: "lib \<Rightarrow> gval \<Rightarrow> gval option" where
  "json_rt L VNil = Some VNil"
| "json_rt L (VString s) = Some (VString s)"
| "json_rt L (VStringPtr p) = json_opt (\<lambda>s. Some (VString s)) p"
| "json_rt L (VBytes b) = (case b of NilSlice \<Rightarrow> Some VNil | Slice bs \<Rightarrow> Some (VString (Std_EncodeToString bs)))"
| "json_rt L (VBool b) = Some (VBool b)"
| "json_rt L (VFloat f) = json_float f"
| "json_rt L (VFloatPtr p) = json_opt json_float p"
| "json_rt L (VInt n) = Some (VFloat (float_of_int n))"
| "json_rt L (VIntPtr p) = json_opt (\<lambda>n. Some (VFloat (float_of_int n))) p"
| "json_rt L (VInt64 n) = Some (VFloat (float_of_int n))"
| "json_rt L (VInt64Ptr p) = json_opt (\<lambda>n. Some (VFloat (float_of_int n))) p"
| "json_rt L (VNumber s) =
    (if s = [] then Some (VFloat (Fin 0))
     else if isValidNumber s then Option.bind (parseFloat L s) json_float else None)"
| "json_rt L (VStrings ss) =
    (case ss of NilSlice \<Rightarrow> Some VNil | Slice xs \<Rightarrow> Some (VAnys (Slice (map VString xs))))"
| "json_rt L (VAnys vs) = seq_anys (map_slice (json_rt L) vs)"
| "json_rt L (VMap kvs) = map_option VMap (those (map seq_pair (map (map_prod id (json_rt L)) kvs)))"
| "json_rt L (VNumericDate t) = json_float (numericDate_json L t)"
| "json_rt L (VNumericDatePtr p) = json_opt (\<lambda>t. json_float (numericDate_json L t)) p"
| "json_rt L (VTime t) = map_option VString (timeFormatJSON L t)"
| "json_rt L (VTimePtr p) = json_opt (\<lambda>t. map_option VString (timeFormatJSON L t)) p"
| "json_rt L (VUUID u) = Some (VString u)"
| "json_rt L (VOther n) = other_json L n"

text \<open>Whether \<open>json.Marshal\<close> succeeds; the round trip can still fail on decoding a number out of range.\<close>

definition finite_float :: "float64 \<Rightarrow> bool" where
  "finite_float f = (case f of Fin r \<Rightarrow> True | _ \<Rightarrow> False)"

primrec json_marshals :: "lib \<Rightarrow> gval \<Rightarrow> bool" where
  "json_marshals L VNil = True"
| "json_marshals L (VString s) = True"
| "json_marshals L (VStringPtr p) = True"
| "json_marshals L (VBytes b) = True"
| "json_marshals L (VBool b) = True"
| "json_marshals L (VFloat f) = finite_float f"
| "json_marshals L (VFloatPtr p) = (case p of None \<Rightarrow> True | Some f \<Rightarrow> finite_float f)"
| "json_marshals L (VInt n) = True"
| "json_marshals L (VIntPtr p) = True"
| "json_marshals L (VInt64 n) = True"
| "json_marshals L (VInt64Ptr p) = True"
| "json_marshals L (VNumber s) = (s = [] \<or> isValidNumber s)"
| "json_marshals L (VStrings ss) = True"
| "json_marshals L (VAnys vs) = list_all id (elems (map_slice (json_marshals L) vs))"
| "json_marshals L (VMap kvs) = list_all snd (map (map_prod id (json_marshals L)) kvs)"
| "json_marshals L (VNumericDate t) = finite_float (numericDate_json L t)"
| "json_marshals L (VNumericDatePtr p) = (case p of None \<Rightarrow> True | Some t \<Rightarrow> finite_float (numericDate_json L t))"
| "json_marshals L (VTime t) = (timeFormatJSON L t \<noteq> None)"
| "json_marshals L (VTimePtr p) = (case p of None \<Rightarrow> True | Some t \<Rightarrow> timeFormatJSON L t \<noteq> None)"
| "json_marshals L (VUUID u) = True"
| "json_marshals L (VOther n) = (other_json L n \<noteq> None)"

lemma json_value_marshals: "json_value v \<Longrightarrow> json_marshals L v"
proof (induction v)
  case (VFloat f)
  then show ?case by (cases f) (simp_all add: finite_float_def)
next
  case (VAnys vs)
  then show ?case by (cases vs) (auto simp: list_all_iff)
next
  case (VMap kvs)
  then show ?case by (fastforce simp: list_all_iff)
qed simp_all

lemma those_map_Some: "(\<And>x. x \<in> set xs \<Longrightarrow> f x = Some (g x)) \<Longrightarrow> those (map f xs) = Some (map g xs)"
  by (induction xs) auto

lemma json_rt_json_value: "json_value v \<Longrightarrow> json_rt L v = Some v"
proof (induction v)
  case (VFloat f)
  then show ?case by (cases f) (auto simp: json_float_def)
next
  case (VAnys vs)
  show ?case
  proof (cases vs)
    case NilSlice
    with VAnys.prems show ?thesis by simp
  next
    case (Slice xs)
    have "json_rt L x = Some x" if "x \<in> set xs" for x
      using VAnys Slice that by (auto simp: list_all_iff)
    then have "those (map (json_rt L) xs) = Some (map (\<lambda>x. x) xs)"
      by (rule those_map_Some)
    with Slice show ?thesis by simp
  qed
next
  case (VMap kvs)
  have "seq_pair (map_prod id (json_rt L) kv) = Some kv" if "kv \<in> set kvs" for kv
  proof -
    from VMap.prems that have "json_value (snd kv)" by (auto simp: list_all_iff)
    moreover have "snd kv \<in> Basic_BNFs.snds kv" by (cases kv) simp
    ultimately have "json_rt L (snd kv) = Some (snd kv)" using VMap.IH that by blast
    then show ?thesis by (cases kv) (simp add: seq_pair_def)
  qed
  then have "those (map (\<lambda>kv. seq_pair (map_prod id (json_rt L) kv)) kvs) = Some (map (\<lambda>kv. kv) kvs)"
    by (rule those_map_Some)
  then show ?case by (simp add: comp_def)
qed (simp_all add: json_opt_def)

text \<open>The outcome of a round trip is a decoded value, so a second round trip changes nothing.\<close>

lemma those_SomeD: "those xs = Some ys \<Longrightarrow> y \<in> set ys \<Longrightarrow> Some y \<in> set xs"
  by (induction xs arbitrary: ys) (auto split: option.splits)

lemma json_float_value: "json_float f = Some w \<Longrightarrow> json_value w"
  by (cases f) (auto simp: json_float_def)

lemma json_rt_value: "json_rt L v = Some w \<Longrightarrow> json_value w"
proof (induction v arbitrary: w)
  case (VAnys vs)
  show ?case
  proof (cases vs)
    case NilSlice
    with VAnys.prems show ?thesis by auto
  next
    case (Slice xs)
    with VAnys.prems obtain ys where ys: "those (map (json_rt L) xs) = Some ys" "w = VAnys (Slice ys)" by auto
    have "json_value y" if "y \<in> set ys" for y
      using those_SomeD [OF ys(1) that] VAnys.IH Slice by auto
    with ys(2) show ?thesis by (simp add: list_all_iff)
  qed
next
  case (VMap kvs)
  then obtain ys where ys: "those (map (\<lambda>kv. seq_pair (map_prod id (json_rt L) kv)) kvs) = Some ys" "w = VMap ys"
    by (auto simp: comp_def)
  have "json_value (snd y)" if y: "y \<in> set ys" for y
  proof -
    obtain kv where kv: "kv \<in> set kvs" "seq_pair (map_prod id (json_rt L) kv) = Some y"
      using those_SomeD [OF ys(1) y] by auto
    then have "json_rt L (snd kv) = Some (snd y)" by (cases kv) (auto simp: seq_pair_def)
    moreover have "snd kv \<in> Basic_BNFs.snds kv" by (cases kv) simp
    ultimately show ?thesis using VMap.IH kv(1) by blast
  qed
  with ys(2) show ?case by (auto simp: list_all_iff)
next
  case (VNumber s)
  then show ?case by (auto simp: bind_eq_Some_conv dest: json_float_value split: if_splits)
next
  case (VBytes b)
  then show ?case by (auto split: slice.splits)
next
  case (VStrings ss)
  then show ?case by (auto simp: list_all_iff split: slice.splits)
qed (auto simp: json_opt_def other_json_def float_of_int_def dest: json_float_value split: option.splits if_splits)

lemma json_rt_idem: "json_rt L v = Some w \<Longrightarrow> json_rt L w = Some w"
  by (rule json_rt_json_value) (rule json_rt_value)

text \<open>A claim map after a round trip through JSON, when every value survives it.\<close>

definition json_ok :: "lib \<Rightarrow> mapclaims \<Rightarrow> bool" where
  "json_ok L c = fmpred (\<lambda>k v. json_rt L v \<noteq> None) c"

definition json_map :: "lib \<Rightarrow> mapclaims \<Rightarrow> mapclaims" where
  "json_map L c = fmmap (\<lambda>v. case json_rt L v of Some w \<Rightarrow> w | None \<Rightarrow> v) c"

lemma json_map_lookup:
  "fmlookup (json_map L c) k = map_option (\<lambda>v. case json_rt L v of Some w \<Rightarrow> w | None \<Rightarrow> v) (fmlookup c k)"
  by (simp add: json_map_def)

section \<open>Documented behaviour of the library\<close>

text \<open>The signing methods \<open>golang-jwt\<close> registers that the code names.\<close>

definition SigningMethodES256 :: smethod where "SigningMethodES256 = SigningMethodECDSA ''ES256'' 256"
definition SigningMethodES384 :: smethod where "SigningMethodES384 = SigningMethodECDSA ''ES384'' 384"
definition SigningMethodES512 :: smethod where "SigningMethodES512 = SigningMethodECDSA ''ES512'' 521"
definition SigningMethodRS256 :: smethod where "SigningMethodRS256 = SigningMethodRSA ''RS256''"
definition SigningMethodRS384 :: smethod where "SigningMethodRS384 = SigningMethodRSA ''RS384''"
definition SigningMethodRS512 :: smethod where "SigningMethodRS512 = SigningMethodRSA ''RS512''"
definition SigningMethodPS256 :: smethod where "SigningMethodPS256 = SigningMethodRSAPSS ''PS256''"
definition SigningMethodPS384 :: smethod where "SigningMethodPS384 = SigningMethodRSAPSS ''PS384''"
definition SigningMethodPS512 :: smethod where "SigningMethodPS512 = SigningMethodRSAPSS ''PS512''"
definition SigningMethodEdDSA :: smethod where "SigningMethodEdDSA = SigningMethodEd25519 ''EdDSA''"

lemmas method_consts =
  SigningMethodES256_def SigningMethodES384_def SigningMethodES512_def SigningMethodRS256_def
  SigningMethodRS384_def SigningMethodRS512_def SigningMethodPS256_def SigningMethodPS384_def
  SigningMethodPS512_def SigningMethodEdDSA_def

definition std_methods :: "smethod list" where
  "std_methods = [SigningMethodES256, SigningMethodES384, SigningMethodES512, SigningMethodRS256,
     SigningMethodRS384, SigningMethodRS512, SigningMethodPS256, SigningMethodPS384,
     SigningMethodPS512, SigningMethodEdDSA]"

text \<open>
  \<open>jwt.NewNumericDate\<close> truncates to \<open>jwt.TimePrecision\<close>, one second by default, and a whole second
  is written as its integer Unix time.
\<close>

definition numericDate_spec :: "lib \<Rightarrow> bool" where
  "numericDate_spec L \<longleftrightarrow>
    (\<forall>t. newNumericDate L t = trunc_second t) \<and>
    (\<forall>t. trunc_second t = t \<longrightarrow> numericDate_json L t = float_of_int (unix_seconds t))"

text \<open>\<open>jwt.NewWithClaims\<close> sets the \<open>typ\<close> and \<open>alg\<close> headers.\<close>

definition newWithClaims_spec :: "lib \<Rightarrow> bool" where
  "newWithClaims_spec L \<longleftrightarrow>
    (\<forall>m c. t_method (newWithClaims L m c) = m \<and> t_claims (newWithClaims L m c) = c \<and>
      t_header (newWithClaims L m c) =
        fmupd ''alg'' (VString (Alg m)) (fmupd ''typ'' (VString ''JWT'') fmempty))"

text \<open>
  A parser returns a token only when its method is allowed, the key function accepted it and
  returned a key under which the signature verifies, and, unless claims validation is off, the
  validator accepted the claims; conversely it returns the token in that case.
\<close>

definition same_content :: "token \<Rightarrow> token \<Rightarrow> bool" where
  "same_content t u \<longleftrightarrow> t_method t = t_method u \<and> t_header t = t_header u \<and> t_claims t = t_claims u"

definition method_allowed :: "parser \<Rightarrow> smethod \<Rightarrow> bool" where
  "method_allowed p m \<longleftrightarrow> (case valid_methods p of None \<Rightarrow> True | Some ms \<Rightarrow> Alg m \<in> set ms)"

definition claims_allowed :: "lib \<Rightarrow> parser \<Rightarrow> gtime \<Rightarrow> mapclaims \<Rightarrow> bool" where
  "claims_allowed L p now c \<longleftrightarrow> skip_claims p \<or> validatorOK L (parser_leeway p) now c"

definition parser_sound :: "lib \<Rightarrow> bool" where
  "parser_sound L \<longleftrightarrow>
    (\<forall>p now s kf tok. parseWithClaims L p now s kf = Inr tok \<longrightarrow>
      t_valid tok \<and> method_allowed p (t_method tok) \<and> claims_allowed L p now (t_claims tok) \<and>
      (\<exists>k. kf (tok\<lparr>t_valid := False\<rparr>) = Inr k \<and> sigVerifies L (t_method tok) s k) \<and>
      (\<exists>tok0. parseUnverified L s = Inr tok0 \<and> same_content tok0 tok))"

definition parser_complete :: "lib \<Rightarrow> bool" where
  "parser_complete L \<longleftrightarrow>
    (\<forall>p now s kf tok0 k. parseUnverified L s = Inr tok0 \<and> method_allowed p (t_method tok0) \<and>
      claims_allowed L p now (t_claims tok0) \<and>
      (\<forall>tok. same_content tok0 tok \<longrightarrow> kf tok = Inr k) \<and> sigVerifies L (t_method tok0) s k \<longrightarrow>
      (\<exists>tok. parseWithClaims L p now s kf = Inr tok \<and> same_content tok0 tok \<and> t_valid tok))"

text \<open>A parse error carries sentinels of the library and those of the key function only.\<close>

definition external :: "sentinel \<Rightarrow> bool" where
  "external s = (case s of ErrExternal _ \<Rightarrow> True | _ \<Rightarrow> False)"

definition parser_errors :: "lib \<Rightarrow> bool" where
  "parser_errors L \<longleftrightarrow>
    (\<forall>p now s kf e x. parseWithClaims L p now s kf = Inl e \<and> x \<in> set e \<longrightarrow>
      external x \<or> (\<exists>tok d. kf tok = Inl d \<and> x \<in> set d))"

text \<open>The validator's comparison for integer \<open>exp\<close> and \<open>nbf\<close> claims.\<close>

definition validator_spec :: "lib \<Rightarrow> bool" where
  "validator_spec L \<longleftrightarrow>
    (\<forall>lw now c e n. fmlookup c ''exp'' = Some (VFloat (Fin (of_int e))) \<and>
      fmlookup c ''nbf'' = Some (VFloat (Fin (of_int n))) \<and>
      0 < e \<and> e < 2 ^ 53 \<and> 0 < n \<and> n < 2 ^ 53 \<longrightarrow>
      (validatorOK L lw now c \<longleftrightarrow> now < e * Second + lw \<and> n * Second - lw \<le> now))"

lemma json_map_marshals: "json_ok L c \<Longrightarrow> fmpred (\<lambda>_ v. json_marshals L v) (json_map L c)"
  using json_rt_value json_value_marshals unfolding json_ok_def fmpred_iff json_map_lookup by fastforce

text \<open>Decoding a JSON text into an untyped Go value gives nil, a boolean, a float64, a string, a slice or a map of these.\<close>

definition unmarshal_spec :: "(string \<Rightarrow> gval option) \<Rightarrow> bool" where
  "unmarshal_spec unmarshal \<longleftrightarrow> (\<forall>raw v. unmarshal raw = Some v \<longrightarrow> json_value v)"

text \<open>
  Signing: the text is not blank and its signature verifies under the public half of the key. It holds the
  JSON of header and claims: it parses when every value of them survives the round trip, and what parses
  has the method the \<open>alg\<close> header names and the decoded header and claims. A \<open>json.Number\<close> too large for a
  \<open>float64\<close> can be signed but not parsed back.
\<close>

definition signing_spec :: "lib \<Rightarrow> bool" where
  "signing_spec L \<longleftrightarrow>
    (\<forall>tok k s. signedString L tok k = Inr s \<and> t_method tok \<in> set std_methods \<and>
      fmlookup (t_header tok) ''alg'' = Some (VString (Alg (t_method tok))) \<longrightarrow>
      TrimSpace s \<noteq> [] \<and>
      (\<forall>pub. keyPair L pub k \<longrightarrow> sigVerifies L (t_method tok) s pub) \<and>
      (json_ok L (t_header tok) \<and> json_ok L (t_claims tok) \<longrightarrow> (\<exists>tok0. parseUnverified L s = Inr tok0)) \<and>
      (\<forall>tok0. parseUnverified L s = Inr tok0 \<longrightarrow>
        (json_ok L (t_header tok) \<longrightarrow> t_method tok0 = t_method tok \<and> t_header tok0 = json_map L (t_header tok)) \<and>
        (json_ok L (t_claims tok) \<longrightarrow> t_claims tok0 = json_map L (t_claims tok))))"

lemma signing_spec_parses:
  assumes "signing_spec L" "signedString L tok k = Inr s" "t_method tok \<in> set std_methods"
    "fmlookup (t_header tok) ''alg'' = Some (VString (Alg (t_method tok)))" "json_ok L (t_header tok)" "json_ok L (t_claims tok)"
  obtains tok0 where "parseUnverified L s = Inr tok0" "t_method tok0 = t_method tok" "t_header tok0 = json_map L (t_header tok)"
    "t_claims tok0 = json_map L (t_claims tok)"
  using assms unfolding signing_spec_def by blast

lemma signing_spec_signature:
  assumes "signing_spec L" "signedString L tok k = Inr s" "t_method tok \<in> set std_methods"
    "fmlookup (t_header tok) ''alg'' = Some (VString (Alg (t_method tok)))"
  shows "TrimSpace s \<noteq> []" "keyPair L pub k \<Longrightarrow> sigVerifies L (t_method tok) s pub"
  using assms unfolding signing_spec_def by blast+

end
