(* ===== verification/Claims.thy ===== *)
theory Claims
  imports Jwt_Model
begin

text \<open>
  Package \<open>claims\<close>: typed readers, setters and deleters of \<open>jwt.MapClaims\<close>, timestamp
  normalisation, copies, matching and the claim checks. A setter mutates the map it is given; here
  it returns the new map. Readers return the sentinels of the error they build. A clock read is an
  argument.
\<close>

section \<open>Keys\<close>

definition KeyExpiresAt :: string where "KeyExpiresAt = ''exp''"
definition KeyIssuedAt :: string where "KeyIssuedAt = ''iat''"
definition KeyNotBefore :: string where "KeyNotBefore = ''nbf''"
definition KeyID :: string where "KeyID = ''jti''"
definition KeyIssuer :: string where "KeyIssuer = ''iss''"
definition KeyAudience :: string where "KeyAudience = ''aud''"
definition KeySubject :: string where "KeySubject = ''sub''"
definition KeyGroups :: string where "KeyGroups = ''groups''"
definition KeyRoles :: string where "KeyRoles = ''roles''"
definition KeyScope :: string where "KeyScope = ''scope''"
definition KeyPermissions :: string where "KeyPermissions = ''permissions''"
definition KeyEntitlements :: string where "KeyEntitlements = ''entitlements''"
definition KeyName :: string where "KeyName = ''name''"
definition KeyFirstName :: string where "KeyFirstName = ''first_name''"
definition KeyLastName :: string where "KeyLastName = ''last_name''"
definition KeyUsername :: string where "KeyUsername = ''username''"
definition KeyEmail :: string where "KeyEmail = ''email''"
definition KeyTokenType :: string where "KeyTokenType = ''token_type''"

lemmas key_defs = KeyExpiresAt_def KeyIssuedAt_def KeyNotBefore_def KeyID_def KeyIssuer_def
  KeyAudience_def KeySubject_def KeyGroups_def KeyRoles_def KeyScope_def KeyPermissions_def
  KeyEntitlements_def KeyName_def KeyFirstName_def KeyLastName_def KeyUsername_def KeyEmail_def
  KeyTokenType_def

section \<open>Conversion and copies\<close>

text \<open>
  The argument of \<open>ToMapClaims\<close>: a value of type \<open>jwt.MapClaims\<close>, nil or not, or any other value. A JSON
  \<open>null\<close> decodes to a nil map without an error, so the result is \<open>None\<close> there.
\<close>

datatype claims_arg = AMapClaims "mapclaims option" | AVal gval

definition ToMapClaims :: "lib \<Rightarrow> claims_arg \<Rightarrow> mapclaims option result" where
  "ToMapClaims L v =
    (case v of
       AMapClaims None \<Rightarrow> Inl [ErrInvalidValue]
     | AMapClaims (Some mc) \<Rightarrow> Inr (Some mc)
     | AVal x \<Rightarrow>
         if \<not> json_marshals L x then Inl [ErrEncode, ErrExternal ''json'']
         else (case json_rt L x of
                 Some VNil \<Rightarrow> Inr None
               | Some (VMap kvs) \<Rightarrow> Inr (Some (fmap_of_list kvs))
               | _ \<Rightarrow> Inl [ErrDecode, ErrExternal ''json'']))"

definition ShallowCopy :: "mapclaims \<Rightarrow> mapclaims" where
  "ShallowCopy src = src"

definition DeepCopy :: "lib \<Rightarrow> mapclaims \<Rightarrow> mapclaims" where
  "DeepCopy L src =
    (if src = fmempty then fmempty
     else if json_ok L src then json_map L src
     else ShallowCopy src)"

definition RegisteredClaims :: "string set" where
  "RegisteredClaims =
    {KeyExpiresAt, KeyIssuedAt, KeyNotBefore, KeyID, KeyIssuer, KeyAudience, KeySubject}"

definition IsRegisteredClaim :: "string \<Rightarrow> bool" where
  "IsRegisteredClaim key \<longleftrightarrow>
    key = KeyExpiresAt \<or> key = KeyIssuedAt \<or> key = KeyNotBefore \<or>
    key = KeyID \<or> key = KeyIssuer \<or> key = KeyAudience \<or> key = KeySubject"

definition normalizeString :: "string \<Rightarrow> string" where
  "normalizeString s =
    (let out = TrimSpace s; out = TrimRight out (CHR ''/'') in TrimSpace out)"

definition normalizeStringSlice :: "string list \<Rightarrow> string list" where
  "normalizeStringSlice s = map normalizeString s"

section \<open>Timestamps\<close>

definition TimeFromFloat :: "lib \<Rightarrow> float64 \<Rightarrow> gtime result" where
  "TimeFromFloat L v =
    (if float_less v 1 then Inl [ErrInvalidValue]
     else (case (v, int64_of_float v) of
             (Fin r, Some seconds) \<Rightarrow>
               let frac = rnd64 (r - rnd64 (of_int seconds))
               in Inr (newNumericDate L (time_Unix seconds (trunc_rat (rnd64 (frac * 1000000000)))))
           | _ \<Rightarrow> Inr (newNumericDate L (float_overflow_time L v))))"

definition parseStringToNumericDate :: "lib \<Rightarrow> string \<Rightarrow> gtime result" where
  "parseStringToNumericDate L s =
    (case timeParseRFC3339 L s of
       Some t \<Rightarrow> Inr (newNumericDate L t)
     | None \<Rightarrow> (case parseFloat L s of
                 Some f \<Rightarrow> TimeFromFloat L f
               | None \<Rightarrow> Inl [ErrInvalidValue]))"

definition nonzero_date :: "lib \<Rightarrow> gtime \<Rightarrow> gtime result" where
  "nonzero_date L t = (if time_IsZero t then Inl [ErrInvalidValue] else Inr (newNumericDate L t))"

fun Timestamp :: "lib \<Rightarrow> gval \<Rightarrow> gtime result" where
  "Timestamp L (VNumericDatePtr None) = Inl [ErrInvalidValue]"
| "Timestamp L (VNumericDatePtr (Some t)) = nonzero_date L t"
| "Timestamp L (VNumericDate t) = nonzero_date L t"
| "Timestamp L (VTimePtr None) = Inl [ErrInvalidValue]"
| "Timestamp L (VTimePtr (Some t)) = nonzero_date L t"
| "Timestamp L (VTime t) = nonzero_date L t"
| "Timestamp L (VFloatPtr None) = Inl [ErrInvalidValue]"
| "Timestamp L (VFloatPtr (Some f)) = TimeFromFloat L f"
| "Timestamp L (VFloat f) = TimeFromFloat L f"
| "Timestamp L (VNumber s) =
    (case Atoi s of
       Some i \<Rightarrow> TimeFromFloat L (float_of_int i)
     | None \<Rightarrow> (case parseFloat L s of
                 None \<Rightarrow> Inl [ErrInvalidValue, ErrExternal ''strconv'']
               | Some f \<Rightarrow> TimeFromFloat L f))"
| "Timestamp L (VStringPtr None) = Inl [ErrInvalidValue]"
| "Timestamp L (VStringPtr (Some s)) = parseStringToNumericDate L s"
| "Timestamp L (VString s) = parseStringToNumericDate L s"
| "Timestamp L (VInt64Ptr None) = Inl [ErrInvalidValue]"
| "Timestamp L (VInt64Ptr (Some n)) = TimeFromFloat L (float_of_int n)"
| "Timestamp L (VInt64 n) = TimeFromFloat L (float_of_int n)"
| "Timestamp L (VIntPtr None) = Inl [ErrInvalidValue]"
| "Timestamp L (VIntPtr (Some n)) = TimeFromFloat L (float_of_int n)"
| "Timestamp L (VInt n) = TimeFromFloat L (float_of_int n)"
| "Timestamp L _ = Inl [ErrInvalidType]"

section \<open>Readers shared by the accessors\<close>

definition readString :: "mapclaims \<Rightarrow> string \<Rightarrow> string result" where
  "readString c key =
    (case fmlookup c key of
       None \<Rightarrow> Inl [ErrNotFound]
     | Some v \<Rightarrow>
         (case v of
            VString s \<Rightarrow> if s = [] then Inl [ErrEmptyValue] else Inr s
          | VBytes b \<Rightarrow> if elems b = [] then Inl [ErrEmptyValue] else Inr (elems b)
          | _ \<Rightarrow> Inl [ErrInvalidClaims]))"

definition readTime :: "lib \<Rightarrow> mapclaims \<Rightarrow> string \<Rightarrow> gtime result" where
  "readTime L c key =
    (case fmlookup c key of
       None \<Rightarrow> Inl [ErrNotFound]
     | Some v \<Rightarrow> if v = VNil then Inl [ErrEmptyValue] else Timestamp L v)"

fun strings_of_anys :: "gval list \<Rightarrow> string list result" where
  "strings_of_anys [] = Inr []"
| "strings_of_anys (VString s # vs) =
    (case strings_of_anys vs of Inl e \<Rightarrow> Inl e | Inr ss \<Rightarrow> Inr (s # ss))"
| "strings_of_anys (_ # vs) = Inl [ErrInvalidClaims]"

definition readStringSlice :: "mapclaims \<Rightarrow> string \<Rightarrow> string list result" where
  "readStringSlice c key =
    (case fmlookup c key of
       None \<Rightarrow> Inl [ErrNotFound]
     | Some v \<Rightarrow>
         (case v of
            VStrings ss \<Rightarrow> if elems ss = [] then Inl [ErrEmptyValue] else Inr (elems ss)
          | VAnys vs \<Rightarrow> if elems vs = [] then Inl [ErrEmptyValue] else strings_of_anys (elems vs)
          | VString s \<Rightarrow> if s = [] then Inl [ErrEmptyValue] else Inr (Split s (CHR '',''))
          | _ \<Rightarrow> Inl [ErrInvalidClaims]))"

section \<open>Registered claims\<close>

definition ID :: "mapclaims \<Rightarrow> string result" where "ID c = readString c KeyID"

definition SetID :: "mapclaims \<Rightarrow> gval \<Rightarrow> mapclaims" where
  "SetID c v =
    (case v of
       VString s \<Rightarrow> fmupd KeyID (VString s) c
     | VBytes b \<Rightarrow> fmupd KeyID (VString (elems b)) c
     | VUUID u \<Rightarrow> fmupd KeyID (VString u) c
     | _ \<Rightarrow> c)"

definition DeleteID :: "mapclaims \<Rightarrow> mapclaims" where "DeleteID c = fmdrop KeyID c"
definition JTI :: "mapclaims \<Rightarrow> string result" where "JTI c = ID c"
definition SetJTI :: "mapclaims \<Rightarrow> string \<Rightarrow> mapclaims" where "SetJTI c jti = SetID c (VString jti)"
definition DeleteJTI :: "mapclaims \<Rightarrow> mapclaims" where "DeleteJTI c = DeleteID c"

definition Issuer :: "mapclaims \<Rightarrow> string result" where "Issuer c = readString c KeyIssuer"
definition SetIssuer :: "mapclaims \<Rightarrow> string \<Rightarrow> mapclaims" where
  "SetIssuer c iss = fmupd KeyIssuer (VString iss) c"
definition DeleteIssuer :: "mapclaims \<Rightarrow> mapclaims" where "DeleteIssuer c = fmdrop KeyIssuer c"

definition Subject :: "mapclaims \<Rightarrow> string result" where "Subject c = readString c KeySubject"
definition SetSubject :: "mapclaims \<Rightarrow> string \<Rightarrow> mapclaims" where
  "SetSubject c s = fmupd KeySubject (VString s) c"
definition DeleteSubject :: "mapclaims \<Rightarrow> mapclaims" where "DeleteSubject c = fmdrop KeySubject c"

definition Audience :: "mapclaims \<Rightarrow> string list result" where "Audience c = readStringSlice c KeyAudience"
definition SetAudience :: "mapclaims \<Rightarrow> string slice \<Rightarrow> mapclaims" where
  "SetAudience c audience = fmupd KeyAudience (VStrings audience) c"
definition DeleteAudience :: "mapclaims \<Rightarrow> mapclaims" where "DeleteAudience c = fmdrop KeyAudience c"

text \<open>
  The loop the four \<open>Matching\<close> functions share: a set of the normalised values the token has, and
  the normalised wanted values that are members, in order.
\<close>

definition matched :: "string list \<Rightarrow> string list \<Rightarrow> string list" where
  "matched have toMatch =
    (let st = set (normalizeStringSlice have)
     in filter (\<lambda>want. want \<in> st) (normalizeStringSlice toMatch))"

definition MatchingAudience :: "mapclaims \<Rightarrow> string list \<Rightarrow> string list result" where
  "MatchingAudience c toMatch =
    (case Audience c of
       Inl e \<Rightarrow> Inl e
     | Inr have \<Rightarrow>
         if have = [] then Inl [ErrNotFound, ErrNoAudience]
         else if matched have toMatch = [] then Inl [ErrNoAudience]
         else Inr (matched have toMatch))"

definition IssuedAt :: "lib \<Rightarrow> mapclaims \<Rightarrow> gtime result" where "IssuedAt L c = readTime L c KeyIssuedAt"
definition SetIssuedAt :: "lib \<Rightarrow> mapclaims \<Rightarrow> gtime \<Rightarrow> mapclaims" where
  "SetIssuedAt L c iat = fmupd KeyIssuedAt (VNumericDatePtr (Some (newNumericDate L iat))) c"
definition DeleteIssuedAt :: "mapclaims \<Rightarrow> mapclaims" where "DeleteIssuedAt c = fmdrop KeyIssuedAt c"

definition IssuedAtBefore :: "lib \<Rightarrow> mapclaims \<Rightarrow> gtime \<Rightarrow> bool result" where
  "IssuedAtBefore L c t = (case IssuedAt L c of Inl e \<Rightarrow> Inl e | Inr iat \<Rightarrow> Inr (time_Before iat t))"
definition IssuedAtAfter :: "lib \<Rightarrow> mapclaims \<Rightarrow> gtime \<Rightarrow> bool result" where
  "IssuedAtAfter L c t = (case IssuedAt L c of Inl e \<Rightarrow> Inl e | Inr iat \<Rightarrow> Inr (time_After iat t))"

definition ExpiresAt :: "lib \<Rightarrow> mapclaims \<Rightarrow> gtime result" where "ExpiresAt L c = readTime L c KeyExpiresAt"
definition SetExpiresAt :: "lib \<Rightarrow> mapclaims \<Rightarrow> gtime \<Rightarrow> mapclaims" where
  "SetExpiresAt L c ex = fmupd KeyExpiresAt (VNumericDatePtr (Some (newNumericDate L ex))) c"
definition DeleteExpiresAt :: "mapclaims \<Rightarrow> mapclaims" where "DeleteExpiresAt c = fmdrop KeyExpiresAt c"

definition IsExpired :: "lib \<Rightarrow> gtime \<Rightarrow> mapclaims \<Rightarrow> (bool \<times> gtime) result" where
  "IsExpired L now c =
    (case ExpiresAt L c of Inl e \<Rightarrow> Inl e | Inr ex \<Rightarrow> Inr (time_Before ex now, ex))"
definition ExpiresBefore :: "lib \<Rightarrow> mapclaims \<Rightarrow> gtime \<Rightarrow> bool result" where
  "ExpiresBefore L c t = (case ExpiresAt L c of Inl e \<Rightarrow> Inl e | Inr ex \<Rightarrow> Inr (time_Before ex t))"
definition ExpiresAfter :: "lib \<Rightarrow> mapclaims \<Rightarrow> gtime \<Rightarrow> bool result" where
  "ExpiresAfter L c t = (case ExpiresAt L c of Inl e \<Rightarrow> Inl e | Inr ex \<Rightarrow> Inr (time_After ex t))"

definition NotBefore :: "lib \<Rightarrow> mapclaims \<Rightarrow> gtime result" where "NotBefore L c = readTime L c KeyNotBefore"
definition SetNotBefore :: "lib \<Rightarrow> mapclaims \<Rightarrow> gtime \<Rightarrow> mapclaims" where
  "SetNotBefore L c nbf = fmupd KeyNotBefore (VNumericDatePtr (Some (newNumericDate L nbf))) c"
definition DeleteNotBefore :: "mapclaims \<Rightarrow> mapclaims" where "DeleteNotBefore c = fmdrop KeyNotBefore c"

definition IsNotBefore :: "lib \<Rightarrow> gtime \<Rightarrow> mapclaims \<Rightarrow> (bool \<times> gtime) result" where
  "IsNotBefore L now c =
    (case NotBefore L c of Inl e \<Rightarrow> Inl e | Inr nbf \<Rightarrow> Inr (time_After nbf now, nbf))"

section \<open>Profile claims\<close>

definition Groups :: "mapclaims \<Rightarrow> string list result" where "Groups c = readStringSlice c KeyGroups"
definition SetGroups :: "mapclaims \<Rightarrow> string slice \<Rightarrow> mapclaims" where
  "SetGroups c xs = fmupd KeyGroups (VStrings xs) c"
definition DeleteGroups :: "mapclaims \<Rightarrow> mapclaims" where "DeleteGroups c = fmdrop KeyGroups c"

definition MatchingGroups :: "mapclaims \<Rightarrow> string list \<Rightarrow> string list result" where
  "MatchingGroups c toMatch =
    (case Groups c of
       Inl e \<Rightarrow> Inl e
     | Inr have \<Rightarrow>
         if have = [] then Inl [ErrNotFound, ErrNoGroups]
         else if matched have toMatch = [] then Inl [ErrNoGroups]
         else Inr (matched have toMatch))"

definition Roles :: "mapclaims \<Rightarrow> string list result" where "Roles c = readStringSlice c KeyRoles"
definition SetRoles :: "mapclaims \<Rightarrow> string slice \<Rightarrow> mapclaims" where
  "SetRoles c xs = fmupd KeyRoles (VStrings xs) c"
definition DeleteRoles :: "mapclaims \<Rightarrow> mapclaims" where "DeleteRoles c = fmdrop KeyRoles c"

definition MatchingRoles :: "mapclaims \<Rightarrow> string list \<Rightarrow> string list result" where
  "MatchingRoles c toMatch =
    (case Roles c of
       Inl e \<Rightarrow> Inl e
     | Inr have \<Rightarrow>
         if have = [] then Inl [ErrNotFound, ErrNoRoles]
         else if matched have toMatch = [] then Inl [ErrNoRoles]
         else Inr (matched have toMatch))"

definition Permissions :: "mapclaims \<Rightarrow> string list result" where "Permissions c = readStringSlice c KeyPermissions"
definition SetPermissions :: "mapclaims \<Rightarrow> string slice \<Rightarrow> mapclaims" where
  "SetPermissions c xs = fmupd KeyPermissions (VStrings xs) c"
definition DeletePermissions :: "mapclaims \<Rightarrow> mapclaims" where "DeletePermissions c = fmdrop KeyPermissions c"

definition Entitlements :: "mapclaims \<Rightarrow> string list result" where "Entitlements c = readStringSlice c KeyEntitlements"
definition SetEntitlements :: "mapclaims \<Rightarrow> string slice \<Rightarrow> mapclaims" where
  "SetEntitlements c xs = fmupd KeyEntitlements (VStrings xs) c"
definition DeleteEntitlements :: "mapclaims \<Rightarrow> mapclaims" where "DeleteEntitlements c = fmdrop KeyEntitlements c"

definition MatchingEntitlements :: "mapclaims \<Rightarrow> string list \<Rightarrow> string list result" where
  "MatchingEntitlements c toMatch =
    (case Entitlements c of
       Inl e \<Rightarrow> Inl e
     | Inr have \<Rightarrow>
         if have = [] then Inl [ErrEmptyValue]
         else if matched have toMatch = [] then Inl [ErrCheck]
         else Inr (matched have toMatch))"

definition Scope :: "mapclaims \<Rightarrow> string list result" where
  "Scope c =
    (case fmlookup c KeyScope of
       None \<Rightarrow> Inl [ErrNotFound]
     | Some v \<Rightarrow>
         (case v of
            VString s \<Rightarrow>
              if s = [] then Inl [ErrEmptyValue]
              else if CHR '' '' \<in> set s then Inr (Fields s)
              else Inr (Split s (CHR '',''))
          | VStrings ss \<Rightarrow> if elems ss = [] then Inl [ErrEmptyValue] else Inr (elems ss)
          | VAnys vs \<Rightarrow> if elems vs = [] then Inl [ErrEmptyValue] else strings_of_anys (elems vs)
          | _ \<Rightarrow> Inl [ErrInvalidClaims]))"
definition SetScope :: "mapclaims \<Rightarrow> string list \<Rightarrow> mapclaims" where
  "SetScope c scope = fmupd KeyScope (VString (Join scope '' '')) c"
definition DeleteScope :: "mapclaims \<Rightarrow> mapclaims" where "DeleteScope c = fmdrop KeyScope c"

definition Name :: "mapclaims \<Rightarrow> string result" where "Name c = readString c KeyName"
definition SetName :: "mapclaims \<Rightarrow> string \<Rightarrow> mapclaims" where
  "SetName c s = fmupd KeyName (VString (TrimSpace s)) c"
definition DeleteName :: "mapclaims \<Rightarrow> mapclaims" where "DeleteName c = fmdrop KeyName c"

definition FirstName :: "mapclaims \<Rightarrow> string result" where "FirstName c = readString c KeyFirstName"
definition SetFirstName :: "mapclaims \<Rightarrow> string \<Rightarrow> mapclaims" where
  "SetFirstName c s = fmupd KeyFirstName (VString (TrimSpace s)) c"
definition DeleteFirstName :: "mapclaims \<Rightarrow> mapclaims" where "DeleteFirstName c = fmdrop KeyFirstName c"

definition LastName :: "mapclaims \<Rightarrow> string result" where "LastName c = readString c KeyLastName"
definition SetLastName :: "mapclaims \<Rightarrow> string \<Rightarrow> mapclaims" where
  "SetLastName c s = fmupd KeyLastName (VString (TrimSpace s)) c"
definition DeleteLastName :: "mapclaims \<Rightarrow> mapclaims" where "DeleteLastName c = fmdrop KeyLastName c"

definition Username :: "mapclaims \<Rightarrow> string result" where "Username c = readString c KeyUsername"
definition SetUsername :: "mapclaims \<Rightarrow> string \<Rightarrow> mapclaims" where
  "SetUsername c s = fmupd KeyUsername (VString (TrimSpace s)) c"
definition DeleteUsername :: "mapclaims \<Rightarrow> mapclaims" where "DeleteUsername c = fmdrop KeyUsername c"

definition Email :: "mapclaims \<Rightarrow> string result" where "Email c = readString c KeyEmail"
definition SetEmail :: "mapclaims \<Rightarrow> string \<Rightarrow> mapclaims" where
  "SetEmail c s = fmupd KeyEmail (VString (TrimSpace s)) c"
definition DeleteEmail :: "mapclaims \<Rightarrow> mapclaims" where "DeleteEmail c = fmdrop KeyEmail c"

definition TokenType :: "mapclaims \<Rightarrow> string result" where "TokenType c = readString c KeyTokenType"
definition SetTokenType :: "mapclaims \<Rightarrow> string \<Rightarrow> mapclaims" where
  "SetTokenType c s = fmupd KeyTokenType (VString (TrimSpace s)) c"
definition DeleteTokenType :: "mapclaims \<Rightarrow> mapclaims" where "DeleteTokenType c = fmdrop KeyTokenType c"

section \<open>Claim checks\<close>

text \<open>
  A \<open>CheckFunc\<close> takes the context and the claims and returns an error or nil. A check that reads the
  clock takes the instant it reads when it runs as its last construction argument, so that each
  check of a list has a clock read of its own.
\<close>

type_synonym check_func = "ctx_err \<Rightarrow> mapclaims \<Rightarrow> gerror option"

definition result_err :: "'a result \<Rightarrow> gerror option" where
  "result_err r = (case r of Inl e \<Rightarrow> Some e | Inr _ \<Rightarrow> None)"

text \<open>The loop of every chain in the code: nil entries are skipped, the first error ends it.\<close>

fun first_err :: "('a \<Rightarrow> gerror option) option list \<Rightarrow> 'a \<Rightarrow> gerror option" where
  "first_err [] x = None"
| "first_err (None # cs) x = first_err cs x"
| "first_err (Some check # cs) x = (case check x of Some e \<Rightarrow> Some e | None \<Rightarrow> first_err cs x)"

definition Chain :: "check_func option list \<Rightarrow> check_func" where
  "Chain checks ctx c = first_err (map (map_option (\<lambda>check. check ctx)) checks) c"

fun CheckRequiredKeys :: "string list \<Rightarrow> check_func" where
  "CheckRequiredKeys [] ctx c = None"
| "CheckRequiredKeys (k # ks) ctx c =
    (case fmlookup c k of None \<Rightarrow> Some [ErrNotFound] | Some _ \<Rightarrow> CheckRequiredKeys ks ctx c)"

definition CheckIssuer :: "string list \<Rightarrow> check_func" where
  "CheckIssuer allowed ctx c =
    (case Issuer c of
       Inl e \<Rightarrow> Some e
     | Inr iss \<Rightarrow> if iss \<in> set allowed then None else Some [ErrCheck])"

definition CheckAudience :: "string list \<Rightarrow> check_func" where
  "CheckAudience required ctx c = result_err (MatchingAudience c required)"

definition CheckHasGroups :: "string list \<Rightarrow> check_func" where
  "CheckHasGroups required ctx c = result_err (MatchingGroups c required)"

definition CheckHasRoles :: "string list \<Rightarrow> check_func" where
  "CheckHasRoles required ctx c = result_err (MatchingRoles c required)"

definition CheckNotExpired :: "lib \<Rightarrow> duration \<Rightarrow> gtime \<Rightarrow> check_func" where
  "CheckNotExpired L leeway now ctx c =
    (case ExpiresAt L c of
       Inl e \<Rightarrow> Some e
     | Inr ex \<Rightarrow> if time_Before (time_Add ex leeway) now then Some [ErrExpired] else None)"

definition CheckNotBeforeReady :: "lib \<Rightarrow> duration \<Rightarrow> gtime \<Rightarrow> check_func" where
  "CheckNotBeforeReady L leeway now ctx c =
    (case NotBefore L c of
       Inl e \<Rightarrow> if errors_Is e ErrNotFound then None else Some (ErrInvalidClaims # e)
     | Inr nbf \<Rightarrow> if time_After nbf (time_Add now leeway) then Some [ErrNotReady] else None)"

end
