(* ===== verification/Lib_Instance.thy ===== *)
theory Lib_Instance
  imports Jwt_Model
begin

text \<open>
  A concrete library: the documented behaviour of \<open>golang-jwt\<close> that the properties assume is
  satisfiable. \<open>mk_lib\<close> takes the decoder, the signature check, the signer and the key pair relation;
  the lemmas show that every such library satisfies the predicates of \<open>Jwt_Model\<close>. It is used in the
  witnesses only.
\<close>

definition date_validator :: "duration \<Rightarrow> gtime \<Rightarrow> mapclaims \<Rightarrow> bool" where
  "date_validator lw now c =
    ((case fmlookup c ''exp'' of
        None \<Rightarrow> True | Some (VFloat (Fin r)) \<Rightarrow> now < trunc_rat r * Second + lw | Some _ \<Rightarrow> False) \<and>
     (case fmlookup c ''nbf'' of
        None \<Rightarrow> True | Some (VFloat (Fin r)) \<Rightarrow> trunc_rat r * Second - lw \<le> now | Some _ \<Rightarrow> False))"

definition checked_parse ::
  "(string \<Rightarrow> token result) \<Rightarrow> (smethod \<Rightarrow> string \<Rightarrow> pkey \<Rightarrow> bool) \<Rightarrow>
   parser \<Rightarrow> gtime \<Rightarrow> string \<Rightarrow> keyfunc \<Rightarrow> token result" where
  "checked_parse unver ver p now s kf =
    (case unver s of
       Inl e \<Rightarrow> Inl [ErrExternal ''jwt'']
     | Inr tok \<Rightarrow>
         if \<not> method_allowed p (t_method tok) then Inl [ErrExternal ''jwt'']
         else (case kf (tok\<lparr>t_valid := False\<rparr>) of
                 Inl e \<Rightarrow> Inl (ErrExternal ''jwt'' # e)
               | Inr k \<Rightarrow>
                   if ver (t_method tok) s k \<and>
                      (skip_claims p \<or> date_validator (parser_leeway p) now (t_claims tok))
                   then Inr (tok\<lparr>t_valid := True\<rparr>)
                   else Inl [ErrExternal ''jwt'']))"

definition mk_lib ::
  "(string \<Rightarrow> token result) \<Rightarrow> (smethod \<Rightarrow> string \<Rightarrow> pkey \<Rightarrow> bool) \<Rightarrow>
   (token \<Rightarrow> pkey \<Rightarrow> string result) \<Rightarrow> (pkey \<Rightarrow> pkey \<Rightarrow> bool) \<Rightarrow> lib" where
  "mk_lib unver ver sign pair =
    \<lparr>newNumericDate = trunc_second,
     numericDate_json = (\<lambda>t. float_of_int (unix_seconds t)),
     newWithClaims = (\<lambda>m c.
       \<lparr>t_method = m, t_header = fmupd ''alg'' (VString (Alg m)) (fmupd ''typ'' (VString ''JWT'') fmempty),
        t_claims = c, t_signature = [], t_valid = False\<rparr>),
     signedString = sign,
     parseWithClaims = checked_parse unver ver,
     parseUnverified = unver,
     sigVerifies = ver,
     timeParseRFC3339 = (\<lambda>_. None),
     timeFormatJSON = (\<lambda>_. None),
     parseFloat = (\<lambda>_. None),
     parseDuration = (\<lambda>_. None),
     float_overflow_time = (\<lambda>_. 0),
     float_overflow_int = (\<lambda>_. 0),
     json_other = (\<lambda>_. None),
     validatorOK = date_validator,
     keyPair = pair\<rparr>"

definition no_lib :: lib where
  "no_lib = mk_lib (\<lambda>_. Inl []) (\<lambda>_ _ _. False) (\<lambda>_ _. Inl []) (\<lambda>_ _. False)"

lemma mk_lib_simps [simp]:
  "newNumericDate (mk_lib u v s p) = trunc_second"
  "numericDate_json (mk_lib u v s p) = (\<lambda>t. float_of_int (unix_seconds t))"
  "newWithClaims (mk_lib u v s p) = (\<lambda>m c.
       \<lparr>t_method = m, t_header = fmupd ''alg'' (VString (Alg m)) (fmupd ''typ'' (VString ''JWT'') fmempty),
        t_claims = c, t_signature = [], t_valid = False\<rparr>)"
  "signedString (mk_lib u v s p) = s"
  "parseWithClaims (mk_lib u v s p) = checked_parse u v"
  "parseUnverified (mk_lib u v s p) = u"
  "sigVerifies (mk_lib u v s p) = v"
  "validatorOK (mk_lib u v s p) = date_validator"
  "keyPair (mk_lib u v s p) = p"
  by (simp_all add: mk_lib_def)

lemma mk_lib_dates [simp]: "numericDate_spec (mk_lib u v s p)"
  by (simp add: numericDate_spec_def)

lemma mk_lib_newWithClaims [simp]: "newWithClaims_spec (mk_lib u v s p)"
  by (simp add: newWithClaims_spec_def)

lemma mk_lib_validator [simp]: "validator_spec (mk_lib u v s p)"
  by (auto simp: validator_spec_def date_validator_def)

lemma mk_lib_sound [simp]: "parser_sound (mk_lib u v s p)"
  unfolding parser_sound_def
  by (auto simp: checked_parse_def claims_allowed_def same_content_def split: sum.splits if_splits)

lemma mk_lib_complete [simp]: "parser_complete (mk_lib u v s p)"
  unfolding parser_complete_def
  by (auto simp: checked_parse_def claims_allowed_def same_content_def)

lemma mk_lib_errors [simp]: "parser_errors (mk_lib u v s p)"
  unfolding parser_errors_def
  by (auto simp: checked_parse_def external_def split: sum.splits if_splits)

lemma no_lib_dates [simp]: "numericDate_spec no_lib"
  by (simp add: no_lib_def)

text \<open>
  A library that signs one token with one key: decoding the text gives the token's JSON, and its
  signature verifies under the paired public key.
\<close>

definition one_token_lib :: "token \<Rightarrow> pkey \<Rightarrow> pkey \<Rightarrow> string \<Rightarrow> lib" where
  "one_token_lib tok priv pub s =
    mk_lib (\<lambda>x. if x = s then Inr (tok\<lparr>t_header := json_map no_lib (t_header tok),
                                     t_claims := json_map no_lib (t_claims tok)\<rparr>) else Inl [])
      (\<lambda>m x k. x = s \<and> k = pub)
      (\<lambda>t k. if t = tok \<and> k = priv then Inr s else Inl [ErrExternal ''sign''])
      (\<lambda>a b. a = pub \<and> b = priv)"

lemma json_rt_cong:
  assumes "numericDate_json L = numericDate_json M" "timeFormatJSON L = timeFormatJSON M"
    "parseFloat L = parseFloat M" "json_other L = json_other M"
  shows "json_rt L x = json_rt M x"
proof (induction x)
  case (VAnys vs)
  then have "map_slice (json_rt L) vs = map_slice (json_rt M) vs" by (intro slice.map_cong) auto
  then show ?case by simp
next
  case (VMap kvs)
  have "map_prod id (json_rt L) kv = map_prod id (json_rt M) kv" if "kv \<in> set kvs" for kv
    using VMap [OF that] by (cases kv) simp
  then have "map (map_prod id (json_rt L)) kvs = map (map_prod id (json_rt M)) kvs" by simp
  then show ?case by (simp only: json_rt.simps)
qed (simp_all add: assms other_json_def)

lemma json_rt_mk_lib: "json_rt (mk_lib u v s p) x = json_rt no_lib x"
  by (rule json_rt_cong) (simp_all add: no_lib_def mk_lib_def)

lemma json_map_mk_lib: "json_map (mk_lib u v s p) c = json_map no_lib c"
  by (simp add: json_map_def json_rt_mk_lib)

lemma one_token_lib_signing:
  "TrimSpace s \<noteq> [] \<Longrightarrow> signing_spec (one_token_lib tok priv pub s)"
  by (auto simp: signing_spec_def one_token_lib_def json_map_mk_lib split: if_splits)

end
