(* ===== verification/Claims_Facts.thy ===== *)
theory Claims_Facts
  imports Claims Lib_Instance
begin

text \<open>
  What the claim accessors promise. The locale \<open>claim_accessor\<close> is the contract of one typed
  accessor (reader, setter and deleter of one key); it is interpreted on every accessor of the
  package. The rest of the theory characterises the timestamp readers, the matching functions, the
  checks and the copies.
\<close>

section \<open>Distinct keys\<close>

lemma key_neq [simp]:
  "KeyExpiresAt \<noteq> KeyIssuedAt" "KeyExpiresAt \<noteq> KeyNotBefore" "KeyExpiresAt \<noteq> KeyID"
  "KeyExpiresAt \<noteq> KeyIssuer" "KeyExpiresAt \<noteq> KeyAudience" "KeyExpiresAt \<noteq> KeySubject"
  "KeyIssuedAt \<noteq> KeyExpiresAt" "KeyIssuedAt \<noteq> KeyNotBefore" "KeyIssuedAt \<noteq> KeyID"
  "KeyIssuedAt \<noteq> KeyIssuer" "KeyIssuedAt \<noteq> KeyAudience" "KeyIssuedAt \<noteq> KeySubject"
  "KeyNotBefore \<noteq> KeyExpiresAt" "KeyNotBefore \<noteq> KeyIssuedAt" "KeyNotBefore \<noteq> KeyID"
  "KeyNotBefore \<noteq> KeyIssuer" "KeyNotBefore \<noteq> KeyAudience" "KeyNotBefore \<noteq> KeySubject"
  "KeyID \<noteq> KeyExpiresAt" "KeyID \<noteq> KeyIssuedAt" "KeyID \<noteq> KeyNotBefore"
  "KeyID \<noteq> KeyIssuer" "KeyID \<noteq> KeyAudience" "KeyID \<noteq> KeySubject"
  "KeyIssuer \<noteq> KeyExpiresAt" "KeyIssuer \<noteq> KeyIssuedAt" "KeyIssuer \<noteq> KeyNotBefore"
  "KeyIssuer \<noteq> KeyID" "KeyIssuer \<noteq> KeyAudience" "KeyIssuer \<noteq> KeySubject"
  "KeyAudience \<noteq> KeyExpiresAt" "KeyAudience \<noteq> KeyIssuedAt" "KeyAudience \<noteq> KeyNotBefore"
  "KeyAudience \<noteq> KeyID" "KeyAudience \<noteq> KeyIssuer" "KeyAudience \<noteq> KeySubject"
  "KeySubject \<noteq> KeyExpiresAt" "KeySubject \<noteq> KeyIssuedAt" "KeySubject \<noteq> KeyNotBefore"
  "KeySubject \<noteq> KeyID" "KeySubject \<noteq> KeyIssuer" "KeySubject \<noteq> KeyAudience"
  by (simp_all add: key_defs)

section \<open>The contract of a typed accessor\<close>

text \<open>
  Reader, setter and deleter of one key agree on the value \<open>x\<close>: it reads back as \<open>y\<close>, a deleted claim is
  missing, and no other key is touched.
\<close>

definition typed_accessor ::
  "string \<Rightarrow> (mapclaims \<Rightarrow> 'a result) \<Rightarrow> (mapclaims \<Rightarrow> 'b \<Rightarrow> mapclaims) \<Rightarrow> (mapclaims \<Rightarrow> mapclaims) \<Rightarrow> 'b \<Rightarrow> 'a \<Rightarrow> bool" where
  "typed_accessor key get put del x y \<longleftrightarrow>
    (\<forall>c. get (put c x) = Inr y \<and> get (del c) = Inl [ErrNotFound] \<and> fmlookup (del c) key = None \<and>
      (\<forall>k. k \<noteq> key \<longrightarrow> fmlookup (put c x) k = fmlookup c k \<and> fmlookup (del c) k = fmlookup c k))"

locale claim_accessor =
  fixes key :: string
    and get :: "mapclaims \<Rightarrow> 'a result"
    and put :: "mapclaims \<Rightarrow> 'b \<Rightarrow> mapclaims"
    and del :: "mapclaims \<Rightarrow> mapclaims"
    and storable :: "'b \<Rightarrow> bool"
    and norm :: "'b \<Rightarrow> 'a"
  assumes get_put: "storable x \<Longrightarrow> get (put c x) = Inr (norm x)"
    and get_del: "get (del c) = Inl [ErrNotFound]"
    and get_local: "fmlookup c key = fmlookup d key \<Longrightarrow> get c = get d"
    and put_frame: "k \<noteq> key \<Longrightarrow> fmlookup (put c x) k = fmlookup c k"
    and del_frame: "k \<noteq> key \<Longrightarrow> fmlookup (del c) k = fmlookup c k"
    and put_key: "fmlookup (put c x) key = fmlookup (put d x) key"
    and del_key: "fmlookup (del c) key = None"
begin

lemma typed: "storable x \<Longrightarrow> norm x = y \<Longrightarrow> typed_accessor key get put del x y"
  unfolding typed_accessor_def using get_put get_del put_frame del_frame del_key by blast

lemma put_put: "put (put c x) y = put c y"
proof (rule fmap_ext)
  show "fmlookup (put (put c x) y) k = fmlookup (put c y) k" for k
    by (cases "k = key") (auto simp: put_frame intro: put_key)
qed

lemma del_put: "del (put c x) = del c"
proof (rule fmap_ext)
  show "fmlookup (del (put c x)) k = fmlookup (del c) k" for k
    by (cases "k = key") (simp_all add: put_frame del_frame del_key)
qed

lemma put_del: "put (del c) x = put c x"
proof (rule fmap_ext)
  show "fmlookup (put (del c) x) k = fmlookup (put c x) k" for k
    by (cases "k = key") (auto simp: put_frame del_frame intro: put_key)
qed

lemma get_present:
  assumes "get c = Inr v"
  shows "fmlookup c key \<noteq> None"
proof
  assume "fmlookup c key = None"
  then have "fmlookup c key = fmlookup (del c) key" by (simp add: del_key)
  then have "get c = get (del c)" by (rule get_local)
  with assms get_del show False by simp
qed

end

text \<open>Two accessors of different keys do not disturb each other.\<close>

locale accessor_pair =
  a: claim_accessor key_a get_a put_a del_a ok_a norm_a +
  b: claim_accessor key_b get_b put_b del_b ok_b norm_b
  for key_a key_b :: string
    and get_a :: "mapclaims \<Rightarrow> 'a result" and put_a :: "mapclaims \<Rightarrow> 'b \<Rightarrow> mapclaims"
    and del_a :: "mapclaims \<Rightarrow> mapclaims" and ok_a :: "'b \<Rightarrow> bool" and norm_a :: "'b \<Rightarrow> 'a"
    and get_b :: "mapclaims \<Rightarrow> 'c result" and put_b :: "mapclaims \<Rightarrow> 'd \<Rightarrow> mapclaims"
    and del_b :: "mapclaims \<Rightarrow> mapclaims" and ok_b :: "'d \<Rightarrow> bool" and norm_b :: "'d \<Rightarrow> 'c" +
  assumes distinct_keys: "key_a \<noteq> key_b"
begin

lemma get_put_other: "get_a (put_b c x) = get_a c"
  by (rule a.get_local) (simp add: b.put_frame distinct_keys)

lemma get_del_other: "get_a (del_b c) = get_a c"
  by (rule a.get_local) (simp add: b.del_frame distinct_keys)

lemma put_commute: "put_a (put_b c x) y = put_b (put_a c y) x"
proof (rule fmap_ext)
  show "fmlookup (put_a (put_b c x) y) k = fmlookup (put_b (put_a c y) x) k" for k
  proof (cases "k = key_b")
    case True
    then show ?thesis using distinct_keys b.put_key [of c x "put_a c y"] by (simp add: a.put_frame)
  next
    case False
    then show ?thesis by (cases "k = key_a") (auto simp: a.put_frame b.put_frame intro: a.put_key)
  qed
qed

end

section \<open>The accessors of the package\<close>

definition nonempty :: "'a list \<Rightarrow> bool" where
  "nonempty xs \<longleftrightarrow> xs \<noteq> []"

definition storable_slice :: "'a slice \<Rightarrow> bool" where
  "storable_slice s \<longleftrightarrow> elems s \<noteq> []"

definition storable_time :: "lib \<Rightarrow> gtime \<Rightarrow> bool" where
  "storable_time L t \<longleftrightarrow> \<not> time_IsZero (newNumericDate L t)"

definition read_back_time :: "lib \<Rightarrow> gtime \<Rightarrow> gtime" where
  "read_back_time L t = newNumericDate L (newNumericDate L t)"

lemmas accessor_defs = readString_def readStringSlice_def readTime_def nonempty_def
  storable_slice_def storable_time_def read_back_time_def nonzero_date_def

named_theorems claims_defs \<open>definitions of the accessors\<close>

lemmas claims_accessors [claims_defs] =
  ID_def SetJTI_def SetID_def DeleteID_def JTI_def DeleteJTI_def
  Issuer_def SetIssuer_def DeleteIssuer_def Subject_def SetSubject_def DeleteSubject_def
  Audience_def SetAudience_def DeleteAudience_def
  IssuedAt_def SetIssuedAt_def DeleteIssuedAt_def
  ExpiresAt_def SetExpiresAt_def DeleteExpiresAt_def
  NotBefore_def SetNotBefore_def DeleteNotBefore_def
  Groups_def SetGroups_def DeleteGroups_def Roles_def SetRoles_def DeleteRoles_def
  Permissions_def SetPermissions_def DeletePermissions_def
  Entitlements_def SetEntitlements_def DeleteEntitlements_def
  Name_def SetName_def DeleteName_def FirstName_def SetFirstName_def DeleteFirstName_def
  LastName_def SetLastName_def DeleteLastName_def Username_def SetUsername_def DeleteUsername_def
  Email_def SetEmail_def DeleteEmail_def TokenType_def SetTokenType_def DeleteTokenType_def

interpretation jti: claim_accessor KeyID JTI SetJTI DeleteJTI nonempty id
  by unfold_locales (auto simp: claims_defs accessor_defs)

interpretation iss: claim_accessor KeyIssuer Issuer SetIssuer DeleteIssuer nonempty id
  by unfold_locales (auto simp: claims_defs accessor_defs)

interpretation sub: claim_accessor KeySubject Subject SetSubject DeleteSubject nonempty id
  by unfold_locales (auto simp: claims_defs accessor_defs)

interpretation aud: claim_accessor KeyAudience Audience SetAudience DeleteAudience storable_slice elems
  by unfold_locales (auto simp: claims_defs accessor_defs)

interpretation groups: claim_accessor KeyGroups Groups SetGroups DeleteGroups storable_slice elems
  by unfold_locales (auto simp: claims_defs accessor_defs)

interpretation roles: claim_accessor KeyRoles Roles SetRoles DeleteRoles storable_slice elems
  by unfold_locales (auto simp: claims_defs accessor_defs)

interpretation permissions: claim_accessor KeyPermissions Permissions SetPermissions DeletePermissions storable_slice elems
  by unfold_locales (auto simp: claims_defs accessor_defs)

interpretation entitlements: claim_accessor KeyEntitlements Entitlements SetEntitlements DeleteEntitlements storable_slice elems
  by unfold_locales (auto simp: claims_defs accessor_defs)

interpretation iat: claim_accessor KeyIssuedAt "IssuedAt L" "SetIssuedAt L" DeleteIssuedAt "storable_time L" "read_back_time L" for L
  by unfold_locales (auto simp: claims_defs accessor_defs)

interpretation expiry: claim_accessor KeyExpiresAt "ExpiresAt L" "SetExpiresAt L" DeleteExpiresAt "storable_time L" "read_back_time L" for L
  by unfold_locales (auto simp: claims_defs accessor_defs)

interpretation nbf: claim_accessor KeyNotBefore "NotBefore L" "SetNotBefore L" DeleteNotBefore "storable_time L" "read_back_time L" for L
  by unfold_locales (auto simp: claims_defs accessor_defs)

interpretation name: claim_accessor KeyName Name SetName DeleteName "nonempty \<circ> TrimSpace" TrimSpace
  by unfold_locales (auto simp: claims_defs accessor_defs)

interpretation first_name: claim_accessor KeyFirstName FirstName SetFirstName DeleteFirstName "nonempty \<circ> TrimSpace" TrimSpace
  by unfold_locales (auto simp: claims_defs accessor_defs)

interpretation last_name: claim_accessor KeyLastName LastName SetLastName DeleteLastName "nonempty \<circ> TrimSpace" TrimSpace
  by unfold_locales (auto simp: claims_defs accessor_defs)

interpretation username: claim_accessor KeyUsername Username SetUsername DeleteUsername "nonempty \<circ> TrimSpace" TrimSpace
  by unfold_locales (auto simp: claims_defs accessor_defs)

interpretation email: claim_accessor KeyEmail Email SetEmail DeleteEmail "nonempty \<circ> TrimSpace" TrimSpace
  by unfold_locales (auto simp: claims_defs accessor_defs)

interpretation token_type: claim_accessor KeyTokenType TokenType SetTokenType DeleteTokenType "nonempty \<circ> TrimSpace" TrimSpace
  by unfold_locales (auto simp: claims_defs accessor_defs)

text \<open>The three time claims the signer and the refresher write together.\<close>

interpretation exp_iat: accessor_pair KeyExpiresAt KeyIssuedAt
  "ExpiresAt L" "SetExpiresAt L" DeleteExpiresAt "storable_time L" "read_back_time L"
  "IssuedAt L" "SetIssuedAt L" DeleteIssuedAt "storable_time L" "read_back_time L" for L
  by unfold_locales (simp add: key_defs)

interpretation exp_nbf: accessor_pair KeyExpiresAt KeyNotBefore
  "ExpiresAt L" "SetExpiresAt L" DeleteExpiresAt "storable_time L" "read_back_time L"
  "NotBefore L" "SetNotBefore L" DeleteNotBefore "storable_time L" "read_back_time L" for L
  by unfold_locales (simp add: key_defs)

interpretation iat_nbf: accessor_pair KeyIssuedAt KeyNotBefore
  "IssuedAt L" "SetIssuedAt L" DeleteIssuedAt "storable_time L" "read_back_time L"
  "NotBefore L" "SetNotBefore L" DeleteNotBefore "storable_time L" "read_back_time L" for L
  by unfold_locales (simp add: key_defs)

interpretation nbf_iat: accessor_pair KeyNotBefore KeyIssuedAt
  "NotBefore L" "SetNotBefore L" DeleteNotBefore "storable_time L" "read_back_time L"
  "IssuedAt L" "SetIssuedAt L" DeleteIssuedAt "storable_time L" "read_back_time L" for L
  by unfold_locales (simp add: key_defs)

section \<open>Timestamps\<close>

lemma TimeFromFloat_int:
  assumes "1 \<le> n" "n < 2 ^ 53"
  shows "TimeFromFloat L (float_of_int n) = Inr (newNumericDate L (n * Second))"
proof -
  have r: "rnd64 (of_int n) = of_int n" using assms by (intro rnd64_of_int) simp
  have f: "int64_of_float (Fin (of_int n)) = Some n" using assms by simp
  have "time_Unix n 0 = n * Second" using assms by (simp add: time_Unix_exact)
  moreover have "trunc_rat 0 = 0" by (simp add: trunc_rat_def)
  ultimately show ?thesis
    using assms f by (simp add: TimeFromFloat_def float_of_int_def r)
qed

lemma TimeFromFloat_below_one: "float_less v 1 \<Longrightarrow> TimeFromFloat L v = Inl [ErrInvalidValue]"
  by (simp add: TimeFromFloat_def)

lemma unix_seconds_trunc [simp]: "unix_seconds (trunc_second t) = unix_seconds t"
  by (simp add: unix_seconds_def trunc_second_def Second_def)

lemma unix_seconds_mult: "unix_seconds t * Second = trunc_second t"
  by (simp add: unix_seconds_def trunc_second_def)

lemma nonzero_after_epoch: "0 \<le> t \<Longrightarrow> \<not> time_IsZero t"
  by (simp add: time_IsZero_def zero_time_def)

lemma Timestamp_date:
  assumes "numericDate_spec L" "0 \<le> t"
  shows "Timestamp L (VNumericDatePtr (Some (newNumericDate L t))) = Inr (trunc_second t)"
proof -
  have "0 \<le> trunc_second t"
    using assms(2) trunc_second_mono [of 0 t] by (simp add: trunc_second_def)
  then show ?thesis
    using assms nonzero_after_epoch by (simp add: numericDate_spec_def nonzero_date_def)
qed

text \<open>A second-precision date survives the JSON round trip.\<close>

lemma json_rt_date:
  assumes "numericDate_spec L" "Second \<le> t" "t < 2 ^ 53 * Second"
  shows "json_rt L (VNumericDatePtr (Some (newNumericDate L t))) = Some (VFloat (Fin (of_int (unix_seconds t))))"
    and "1 \<le> unix_seconds t" and "unix_seconds t < 2 ^ 53"
proof -
  show lo: "1 \<le> unix_seconds t"
    using assms(2) by (simp add: unix_seconds_def Second_def)
  show hi: "unix_seconds t < 2 ^ 53"
    using assms(3) by (simp add: unix_seconds_def Second_def div_less_iff_less_mult)
  have "numericDate_json L (trunc_second t) = float_of_int (unix_seconds t)"
    using assms(1) by (simp add: numericDate_spec_def)
  moreover have "float_of_int (unix_seconds t) = Fin (of_int (unix_seconds t))"
    using lo hi by (intro float_of_int_small) simp
  ultimately show "json_rt L (VNumericDatePtr (Some (newNumericDate L t))) = Some (VFloat (Fin (of_int (unix_seconds t))))"
    using assms(1) by (simp add: json_opt_def json_float_def numericDate_spec_def)
qed

lemma Timestamp_json_date:
  assumes "numericDate_spec L" "Second \<le> t" "t < 2 ^ 53 * Second"
  shows "Timestamp L (VFloat (Fin (of_int (unix_seconds t)))) = Inr (trunc_second t)"
proof -
  note u = json_rt_date [OF assms]
  have "Fin (of_int (unix_seconds t)) = float_of_int (unix_seconds t)"
    using u(2,3) by (intro float_of_int_small [symmetric]) simp
  then have "Timestamp L (VFloat (Fin (of_int (unix_seconds t)))) = Inr (newNumericDate L (trunc_second t))"
    using TimeFromFloat_int [OF u(2,3)] by (simp add: unix_seconds_mult)
  then show ?thesis using assms(1) by (simp add: numericDate_spec_def)
qed

section \<open>Copies\<close>

lemma DeepCopy_json_ok: "json_ok L c \<Longrightarrow> DeepCopy L c = json_map L c"
  by (simp add: DeepCopy_def json_map_def)

lemma json_ok_empty: "json_ok L fmempty"
  by (simp add: json_ok_def)

lemma json_ok_upd: "json_ok L c \<Longrightarrow> json_rt L v \<noteq> None \<Longrightarrow> json_ok L (fmupd k v c)"
  unfolding json_ok_def by (rule fmpred_upd)

lemma json_okD: "json_ok L c \<Longrightarrow> fmlookup c k = Some v \<Longrightarrow> \<exists>w. json_rt L v = Some w"
  by (auto simp: json_ok_def fmpred_iff)

lemma json_okI: "(\<And>k v. fmlookup c k = Some v \<Longrightarrow> json_rt L v \<noteq> None) \<Longrightarrow> json_ok L c"
  by (auto simp: json_ok_def fmpred_iff)

text \<open>A copy of claims that survive JSON survives it again.\<close>

lemma json_ok_DeepCopy:
  assumes "json_ok L c"
  shows "json_ok L (DeepCopy L c)"
proof (rule json_okI)
  fix k v
  assume "fmlookup (DeepCopy L c) k = Some v"
  then obtain u where u: "fmlookup c k = Some u" "v = (case json_rt L u of Some w \<Rightarrow> w | None \<Rightarrow> u)"
    by (auto simp: DeepCopy_json_ok [OF assms] json_map_lookup)
  obtain w where "json_rt L u = Some w" using json_okD [OF assms u(1)] by blast
  with u(2) json_rt_idem show "json_rt L v \<noteq> None" by fastforce
qed

lemma DeepCopy_lookup_None [simp]: "fmlookup (DeepCopy L c) k = None \<longleftrightarrow> fmlookup c k = None"
  by (auto simp: DeepCopy_def json_map_lookup ShallowCopy_def)

definition json_claims :: "mapclaims \<Rightarrow> bool" where
  "json_claims c = fmpred (\<lambda>k v. json_value v) c"

lemma DeepCopy_json_claims:
  assumes "json_claims c"
  shows "DeepCopy L c = c"
proof (cases "c = fmempty")
  case True
  then show ?thesis by (simp add: DeepCopy_def)
next
  case False
  have v: "json_rt L v = Some v" if "fmlookup c k = Some v" for k v
    using assms that by (intro json_rt_json_value) (auto simp: json_claims_def fmpred_iff)
  then have ok: "json_ok L c" by (auto simp: json_ok_def fmpred_iff)
  have "json_map L c = c"
  proof (rule fmap_ext)
    show "fmlookup (json_map L c) k = fmlookup c k" for k
      by (cases "fmlookup c k") (auto simp: json_map_lookup v)
  qed
  with ok show ?thesis by (simp add: DeepCopy_json_ok)
qed

section \<open>Matching\<close>

lemma set_matched: "set (matched have toMatch) = normalizeString ` set have \<inter> normalizeString ` set toMatch"
  by (auto simp: matched_def normalizeStringSlice_def)

lemma matched_eq_Nil: "matched have toMatch = [] \<longleftrightarrow> normalizeString ` set have \<inter> normalizeString ` set toMatch = {}"
  by (metis set_matched set_empty)

lemma strings_of_anys_length: "strings_of_anys vs = Inr ss \<Longrightarrow> length ss = length vs"
  by (induction vs arbitrary: ss rule: strings_of_anys.induct) (auto split: sum.splits)

lemma readStringSlice_nonempty: "readStringSlice c k = Inr xs \<Longrightarrow> xs \<noteq> []"
  by (auto simp: readStringSlice_def split: option.splits gval.splits if_splits dest: strings_of_anys_length)

text \<open>What a check accepts: some wanted value is among the token's, after normalisation.\<close>

definition overlaps :: "string list result \<Rightarrow> string list \<Rightarrow> bool" where
  "overlaps r required \<longleftrightarrow>
    (\<exists>have. r = Inr have \<and> normalizeString ` set have \<inter> normalizeString ` set required \<noteq> {})"

section \<open>Chains\<close>

lemma first_err_None: "first_err cs x = None \<longleftrightarrow> (\<forall>f. Some f \<in> set cs \<longrightarrow> f x = None)"
  by (induction cs x rule: first_err.induct) (auto split: option.splits)

lemma first_err_append:
  "first_err (ds @ es) x = (case first_err ds x of Some e \<Rightarrow> Some e | None \<Rightarrow> first_err es x)"
  by (induction ds x rule: first_err.induct) (auto split: option.splits)

text \<open>The error of a chain is that of the first check that fails.\<close>

lemma first_err_Some:
  "first_err cs x = Some e \<longleftrightarrow>
    (\<exists>ds f es. cs = ds @ Some f # es \<and> f x = Some e \<and> first_err ds x = None)" (is "?l \<longleftrightarrow> ?r")
proof
  show "?l \<Longrightarrow> ?r"
  proof (induction cs x rule: first_err.induct)
    case (2 cs x)
    then obtain ds f es where "cs = ds @ Some f # es" "f x = Some e" "first_err ds x = None" by auto
    then show ?case by (intro exI [of _ "None # ds"]) auto
  next
    case (3 g cs x)
    show ?case
    proof (cases "g x")
      case None
      with 3 obtain ds f es where "cs = ds @ Some f # es" "f x = Some e" "first_err ds x = None" by auto
      with None show ?thesis by (intro exI [of _ "Some g # ds"]) auto
    next
      case (Some d)
      with 3(2) show ?thesis by (intro exI [of _ "[]"]) auto
    qed
  qed simp
  show "?r \<Longrightarrow> ?l" by (auto simp: first_err_append)
qed

section \<open>Scopes\<close>

text \<open>A scope token as RFC 6749 has it: visible ASCII characters.\<close>

definition visible :: "char \<Rightarrow> bool" where
  "visible c \<longleftrightarrow> 33 \<le> (of_char c :: nat) \<and> (of_char c :: nat) \<le> 126"

definition scope_token :: "string \<Rightarrow> bool" where
  "scope_token s \<longleftrightarrow> s \<noteq> [] \<and> list_all visible s"

lemma lead_len_hd: "\<forall>p \<in> set ps. p = [] \<or> hd p \<noteq> c \<Longrightarrow> lead_len ps (c # s) = 0"
proof (induction ps)
  case (Cons p ps)
  then show ?case by (cases p) auto
qed simp

lemma lead_len_visible: "visible c \<Longrightarrow> lead_len space_seqs (c # s) = 0"
proof (rule lead_len_hd)
  assume v: "visible c"
  have "\<not> list_ex visible (map hd space_seqs)" by code_simp
  then show "\<forall>p \<in> set space_seqs. p = [] \<or> hd p \<noteq> c"
    using v by (auto simp: list_ex_iff)
qed

lemma lead_len_space: "lead_len space_seqs (CHR '' '' # s) = 1"
  by (simp add: space_seqs_def)

lemma fields_aux_visible: "list_all visible s \<Longrightarrow> fields_aux cur (s @ t) = fields_aux (rev s @ cur) t"
  by (induction s arbitrary: cur) (simp_all add: lead_len_visible)

lemma Fields_Join:
  "ss \<noteq> [] \<Longrightarrow> (\<And>s. s \<in> set ss \<Longrightarrow> scope_token s) \<Longrightarrow> Fields (Join ss '' '') = ss"
proof (induction ss "'' ''" rule: Join.induct)
  case (2 x)
  then show ?case
    using fields_aux_visible [of x "[]" "[]"] by (simp add: Fields_def scope_token_def)
next
  case (3 x y ys)
  have x: "x \<noteq> []" "list_all visible x" using 3(3) [of x] by (simp_all add: scope_token_def)
  have "Fields (Join (x # y # ys) '' '') = fields_aux (rev x) (CHR '' '' # Join (y # ys) '' '')"
    using fields_aux_visible [OF x(2), of "[]"] by (simp add: Fields_def)
  also have "\<dots> = x # Fields (Join (y # ys) '' '')"
    using x by (simp add: lead_len_space Fields_def)
  finally show ?case using 3 by simp
qed simp

lemma space_in_Join: "CHR '' '' \<in> set (Join (x # y # ys) '' '')"
  by simp

lemma scope_token_no_space: "scope_token s \<Longrightarrow> CHR '' '' \<notin> set s"
  by (auto simp: scope_token_def list_all_iff visible_def)

lemma DeepCopy_date_lookup:
  assumes "numericDate_spec L" "Second \<le> t" "t < 2 ^ 53 * Second" "json_ok L c"
  shows "fmlookup (DeepCopy L (fmupd k (VNumericDatePtr (Some (newNumericDate L t))) c)) k =
    Some (VFloat (Fin (of_int (unix_seconds t))))"
proof -
  note d = json_rt_date(1) [OF assms(1-3)]
  then have "json_ok L (fmupd k (VNumericDatePtr (Some (newNumericDate L t))) c)"
    by (intro json_ok_upd assms(4)) simp
  with d show ?thesis by (simp only: DeepCopy_json_ok json_map_lookup fmupd_lookup) simp
qed

lemma Timestamp_not_NotFound: "Timestamp L v = Inl e \<Longrightarrow> \<not> errors_Is e ErrNotFound"
  by (cases "(L, v)" rule: Timestamp.cases)
    (auto simp: TimeFromFloat_def parseStringToNumericDate_def nonzero_date_def Let_def
       split: if_splits option.splits float64.splits)

lemma readTime_NotFound: "readTime L c k = Inl e \<Longrightarrow> errors_Is e ErrNotFound \<longleftrightarrow> fmlookup c k = None"
  by (auto simp: readTime_def split: option.splits if_splits dest: Timestamp_not_NotFound)

lemma readString_NotFound: "readString c k = Inl e \<Longrightarrow> errors_Is e ErrNotFound \<longleftrightarrow> fmlookup c k = None"
  by (auto simp: readString_def split: option.splits gval.splits if_splits)

section \<open>Properties\<close>

lemma CheckAudience_None: "CheckAudience required ctx c = None \<longleftrightarrow> overlaps (Audience c) required"
  by (auto simp: CheckAudience_def MatchingAudience_def result_err_def overlaps_def matched_eq_Nil split: sum.splits)

text \<open>The audience, group and role checks pass exactly when some required value is among the token's
  values, both sides normalised; matching entitlements succeeds in the same case.\<close>

theorem overlap_checks_correct:
  "(CheckAudience required ctx c = None \<longleftrightarrow> overlaps (Audience c) required) \<and>
   (CheckHasGroups required ctx c = None \<longleftrightarrow> overlaps (Groups c) required) \<and>
   (CheckHasRoles required ctx c = None \<longleftrightarrow> overlaps (Roles c) required) \<and>
   (is_ok (MatchingEntitlements c required) \<longleftrightarrow> overlaps (Entitlements c) required)"
proof (intro conjI)
  show "CheckAudience required ctx c = None \<longleftrightarrow> overlaps (Audience c) required" by (rule CheckAudience_None)
  show "CheckHasGroups required ctx c = None \<longleftrightarrow> overlaps (Groups c) required"
    by (auto simp: CheckHasGroups_def MatchingGroups_def result_err_def overlaps_def matched_eq_Nil split: sum.splits)
  show "CheckHasRoles required ctx c = None \<longleftrightarrow> overlaps (Roles c) required"
    by (auto simp: CheckHasRoles_def MatchingRoles_def result_err_def overlaps_def matched_eq_Nil split: sum.splits)
  show "is_ok (MatchingEntitlements c required) \<longleftrightarrow> overlaps (Entitlements c) required"
    by (auto simp: MatchingEntitlements_def overlaps_def matched_eq_Nil split: sum.splits)
qed

text \<open>A list of scope tokens written with \<open>SetScope\<close> reads back as the same list, unless it is a single
  token with a comma in it (which \<open>Scope\<close> would read as a CSV list).\<close>

theorem scope_roundtrip:
  assumes "ss \<noteq> []" "list_all scope_token ss" "2 \<le> length ss \<or> CHR '','' \<notin> set (hd ss)"
  shows "Scope (SetScope c ss) = Inr ss"
proof -
  have tok: "scope_token s" if "s \<in> set ss" for s using assms(2) that by (simp add: list_all_iff)
  show ?thesis
  proof (cases "2 \<le> length ss")
    case True
    then obtain x y ys where ss: "ss = x # y # ys" by (cases ss; cases "tl ss") auto
    have "Fields (Join ss '' '') = ss" using assms(1) tok by (intro Fields_Join) auto
    with ss show ?thesis by (simp add: Scope_def SetScope_def)
  next
    case False
    then obtain x where ss: "ss = [x]" using assms(1) by (cases ss; cases "tl ss") auto
    with tok have "scope_token x" by simp
    then have "x \<noteq> []" "CHR '' '' \<notin> set x" using scope_token_no_space [of x] by (simp_all add: scope_token_def)
    with ss assms(3) show ?thesis by (simp add: Scope_def SetScope_def Split_no_sep)
  qed
qed

theorem scope_roundtrip_witness: "Scope (SetScope fmempty [''read'', ''a,b'']) = Inr [''read'', ''a,b'']"
proof (rule scope_roundtrip)
  show "list_all scope_token [''read'', ''a,b'']" by code_simp
qed simp_all

text \<open>The lists of scope tokens that \<open>SetScope\<close> writes without loss.\<close>

definition storable_scope :: "string list \<Rightarrow> bool" where
  "storable_scope ss \<longleftrightarrow> ss \<noteq> [] \<and> list_all scope_token ss \<and> (2 \<le> length ss \<or> CHR '','' \<notin> set (hd ss))"

interpretation scope: claim_accessor KeyScope Scope SetScope DeleteScope storable_scope id
proof
  show "Scope (SetScope c ss) = Inr (id ss)" if "storable_scope ss" for ss c
    using scope_roundtrip that by (simp add: storable_scope_def)
qed (simp_all add: Scope_def SetScope_def DeleteScope_def)

lemma typed_ID:
  "s \<noteq> [] \<Longrightarrow> typed_accessor KeyID ID SetID DeleteID (VString s) s"
  "s \<noteq> [] \<Longrightarrow> typed_accessor KeyID ID SetID DeleteID (VBytes (Slice s)) s"
  "s \<noteq> [] \<Longrightarrow> typed_accessor KeyID ID SetID DeleteID (VUUID s) s"
  by (simp_all add: typed_accessor_def ID_def SetID_def DeleteID_def readString_def)

text \<open>C33. Every typed accessor of the package reads back what its setter stored, reports a claim its deleter removed as
  missing, and touches no other key: the registered text and list claims as they were given (the id from
  a text, bytes or a UUID), the three time claims truncated to the second, the profile texts without
  surrounding white space, and the scope, written as one text, as the same list when its entries are
  scope tokens and it is not a single one with a comma in it. Empty texts and lists and the zero time are
  left out: they read back as errors.\<close>

theorem claim_accessors_roundtrip:
  assumes "numericDate_spec L" "trunc_second t \<noteq> zero_time" "TrimSpace s \<noteq> []" "elems xs \<noteq> []" "storable_scope ss"
  shows "typed_accessor KeyID ID SetID DeleteID (VString s) s \<and> typed_accessor KeyID ID SetID DeleteID (VBytes (Slice s)) s \<and>
    typed_accessor KeyID ID SetID DeleteID (VUUID s) s \<and> typed_accessor KeyID JTI SetJTI DeleteJTI s s \<and>
    typed_accessor KeyIssuer Issuer SetIssuer DeleteIssuer s s \<and> typed_accessor KeySubject Subject SetSubject DeleteSubject s s \<and>
    typed_accessor KeyAudience Audience SetAudience DeleteAudience xs (elems xs) \<and>
    typed_accessor KeyExpiresAt (ExpiresAt L) (SetExpiresAt L) DeleteExpiresAt t (trunc_second t) \<and>
    typed_accessor KeyIssuedAt (IssuedAt L) (SetIssuedAt L) DeleteIssuedAt t (trunc_second t) \<and>
    typed_accessor KeyNotBefore (NotBefore L) (SetNotBefore L) DeleteNotBefore t (trunc_second t) \<and>
    typed_accessor KeyGroups Groups SetGroups DeleteGroups xs (elems xs) \<and>
    typed_accessor KeyRoles Roles SetRoles DeleteRoles xs (elems xs) \<and>
    typed_accessor KeyPermissions Permissions SetPermissions DeletePermissions xs (elems xs) \<and>
    typed_accessor KeyEntitlements Entitlements SetEntitlements DeleteEntitlements xs (elems xs) \<and>
    typed_accessor KeyScope Scope SetScope DeleteScope ss ss \<and>
    typed_accessor KeyName Name SetName DeleteName s (TrimSpace s) \<and>
    typed_accessor KeyFirstName FirstName SetFirstName DeleteFirstName s (TrimSpace s) \<and>
    typed_accessor KeyLastName LastName SetLastName DeleteLastName s (TrimSpace s) \<and>
    typed_accessor KeyUsername Username SetUsername DeleteUsername s (TrimSpace s) \<and>
    typed_accessor KeyEmail Email SetEmail DeleteEmail s (TrimSpace s) \<and>
    typed_accessor KeyTokenType TokenType SetTokenType DeleteTokenType s (TrimSpace s)"
proof -
  have s: "nonempty s" "(nonempty \<circ> TrimSpace) s" "s \<noteq> []" using assms(3) by (auto simp: nonempty_def)
  have xs: "storable_slice xs" using assms(4) by (simp add: storable_slice_def)
  have t: "storable_time L t" "read_back_time L t = trunc_second t"
    using assms(1,2) by (simp_all add: storable_time_def read_back_time_def numericDate_spec_def time_IsZero_def trunc_second_idem)
  show ?thesis
    by (intro conjI typed_ID [OF s(3)] jti.typed [OF s(1)] iss.typed [OF s(1)] sub.typed [OF s(1)] aud.typed [OF xs]
        expiry.typed [OF t] iat.typed [OF t] nbf.typed [OF t] groups.typed [OF xs] roles.typed [OF xs] permissions.typed [OF xs]
        entitlements.typed [OF xs] scope.typed [OF assms(5)] name.typed [OF s(2)] first_name.typed [OF s(2)] last_name.typed [OF s(2)]
        username.typed [OF s(2)] email.typed [OF s(2)] token_type.typed [OF s(2)] id_apply refl)
qed

theorem claim_accessors_roundtrip_witness:
  "Groups (SetGroups fmempty (Slice [''x'', ''y''])) = Inr [''x'', ''y''] \<and>
   Groups (DeleteGroups (SetGroups fmempty (Slice [''x'', ''y'']))) = Inl [ErrNotFound] \<and>
   Scope (SetScope fmempty [''read'', ''write'']) = Inr [''read'', ''write'']"
proof -
  have "TrimSpace ''a'' \<noteq> []" "storable_scope [''read'', ''write'']" by code_simp+
  moreover have "trunc_second 1700000000000000000 \<noteq> zero_time" by (simp add: trunc_second_def zero_time_def Second_def)
  ultimately have "typed_accessor KeyGroups Groups SetGroups DeleteGroups (Slice [''x'', ''y'']) [''x'', ''y'']"
    "typed_accessor KeyScope Scope SetScope DeleteScope [''read'', ''write''] [''read'', ''write'']"
    using claim_accessors_roundtrip [of no_lib 1700000000000000000 "''a''" "Slice [''x'', ''y'']" "[''read'', ''write'']"] by simp_all
  then show ?thesis by (simp only: typed_accessor_def simp_thms)
qed

text \<open>The time claims a signer writes survive the JSON round trip of the token: read after a deep
  copy, exp, iat and nbf give the instant that was set, truncated to the second.\<close>

theorem time_claims_survive_json:
  assumes "numericDate_spec L" "Second \<le> t" "t < 2 ^ 53 * Second" "json_ok L c"
  shows "ExpiresAt L (DeepCopy L (SetExpiresAt L c t)) = Inr (trunc_second t) \<and>
    IssuedAt L (DeepCopy L (SetIssuedAt L c t)) = Inr (trunc_second t) \<and>
    NotBefore L (DeepCopy L (SetNotBefore L c t)) = Inr (trunc_second t)"
  using DeepCopy_date_lookup [OF assms] Timestamp_json_date [OF assms(1-3)]
  by (simp only: claims_defs readTime_def) simp

theorem time_claims_survive_json_witness:
  "ExpiresAt no_lib (DeepCopy no_lib (SetExpiresAt no_lib fmempty 1700000000500000000)) = Inr 1700000000000000000"
  using time_claims_survive_json [of no_lib 1700000000500000000 fmempty]
  by (simp add: Second_def json_ok_def trunc_second_def)

text \<open>The expiry check passes exactly when exp is readable and not before now less the leeway; the
  not-before check passes exactly when nbf is absent, or readable and at most the leeway ahead.\<close>

theorem time_checks_correct:
  "(CheckNotExpired L leeway now ctx c = None \<longleftrightarrow> (\<exists>e. ExpiresAt L c = Inr e \<and> now \<le> e + leeway)) \<and>
   (CheckNotBeforeReady L leeway now ctx c = None \<longleftrightarrow>
     fmlookup c KeyNotBefore = None \<or> (\<exists>n. NotBefore L c = Inr n \<and> n \<le> now + leeway))"
proof
  show "CheckNotExpired L leeway now ctx c = None \<longleftrightarrow> (\<exists>e. ExpiresAt L c = Inr e \<and> now \<le> e + leeway)"
    by (auto simp: CheckNotExpired_def time_simps split: sum.splits)
  show "CheckNotBeforeReady L leeway now ctx c = None \<longleftrightarrow>
     fmlookup c KeyNotBefore = None \<or> (\<exists>n. NotBefore L c = Inr n \<and> n \<le> now + leeway)"
  proof (cases "NotBefore L c")
    case (Inl e)
    then show ?thesis
      using readTime_NotFound [of L c KeyNotBefore e] by (simp add: CheckNotBeforeReady_def NotBefore_def)
  next
    case (Inr n)
    then have "fmlookup c KeyNotBefore \<noteq> None" by (rule nbf.get_present)
    with Inr show ?thesis by (simp add: CheckNotBeforeReady_def time_simps not_less)
  qed
qed

end
