(* ===== verification/Keys.thy ===== *)
theory Keys
  imports Jwt_Model
begin

text \<open>
  Package \<open>keys\<close>: generating, loading, validating and saving key material, and \<open>PublicKeyFunc\<close>, the
  key function that pins a token's algorithm. The cryptographic primitives, the PEM and X.509 codecs
  and the random source are the fields of \<open>crypto\<close>; the file system is an explicit store.
\<close>

section \<open>The cryptographic library\<close>

record crypto =
  ecdsa_GenerateKey :: "curve \<Rightarrow> ecdsa_private result"
  rsa_GenerateKey :: "int \<Rightarrow> rsa_private result"
  ed25519_GenerateKey :: "(string \<times> string) result"
  sha256_Sum256 :: "string \<Rightarrow> string"
  ecdsa_Sign :: "ecdsa_private \<Rightarrow> string \<Rightarrow> (nat \<times> nat) result"
  ecdsa_Verify :: "ecdsa_public \<Rightarrow> string \<Rightarrow> nat \<Rightarrow> nat \<Rightarrow> bool"
  rsa_SignPKCS1v15 :: "rsa_private \<Rightarrow> string \<Rightarrow> string result"
  rsa_VerifyPKCS1v15 :: "rsa_public \<Rightarrow> string \<Rightarrow> string \<Rightarrow> gerror option"
  ed25519_Sign :: "string \<Rightarrow> string \<Rightarrow> string"
  ed25519_Verify :: "string \<Rightarrow> string \<Rightarrow> string \<Rightarrow> bool"
  ParseECPrivateKeyFromPEM :: "string \<Rightarrow> ecdsa_private result"
  ParseECPublicKeyFromPEM :: "string \<Rightarrow> ecdsa_public result"
  ParseRSAPrivateKeyFromPEM :: "string \<Rightarrow> rsa_private result"
  ParseRSAPublicKeyFromPEM :: "string \<Rightarrow> rsa_public result"
  ParseEdPrivateKeyFromPEM :: "string \<Rightarrow> pkey result"
  ParseEdPublicKeyFromPEM :: "string \<Rightarrow> pkey result"
  MarshalECPrivateKey :: "ecdsa_private option \<Rightarrow> string result"
  MarshalPKCS1PrivateKey :: "rsa_private option \<Rightarrow> string"
  MarshalPKCS8PrivateKey :: "pkey \<Rightarrow> string result"
  MarshalPKIXPublicKey :: "pkey \<Rightarrow> string result"
  pem_EncodeToMemory :: "string \<Rightarrow> string \<Rightarrow> string"

section \<open>Key functions and pair validation\<close>

definition asymmetric :: "smethod \<Rightarrow> bool" where
  "asymmetric m =
    (case m of SigningMethodECDSA _ _ \<Rightarrow> True | SigningMethodRSA _ \<Rightarrow> True
     | SigningMethodRSAPSS _ \<Rightarrow> True | SigningMethodEd25519 _ \<Rightarrow> True | _ \<Rightarrow> False)"

definition public_key_func :: "smethod \<Rightarrow> pkey \<Rightarrow> keyfunc" where
  "public_key_func m pub tok =
    (let got = Alg (t_method tok) in
     if got = [] then Inl [ErrInvalidValue]
     else if asymmetric (t_method tok) then
       (if got \<noteq> Alg m then Inl [ErrInvalidMethod] else Inr pub)
     else Inl [ErrInvalidMethod])"

definition PublicKeyFunc :: "smethod option \<Rightarrow> pkey option \<Rightarrow> keyfunc result" where
  "PublicKeyFunc meth publicKey =
    (case meth of
       None \<Rightarrow> Inl [ErrInvalidValue]
     | Some m \<Rightarrow>
         if Alg m = [] then Inl [ErrInvalidValue]
         else (case publicKey of
                 None \<Rightarrow> Inl [ErrInvalidValue]
               | Some k \<Rightarrow>
                   if is_public_key k then Inr (public_key_func m k)
                   else Inl [ErrInvalidType]))"

definition ValidateECDSAPair :: "crypto \<Rightarrow> ecdsa_public option \<Rightarrow> ecdsa_private option \<Rightarrow> gerror option" where
  "ValidateECDSAPair C publicKey privateKey =
    (case (publicKey, privateKey) of
       (None, _) \<Rightarrow> Some [ErrInvalidValue]
     | (Some _, None) \<Rightarrow> Some [ErrInvalidValue]
     | (Some pub, Some priv) \<Rightarrow>
         let h = sha256_Sum256 C ''jwtmint ECDSA pair validation'' in
         (case ecdsa_Sign C priv h of
            Inl e \<Rightarrow> Some (ErrSign # e)
          | Inr (r, s) \<Rightarrow> if ecdsa_Verify C pub h r s then None else Some [ErrInvalidKeyPair]))"

definition ValidateRSAPair :: "crypto \<Rightarrow> rsa_public option \<Rightarrow> rsa_private option \<Rightarrow> gerror option" where
  "ValidateRSAPair C publicKey privateKey =
    (case (publicKey, privateKey) of
       (None, _) \<Rightarrow> Some [ErrInvalidValue]
     | (Some _, None) \<Rightarrow> Some [ErrInvalidValue]
     | (Some pub, Some priv) \<Rightarrow>
         let h = sha256_Sum256 C ''jwtmint RSA pair validation'' in
         (case rsa_SignPKCS1v15 C priv h of
            Inl e \<Rightarrow> Some (ErrSign # e)
          | Inr sig \<Rightarrow> (case rsa_VerifyPKCS1v15 C pub h sig of
                          Some e \<Rightarrow> Some (ErrInvalidKeyPair # e)
                        | None \<Rightarrow> None)))"

definition Ed25519PublicKeySize :: nat where "Ed25519PublicKeySize = 32"
definition Ed25519PrivateKeySize :: nat where "Ed25519PrivateKeySize = 64"

definition ValidateEd25519Pair :: "crypto \<Rightarrow> string \<Rightarrow> string \<Rightarrow> gerror option" where
  "ValidateEd25519Pair C publicKey privateKey =
    (if length publicKey \<noteq> Ed25519PublicKeySize then Some [ErrInvalidSize]
     else if length privateKey \<noteq> Ed25519PrivateKeySize then Some [ErrInvalidSize]
     else let msg = ''jwtmint Ed25519 pair validation''; sig = ed25519_Sign C privateKey msg in
          if ed25519_Verify C publicKey msg sig then None else Some [ErrInvalidKeyPair])"

definition ValidatePair :: "crypto \<Rightarrow> pkey option \<Rightarrow> pkey option \<Rightarrow> gerror option" where
  "ValidatePair C publicKey privateKey =
    (case privateKey of
       Some (EcdsaPrivate priv) \<Rightarrow>
         (case publicKey of Some (EcdsaPublic pub) \<Rightarrow> ValidateECDSAPair C pub priv | _ \<Rightarrow> Some [ErrInvalidType])
     | Some (RsaPrivate priv) \<Rightarrow>
         (case publicKey of Some (RsaPublic pub) \<Rightarrow> ValidateRSAPair C pub priv | _ \<Rightarrow> Some [ErrInvalidType])
     | Some (Ed25519Private priv) \<Rightarrow>
         (case publicKey of Some (Ed25519Public pub) \<Rightarrow> ValidateEd25519Pair C pub priv | _ \<Rightarrow> Some [ErrInvalidType])
     | _ \<Rightarrow> Some [ErrInvalidType])"

text \<open>The method argument is an interface value that may hold any method type.\<close>

definition ValidateECDSAMethodAndKey :: "smethod option \<Rightarrow> ecdsa_private option \<Rightarrow> gerror option" where
  "ValidateECDSAMethodAndKey meth signingKey =
    (case meth of
       None \<Rightarrow> Some [ErrInvalidValue]
     | Some m \<Rightarrow>
         (case signingKey of
            None \<Rightarrow> Some [ErrInvalidValue]
          | Some k \<Rightarrow>
              (case m of
                 SigningMethodECDSA alg curveBits \<Rightarrow>
                   if curveBits \<noteq> BitSize (ec_curve (ec_pub k)) then Some [ErrInvalidSize] else None
               | _ \<Rightarrow> Some [ErrInvalidMethod])))"

definition curveForECDSAMethod :: "int \<Rightarrow> curve result" where
  "curveForECDSAMethod curveBits =
    (if curveBits = 256 then Inr P256
     else if curveBits = 384 then Inr P384
     else if curveBits = 521 then Inr P521
     else Inl [ErrInvalidSize])"

section \<open>Generation\<close>

definition GenerateECDSA :: "crypto \<Rightarrow> curve option \<Rightarrow> (ecdsa_private \<times> ecdsa_public) result" where
  "GenerateECDSA C cv =
    (case cv of
       None \<Rightarrow> Inl [ErrInvalidValue]
     | Some c \<Rightarrow> (case ecdsa_GenerateKey C c of
                   Inl e \<Rightarrow> Inl (ErrInvalidValue # e)
                 | Inr priv \<Rightarrow> Inr (priv, ec_pub priv)))"

text \<open>The argument is the \<open>CurveBits\<close> of a \<open>*jwt.SigningMethodECDSA\<close>, \<open>None\<close> for a nil pointer.\<close>

definition GenerateECDSAForMethod :: "crypto \<Rightarrow> int option \<Rightarrow> (ecdsa_private \<times> ecdsa_public) result" where
  "GenerateECDSAForMethod C meth =
    (case meth of
       None \<Rightarrow> Inl [ErrInvalidValue]
     | Some bits \<Rightarrow> (case curveForECDSAMethod bits of
                      Inl e \<Rightarrow> Inl e
                    | Inr cv \<Rightarrow> GenerateECDSA C (Some cv)))"

definition MinRSABits :: int where "MinRSABits = 2048"

definition GenerateRSA :: "crypto \<Rightarrow> int \<Rightarrow> (rsa_private \<times> rsa_public) result" where
  "GenerateRSA C bits =
    (if bits < MinRSABits then Inl [ErrInvalidSize]
     else (case rsa_GenerateKey C bits of
             Inl e \<Rightarrow> Inl (ErrInvalidValue # e)
           | Inr priv \<Rightarrow> Inr (priv, rsa_pub priv)))"

definition GenerateEd25519 :: "crypto \<Rightarrow> (string \<times> string) result" where
  "GenerateEd25519 C =
    (case ed25519_GenerateKey C of
       Inl e \<Rightarrow> Inl (ErrInvalidValue # e)
     | Inr (pub, priv) \<Rightarrow> Inr (priv, pub))"

section \<open>Loading\<close>

definition load_pem :: "(string \<Rightarrow> 'a result) \<Rightarrow> string \<Rightarrow> 'a result" where
  "load_pem parse pem =
    (if pem = [] then Inl [ErrInvalidValue]
     else (case parse pem of Inl e \<Rightarrow> Inl (ErrParse # e) | Inr key \<Rightarrow> Inr key))"

definition LoadECDSAPrivateFromPEM :: "crypto \<Rightarrow> string \<Rightarrow> ecdsa_private result" where
  "LoadECDSAPrivateFromPEM C pem = load_pem (ParseECPrivateKeyFromPEM C) pem"

definition LoadECDSAPublicFromPEM :: "crypto \<Rightarrow> string \<Rightarrow> ecdsa_public result" where
  "LoadECDSAPublicFromPEM C pem = load_pem (ParseECPublicKeyFromPEM C) pem"

definition LoadRSAPrivateFromPEM :: "crypto \<Rightarrow> string \<Rightarrow> rsa_private result" where
  "LoadRSAPrivateFromPEM C pem = load_pem (ParseRSAPrivateKeyFromPEM C) pem"

definition LoadRSAPublicFromPEM :: "crypto \<Rightarrow> string \<Rightarrow> rsa_public result" where
  "LoadRSAPublicFromPEM C pem = load_pem (ParseRSAPublicKeyFromPEM C) pem"

definition LoadEd25519PrivateFromPEM :: "crypto \<Rightarrow> string \<Rightarrow> string result" where
  "LoadEd25519PrivateFromPEM C pem =
    (case load_pem (ParseEdPrivateKeyFromPEM C) pem of
       Inl e \<Rightarrow> Inl e
     | Inr raw \<Rightarrow> (case raw of Ed25519Private priv \<Rightarrow> Inr priv | _ \<Rightarrow> Inl [ErrInvalidType]))"

definition LoadEd25519PublicFromPEM :: "crypto \<Rightarrow> string \<Rightarrow> string result" where
  "LoadEd25519PublicFromPEM C pem =
    (case load_pem (ParseEdPublicKeyFromPEM C) pem of
       Inl e \<Rightarrow> Inl e
     | Inr raw \<Rightarrow> (case raw of Ed25519Public pub \<Rightarrow> Inr pub | _ \<Rightarrow> Inl [ErrInvalidType]))"

section \<open>Encoding and files\<close>

definition BlockTypeECPrivate :: string where "BlockTypeECPrivate = ''EC PRIVATE KEY''"
definition BlockTypeRSAPrivate :: string where "BlockTypeRSAPrivate = ''RSA PRIVATE KEY''"
definition BlockTypePKCS8Private :: string where "BlockTypePKCS8Private = ''PRIVATE KEY''"
definition BlockTypePublic :: string where "BlockTypePublic = ''PUBLIC KEY''"
definition PrivateKeyFilePerm :: nat where "PrivateKeyFilePerm = 384"
definition PublicKeyFilePerm :: nat where "PublicKeyFilePerm = 420"

definition EncodePrivateKeyPEM :: "crypto \<Rightarrow> pkey option \<Rightarrow> string result" where
  "EncodePrivateKeyPEM C privateKey =
    (case privateKey of
       Some (EcdsaPrivate k) \<Rightarrow>
         (case MarshalECPrivateKey C k of
            Inl e \<Rightarrow> Inl (ErrEncode # e)
          | Inr der \<Rightarrow> Inr (pem_EncodeToMemory C BlockTypeECPrivate der))
     | Some (RsaPrivate k) \<Rightarrow> Inr (pem_EncodeToMemory C BlockTypeRSAPrivate (MarshalPKCS1PrivateKey C k))
     | Some (Ed25519Private k) \<Rightarrow>
         (case MarshalPKCS8PrivateKey C (Ed25519Private k) of
            Inl e \<Rightarrow> Inl (ErrEncode # e)
          | Inr der \<Rightarrow> Inr (pem_EncodeToMemory C BlockTypePKCS8Private der))
     | _ \<Rightarrow> Inl [ErrInvalidType])"

definition EncodePublicKeyPEM :: "crypto \<Rightarrow> pkey option \<Rightarrow> string result" where
  "EncodePublicKeyPEM C publicKey =
    (case publicKey of
       None \<Rightarrow> Inl [ErrInvalidType]
     | Some k \<Rightarrow>
         if \<not> is_public_key k then Inl [ErrInvalidType]
         else (case MarshalPKIXPublicKey C k of
                 Inl e \<Rightarrow> Inl (ErrEncode # e)
               | Inr der \<Rightarrow> Inr (pem_EncodeToMemory C BlockTypePublic der)))"

text \<open>
  The file system: contents and permission bits by name. \<open>os.WriteFile\<close> truncates an existing file
  and keeps its permissions; the mode applies to a file it creates. \<open>fail\<close> is the error the
  operating system reports for a name, if any.
\<close>

type_synonym files = "(string, string \<times> nat) fmap"

definition os_WriteFile :: "(string \<Rightarrow> gerror option) \<Rightarrow> string \<Rightarrow> string \<Rightarrow> nat \<Rightarrow> files \<Rightarrow> gerror option \<times> files" where
  "os_WriteFile fail name data perm fs =
    (case fail name of
       Some e \<Rightarrow> (Some e, fs)
     | None \<Rightarrow>
         let mode = (case fmlookup fs name of Some (_, old) \<Rightarrow> old | None \<Rightarrow> perm)
         in (None, fmupd name (data, mode) fs))"

definition SavePrivateKey :: "crypto \<Rightarrow> (string \<Rightarrow> gerror option) \<Rightarrow> string \<Rightarrow> pkey option \<Rightarrow> files \<Rightarrow> gerror option \<times> files" where
  "SavePrivateKey C fail fileName privateKey fs =
    (case EncodePrivateKeyPEM C privateKey of
       Inl e \<Rightarrow> (Some e, fs)
     | Inr data \<Rightarrow>
         (case os_WriteFile fail fileName data PrivateKeyFilePerm fs of
            (Some e, fs') \<Rightarrow> (Some (ErrWrite # e), fs')
          | (None, fs') \<Rightarrow> (None, fs')))"

definition SavePublicKey :: "crypto \<Rightarrow> (string \<Rightarrow> gerror option) \<Rightarrow> string \<Rightarrow> pkey option \<Rightarrow> files \<Rightarrow> gerror option \<times> files" where
  "SavePublicKey C fail fileName publicKey fs =
    (case EncodePublicKeyPEM C publicKey of
       Inl e \<Rightarrow> (Some e, fs)
     | Inr data \<Rightarrow>
         (case os_WriteFile fail fileName data PublicKeyFilePerm fs of
            (Some e, fs') \<Rightarrow> (Some (ErrWrite # e), fs')
          | (None, fs') \<Rightarrow> (None, fs')))"

definition os_ReadFile :: "string \<Rightarrow> files \<Rightarrow> string result" where
  "os_ReadFile name fs = (case fmlookup fs name of None \<Rightarrow> Inl [ErrExternal ''os''] | Some (data, _) \<Rightarrow> Inr data)"

definition ReadPEMFile :: "string \<Rightarrow> files \<Rightarrow> string result" where
  "ReadPEMFile fileName fs =
    (case os_ReadFile fileName fs of
       Inl e \<Rightarrow> Inl (ErrRead # e)
     | Inr data \<Rightarrow> if data = [] then Inl [ErrInvalidValue] else Inr data)"

definition DecodeBase64PEM :: "string \<Rightarrow> string result" where
  "DecodeBase64PEM encoded =
    (if encoded = [] then Inl [ErrInvalidValue]
     else (case Std_DecodeString encoded of
             None \<Rightarrow> Inl [ErrDecode, ErrExternal ''base64'']
           | Some decoded \<Rightarrow> Inr decoded))"

end
