(* ===== verification/Signing.thy ===== *)
theory Signing
  imports Claims_Facts Keys
begin

text \<open>
  Package \<open>signing\<close>: the signing method table, the key check, signer construction by options, and
  the signing core \<open>signWith\<close> that copies the claims, applies the defaults, attaches the headers and
  signs. The clock read and the generated identifier of a call are its arguments \<open>now\<close> and \<open>uuid\<close>.
\<close>

section \<open>Methods\<close>

definition SigningMethod :: "string \<Rightarrow> smethod result" where
  "SigningMethod alg =
    (if alg = [] then Inl [ErrInvalidMethod]
     else if alg = Alg SigningMethodES256 then Inr SigningMethodES256
     else if alg = Alg SigningMethodES384 then Inr SigningMethodES384
     else if alg = Alg SigningMethodES512 then Inr SigningMethodES512
     else if alg = Alg SigningMethodRS256 then Inr SigningMethodRS256
     else if alg = Alg SigningMethodRS384 then Inr SigningMethodRS384
     else if alg = Alg SigningMethodRS512 then Inr SigningMethodRS512
     else if alg = Alg SigningMethodPS256 then Inr SigningMethodPS256
     else if alg = Alg SigningMethodPS384 then Inr SigningMethodPS384
     else if alg = Alg SigningMethodPS512 then Inr SigningMethodPS512
     else if alg = Alg SigningMethodEdDSA then Inr SigningMethodEdDSA
     else if alg = ''HS256'' \<or> alg = ''HS384'' \<or> alg = ''HS512'' then Inl [ErrInvalidMethod]
     else Inl [ErrInvalidMethod])"

definition validateMethodAndKey :: "smethod option \<Rightarrow> pkey option \<Rightarrow> gerror option" where
  "validateMethodAndKey meth signingKey =
    (case meth of
       None \<Rightarrow> Some [ErrInvalidValue]
     | Some m \<Rightarrow>
         if Alg m = [] then Some [ErrInvalidValue]
         else (case signingKey of
                 None \<Rightarrow> Some [ErrInvalidValue]
               | Some k \<Rightarrow>
                   (case m of
                      SigningMethodECDSA _ _ \<Rightarrow>
                        (case k of EcdsaPrivate priv \<Rightarrow> ValidateECDSAMethodAndKey (Some m) priv
                         | _ \<Rightarrow> Some [ErrInvalidType])
                    | SigningMethodRSA _ \<Rightarrow>
                        (case k of RsaPrivate _ \<Rightarrow> None | _ \<Rightarrow> Some [ErrInvalidType])
                    | SigningMethodRSAPSS _ \<Rightarrow>
                        (case k of RsaPrivate _ \<Rightarrow> None | _ \<Rightarrow> Some [ErrInvalidType])
                    | SigningMethodEd25519 _ \<Rightarrow>
                        (case k of Ed25519Private _ \<Rightarrow> None | _ \<Rightarrow> Some [ErrInvalidType])
                    | _ \<Rightarrow> Some [ErrInvalidMethod])))"

section \<open>Signers and their options\<close>

definition DefaultExpiration :: duration where "DefaultExpiration = Hour"
definition DefaultIssuer :: string where "DefaultIssuer = ''jwtmint''"
definition DefaultTyp :: string where "DefaultTyp = ''JWT''"
definition HeaderKeyAlg :: string where "HeaderKeyAlg = ''alg''"
definition HeaderKeyTyp :: string where "HeaderKeyTyp = ''typ''"

record signer =
  s_method :: smethod
  signingKey :: pkey
  staticHeaders :: headers
  staticClaims :: mapclaims
  expiration :: duration
  issuer :: string
  s_typ :: string

type_synonym signer_opt = "signer \<Rightarrow> signer result"

definition WithStaticHeaders :: "headers \<Rightarrow> signer_opt" where
  "WithStaticHeaders h s =
    (if fmlookup h HeaderKeyAlg \<noteq> None then Inl [ErrReservedHeader] else Inr (s\<lparr>staticHeaders := h\<rparr>))"

definition WithStaticClaims :: "mapclaims \<Rightarrow> signer_opt" where
  "WithStaticClaims c s = Inr (s\<lparr>staticClaims := c\<rparr>)"

definition WithDefaultExpiration :: "duration \<Rightarrow> signer_opt" where
  "WithDefaultExpiration d s = (if d \<le> 0 then Inl [ErrInvalidValue] else Inr (s\<lparr>expiration := d\<rparr>))"

definition WithDefaultIssuer :: "string \<Rightarrow> signer_opt" where
  "WithDefaultIssuer iss s = (if iss = [] then Inl [ErrInvalidValue] else Inr (s\<lparr>issuer := iss\<rparr>))"

definition WithDefaultTyp :: "string \<Rightarrow> signer_opt" where
  "WithDefaultTyp t s = (if t = [] then Inl [ErrInvalidValue] else Inr (s\<lparr>s_typ := t\<rparr>))"

definition NewSigner :: "smethod option \<Rightarrow> pkey option \<Rightarrow> signer_opt list \<Rightarrow> signer result" where
  "NewSigner meth key opts =
    (case validateMethodAndKey meth key of
       Some e \<Rightarrow> Inl e
     | None \<Rightarrow>
         (case (meth, key) of
            (Some m, Some k) \<Rightarrow>
              apply_opts opts
                \<lparr>s_method = m, signingKey = k, staticHeaders = fmempty, staticClaims = fmempty,
                 expiration = DefaultExpiration, issuer = DefaultIssuer, s_typ = DefaultTyp\<rparr>
          | _ \<Rightarrow> Inl [ErrInvalidValue]))"

section \<open>Signing\<close>

definition mergeHeaders :: "headers \<Rightarrow> headers \<Rightarrow> headers" where
  "mergeHeaders static perCall =
    (if static = fmempty \<and> perCall = fmempty then fmempty else fmadd static perCall)"

definition mergedClaims :: "lib \<Rightarrow> signer \<Rightarrow> mapclaims \<Rightarrow> mapclaims" where
  "mergedClaims L s c =
    (if staticClaims s = fmempty then c else fmadd (DeepCopy L (staticClaims s)) c)"

text \<open>The steps of \<open>signWith\<close> on the copied claims, in the order of the code.\<close>

definition default_exp :: "lib \<Rightarrow> gtime \<Rightarrow> duration \<Rightarrow> mapclaims \<Rightarrow> mapclaims result" where
  "default_exp L now d c =
    (case ExpiresAt L c of
       Inr ex \<Rightarrow> if time_Before ex now then Inl [ErrExpired] else Inr (SetExpiresAt L c ex)
     | Inl _ \<Rightarrow> Inr (SetExpiresAt L c (time_Add now d)))"

definition default_iat :: "lib \<Rightarrow> gtime \<Rightarrow> mapclaims \<Rightarrow> mapclaims result" where
  "default_iat L now c =
    (case IssuedAt L c of
       Inr iat \<Rightarrow> if time_After iat now then Inl [ErrNotReady] else Inr (SetIssuedAt L c iat)
     | Inl _ \<Rightarrow> Inr (SetIssuedAt L c now))"

definition default_nbf :: "lib \<Rightarrow> gtime \<Rightarrow> mapclaims \<Rightarrow> mapclaims" where
  "default_nbf L now c =
    (case NotBefore L c of Inr nbf \<Rightarrow> SetNotBefore L c nbf | Inl _ \<Rightarrow> SetNotBefore L c now)"

definition default_iss :: "string \<Rightarrow> mapclaims \<Rightarrow> mapclaims result" where
  "default_iss iss c =
    (case Issuer c of
       Inr _ \<Rightarrow> Inr c
     | Inl e \<Rightarrow>
         if errors_Is e ErrNotFound then Inr (SetIssuer c iss)
         else if \<not> errors_Is e ErrEmptyValue then Inl (ErrInvalidClaims # e)
         else Inr c)"

definition default_jti :: "string \<Rightarrow> mapclaims \<Rightarrow> mapclaims" where
  "default_jti uuid c =
    (case ID c of Inl e \<Rightarrow> if errors_Is e ErrNotFound then SetID c (VString uuid) else c | Inr _ \<Rightarrow> c)"

definition sign_claims :: "lib \<Rightarrow> gtime \<Rightarrow> string \<Rightarrow> mapclaims \<Rightarrow> duration \<Rightarrow> string \<Rightarrow> mapclaims result" where
  "sign_claims L now uuid inc defaultExp defaultIss =
    (case default_exp L now defaultExp (if inc = fmempty then fmempty else DeepCopy L inc) of
       Inl e \<Rightarrow> Inl e
     | Inr c1 \<Rightarrow>
         (case default_iat L now c1 of
            Inl e \<Rightarrow> Inl e
          | Inr c2 \<Rightarrow>
              (case default_iss defaultIss (default_nbf L now c2) of
                 Inl e \<Rightarrow> Inl e
               | Inr c3 \<Rightarrow> Inr (default_jti uuid c3))))"

definition sign_header :: "headers \<Rightarrow> string \<Rightarrow> headers \<Rightarrow> headers" where
  "sign_header h defaultTyp libHeader =
    fmadd (if fmlookup h HeaderKeyTyp = None then fmupd HeaderKeyTyp (VString defaultTyp) libHeader else libHeader) h"

definition signWith ::
  "lib \<Rightarrow> gtime \<Rightarrow> string \<Rightarrow> smethod \<Rightarrow> pkey \<Rightarrow> headers \<Rightarrow> mapclaims \<Rightarrow> duration \<Rightarrow> string \<Rightarrow> string
   \<Rightarrow> (string \<times> token) result" where
  "signWith L now uuid m key h inc defaultExp defaultIss defaultTyp =
    (case sign_claims L now uuid inc defaultExp defaultIss of
       Inl e \<Rightarrow> Inl e
     | Inr c \<Rightarrow>
         let tok = newWithClaims L m c;
             tok = tok\<lparr>t_header := sign_header h defaultTyp (t_header tok)\<rparr>
         in (case signedString L tok key of
               Inl e \<Rightarrow> Inl (ErrSign # e)
             | Inr signed \<Rightarrow> Inr (signed, tok)))"

definition Sign :: "lib \<Rightarrow> gtime \<Rightarrow> string \<Rightarrow> signer \<Rightarrow> ctx_err \<Rightarrow> mapclaims \<Rightarrow> headers \<Rightarrow> (string \<times> token) result" where
  "Sign L now uuid s ctx c h =
    (case ctx of
       Some e \<Rightarrow> Inl e
     | None \<Rightarrow>
         if fmlookup h HeaderKeyAlg \<noteq> None then Inl [ErrReservedHeader]
         else signWith L now uuid (s_method s) (signingKey s) (mergeHeaders (staticHeaders s) h)
                (mergedClaims L s c) (expiration s) (issuer s) (s_typ s))"

definition Signed :: "lib \<Rightarrow> gtime \<Rightarrow> string \<Rightarrow> smethod option \<Rightarrow> pkey option \<Rightarrow> headers \<Rightarrow> mapclaims \<Rightarrow> (string \<times> token) result" where
  "Signed L now uuid meth key h c =
    (case validateMethodAndKey meth key of
       Some e \<Rightarrow> Inl e
     | None \<Rightarrow>
         if fmlookup h HeaderKeyAlg \<noteq> None then Inl [ErrReservedHeader]
         else (case (meth, key) of
                 (Some m, Some k) \<Rightarrow> signWith L now uuid m k h c DefaultExpiration DefaultIssuer DefaultTyp
               | _ \<Rightarrow> Inl [ErrInvalidValue]))"

text \<open>
  \<open>SignedWithExpiration\<close> writes \<open>exp\<close> into the map of the caller (a nil map is replaced by a local
  one), so the model returns that map too. It reads the clock twice: \<open>now1\<close> for \<open>exp\<close>, then \<open>now2\<close>.
\<close>

definition SignedWithExpiration ::
  "lib \<Rightarrow> gtime \<Rightarrow> gtime \<Rightarrow> string \<Rightarrow> duration \<Rightarrow> smethod option \<Rightarrow> pkey option \<Rightarrow> headers \<Rightarrow> mapclaims option
   \<Rightarrow> (string \<times> token) result \<times> mapclaims option" where
  "SignedWithExpiration L now1 now2 uuid d meth key h c =
    (if d \<le> 0 then (Inl [ErrInvalidParam], c)
     else (case validateMethodAndKey meth key of
             Some e \<Rightarrow> (Inl e, c)
           | None \<Rightarrow>
               if fmlookup h HeaderKeyAlg \<noteq> None then (Inl [ErrReservedHeader], c)
               else
                 let c' = fmupd KeyExpiresAt (VNumericDatePtr (Some (newNumericDate L (time_Add now1 d))))
                            (case c of None \<Rightarrow> fmempty | Some m \<Rightarrow> m)
                 in (case (meth, key) of
                       (Some m, Some k) \<Rightarrow>
                         (signWith L now2 uuid m k h c' d DefaultIssuer DefaultTyp, map_option (\<lambda>_. c') c)
                     | _ \<Rightarrow> (Inl [ErrInvalidValue], c))))"

section \<open>Headers and claims in the context\<close>

record sign_ctx =
  sc_err :: ctx_err
  sc_headers :: "headers option"
  sc_claims :: "mapclaims option"

definition WrapContextHeaders :: "sign_ctx \<Rightarrow> headers \<Rightarrow> sign_ctx" where
  "WrapContextHeaders ctx h = ctx\<lparr>sc_headers := Some h\<rparr>"

definition UnwrapContextHeaders :: "sign_ctx \<Rightarrow> headers" where
  "UnwrapContextHeaders ctx = (case sc_headers ctx of None \<Rightarrow> fmempty | Some h \<Rightarrow> h)"

definition WrapContextClaims :: "sign_ctx \<Rightarrow> mapclaims \<Rightarrow> sign_ctx" where
  "WrapContextClaims ctx c = ctx\<lparr>sc_claims := Some c\<rparr>"

definition UnwrapContextClaims :: "sign_ctx \<Rightarrow> mapclaims" where
  "UnwrapContextClaims ctx = (case sc_claims ctx of None \<Rightarrow> fmempty | Some c \<Rightarrow> c)"

definition SignedFromContext :: "lib \<Rightarrow> gtime \<Rightarrow> string \<Rightarrow> sign_ctx \<Rightarrow> smethod option \<Rightarrow> pkey option \<Rightarrow> (string \<times> token) result" where
  "SignedFromContext L now uuid ctx meth key =
    (case sc_err ctx of
       Some e \<Rightarrow> Inl e
     | None \<Rightarrow> Signed L now uuid meth key (UnwrapContextHeaders ctx) (UnwrapContextClaims ctx))"

end
