(* ===== verification/Signing_Facts.thy ===== *)
theory Signing_Facts
  imports Signing
begin

text \<open>
  What a signer promises: the method table accepts the ten asymmetric methods and nothing else, a
  constructed signer is well formed, and a signed token has the method, headers and claims the
  defaults and precedence rules prescribe.
\<close>

section \<open>Methods and keys\<close>

lemma SigningMethod_iff: "SigningMethod alg = Inr m \<longleftrightarrow> m \<in> set std_methods \<and> Alg m = alg"
proof
  show "m \<in> set std_methods \<and> Alg m = alg" if "SigningMethod alg = Inr m"
    using that by (simp add: SigningMethod_def std_methods_def split: if_splits)
  have "list_all (\<lambda>m. SigningMethod (Alg m) = Inr m) std_methods" by code_simp
  then show "SigningMethod alg = Inr m" if "m \<in> set std_methods \<and> Alg m = alg"
    using that by (auto simp: list_all_iff)
qed

text \<open>The key family a method needs, with the curve size for ECDSA.\<close>

fun key_fits :: "smethod \<Rightarrow> pkey \<Rightarrow> bool" where
  "key_fits (SigningMethodECDSA _ bits) (EcdsaPrivate (Some k)) = (bits = BitSize (ec_curve (ec_pub k)))"
| "key_fits (SigningMethodRSA _) (RsaPrivate _) = True"
| "key_fits (SigningMethodRSAPSS _) (RsaPrivate _) = True"
| "key_fits (SigningMethodEd25519 _) (Ed25519Private _) = True"
| "key_fits _ _ = False"

lemma validateMethodAndKey_None:
  "validateMethodAndKey meth key = None \<longleftrightarrow>
    (\<exists>m k. meth = Some m \<and> key = Some k \<and> Alg m \<noteq> [] \<and> key_fits m k)"
  by (auto simp: validateMethodAndKey_def ValidateECDSAMethodAndKey_def
      split: option.splits smethod.splits pkey.splits if_splits)

lemma key_fits_asymmetric: "key_fits m k \<Longrightarrow> asymmetric m"
  by (cases "(m, k)" rule: key_fits.cases) (auto simp: asymmetric_def)

section \<open>Construction\<close>

definition signer_wf :: "signer \<Rightarrow> bool" where
  "signer_wf s \<longleftrightarrow>
    fmlookup (staticHeaders s) HeaderKeyAlg = None \<and> 0 < expiration s \<and> issuer s \<noteq> [] \<and> s_typ s \<noteq> [] \<and>
    Alg (s_method s) \<noteq> [] \<and> key_fits (s_method s) (signingKey s)"

inductive signer_option :: "signer_opt \<Rightarrow> bool" where
  "signer_option (WithStaticHeaders h)"
| "signer_option (WithStaticClaims c)"
| "signer_option (WithDefaultExpiration d)"
| "signer_option (WithDefaultIssuer iss)"
| "signer_option (WithDefaultTyp t)"

interpretation signer_opts: opts_invariant "\<lambda>s. signer_wf s \<and> s_method s = m \<and> signingKey s = k" signer_option for m k
  by unfold_locales
    (auto elim!: signer_option.cases simp: signer_wf_def WithStaticHeaders_def WithStaticClaims_def
      WithDefaultExpiration_def WithDefaultIssuer_def WithDefaultTyp_def split: if_splits)

section \<open>The effect of the defaults\<close>

abbreviation date :: "gtime \<Rightarrow> gval" where
  "date t \<equiv> VNumericDatePtr (Some t)"

lemma Timestamp_truncated: "numericDate_spec L \<Longrightarrow> Timestamp L v = Inr t \<Longrightarrow> trunc_second t = t"
  by (cases "(L, v)" rule: Timestamp.cases)
    (auto simp: TimeFromFloat_def parseStringToNumericDate_def nonzero_date_def Let_def numericDate_spec_def
       split: if_splits option.splits float64.splits)

lemma readTime_truncated: "numericDate_spec L \<Longrightarrow> readTime L c k = Inr t \<Longrightarrow> trunc_second t = t"
  by (auto simp: readTime_def split: option.splits if_splits dest: Timestamp_truncated)

lemma newNumericDate_truncated [simp]: "numericDate_spec L \<Longrightarrow> newNumericDate L t = trunc_second t"
  by (simp add: numericDate_spec_def)

lemma default_exp_Inr:
  assumes "numericDate_spec L" "default_exp L now d c = Inr c'"
  shows "\<exists>e. c' = fmupd KeyExpiresAt (date e) c \<and>
    (case ExpiresAt L c of Inr x \<Rightarrow> e = x \<and> now \<le> e | Inl _ \<Rightarrow> e = trunc_second (now + d))"
  using assms readTime_truncated [OF assms(1)]
  by (auto simp: default_exp_def SetExpiresAt_def ExpiresAt_def time_simps split: sum.splits if_splits)

lemma default_iat_Inr:
  assumes "numericDate_spec L" "default_iat L now c = Inr c'"
  shows "\<exists>i. c' = fmupd KeyIssuedAt (date i) c \<and>
    (case IssuedAt L c of Inr x \<Rightarrow> i = x \<and> i \<le> now | Inl _ \<Rightarrow> i = trunc_second now)"
  using assms readTime_truncated [OF assms(1)]
  by (auto simp: default_iat_def SetIssuedAt_def IssuedAt_def time_simps split: sum.splits if_splits)

lemma default_nbf_eq:
  assumes "numericDate_spec L"
  shows "default_nbf L now c = fmupd KeyNotBefore
    (date (case NotBefore L c of Inr x \<Rightarrow> x | Inl _ \<Rightarrow> trunc_second now)) c"
  using assms readTime_truncated [OF assms]
  by (auto simp: default_nbf_def SetNotBefore_def NotBefore_def split: sum.splits)

lemma default_iss_Inr:
  "default_iss iss c = Inr c' \<Longrightarrow>
    c' = (if fmlookup c KeyIssuer = None then fmupd KeyIssuer (VString iss) c else c)"
  using readString_NotFound [of c KeyIssuer]
  by (auto simp: default_iss_def SetIssuer_def Issuer_def readString_def split: sum.splits if_splits option.splits)

lemma default_jti_eq:
  "default_jti uuid c = (if fmlookup c KeyID = None then fmupd KeyID (VString uuid) c else c)"
  using readString_NotFound [of c KeyID]
  by (auto simp: default_jti_def SetID_def ID_def readString_def split: sum.splits option.splits)

text \<open>The claims a token is signed with, given the copied input claims.\<close>

definition signed_claims :: "lib \<Rightarrow> gtime \<Rightarrow> string \<Rightarrow> duration \<Rightarrow> string \<Rightarrow> mapclaims \<Rightarrow> mapclaims \<Rightarrow> bool" where
  "signed_claims L now uuid d iss c0 c \<longleftrightarrow>
    (\<exists>e. fmlookup c KeyExpiresAt = Some (date e) \<and>
      (case ExpiresAt L c0 of Inr x \<Rightarrow> e = x \<and> now \<le> e | Inl _ \<Rightarrow> e = trunc_second (now + d))) \<and>
    (\<exists>i. fmlookup c KeyIssuedAt = Some (date i) \<and>
      (case IssuedAt L c0 of Inr x \<Rightarrow> i = x \<and> i \<le> now | Inl _ \<Rightarrow> i = trunc_second now)) \<and>
    fmlookup c KeyNotBefore =
      Some (date (case NotBefore L c0 of Inr x \<Rightarrow> x | Inl _ \<Rightarrow> trunc_second now)) \<and>
    fmlookup c KeyIssuer = (case fmlookup c0 KeyIssuer of None \<Rightarrow> Some (VString iss) | Some v \<Rightarrow> Some v) \<and>
    fmlookup c KeyID = (case fmlookup c0 KeyID of None \<Rightarrow> Some (VString uuid) | Some v \<Rightarrow> Some v) \<and>
    (\<forall>k. k \<notin> {KeyExpiresAt, KeyIssuedAt, KeyNotBefore, KeyIssuer, KeyID} \<longrightarrow> fmlookup c k = fmlookup c0 k)"

lemma IssuedAt_upd_exp: "IssuedAt L (fmupd KeyExpiresAt v c) = IssuedAt L c"
  by (rule iat.get_local) (simp add: key_defs)

lemma NotBefore_upd: "NotBefore L (fmupd KeyIssuedAt w (fmupd KeyExpiresAt v c)) = NotBefore L c"
  by (rule nbf.get_local) (simp add: key_defs)

lemma sign_claims_Inr:
  assumes "numericDate_spec L" "sign_claims L now uuid inc d iss = Inr c"
  shows "signed_claims L now uuid d iss (DeepCopy L inc) c"
proof -
  let ?c0 = "DeepCopy L inc"
  have c0: "(if inc = fmempty then fmempty else ?c0) = ?c0" by (simp add: DeepCopy_def)
  from assms(2) obtain c1 c2 c3 where
    1: "default_exp L now d ?c0 = Inr c1" and 2: "default_iat L now c1 = Inr c2"
    and 3: "default_iss iss (default_nbf L now c2) = Inr c3" and c: "c = default_jti uuid c3"
    unfolding sign_claims_def c0 by (auto split: sum.splits)
  obtain e where e: "c1 = fmupd KeyExpiresAt (date e) ?c0"
    "case ExpiresAt L ?c0 of Inr x \<Rightarrow> e = x \<and> now \<le> e | Inl _ \<Rightarrow> e = trunc_second (now + d)"
    using default_exp_Inr [OF assms(1) 1] by blast
  obtain i where i: "c2 = fmupd KeyIssuedAt (date i) c1"
    "case IssuedAt L ?c0 of Inr x \<Rightarrow> i = x \<and> i \<le> now | Inl _ \<Rightarrow> i = trunc_second now"
    using default_iat_Inr [OF assms(1) 2] by (auto simp: e(1) IssuedAt_upd_exp)
  define n where "n = (case NotBefore L ?c0 of Inr x \<Rightarrow> x | Inl _ \<Rightarrow> trunc_second now)"
  have n: "default_nbf L now c2 = fmupd KeyNotBefore (date n) c2"
    using default_nbf_eq [OF assms(1)] by (simp add: n_def i(1) e(1) NotBefore_upd)
  define d2 where "d2 = fmupd KeyNotBefore (date n) c2"
  have d2: "fmlookup d2 k = (if k = KeyNotBefore then Some (date n) else if k = KeyIssuedAt then Some (date i)
      else if k = KeyExpiresAt then Some (date e) else fmlookup ?c0 k)" for k
    by (simp add: d2_def i(1) e(1))
  from 3 n have "default_iss iss d2 = Inr c3" by (simp add: d2_def)
  then have c3: "c3 = (if fmlookup d2 KeyIssuer = None then fmupd KeyIssuer (VString iss) d2 else d2)"
    by (rule default_iss_Inr)
  have look: "fmlookup c k = (if k = KeyID \<and> fmlookup ?c0 KeyID = None then Some (VString uuid)
      else if k = KeyIssuer \<and> fmlookup ?c0 KeyIssuer = None then Some (VString iss) else fmlookup d2 k)" for k
    by (auto simp add: c default_jti_eq c3 d2 simp del: DeepCopy_lookup_None)
  show ?thesis
    unfolding signed_claims_def n_def [symmetric] look d2
    using e(2) i(2) by (simp del: DeepCopy_lookup_None split: option.splits)
qed

section \<open>Signed tokens\<close>

definition typ_header :: "signer \<Rightarrow> headers \<Rightarrow> gval" where
  "typ_header s h =
    (case fmlookup h HeaderKeyTyp of Some v \<Rightarrow> v
     | None \<Rightarrow> (case fmlookup (staticHeaders s) HeaderKeyTyp of Some v \<Rightarrow> v | None \<Rightarrow> VString (s_typ s)))"

lemma mergeHeaders_lookup:
  "fmlookup (mergeHeaders st h) k = (case fmlookup h k of Some v \<Rightarrow> Some v | None \<Rightarrow> fmlookup st k)"
  by (auto simp: mergeHeaders_def fmdom'I fmdomI split: option.splits)

lemma sign_header_lookup:
  "fmlookup (sign_header h t lh) k =
    (case fmlookup h k of Some v \<Rightarrow> Some v
     | None \<Rightarrow> if k = HeaderKeyTyp then Some (VString t) else fmlookup lh k)"
  by (auto simp: sign_header_def fmdomI split: option.splits)

lemma Sign_Inr:
  assumes "Sign L now uuid s ctx c h = Inr (str, tok)"
  obtains c' where "ctx = None" "fmlookup h HeaderKeyAlg = None"
    "sign_claims L now uuid (mergedClaims L s c) (expiration s) (issuer s) = Inr c'"
    "tok = (newWithClaims L (s_method s) c')\<lparr>t_header :=
       sign_header (mergeHeaders (staticHeaders s) h) (s_typ s) (t_header (newWithClaims L (s_method s) c'))\<rparr>"
    "signedString L tok (signingKey s) = Inr str"
  using assms by (auto simp: Sign_def signWith_def Let_def split: option.splits if_splits sum.splits)

text \<open>The \<open>Signer\<close> interface as its clients use it.\<close>

locale token_signer =
  fixes sign :: "ctx_err \<Rightarrow> mapclaims \<Rightarrow> headers \<Rightarrow> (string \<times> token) result"
  assumes cancelled: "sign (Some e) c h = Inl e"
    and reserved_alg: "fmlookup h ''alg'' \<noteq> None \<Longrightarrow> sign None c h = Inl [ErrReservedHeader]"
    and header_kept: "sign ctx c h = Inr (str, tok) \<Longrightarrow> fmlookup h k = Some v \<Longrightarrow> fmlookup (t_header tok) k = Some v"
begin

lemma signed_needs_context: "sign ctx c h = Inr r \<Longrightarrow> ctx = None"
  using cancelled by (cases ctx) auto

lemma signed_no_alg: "sign ctx c h = Inr r \<Longrightarrow> fmlookup h ''alg'' = None"
  using reserved_alg signed_needs_context by (metis Inl_Inr_False)

end

interpretation sign: token_signer "Sign L now uuid s" for L now uuid s
proof
  show "fmlookup (t_header tok) k = Some v"
    if "Sign L now uuid s ctx c h = Inr (str, tok)" "fmlookup h k = Some v" for ctx c h str tok k v
    using that(1) by (rule Sign_Inr) (simp add: sign_header_lookup mergeHeaders_lookup that(2))
qed (simp_all add: Sign_def HeaderKeyAlg_def)

section \<open>Properties\<close>

lemma NewSigner_Inr:
  assumes "NewSigner meth key opts = Inr s" "\<forall>opt \<in> set opts. signer_option opt"
  shows "signer_wf s \<and> meth = Some (s_method s) \<and> key = Some (signingKey s)"
proof -
  from assms(1) have v: "validateMethodAndKey meth key = None"
    by (auto simp: NewSigner_def split: option.splits)
  then obtain m k where mk: "meth = Some m" "key = Some k" "Alg m \<noteq> []" "key_fits m k"
    by (auto simp: validateMethodAndKey_None)
  let ?s0 = "\<lparr>s_method = m, signingKey = k, staticHeaders = fmempty, staticClaims = fmempty,
     expiration = DefaultExpiration, issuer = DefaultIssuer, s_typ = DefaultTyp\<rparr>"
  have "apply_opts opts ?s0 = Inr s" using assms(1) v mk by (simp add: NewSigner_def)
  moreover have "signer_wf ?s0 \<and> s_method ?s0 = m \<and> signingKey ?s0 = k"
    using mk by (simp add: signer_wf_def DefaultExpiration_def DefaultIssuer_def DefaultTyp_def Hour_def Minute_def)
  ultimately have "signer_wf s \<and> s_method s = m \<and> signingKey s = k"
    using assms(2) signer_opts.apply_opts_keeps by metis
  with mk show ?thesis by simp
qed

text \<open>C30. A constructed signer is well formed: it signs with an asymmetric method and a private key of
  that method's family (for ECDSA on the curve of the method's size), carries no static "alg" header,
  and its default lifetime is positive and its default issuer and typ are not empty.\<close>

theorem new_signer_well_formed:
  assumes "NewSigner meth key opts = Inr s" "\<forall>opt \<in> set opts. signer_option opt"
  shows "signer_wf s \<and> meth = Some (s_method s) \<and> key = Some (signingKey s) \<and> asymmetric (s_method s)"
  using NewSigner_Inr [OF assms] key_fits_asymmetric by (auto simp: signer_wf_def)

definition demo_signer :: signer where
  "demo_signer = \<lparr>s_method = SigningMethodEdDSA, signingKey = Ed25519Private [], staticHeaders = fmempty,
     staticClaims = fmempty, expiration = Minute, issuer = DefaultIssuer, s_typ = DefaultTyp\<rparr>"

lemma NewSigner_demo:
  "NewSigner (Some SigningMethodEdDSA) (Some (Ed25519Private [])) [WithDefaultExpiration Minute] = Inr demo_signer"
  by (simp add: NewSigner_def validateMethodAndKey_def method_consts WithDefaultExpiration_def Minute_def
      Second_def demo_signer_def)

theorem new_signer_well_formed_witness:
  "signer_wf demo_signer \<and> asymmetric (s_method demo_signer)"
  using new_signer_well_formed [OF NewSigner_demo] by (auto intro: signer_option.intros)

lemma Sign_post:
  assumes "numericDate_spec L" "newWithClaims_spec L" "signer_wf s"
    "Sign L now uuid s ctx c h = Inr (str, tok)"
  shows "t_method tok = s_method s \<and>
    fmlookup (t_header tok) HeaderKeyAlg = Some (VString (Alg (s_method s))) \<and>
    fmlookup (t_header tok) HeaderKeyTyp = Some (typ_header s h) \<and>
    signed_claims L now uuid (expiration s) (issuer s) (DeepCopy L (mergedClaims L s c)) (t_claims tok) \<and>
    signedString L tok (signingKey s) = Inr str"
  using assms(4)
proof (rule Sign_Inr)
  fix c'
  assume a: "fmlookup h HeaderKeyAlg = None"
    "sign_claims L now uuid (mergedClaims L s c) (expiration s) (issuer s) = Inr c'"
    "tok = (newWithClaims L (s_method s) c')\<lparr>t_header :=
       sign_header (mergeHeaders (staticHeaders s) h) (s_typ s) (t_header (newWithClaims L (s_method s) c'))\<rparr>"
    "signedString L tok (signingKey s) = Inr str"
  have n: "t_method (newWithClaims L (s_method s) c') = s_method s" "t_claims (newWithClaims L (s_method s) c') = c'"
    "t_header (newWithClaims L (s_method s) c') =
      fmupd ''alg'' (VString (Alg (s_method s))) (fmupd ''typ'' (VString ''JWT'') fmempty)"
    using assms(2) by (simp_all add: newWithClaims_spec_def)
  have "fmlookup (staticHeaders s) HeaderKeyAlg = None" using assms(3) by (simp add: signer_wf_def)
  then have "fmlookup (t_header tok) HeaderKeyAlg = Some (VString (Alg (s_method s)))"
    using a by (simp add: sign_header_lookup mergeHeaders_lookup n HeaderKeyAlg_def HeaderKeyTyp_def)
  moreover have "fmlookup (t_header tok) HeaderKeyTyp = Some (typ_header s h)"
    by (simp add: a(3) sign_header_lookup mergeHeaders_lookup typ_header_def split: option.splits)
  ultimately show ?thesis
    using sign_claims_Inr [OF assms(1) a(2)] a(3,4) n by simp
qed

lemma Sign_header:
  assumes "newWithClaims_spec L" "Sign L now uuid s ctx c h = Inr (str, tok)" "k \<notin> {''alg'', ''typ''}"
  shows "fmlookup (t_header tok) k = (case fmlookup h k of Some v \<Rightarrow> Some v | None \<Rightarrow> fmlookup (staticHeaders s) k)"
  using assms(2)
proof (rule Sign_Inr)
  fix c'
  assume "tok = (newWithClaims L (s_method s) c')\<lparr>t_header :=
    sign_header (mergeHeaders (staticHeaders s) h) (s_typ s) (t_header (newWithClaims L (s_method s) c'))\<rparr>"
  then show ?thesis
    using assms(1,3) by (auto simp: sign_header_lookup mergeHeaders_lookup newWithClaims_spec_def HeaderKeyTyp_def split: option.split)
qed

lemma signed_dates:
  assumes "numericDate_spec L" "signed_claims L now uuid d iss c0 c"
  shows "\<exists>e n. fmlookup c ''exp'' = Some (date e) \<and> fmlookup c ''nbf'' = Some (date n) \<and> trunc_second e = e \<and> trunc_second n = n"
proof -
  obtain e where "fmlookup c ''exp'' = Some (date e)"
    "case ExpiresAt L c0 of Inr x \<Rightarrow> e = x \<and> now \<le> e | Inl _ \<Rightarrow> e = trunc_second (now + d)"
    using assms(2) unfolding signed_claims_def by (auto simp: key_defs)
  moreover have "fmlookup c ''nbf'' = Some (date (case NotBefore L c0 of Inr x \<Rightarrow> x | Inl _ \<Rightarrow> trunc_second now))"
    using assms(2) by (simp add: signed_claims_def key_defs)
  ultimately show ?thesis
    using readTime_truncated [OF assms(1)] by (auto simp: ExpiresAt_def NotBefore_def split: sum.splits)
qed

text \<open>Values that survive JSON give a token that does: the dates and texts a signer adds always survive.\<close>

lemma json_rt_trunc_date: "numericDate_spec L \<Longrightarrow> trunc_second t = t \<Longrightarrow> json_rt L (date t) \<noteq> None"
  by (simp add: numericDate_spec_def json_opt_def float_of_int_def json_float_def)

lemma SetExpiresAt_json_ok: "numericDate_spec L \<Longrightarrow> json_ok L c \<Longrightarrow> json_ok L (SetExpiresAt L c t)"
  unfolding SetExpiresAt_def by (rule json_ok_upd) (simp_all add: numericDate_spec_def json_opt_def float_of_int_def json_float_def)

lemma date_claims_truncated:
  assumes "numericDate_spec L" "signed_claims L now uuid d iss c0 c" "k \<in> {KeyExpiresAt, KeyIssuedAt, KeyNotBefore}"
  shows "\<exists>t. fmlookup c k = Some (date t) \<and> trunc_second t = t"
proof -
  note tr = readTime_truncated [OF assms(1)]
  have e: "\<exists>t. fmlookup c KeyExpiresAt = Some (date t) \<and> trunc_second t = t"
    using assms(2) tr unfolding signed_claims_def ExpiresAt_def by (fastforce split: sum.splits)
  have i: "\<exists>t. fmlookup c KeyIssuedAt = Some (date t) \<and> trunc_second t = t"
    using assms(2) tr unfolding signed_claims_def IssuedAt_def by (fastforce split: sum.splits)
  have n: "\<exists>t. fmlookup c KeyNotBefore = Some (date t) \<and> trunc_second t = t"
    using assms(2) tr unfolding signed_claims_def NotBefore_def by (fastforce split: sum.splits)
  show ?thesis using assms(3) e i n by blast
qed

lemma signed_claims_json_ok:
  assumes "numericDate_spec L" "signed_claims L now uuid d iss c0 c" "json_ok L c0"
  shows "json_ok L c"
proof (rule json_okI)
  fix k v
  assume v: "fmlookup c k = Some v"
  consider "k \<in> {KeyExpiresAt, KeyIssuedAt, KeyNotBefore}" | "k = KeyIssuer \<or> k = KeyID"
    | "k \<notin> {KeyExpiresAt, KeyIssuedAt, KeyNotBefore, KeyIssuer, KeyID}" by blast
  then show "json_rt L v \<noteq> None"
  proof cases
    case 1
    then show ?thesis using date_claims_truncated [OF assms(1,2)] v json_rt_trunc_date [OF assms(1)] by fastforce
  next
    case 2
    then have "(\<exists>x. v = VString x) \<or> fmlookup c0 k = Some v"
      using assms(2) v unfolding signed_claims_def by (auto split: option.splits)
    then show ?thesis using json_okD [OF assms(3)] by fastforce
  next
    case 3
    then have "fmlookup c0 k = Some v" using assms(2) v unfolding signed_claims_def by auto
    then show ?thesis using json_okD [OF assms(3)] by fastforce
  qed
qed

lemma Sign_json_ok:
  assumes lib: "numericDate_spec L" "newWithClaims_spec L" and wf: "signer_wf s"
    and sign: "Sign L now uuid s ctx c h = Inr (str, tok)"
    and ok: "json_ok L (staticClaims s)" "json_ok L c" "json_ok L (staticHeaders s)" "json_ok L h"
  shows "json_ok L (t_claims tok)" "json_ok L (t_header tok)"
proof -
  have "json_ok L (mergedClaims L s c)"
  proof (rule json_okI)
    fix k v
    assume "fmlookup (mergedClaims L s c) k = Some v"
    then have "fmlookup c k = Some v \<or> fmlookup (DeepCopy L (staticClaims s)) k = Some v"
      by (auto simp: mergedClaims_def split: if_splits)
    then show "json_rt L v \<noteq> None" using json_okD [OF ok(2)] json_okD [OF json_ok_DeepCopy [OF ok(1)]] by fastforce
  qed
  then have "json_ok L (DeepCopy L (mergedClaims L s c))" by (rule json_ok_DeepCopy)
  then show "json_ok L (t_claims tok)"
    using signed_claims_json_ok [OF lib(1)] Sign_post [OF lib wf sign] by blast
  show "json_ok L (t_header tok)"
  proof (rule json_okI)
    fix k v
    assume v: "fmlookup (t_header tok) k = Some v"
    show "json_rt L v \<noteq> None"
    proof (cases "k \<in> {''alg'', ''typ''}")
      case False
      then have "fmlookup h k = Some v \<or> fmlookup (staticHeaders s) k = Some v"
        using Sign_header [OF lib(2) sign] v by (auto split: option.splits)
      then show ?thesis using json_okD [OF ok(3)] json_okD [OF ok(4)] by fastforce
    next
      case True
      then have "(\<exists>x. v = VString x) \<or> fmlookup h k = Some v \<or> fmlookup (staticHeaders s) k = Some v"
        using Sign_post [OF lib wf sign] v by (auto simp: HeaderKeyAlg_def HeaderKeyTyp_def typ_header_def split: option.splits)
      then show ?thesis using json_okD [OF ok(3)] json_okD [OF ok(4)] by fastforce
    qed
  qed
qed

text \<open>C4. What a successful Sign returns: the token has the signer's method, the true "alg" header, the typ
  header of the call, else of the signer's static headers, else the default; its claims are the merged
  input with exp, iat, nbf, iss and jti completed (a readable exp is kept and is not in the past, a
  readable iat is kept and is not in the future), and the string is the signature of that token.\<close>

theorem sign_postcondition:
  assumes "numericDate_spec L" "newWithClaims_spec L" "signer_wf s"
    "Sign L now uuid s ctx c h = Inr (str, tok)"
  shows "t_method tok = s_method s \<and>
    fmlookup (t_header tok) HeaderKeyAlg = Some (VString (Alg (s_method s))) \<and>
    fmlookup (t_header tok) HeaderKeyTyp = Some (typ_header s h) \<and>
    signed_claims L now uuid (expiration s) (issuer s) (DeepCopy L (mergedClaims L s c)) (t_claims tok) \<and>
    signedString L tok (signingKey s) = Inr str"
  using assms by (rule Sign_post)

definition demo_sign_lib :: lib where
  "demo_sign_lib = mk_lib (\<lambda>_. Inl []) (\<lambda>_ _ _. False) (\<lambda>_ _. Inr ''a.b.c'') (\<lambda>_ _. False)"

lemma Sign_demo:
  "\<exists>tok. Sign demo_sign_lib 1700000000000000000 ''u'' demo_signer None fmempty fmempty = Inr (''a.b.c'', tok)"
  by (simp add: Sign_def demo_sign_lib_def demo_signer_def signWith_def Let_def sign_claims_def mergedClaims_def
      default_exp_def default_iat_def default_nbf_def default_iss_def default_jti_def
      claims_defs readTime_def readString_def)

theorem sign_postcondition_witness:
  "\<exists>tok. fmlookup (t_header tok) HeaderKeyAlg = Some (VString ''EdDSA'') \<and>
    signedString demo_sign_lib tok (Ed25519Private []) = Inr ''a.b.c''"
proof -
  have wf: "signer_wf demo_signer"
    using NewSigner_Inr [OF NewSigner_demo] by (simp add: signer_option.intros)
  obtain tok where "Sign demo_sign_lib 1700000000000000000 ''u'' demo_signer None fmempty fmempty = Inr (''a.b.c'', tok)"
    using Sign_demo by blast
  from sign_postcondition [OF _ _ wf this] show ?thesis
    by (auto simp: demo_sign_lib_def demo_signer_def method_consts)
qed

text \<open>Sign refuses a cancelled context with its error, a per-call "alg" header as reserved, an exp
  that is in the past as expired, and an iat that is in the future as not ready.\<close>

theorem sign_rejections:
  "Sign L now uuid s (Some e) c h = Inl e \<and>
   (fmlookup h HeaderKeyAlg \<noteq> None \<longrightarrow> Sign L now uuid s None c h = Inl [ErrReservedHeader]) \<and>
   (fmlookup h HeaderKeyAlg = None \<and> ExpiresAt L (DeepCopy L (mergedClaims L s c)) = Inr x \<and> x < now \<longrightarrow>
     Sign L now uuid s None c h = Inl [ErrExpired]) \<and>
   (fmlookup h HeaderKeyAlg = None \<and> (\<forall>x. ExpiresAt L (DeepCopy L (mergedClaims L s c)) = Inr x \<longrightarrow> now \<le> x) \<and>
     IssuedAt L (DeepCopy L (mergedClaims L s c)) = Inr i \<and> now < i \<longrightarrow>
     Sign L now uuid s None c h = Inl [ErrNotReady])"
proof -
  have c0: "(if m = fmempty then fmempty else DeepCopy L m) = DeepCopy L m" for m by (simp add: DeepCopy_def)
  have iat: "IssuedAt L (SetExpiresAt L m t) = IssuedAt L m" for m t
    by (simp add: SetExpiresAt_def IssuedAt_upd_exp)
  show ?thesis
    by (auto simp: Sign_def signWith_def sign_claims_def c0 default_exp_def default_iat_def time_simps iat
      split: sum.splits)
qed

theorem sign_rejections_witness:
  "Sign no_lib 5 ''u'' demo_signer None fmempty (fmupd HeaderKeyAlg (VString ''none'') fmempty) = Inl [ErrReservedHeader]"
  using sign_rejections [of no_lib 5 "''u''" demo_signer "[]" fmempty "fmupd HeaderKeyAlg (VString ''none'') fmempty"]
  by simp

text \<open>The method table: an algorithm name is accepted exactly when it is one of the ten asymmetric
  JWS algorithms, and every accepted method is of an asymmetric family, so HMAC and none are refused.\<close>

theorem signing_method_table:
  "(SigningMethod alg = Inr m \<longleftrightarrow> m \<in> set std_methods \<and> Alg m = alg) \<and>
   (\<exists>e. SigningMethod alg = Inl e \<and> errors_Is e ErrInvalidMethod) = (alg \<notin> Alg ` set std_methods) \<and>
   list_all asymmetric std_methods"
proof (intro conjI)
  show "list_all asymmetric std_methods" by code_simp
  show "(\<exists>e. SigningMethod alg = Inl e \<and> errors_Is e ErrInvalidMethod) = (alg \<notin> Alg ` set std_methods)"
  proof (cases "SigningMethod alg")
    case (Inl e)
    then have "e = [ErrInvalidMethod]" by (auto simp: SigningMethod_def split: if_splits)
    moreover have "alg \<notin> Alg ` set std_methods" using Inl SigningMethod_iff [of alg] by auto
    ultimately show ?thesis using Inl by simp
  next
    case (Inr m)
    then show ?thesis using SigningMethod_iff [of alg m] by auto
  qed
qed (rule SigningMethod_iff)

end
