(* ===== verification/Revocation.thy ===== *)
theory Revocation
  imports Claims_Facts
begin

text \<open>
  Package \<open>revocation\<close>: the \<open>Revoker\<close> interface, the in-memory revoker and chains of revokers. The
  methods of \<open>MemRevoker\<close> hold its mutex, so a concurrent execution is a sequence of atomic
  operations; \<open>run_ops\<close> runs such a sequence. Clock reads are arguments.
\<close>

type_synonym revoker = "ctx_err \<Rightarrow> token option \<Rightarrow> bool result"
type_synonym key_extractor = "token \<Rightarrow> string option"

section \<open>Key extractors\<close>

definition claim_key :: "lib \<Rightarrow> (mapclaims \<Rightarrow> string result) \<Rightarrow> key_extractor" where
  "claim_key L get tok =
    (case ToMapClaims L (AMapClaims (Some (t_claims tok))) of
       Inl _ \<Rightarrow> None
     | Inr mc \<Rightarrow>
         (case get (case mc of None \<Rightarrow> fmempty | Some c \<Rightarrow> c) of
            Inl _ \<Rightarrow> None
          | Inr k \<Rightarrow> if k = [] then None else Some k))"

definition JTIExtractor :: "lib \<Rightarrow> key_extractor" where
  "JTIExtractor L tok = claim_key L JTI tok"

definition SubjectExtractor :: "lib \<Rightarrow> key_extractor" where
  "SubjectExtractor L tok = claim_key L Subject tok"

section \<open>The in-memory revoker\<close>

record mem_revoker =
  revoked :: "(string, gtime) fmap"
  keyFn :: key_extractor

type_synonym mem_opt = "mem_revoker \<Rightarrow> mem_revoker result"

definition WithKeyExtractor :: "key_extractor option \<Rightarrow> mem_opt" where
  "WithKeyExtractor fn m = (case fn of None \<Rightarrow> Inl [ErrInvalidValue] | Some f \<Rightarrow> Inr (m\<lparr>keyFn := f\<rparr>))"

definition NewMemRevoker :: "lib \<Rightarrow> mem_opt list \<Rightarrow> mem_revoker result" where
  "NewMemRevoker L opts = apply_opts opts \<lparr>revoked = fmempty, keyFn = JTIExtractor L\<rparr>"

definition RevokeUntil :: "string \<Rightarrow> gtime \<Rightarrow> mem_revoker \<Rightarrow> mem_revoker" where
  "RevokeUntil key until m = (if key = [] then m else m\<lparr>revoked := fmupd key until (revoked m)\<rparr>)"

definition Revoke :: "string \<Rightarrow> mem_revoker \<Rightarrow> mem_revoker" where
  "Revoke key m = RevokeUntil key zero_time m"

definition Unrevoke :: "string \<Rightarrow> mem_revoker \<Rightarrow> mem_revoker" where
  "Unrevoke key m = m\<lparr>revoked := fmdrop key (revoked m)\<rparr>"

definition lapsed :: "gtime \<Rightarrow> gtime \<Rightarrow> bool" where
  "lapsed now until \<longleftrightarrow> \<not> time_IsZero until \<and> \<not> time_Before now until"

definition reapable :: "gtime \<Rightarrow> mem_revoker \<Rightarrow> string fset" where
  "reapable now m = ffilter (\<lambda>k. case fmlookup (revoked m) k of Some until \<Rightarrow> lapsed now until | None \<Rightarrow> False)
     (fmdom (revoked m))"

definition Cleanup :: "gtime \<Rightarrow> mem_revoker \<Rightarrow> nat \<times> mem_revoker" where
  "Cleanup now m =
    (fcard (reapable now m), m\<lparr>revoked := fmfilter (\<lambda>k. k |\<notin>| reapable now m) (revoked m)\<rparr>)"

definition Len :: "mem_revoker \<Rightarrow> nat" where
  "Len m = fcard (fmdom (revoked m))"

definition Revoked :: "gtime \<Rightarrow> mem_revoker \<Rightarrow> revoker" where
  "Revoked now m ctx tok =
    (case tok of
       None \<Rightarrow> Inl [ErrInvalidValue]
     | Some t \<Rightarrow>
         (case keyFn m t of
            None \<Rightarrow> Inr False
          | Some key \<Rightarrow>
              (case fmlookup (revoked m) key of
                 None \<Rightarrow> Inr False
               | Some until \<Rightarrow>
                   if \<not> time_IsZero until \<and> \<not> time_Before now until then Inr False else Inr True)))"

section \<open>Chains\<close>

fun chain_revoked :: "revoker option list \<Rightarrow> revoker" where
  "chain_revoked [] ctx tok = Inr False"
| "chain_revoked (None # rs) ctx tok = chain_revoked rs ctx tok"
| "chain_revoked (Some r # rs) ctx tok =
    (case r ctx tok of
       Inl e \<Rightarrow> Inl (ErrCheck # e)
     | Inr b \<Rightarrow> if b then Inr True else chain_revoked rs ctx tok)"

definition Chain :: "revoker option list \<Rightarrow> revoker" where
  "Chain revokers = chain_revoked revokers"

section \<open>Operation sequences\<close>

datatype mem_op = OpRevoke string | OpRevokeUntil string gtime | OpUnrevoke string | OpCleanup gtime

primrec run_op :: "mem_op \<Rightarrow> mem_revoker \<Rightarrow> mem_revoker" where
  "run_op (OpRevoke k) m = Revoke k m"
| "run_op (OpRevokeUntil k t) m = RevokeUntil k t m"
| "run_op (OpUnrevoke k) m = Unrevoke k m"
| "run_op (OpCleanup now) m = snd (Cleanup now m)"

definition run_ops :: "mem_op list \<Rightarrow> mem_revoker \<Rightarrow> mem_revoker" where
  "run_ops ops m = fold run_op ops m"

section \<open>The abstract denylist\<close>

text \<open>
  The contract of a denylist: which keys are denied at an instant. Entries are denied until an
  instant or forever; reaping at an instant changes no answer from then on.
\<close>

locale denylist =
  fixes denied :: "'s \<Rightarrow> gtime \<Rightarrow> string \<Rightarrow> bool"
    and deny_until :: "string \<Rightarrow> gtime \<Rightarrow> 's \<Rightarrow> 's"
    and allow :: "string \<Rightarrow> 's \<Rightarrow> 's"
    and reap :: "gtime \<Rightarrow> 's \<Rightarrow> 's"
  assumes denied_deny: "k \<noteq> [] \<Longrightarrow> denied (deny_until k until s) t k \<longleftrightarrow> until = zero_time \<or> t < until"
    and deny_frame: "j \<noteq> k \<Longrightarrow> denied (deny_until k until s) t j \<longleftrightarrow> denied s t j"
    and denied_allow: "denied (allow k s) t j \<longleftrightarrow> j \<noteq> k \<and> denied s t j"
    and denied_reap: "now \<le> t \<Longrightarrow> denied (reap now s) t j \<longleftrightarrow> denied s t j"
    and denied_antimono: "denied s t j \<Longrightarrow> u \<le> t \<Longrightarrow> denied s u j"
begin

lemma deny_forever: "k \<noteq> [] \<Longrightarrow> denied (deny_until k zero_time s) t k"
  by (simp add: denied_deny)

lemma deny_then_allow: "\<not> denied (allow k (deny_until k until s)) t k"
  by (simp add: denied_allow)

lemma deny_lapses: "k \<noteq> [] \<Longrightarrow> until \<noteq> zero_time \<Longrightarrow> until \<le> t \<Longrightarrow> \<not> denied (deny_until k until s) t k"
  by (simp add: denied_deny)

lemma denied_after_reap: "denied (reap now s) t j \<Longrightarrow> now \<le> t \<Longrightarrow> denied s t j"
  by (simp add: denied_reap)

end

text \<open>What the entries of a revoker say of a key at an instant.\<close>

definition key_revoked :: "mem_revoker \<Rightarrow> gtime \<Rightarrow> string \<Rightarrow> bool" where
  "key_revoked m t k = (case fmlookup (revoked m) k of None \<Rightarrow> False | Some until \<Rightarrow> \<not> lapsed t until)"

lemma lapsed_mono: "lapsed now until \<Longrightarrow> now \<le> t \<Longrightarrow> lapsed t until"
  by (simp add: lapsed_def time_simps)

lemma reapable_iff: "k |\<in>| reapable now m \<longleftrightarrow> (\<exists>until. fmlookup (revoked m) k = Some until \<and> lapsed now until)"
  by (auto simp: reapable_def fmdomI split: option.splits)

lemma key_revoked_Cleanup:
  assumes "now \<le> t"
  shows "key_revoked (snd (Cleanup now m)) t k = key_revoked m t k"
  using lapsed_mono [OF _ assms]
  by (auto simp: key_revoked_def Cleanup_def reapable_iff split: option.splits)

interpretation mem: denylist key_revoked RevokeUntil Unrevoke "\<lambda>now m. snd (Cleanup now m)"
proof
  show "key_revoked (RevokeUntil k until s) t k \<longleftrightarrow> until = zero_time \<or> t < until" if "k \<noteq> []" for k until s t
    using that by (simp add: key_revoked_def RevokeUntil_def lapsed_def time_simps)
  show "key_revoked (RevokeUntil k until s) t j \<longleftrightarrow> key_revoked s t j" if "j \<noteq> k" for j k until s t
    using that by (simp add: key_revoked_def RevokeUntil_def)
  show "key_revoked (Unrevoke k s) t j \<longleftrightarrow> j \<noteq> k \<and> key_revoked s t j" for k s t j
    by (simp add: key_revoked_def Unrevoke_def)
  show "key_revoked (snd (Cleanup now s)) t j \<longleftrightarrow> key_revoked s t j" if "now \<le> t" for now s t j
    using that by (rule key_revoked_Cleanup)
  show "key_revoked s u j" if "key_revoked s t j" "u \<le> t" for s t j u
    using that by (auto simp: key_revoked_def lapsed_def time_simps split: option.splits)
qed

lemma Revoked_key: "keyFn m tok = Some k \<Longrightarrow> Revoked now m ctx (Some tok) = Inr (key_revoked m now k)"
  by (auto simp: Revoked_def key_revoked_def lapsed_def split: option.splits)

lemma keyFn_run_op [simp]: "keyFn (run_op op m) = keyFn m"
  by (cases op) (simp_all add: Revoke_def RevokeUntil_def Unrevoke_def Cleanup_def)

lemma keyFn_run_ops [simp]: "keyFn (run_ops ops m) = keyFn m"
  by (induction ops arbitrary: m) (simp_all add: run_ops_def)

lemma JTIExtractor_eq: "JTIExtractor L tok = (case JTI (t_claims tok) of Inl _ \<Rightarrow> None | Inr k \<Rightarrow> Some k)"
  by (auto simp: JTIExtractor_def claim_key_def ToMapClaims_def JTI_def ID_def readString_def
      split: sum.splits option.splits gval.splits if_splits)

text \<open>A key that is not mentioned by an allowing or a bounded operation stays revoked.\<close>

definition keeps_revoked :: "string \<Rightarrow> mem_op \<Rightarrow> bool" where
  "keeps_revoked k op =
    (case op of OpUnrevoke j \<Rightarrow> j \<noteq> k | OpRevokeUntil j t \<Rightarrow> j \<noteq> k \<or> t = zero_time | _ \<Rightarrow> True)"

definition revoked_forever :: "string \<Rightarrow> mem_revoker \<Rightarrow> bool" where
  "revoked_forever k m \<longleftrightarrow> fmlookup (revoked m) k = Some zero_time"

lemma run_op_forever: "keeps_revoked k op \<Longrightarrow> revoked_forever k m \<Longrightarrow> revoked_forever k (run_op op m)"
  by (cases op)
    (auto simp: keeps_revoked_def revoked_forever_def Revoke_def RevokeUntil_def Unrevoke_def Cleanup_def
      reapable_iff lapsed_def time_simps)

lemma run_ops_forever: "\<forall>op \<in> set ops. keeps_revoked k op \<Longrightarrow> revoked_forever k m \<Longrightarrow> revoked_forever k (run_ops ops m)"
  by (induction ops arbitrary: m) (simp_all add: run_ops_def run_op_forever)

lemma revoked_forever_Revoked:
  "revoked_forever k m \<Longrightarrow> keyFn m tok = Some k \<Longrightarrow> Revoked now m ctx (Some tok) = Inr True"
  by (simp add: Revoked_key key_revoked_def revoked_forever_def lapsed_def time_simps)

text \<open>The invariant of the map: no empty key.\<close>

definition mem_inv :: "mem_revoker \<Rightarrow> bool" where
  "mem_inv m \<longleftrightarrow> [] |\<notin>| fmdom (revoked m)"

lemma run_op_inv: "mem_inv m \<Longrightarrow> mem_inv (run_op op m)"
  by (cases op) (auto simp: mem_inv_def Revoke_def RevokeUntil_def Unrevoke_def Cleanup_def)

lemma run_ops_inv: "mem_inv m \<Longrightarrow> mem_inv (run_ops ops m)"
  by (induction ops arbitrary: m) (simp_all add: run_ops_def run_op_inv)

lemma Len_Cleanup: "fst (Cleanup now m) + Len (snd (Cleanup now m)) = Len m"
proof -
  let ?d = "fmdom (revoked m)" and ?r = "reapable now m"
  have sub: "?r |\<subseteq>| ?d" by (auto simp: reapable_def)
  have "fmdom (fmfilter (\<lambda>k. k |\<notin>| ?r) (revoked m)) = ?d |-| ?r" by auto
  then show ?thesis
    using sub by (simp add: Cleanup_def Len_def fcard_funion_fsubset fcard_mono)
qed

lemma chain_TrueD:
  "chain_revoked rs ctx tok = Inr True \<Longrightarrow>
    \<exists>ds r es. rs = ds @ Some r # es \<and> chain_revoked ds ctx tok = Inr False \<and> r ctx tok = Inr True"
proof (induction rs ctx tok rule: chain_revoked.induct)
  case (2 rs ctx tok)
  then obtain ds r es where "rs = ds @ Some r # es" "chain_revoked ds ctx tok = Inr False" "r ctx tok = Inr True" by auto
  then show ?case by (intro exI [of _ "None # ds"]) auto
next
  case (3 r rs ctx tok)
  show ?case
  proof (cases "r ctx tok = Inr True")
    case True
    then show ?thesis by (intro exI [of _ "[]"]) auto
  next
    case False
    with 3(2) have r: "r ctx tok = Inr False" "chain_revoked rs ctx tok = Inr True" by (auto split: sum.splits if_splits)
    from 3(1) [OF r(1) _ r(2)] obtain ds q es
      where "rs = ds @ Some q # es" "chain_revoked ds ctx tok = Inr False" "q ctx tok = Inr True"
      by blast
    with r show ?thesis by (intro exI [of _ "Some r # ds"]) auto
  qed
qed simp

lemma chain_TrueI:
  "chain_revoked ds ctx tok = Inr False \<Longrightarrow> r ctx tok = Inr True \<Longrightarrow> chain_revoked (ds @ Some r # es) ctx tok = Inr True"
  by (induction ds ctx tok rule: chain_revoked.induct) (auto split: sum.splits if_splits)

section \<open>Properties\<close>

text \<open>C20. Once a key is revoked, a token with that key is reported revoked at every later instant, whatever
  interleaving of other operations follows, as long as nobody lifts the revocation of that key or
  bounds it in time; clean-ups in particular never lift it.\<close>

theorem revoked_stays_revoked:
  assumes "k \<noteq> []" "keyFn m tok = Some k" "\<forall>op \<in> set ops. keeps_revoked k op"
  shows "Revoked now (run_ops ops (Revoke k m)) ctx (Some tok) = Inr True"
proof -
  have "revoked_forever k (Revoke k m)" using assms(1) by (simp add: revoked_forever_def Revoke_def RevokeUntil_def)
  with assms(3) have "revoked_forever k (run_ops ops (Revoke k m))" by (rule run_ops_forever)
  moreover have "keyFn (run_ops ops (Revoke k m)) tok = Some k"
    using assms(2) by (simp add: Revoke_def RevokeUntil_def)
  ultimately show ?thesis by (rule revoked_forever_Revoked)
qed

definition demo_token :: "mapclaims \<Rightarrow> token" where
  "demo_token c = \<lparr>t_method = SigningMethodEdDSA, t_header = fmempty, t_claims = c, t_signature = [], t_valid = True\<rparr>"

lemma NewMemRevoker_demo: "NewMemRevoker no_lib [] = Inr \<lparr>revoked = fmempty, keyFn = JTIExtractor no_lib\<rparr>"
  by (simp add: NewMemRevoker_def)

theorem revoked_stays_revoked_witness:
  "Revoked 99 (run_ops [OpCleanup 50, OpUnrevoke ''b''] (Revoke ''a'' \<lparr>revoked = fmempty, keyFn = JTIExtractor no_lib\<rparr>))
     None (Some (demo_token (fmupd KeyID (VString ''a'') fmempty))) = Inr True"
  by (rule revoked_stays_revoked)
    (simp_all add: JTIExtractor_eq demo_token_def JTI_def ID_def readString_def keeps_revoked_def)

text \<open>C32. Cleanup removes exactly the entries that have lapsed, returns their number, and changes no
  answer at that instant or later.\<close>

theorem cleanup_preserves_answers:
  assumes "now \<le> t"
  shows "Revoked t (snd (Cleanup now m)) ctx tok = Revoked t m ctx tok \<and>
    fst (Cleanup now m) + Len (snd (Cleanup now m)) = Len m \<and>
    (\<forall>k u. fmlookup (revoked (snd (Cleanup now m))) k = Some u \<longleftrightarrow>
       fmlookup (revoked m) k = Some u \<and> \<not> lapsed now u)"
proof (intro conjI allI)
  have k: "keyFn (snd (Cleanup now m)) = keyFn m" by (simp add: Cleanup_def)
  show "Revoked t (snd (Cleanup now m)) ctx tok = Revoked t m ctx tok"
  proof (cases "Option.bind tok (keyFn m)")
    case None
    then show ?thesis by (cases tok) (simp_all add: Revoked_def k)
  next
    case (Some key)
    then obtain tk where "tok = Some tk" "keyFn m tk = Some key" by (cases tok) auto
    then show ?thesis using k assms by (simp add: Revoked_key key_revoked_Cleanup)
  qed
  show "fst (Cleanup now m) + Len (snd (Cleanup now m)) = Len m" by (rule Len_Cleanup)
  show "fmlookup (revoked (snd (Cleanup now m))) k = Some u \<longleftrightarrow> fmlookup (revoked m) k = Some u \<and> \<not> lapsed now u" for k u
    by (auto simp: Cleanup_def reapable_iff)
qed

theorem cleanup_preserves_answers_witness:
  "Revoked 9 (snd (Cleanup 5 (RevokeUntil ''a'' 4 \<lparr>revoked = fmempty, keyFn = JTIExtractor no_lib\<rparr>))) None None =
   Revoked 9 (RevokeUntil ''a'' 4 \<lparr>revoked = fmempty, keyFn = JTIExtractor no_lib\<rparr>) None None"
  using cleanup_preserves_answers [of 5 9] by simp

text \<open>C19. The revoker implements the abstract denylist: after any sequence of operations from a fresh
  revoker the map holds no empty key, a bounded entry answers by its bound, lifting removes exactly
  its key, and tokens whose key cannot be extracted are not revoked.\<close>

theorem mem_revoker_refines_denylist:
  "mem_inv (run_ops ops \<lparr>revoked = fmempty, keyFn = f\<rparr>) \<and>
   (k \<noteq> [] \<and> keyFn m tok = Some k \<longrightarrow>
     Revoked now (RevokeUntil k until m) ctx (Some tok) = Inr (until = zero_time \<or> now < until)) \<and>
   (keyFn m tok = Some j \<longrightarrow>
     Revoked now (Unrevoke k m) ctx (Some tok) = Inr (j \<noteq> k \<and> key_revoked m now j)) \<and>
   (keyFn m tok = None \<longrightarrow> Revoked now m ctx (Some tok) = Inr False)"
proof (intro conjI impI)
  show "mem_inv (run_ops ops \<lparr>revoked = fmempty, keyFn = f\<rparr>)" by (rule run_ops_inv) (simp add: mem_inv_def)
  show "Revoked now (RevokeUntil k until m) ctx (Some tok) = Inr (until = zero_time \<or> now < until)"
    if "k \<noteq> [] \<and> keyFn m tok = Some k"
    using that by (subst Revoked_key [of _ _ k]) (simp_all add: mem.denied_deny, simp add: RevokeUntil_def)
  show "Revoked now (Unrevoke k m) ctx (Some tok) = Inr (j \<noteq> k \<and> key_revoked m now j)" if "keyFn m tok = Some j"
    using that by (subst Revoked_key [of _ _ j]) (simp_all add: mem.denied_allow, simp add: Unrevoke_def)
qed (simp add: Revoked_def)

theorem mem_revoker_refines_denylist_witness:
  "Revoked 3 (RevokeUntil ''a'' 4 \<lparr>revoked = fmempty, keyFn = (\<lambda>_. Some ''a'')\<rparr>) None (Some (demo_token fmempty)) = Inr True"
  using mem_revoker_refines_denylist
    [of "[]" "\<lambda>_. None" "''a''" "\<lparr>revoked = fmempty, keyFn = (\<lambda>_. Some ''a'')\<rparr>" "demo_token fmempty" 3 4 None]
  by simp

text \<open>A chain of revokers reports not revoked only when every revoker of it says so; it reports
  revoked only when one does after all before it said no; a failing revoker fails the chain with a
  check error, so a lookup failure is never read as not revoked.\<close>

theorem revoker_chain_correct:
  "(Chain rs ctx tok = Inr False \<longleftrightarrow> (\<forall>r. Some r \<in> set rs \<longrightarrow> r ctx tok = Inr False)) \<and>
   (Chain rs ctx tok = Inr True \<longleftrightarrow>
     (\<exists>ds r es. rs = ds @ Some r # es \<and> Chain ds ctx tok = Inr False \<and> r ctx tok = Inr True)) \<and>
   (\<forall>e. Chain rs ctx tok = Inl e \<longrightarrow> errors_Is e ErrCheck)"
proof (intro conjI)
  show "Chain rs ctx tok = Inr False \<longleftrightarrow> (\<forall>r. Some r \<in> set rs \<longrightarrow> r ctx tok = Inr False)"
    unfolding Chain_def by (induction rs ctx tok rule: chain_revoked.induct) (auto split: sum.splits if_splits)
  show "\<forall>e. Chain rs ctx tok = Inl e \<longrightarrow> errors_Is e ErrCheck"
    unfolding Chain_def by (induction rs ctx tok rule: chain_revoked.induct) (auto split: sum.splits if_splits)
  show "Chain rs ctx tok = Inr True \<longleftrightarrow>
     (\<exists>ds r es. rs = ds @ Some r # es \<and> Chain ds ctx tok = Inr False \<and> r ctx tok = Inr True)"
    unfolding Chain_def by (rule iffI [OF chain_TrueD]) (auto intro: chain_TrueI)
qed

theorem revoker_chain_correct_witness:
  "Revocation.Chain [None, Some (\<lambda>_ _. Inr False), Some (\<lambda>_ _. Inr False)] None None = Inr False"
  using revoker_chain_correct [of "[None, Some (\<lambda>_ _. Inr False), Some (\<lambda>_ _. Inr False)]" None None]
  by auto

end
