(* ===== verification/Verification.thy ===== *)
theory Verification
  imports Revocation Keys
begin

text \<open>
  Package \<open>verification\<close>: the single-key and the multi-key verifier, their options, the token checks
  and the middleware chain. A verifier call takes the context error, the instant the parser reads
  the clock, the text and the per-call checks.
\<close>

section \<open>Token checks\<close>

type_synonym token_check = "ctx_err \<Rightarrow> token \<Rightarrow> gerror option"

definition ChainTokenChecks :: "token_check option list \<Rightarrow> token_check" where
  "ChainTokenChecks checks ctx tok = first_err (map (map_option (\<lambda>check. check ctx)) checks) tok"

definition CheckClaims :: "lib \<Rightarrow> check_func option list \<Rightarrow> token_check" where
  "CheckClaims L checks ctx tok =
    (case ToMapClaims L (AMapClaims (Some (t_claims tok))) of
       Inl e \<Rightarrow> Some (ErrInvalidClaims # e)
     | Inr mc \<Rightarrow> first_err (map (map_option (\<lambda>check. check ctx)) checks) (case mc of None \<Rightarrow> fmempty | Some c \<Rightarrow> c))"

fun CheckBannedHeaders :: "string list \<Rightarrow> token_check" where
  "CheckBannedHeaders [] ctx tok = None"
| "CheckBannedHeaders (k # ks) ctx tok =
    (case fmlookup (t_header tok) k of Some _ \<Rightarrow> Some [ErrCheck] | None \<Rightarrow> CheckBannedHeaders ks ctx tok)"

fun CheckRequiredHeaders :: "string list \<Rightarrow> token_check" where
  "CheckRequiredHeaders [] ctx tok = None"
| "CheckRequiredHeaders (k # ks) ctx tok =
    (case fmlookup (t_header tok) k of None \<Rightarrow> Some [ErrCheck] | Some _ \<Rightarrow> CheckRequiredHeaders ks ctx tok)"

text \<open>
  Go's \<open>==\<close> on two \<open>any\<close> values: different dynamic types are unequal, and comparing two values of one
  uncomparable type (a slice or a map) panics, which is \<open>None\<close>. Pointers and structs compare by
  identity or by fields the model does not keep; \<open>same\<close> stands for that comparison.
\<close>

primrec dyn_type :: "gval \<Rightarrow> nat" where
  "dyn_type VNil = 0"
| "dyn_type (VString x) = 1"
| "dyn_type (VStringPtr x) = 2"
| "dyn_type (VBytes x) = 3"
| "dyn_type (VBool x) = 4"
| "dyn_type (VFloat x) = 5"
| "dyn_type (VFloatPtr x) = 6"
| "dyn_type (VInt x) = 7"
| "dyn_type (VIntPtr x) = 8"
| "dyn_type (VInt64 x) = 9"
| "dyn_type (VInt64Ptr x) = 10"
| "dyn_type (VNumber x) = 11"
| "dyn_type (VStrings x) = 12"
| "dyn_type (VAnys x) = 13"
| "dyn_type (VMap x) = 14"
| "dyn_type (VNumericDate x) = 15"
| "dyn_type (VNumericDatePtr x) = 16"
| "dyn_type (VTime x) = 17"
| "dyn_type (VTimePtr x) = 18"
| "dyn_type (VUUID x) = 19"
| "dyn_type (VOther x) = 20"

definition uncomparable :: "gval \<Rightarrow> bool" where
  "uncomparable v = (case v of VBytes _ \<Rightarrow> True | VStrings _ \<Rightarrow> True | VAnys _ \<Rightarrow> True | VMap _ \<Rightarrow> True | _ \<Rightarrow> False)"

definition opaque_value :: "gval \<Rightarrow> bool" where
  "opaque_value v =
    (case v of VStringPtr _ \<Rightarrow> True | VFloatPtr _ \<Rightarrow> True | VIntPtr _ \<Rightarrow> True | VInt64Ptr _ \<Rightarrow> True
     | VNumericDate _ \<Rightarrow> True | VNumericDatePtr _ \<Rightarrow> True | VTime _ \<Rightarrow> True | VTimePtr _ \<Rightarrow> True
     | VOther _ \<Rightarrow> True | _ \<Rightarrow> False)"

definition any_eq :: "(gval \<Rightarrow> gval \<Rightarrow> bool) \<Rightarrow> gval \<Rightarrow> gval \<Rightarrow> bool option" where
  "any_eq same a b =
    (if dyn_type a \<noteq> dyn_type b then Some False
     else if uncomparable a then None
     else if opaque_value a then Some (same a b)
     else (case (a, b) of (VFloat f, VFloat g) \<Rightarrow> Some (float_eq f g) | _ \<Rightarrow> Some (a = b)))"

text \<open>The required map in the order the loop visits it; \<open>None\<close> is a panic.\<close>

fun CheckRequiredHeaderValues ::
  "(gval \<Rightarrow> gval \<Rightarrow> bool) \<Rightarrow> (string \<times> gval) list \<Rightarrow> ctx_err \<Rightarrow> token \<Rightarrow> gerror option option" where
  "CheckRequiredHeaderValues same [] ctx tok = Some None"
| "CheckRequiredHeaderValues same ((k, want) # req) ctx tok =
    (case fmlookup (t_header tok) k of
       None \<Rightarrow> Some (Some [ErrCheck])
     | Some got \<Rightarrow>
         (case any_eq same got want of
            None \<Rightarrow> None
          | Some False \<Rightarrow> Some (Some [ErrCheck])
          | Some True \<Rightarrow> CheckRequiredHeaderValues same req ctx tok))"

section \<open>The shared base\<close>

record verifier_base =
  staticCheck :: "token_check option list"
  vb_leeway :: duration
  skipRegisteredClaims :: bool
  vb_algs :: "string list"

definition DefaultLeeway :: duration where "DefaultLeeway = 30 * Second"

definition buildParser :: "verifier_base \<Rightarrow> parser" where
  "buildParser b =
    \<lparr>valid_methods = Some (vb_algs b),
     parser_leeway = (if 0 < vb_leeway b then vb_leeway b else 0),
     skip_claims = skipRegisteredClaims b\<rparr>"

definition runChecks :: "verifier_base \<Rightarrow> ctx_err \<Rightarrow> token \<Rightarrow> token_check option list \<Rightarrow> gerror option" where
  "runChecks b ctx parsed extra =
    (case first_err (map (map_option (\<lambda>check. check ctx)) (staticCheck b)) parsed of
       Some e \<Rightarrow> Some (ErrCheck # e)
     | None \<Rightarrow>
         (case first_err (map (map_option (\<lambda>check. check ctx)) extra) parsed of
            Some e \<Rightarrow> Some (ErrCheck # e)
          | None \<Rightarrow> None))"

type_synonym verifier_opt = "verifier_base \<Rightarrow> verifier_base result"

definition WithStaticChecks :: "token_check option list \<Rightarrow> verifier_opt" where
  "WithStaticChecks checks b = Inr (b\<lparr>staticCheck := staticCheck b @ checks\<rparr>)"

definition WithLeeway :: "duration \<Rightarrow> verifier_opt" where
  "WithLeeway d b = (if d < 0 then Inl [ErrInvalidValue] else Inr (b\<lparr>vb_leeway := d\<rparr>))"

definition WithoutRegisteredClaimsValidation :: verifier_opt where
  "WithoutRegisteredClaimsValidation b = Inr (b\<lparr>skipRegisteredClaims := True\<rparr>)"

definition revoker_check :: "revoker \<Rightarrow> token_check" where
  "revoker_check r ctx tok =
    (case r ctx (Some tok) of
       Inl e \<Rightarrow> Some e
     | Inr b \<Rightarrow> if b then Some [ErrRevoked] else None)"

definition WithRevoker :: "revoker option \<Rightarrow> verifier_opt" where
  "WithRevoker r b =
    (case r of
       None \<Rightarrow> Inl [ErrInvalidValue]
     | Some f \<Rightarrow> Inr (b\<lparr>staticCheck := staticCheck b @ [Some (revoker_check f)]\<rparr>))"

definition applyOpts :: "string list \<Rightarrow> verifier_opt list \<Rightarrow> (verifier_base \<times> parser) result" where
  "applyOpts algs opts =
    (case apply_opts opts
       \<lparr>staticCheck = [], vb_leeway = DefaultLeeway, skipRegisteredClaims = False, vb_algs = algs\<rparr> of
       Inl e \<Rightarrow> Inl e
     | Inr b \<Rightarrow> Inr (b, buildParser b))"

section \<open>The single-key verifier\<close>

record verifier =
  v_base :: verifier_base
  v_parser :: parser
  v_method :: smethod
  v_publicKey :: pkey
  v_keyFunc :: keyfunc

definition NewVerifier :: "smethod option \<Rightarrow> pkey option \<Rightarrow> verifier_opt list \<Rightarrow> verifier result" where
  "NewVerifier meth publicKey opts =
    (case meth of
       None \<Rightarrow> Inl [ErrInvalidValue]
     | Some m \<Rightarrow>
         if Alg m = [] then Inl [ErrInvalidValue]
         else (case PublicKeyFunc meth publicKey of
                 Inl e \<Rightarrow> Inl (ErrInvalidValue # e)
               | Inr kf \<Rightarrow>
                   (case applyOpts [Alg m] opts of
                      Inl e \<Rightarrow> Inl e
                    | Inr (b, p) \<Rightarrow>
                        (case publicKey of
                           None \<Rightarrow> Inl [ErrInvalidValue]
                         | Some k \<Rightarrow>
                             Inr \<lparr>v_base = b, v_parser = p, v_method = m, v_publicKey = k, v_keyFunc = kf\<rparr>))))"

text \<open>The body both \<open>Verify\<close> methods have, over the embedded base, parser and key function.\<close>

definition verify_with ::
  "lib \<Rightarrow> verifier_base \<Rightarrow> parser \<Rightarrow> keyfunc \<Rightarrow> gtime \<Rightarrow> ctx_err \<Rightarrow> string \<Rightarrow> token_check option list \<Rightarrow> token result" where
  "verify_with L b p kf now ctx signed extra =
    (case ctx of
       Some e \<Rightarrow> Inl e
     | None \<Rightarrow>
         if TrimSpace signed = [] then Inl [ErrInvalidValue]
         else (case parseWithClaims L p now signed kf of
                 Inl e \<Rightarrow> Inl (ErrParse # e)
               | Inr parsed \<Rightarrow>
                   (case runChecks b ctx parsed extra of
                      Some e \<Rightarrow> Inl e
                    | None \<Rightarrow> Inr parsed)))"

definition Verify :: "lib \<Rightarrow> verifier \<Rightarrow> gtime \<Rightarrow> ctx_err \<Rightarrow> string \<Rightarrow> token_check option list \<Rightarrow> token result" where
  "Verify L v now ctx signed extra = verify_with L (v_base v) (v_parser v) (v_keyFunc v) now ctx signed extra"

section \<open>The multi-key verifier\<close>

record key_entry =
  Kid :: string
  ke_Method :: "smethod option"
  PublicKey :: "pkey option"

record multi_verifier =
  mk_base :: verifier_base
  mk_parser :: parser
  entries :: "(string, smethod \<times> pkey) fmap"

fun collect_entries ::
  "key_entry list \<Rightarrow> (string, smethod \<times> pkey) fmap \<Rightarrow> string list \<Rightarrow>
   ((string, smethod \<times> pkey) fmap \<times> string list) result" where
  "collect_entries [] byKid algs = Inr (byKid, algs)"
| "collect_entries (e # es) byKid algs =
    (if Kid e = [] then Inl [ErrInvalidValue]
     else (case (ke_Method e, PublicKey e) of
             (None, _) \<Rightarrow> Inl [ErrInvalidValue]
           | (Some m, None) \<Rightarrow> Inl [ErrInvalidValue]
           | (Some m, Some k) \<Rightarrow>
               if \<not> is_public_key k then Inl [ErrInvalidType]
               else if fmlookup byKid (Kid e) \<noteq> None then Inl [ErrInvalidValue]
               else collect_entries es (fmupd (Kid e) (m, k) byKid) (List.insert (Alg m) algs)))"

definition NewMultiKeyVerifier :: "key_entry list \<Rightarrow> verifier_opt list \<Rightarrow> multi_verifier result" where
  "NewMultiKeyVerifier es opts =
    (if es = [] then Inl [ErrInvalidValue]
     else (case collect_entries es fmempty [] of
             Inl e \<Rightarrow> Inl e
           | Inr (byKid, algs) \<Rightarrow>
               (case applyOpts algs opts of
                  Inl e \<Rightarrow> Inl e
                | Inr (b, p) \<Rightarrow> Inr \<lparr>mk_base = b, mk_parser = p, entries = byKid\<rparr>)))"

definition multi_keyFunc :: "multi_verifier \<Rightarrow> keyfunc" where
  "multi_keyFunc v tok =
    (let kid = (case fmlookup (t_header tok) ''kid'' of Some (VString s) \<Rightarrow> s | _ \<Rightarrow> []) in
     if kid = [] then Inl [ErrInvalidValue]
     else (case fmlookup (entries v) kid of
             None \<Rightarrow> Inl [ErrNotFound]
           | Some (m, k) \<Rightarrow> if Alg (t_method tok) \<noteq> Alg m then Inl [ErrInvalidMethod] else Inr k))"

definition MultiVerify :: "lib \<Rightarrow> multi_verifier \<Rightarrow> gtime \<Rightarrow> ctx_err \<Rightarrow> string \<Rightarrow> token_check option list \<Rightarrow> token result" where
  "MultiVerify L v now ctx signed extra = verify_with L (mk_base v) (mk_parser v) (multi_keyFunc v) now ctx signed extra"

section \<open>Middleware\<close>

text \<open>The loop runs from the last index down to the first.\<close>

definition Chain :: "('v \<Rightarrow> 'v) option list \<Rightarrow> 'v \<Rightarrow> 'v" where
  "Chain mws v = foldl (\<lambda>v mw. case mw of None \<Rightarrow> v | Some f \<Rightarrow> f v) v (rev mws)"

end
