(* ===== verification/Verification_Facts.thy ===== *)
theory Verification_Facts
  imports Verification
begin

text \<open>
  What a verifier promises: a token is returned only when its signature verifies under a configured
  key with that key's algorithm and every check passed, a revoked token is never returned, and
  errors are classified by the sentinel the middleware dispatches on.
\<close>

section \<open>The Verifier interface\<close>

definition all_pass :: "token_check option list \<Rightarrow> ctx_err \<Rightarrow> token \<Rightarrow> bool" where
  "all_pass checks ctx tok \<longleftrightarrow> (\<forall>f. Some f \<in> set checks \<longrightarrow> f ctx tok = None)"

lemma Some_in_map_option: "Some y \<in> map_option f ` S \<longleftrightarrow> (\<exists>z. Some z \<in> S \<and> y = f z)"
proof
  assume "Some y \<in> map_option f ` S"
  then obtain x where "x \<in> S" "map_option f x = Some y" by (metis imageE)
  then show "\<exists>z. Some z \<in> S \<and> y = f z" by (cases x) auto
next
  assume "\<exists>z. Some z \<in> S \<and> y = f z"
  then obtain z where "Some z \<in> S" "map_option f (Some z) = Some y" by auto
  then show "Some y \<in> map_option f ` S" by (metis imageI)
qed

lemma first_err_all_pass: "first_err (map (map_option (\<lambda>check. check ctx)) checks) tok = None \<longleftrightarrow> all_pass checks ctx tok"
  by (auto simp: first_err_None all_pass_def Some_in_map_option)

locale token_verifier =
  fixes verify :: "gtime \<Rightarrow> ctx_err \<Rightarrow> string \<Rightarrow> token_check option list \<Rightarrow> token result"
  assumes cancelled: "verify now (Some e) s extra = Inl e"
    and blank: "TrimSpace s = [] \<Longrightarrow> verify now None s extra = Inl [ErrInvalidValue]"
    and extra_checks: "verify now None s extra =
      (case verify now None s [] of
         Inl e \<Rightarrow> Inl e
       | Inr tok \<Rightarrow> (case first_err (map (map_option (\<lambda>check. check None)) extra) tok of
                      None \<Rightarrow> Inr tok | Some e \<Rightarrow> Inl (ErrCheck # e)))"
begin

lemma accepted_iff:
  "verify now ctx s extra = Inr tok \<longleftrightarrow> ctx = None \<and> verify now None s [] = Inr tok \<and> all_pass extra None tok"
proof (cases ctx)
  case None
  have "verify now None s extra = Inr tok \<longleftrightarrow> verify now None s [] = Inr tok \<and> all_pass extra None tok"
    unfolding first_err_all_pass [symmetric]
    by (subst extra_checks) (auto split: sum.splits option.splits)
  with None show ?thesis by simp
qed (simp add: cancelled)

lemma more_checks_accept_less:
  "verify now ctx s (xs @ ys) = Inr tok \<Longrightarrow> verify now ctx s xs = Inr tok"
  using accepted_iff [of now ctx s "xs @ ys" tok] accepted_iff [of now ctx s xs tok]
  by (auto simp: all_pass_def)

lemma failed_extra:
  "verify now None s [] = Inr tok \<Longrightarrow> \<not> all_pass extra None tok \<Longrightarrow> \<exists>e. verify now None s extra = Inl (ErrCheck # e)"
  unfolding first_err_all_pass [symmetric]
  by (subst extra_checks) (auto split: option.splits)

lemma accepted_not_blank: "verify now ctx s extra = Inr tok \<Longrightarrow> TrimSpace s \<noteq> []"
  using blank cancelled by (cases ctx) auto

end

lemma verify_with_extra:
  "verify_with L b p kf now None s extra =
    (case verify_with L b p kf now None s [] of
       Inl e \<Rightarrow> Inl e
     | Inr tok \<Rightarrow> (case first_err (map (map_option (\<lambda>check. check None)) extra) tok of
                    None \<Rightarrow> Inr tok | Some e \<Rightarrow> Inl (ErrCheck # e)))"
  by (auto simp: verify_with_def runChecks_def split: sum.splits option.splits)

interpretation single: token_verifier "Verify L v" for L v
proof
  show "Verify L v now None s extra =
      (case Verify L v now None s [] of
         Inl e \<Rightarrow> Inl e
       | Inr tok \<Rightarrow> (case first_err (map (map_option (\<lambda>check. check None)) extra) tok of
                      None \<Rightarrow> Inr tok | Some e \<Rightarrow> Inl (ErrCheck # e)))" for now s extra
    unfolding Verify_def by (rule verify_with_extra)
qed (simp_all add: Verify_def verify_with_def)

interpretation multi: token_verifier "MultiVerify L v" for L v
proof
  show "MultiVerify L v now None s extra =
      (case MultiVerify L v now None s [] of
         Inl e \<Rightarrow> Inl e
       | Inr tok \<Rightarrow> (case first_err (map (map_option (\<lambda>check. check None)) extra) tok of
                      None \<Rightarrow> Inr tok | Some e \<Rightarrow> Inl (ErrCheck # e)))" for now s extra
    unfolding MultiVerify_def by (rule verify_with_extra)
qed (simp_all add: MultiVerify_def verify_with_def)

section \<open>Acceptance\<close>

lemma runChecks_None:
  "runChecks b ctx tok extra = None \<longleftrightarrow> all_pass (staticCheck b) ctx tok \<and> all_pass extra ctx tok"
  unfolding first_err_all_pass [symmetric] by (auto simp: runChecks_def split: option.splits)

lemma runChecks_ErrCheck: "runChecks b ctx tok extra = Some e \<Longrightarrow> errors_Is e ErrCheck"
  by (auto simp: runChecks_def split: option.splits)

lemma verify_with_Inr:
  "verify_with L b p kf now ctx s extra = Inr tok \<longleftrightarrow>
    ctx = None \<and> TrimSpace s \<noteq> [] \<and> parseWithClaims L p now s kf = Inr tok \<and>
    all_pass (staticCheck b) ctx tok \<and> all_pass extra ctx tok"
proof -
  have "verify_with L b p kf now ctx s extra = Inr tok \<longleftrightarrow>
      ctx = None \<and> TrimSpace s \<noteq> [] \<and> parseWithClaims L p now s kf = Inr tok \<and> runChecks b ctx tok extra = None"
    by (auto simp: verify_with_def split: option.splits sum.splits)
  then show ?thesis by (simp only: runChecks_None)
qed

text \<open>What acceptance means, whatever the key function.\<close>

definition accepted :: "lib \<Rightarrow> verifier_base \<Rightarrow> gtime \<Rightarrow> string \<Rightarrow> token \<Rightarrow> bool" where
  "accepted L b now s tok \<longleftrightarrow>
    t_valid tok \<and> Alg (t_method tok) \<in> set (vb_algs b) \<and>
    (skipRegisteredClaims b \<or> validatorOK L (if 0 < vb_leeway b then vb_leeway b else 0) now (t_claims tok)) \<and>
    all_pass (staticCheck b) None tok \<and>
    (\<exists>tok0. parseUnverified L s = Inr tok0 \<and> same_content tok0 tok)"

lemma verify_with_accepted:
  assumes "parser_sound L" "verify_with L b (buildParser b) kf now ctx s extra = Inr tok"
  shows "accepted L b now s tok" and "ctx = None" and "all_pass extra None tok"
    and "\<exists>k. kf (tok\<lparr>t_valid := False\<rparr>) = Inr k \<and> sigVerifies L (t_method tok) s k"
proof -
  from assms(2) have v: "ctx = None" "parseWithClaims L (buildParser b) now s kf = Inr tok"
    "all_pass (staticCheck b) None tok" "all_pass extra None tok"
    by (auto simp: verify_with_Inr)
  have p: "t_valid tok" "method_allowed (buildParser b) (t_method tok)"
    "claims_allowed L (buildParser b) now (t_claims tok)"
    "\<exists>k. kf (tok\<lparr>t_valid := False\<rparr>) = Inr k \<and> sigVerifies L (t_method tok) s k"
    "\<exists>tok0. parseUnverified L s = Inr tok0 \<and> same_content tok0 tok"
    using assms(1) v(2) unfolding parser_sound_def by blast+
  show "accepted L b now s tok"
    using p v by (simp add: accepted_def method_allowed_def claims_allowed_def buildParser_def)
  show "ctx = None" "all_pass extra None tok"
    "\<exists>k. kf (tok\<lparr>t_valid := False\<rparr>) = Inr k \<and> sigVerifies L (t_method tok) s k"
    by (fact v p)+
qed

section \<open>Construction\<close>

inductive verifier_option :: "verifier_opt \<Rightarrow> bool" where
  "verifier_option (WithStaticChecks checks)"
| "verifier_option (WithLeeway d)"
| "verifier_option WithoutRegisteredClaimsValidation"
| "verifier_option (WithRevoker r)"

lemmas verifier_option_defs = WithStaticChecks_def WithLeeway_def WithoutRegisteredClaimsValidation_def WithRevoker_def

definition base_inv :: "string list \<Rightarrow> token_check option list \<Rightarrow> verifier_base \<Rightarrow> bool" where
  "base_inv algs checks b \<longleftrightarrow> vb_algs b = algs \<and> 0 \<le> vb_leeway b \<and> (\<forall>c \<in> set checks. c \<in> set (staticCheck b))"

interpretation verifier_opts: opts_invariant "base_inv algs checks" verifier_option for algs checks
  by unfold_locales
    (auto elim!: verifier_option.cases simp: base_inv_def verifier_option_defs split: if_splits option.splits)

lemma applyOpts_Inr:
  assumes "applyOpts algs opts = Inr (b, p)" "\<forall>opt \<in> set opts. verifier_option opt"
  shows "p = buildParser b \<and> vb_algs b = algs \<and> 0 \<le> vb_leeway b"
proof -
  let ?b0 = "\<lparr>staticCheck = [], vb_leeway = DefaultLeeway, skipRegisteredClaims = False, vb_algs = algs\<rparr>"
  from assms(1) have b: "apply_opts opts ?b0 = Inr b" "p = buildParser b"
    by (auto simp: applyOpts_def split: sum.splits)
  have "base_inv algs [] ?b0" by (simp add: base_inv_def DefaultLeeway_def Second_def)
  then have "base_inv algs [] b" using verifier_opts.apply_opts_keeps [OF assms(2) _ b(1)] by blast
  with b show ?thesis by (simp add: base_inv_def)
qed

text \<open>A configured revoker is among the static checks: options only append to them.\<close>

lemma apply_opts_append:
  "apply_opts (xs @ ys) s = (case apply_opts xs s of Inl e \<Rightarrow> Inl e | Inr s' \<Rightarrow> apply_opts ys s')"
  by (induction xs s rule: apply_opts.induct) (auto split: sum.splits)

lemma applyOpts_revoker:
  assumes "applyOpts algs opts = Inr (b, p)" "\<forall>opt \<in> set opts. verifier_option opt" "WithRevoker (Some r) \<in> set opts"
  shows "Some (revoker_check r) \<in> set (staticCheck b)"
proof -
  let ?b0 = "\<lparr>staticCheck = [], vb_leeway = DefaultLeeway, skipRegisteredClaims = False, vb_algs = algs\<rparr>"
  obtain xs ys where o: "opts = xs @ WithRevoker (Some r) # ys" using assms(3) by (meson split_list)
  from assms(1) have "apply_opts opts ?b0 = Inr b" by (auto simp: applyOpts_def split: sum.splits)
  then obtain b1 where 1: "apply_opts xs ?b0 = Inr b1"
    and 2: "apply_opts ys (b1\<lparr>staticCheck := staticCheck b1 @ [Some (revoker_check r)]\<rparr>) = Inr b"
    by (auto simp: o apply_opts_append WithRevoker_def split: sum.splits)
  have os: "\<forall>opt \<in> set xs. verifier_option opt" "\<forall>opt \<in> set ys. verifier_option opt" using assms(2) o by auto
  have "base_inv algs [] ?b0" by (simp add: base_inv_def DefaultLeeway_def Second_def)
  then have "base_inv algs [] b1" using verifier_opts.apply_opts_keeps [OF os(1) _ 1] by blast
  then have "base_inv algs [Some (revoker_check r)] (b1\<lparr>staticCheck := staticCheck b1 @ [Some (revoker_check r)]\<rparr>)"
    by (simp add: base_inv_def)
  then have "base_inv algs [Some (revoker_check r)] b" using verifier_opts.apply_opts_keeps [OF os(2) _ 2] by blast
  then show ?thesis by (simp add: base_inv_def)
qed

lemma NewVerifier_Inr:
  assumes "NewVerifier (Some m) (Some k) opts = Inr v"
  shows "applyOpts [Alg m] opts = Inr (v_base v, v_parser v) \<and> v_keyFunc v = public_key_func m k \<and>
    is_public_key k \<and> Alg m \<noteq> []"
  using assms by (auto simp: NewVerifier_def PublicKeyFunc_def split: if_splits sum.splits)

lemma public_key_func_Inr:
  "public_key_func m k tok = Inr k' \<longleftrightarrow>
    k' = k \<and> Alg (t_method tok) = Alg m \<and> Alg m \<noteq> [] \<and> asymmetric (t_method tok)"
  by (auto simp: public_key_func_def Let_def)

lemma NewMultiKeyVerifier_Inr:
  assumes "NewMultiKeyVerifier es opts = Inr v"
  obtains algs where "collect_entries es fmempty [] = Inr (entries v, algs)"
    "applyOpts algs opts = Inr (mk_base v, mk_parser v)"
  using assms by (auto simp: NewMultiKeyVerifier_def split: if_splits sum.splits)

lemma multi_keyFunc_Inr:
  "multi_keyFunc v tok = Inr k \<longleftrightarrow>
    (\<exists>kid m. kid \<noteq> [] \<and> fmlookup (t_header tok) ''kid'' = Some (VString kid) \<and>
      fmlookup (entries v) kid = Some (m, k) \<and> Alg (t_method tok) = Alg m)"
  by (auto simp: multi_keyFunc_def Let_def split: option.splits gval.splits if_splits)

lemma revoker_check_None: "revoker_check r ctx tok = None \<longleftrightarrow> r ctx (Some tok) = Inr False"
  by (auto simp: revoker_check_def split: sum.splits)

section \<open>The key table\<close>

lemma collect_entries_Inr:
  assumes "collect_entries es byKid algs = Inr (byKid', algs')"
  shows "distinct (map Kid es) \<and> set (map Kid es) \<inter> fset (fmdom byKid) = {} \<and>
    (\<forall>kid m k. fmlookup byKid' kid = Some (m, k) \<longleftrightarrow>
      fmlookup byKid kid = Some (m, k) \<or>
      (\<exists>e \<in> set es. Kid e = kid \<and> ke_Method e = Some m \<and> PublicKey e = Some k \<and> is_public_key k))"
  using assms
proof (induction es byKid algs rule: collect_entries.induct)
  case (2 e es byKid algs)
  have none: "fmlookup byKid (Kid e) = None"
    using "2.prems" by (cases "fmlookup byKid (Kid e)") (auto split: if_splits option.splits)
  obtain m k where mk: "ke_Method e = Some m" "PublicKey e = Some k" "is_public_key k"
    and r: "collect_entries es (fmupd (Kid e) (m, k) byKid) (List.insert (Alg m) algs) = Inr (byKid', algs')"
    and ne: "Kid e \<noteq> []"
    using "2.prems" none by (auto split: if_splits option.splits)
  have "distinct (map Kid es) \<and> set (map Kid es) \<inter> fset (fmdom (fmupd (Kid e) (m, k) byKid)) = {} \<and>
    (\<forall>kid m' k'. fmlookup byKid' kid = Some (m', k') \<longleftrightarrow>
      fmlookup (fmupd (Kid e) (m, k) byKid) kid = Some (m', k') \<or>
      (\<exists>e \<in> set es. Kid e = kid \<and> ke_Method e = Some m' \<and> PublicKey e = Some k' \<and> is_public_key k'))"
    using "2.IH" [OF ne] mk r none by simp
  then show ?case
    using mk none by (auto simp: fmdom_notI fmdom_notD split: if_splits)
qed simp

lemma collect_entries_kids:
  "collect_entries es byKid algs = Inr r \<Longrightarrow>
    \<forall>e \<in> set es. Kid e \<noteq> [] \<and> (\<exists>m k. ke_Method e = Some m \<and> PublicKey e = Some k \<and> is_public_key k)"
  by (induction es byKid algs rule: collect_entries.induct) (auto split: if_splits option.splits)

section \<open>Errors\<close>

lemma keyfunc_errors:
  "public_key_func m k tok = Inl e \<Longrightarrow> \<not> errors_Is e ErrCheck"
  "multi_keyFunc v tok = Inl e \<Longrightarrow> \<not> errors_Is e ErrCheck"
  by (auto simp: public_key_func_def multi_keyFunc_def Let_def split: if_splits option.splits gval.splits)

text \<open>A failed verification carries the check sentinel exactly when the token parsed and a check failed.\<close>

lemma verify_with_ErrCheck:
  assumes "parser_errors L" "\<And>tok d. kf tok = Inl d \<Longrightarrow> \<not> errors_Is d ErrCheck"
  shows "(\<exists>e. verify_with L b p kf now None s extra = Inl e \<and> errors_Is e ErrCheck) \<longleftrightarrow>
    TrimSpace s \<noteq> [] \<and>
    (\<exists>tok. parseWithClaims L p now s kf = Inr tok \<and>
      \<not> (all_pass (staticCheck b) None tok \<and> all_pass extra None tok))"
proof (cases "TrimSpace s = [] \<or> isl (parseWithClaims L p now s kf)")
  case True
  have "\<not> errors_Is e ErrCheck" if "parseWithClaims L p now s kf = Inl e" for e
  proof
    assume "errors_Is e ErrCheck"
    with assms(1) that have "external ErrCheck \<or> (\<exists>tok d. kf tok = Inl d \<and> ErrCheck \<in> set d)"
      unfolding parser_errors_def errors_Is_def by blast
    with assms(2) show False by (auto simp: external_def errors_Is_def)
  qed
  with True show ?thesis by (auto simp: verify_with_def isl_def)
next
  case False
  then obtain tok where tok: "parseWithClaims L p now s kf = Inr tok" by (cases "parseWithClaims L p now s kf") auto
  then have "verify_with L b p kf now None s extra =
      (case runChecks b None tok extra of Some e \<Rightarrow> Inl e | None \<Rightarrow> Inr tok)"
    using False by (simp add: verify_with_def)
  then show ?thesis
    using False tok runChecks_ErrCheck [of b None tok extra] runChecks_None [of b None tok extra]
    by (cases "runChecks b None tok extra") auto
qed

section \<open>Properties\<close>

text \<open>C1. Soundness of the single-key verifier: a token it returns was signed, its signature verifies
  under the configured public key with exactly the configured algorithm and an asymmetric method, the
  parser validated the registered claims unless that was switched off, the content is that of the
  text, and every static and per-call check passed.\<close>

theorem verify_sound:
  assumes "parser_sound L" "NewVerifier (Some m) (Some k) opts = Inr v" "\<forall>opt \<in> set opts. verifier_option opt"
    "Verify L v now ctx s extra = Inr tok"
  shows "sigVerifies L (t_method tok) s k \<and> Alg (t_method tok) = Alg m \<and> asymmetric (t_method tok) \<and>
    accepted L (v_base v) now s tok \<and> all_pass extra None tok \<and> ctx = None"
proof -
  note nv = NewVerifier_Inr [OF assms(2)]
  have p: "v_parser v = buildParser (v_base v)" using applyOpts_Inr [of _ opts] nv assms(3) by blast
  have vw: "verify_with L (v_base v) (buildParser (v_base v)) (public_key_func m k) now ctx s extra = Inr tok"
    using assms(4) nv p by (simp add: Verify_def)
  note a = verify_with_accepted [OF assms(1) vw]
  from a(4) show ?thesis using a(1-3) by (auto simp: public_key_func_Inr)
qed

definition demo_pub :: pkey where "demo_pub = Ed25519Public (replicate 32 (CHR ''p''))"

text \<open>A library that decodes one text to one token and verifies it under \<open>demo_pub\<close>.\<close>

definition demo_lib :: "token \<Rightarrow> lib" where
  "demo_lib tok = mk_lib (\<lambda>x. if x = ''t'' then Inr tok else Inl []) (\<lambda>_ x k. x = ''t'' \<and> k = demo_pub)
     (\<lambda>_ _. Inl []) (\<lambda>_ _. False)"

definition demo_base :: "token_check option list \<Rightarrow> string list \<Rightarrow> verifier_base" where
  "demo_base checks algs =
    \<lparr>staticCheck = checks, vb_leeway = DefaultLeeway, skipRegisteredClaims = False, vb_algs = algs\<rparr>"

definition demo_verifier :: "token_check option list \<Rightarrow> verifier" where
  "demo_verifier checks =
    \<lparr>v_base = demo_base checks [''EdDSA''], v_parser = buildParser (demo_base checks [''EdDSA'']),
     v_method = SigningMethodEdDSA, v_publicKey = demo_pub, v_keyFunc = public_key_func SigningMethodEdDSA demo_pub\<rparr>"

lemma NewVerifier_demo:
  "NewVerifier (Some SigningMethodEdDSA) (Some demo_pub) [WithStaticChecks checks] = Inr (demo_verifier checks)"
  by (simp add: NewVerifier_def PublicKeyFunc_def method_consts demo_pub_def is_public_key_def applyOpts_def
      WithStaticChecks_def demo_verifier_def demo_base_def)

lemma trim_t: "TrimSpace ''t'' \<noteq> []"
  by code_simp

lemma parse_demo:
  "parseWithClaims (demo_lib (demo_token fmempty)) (buildParser (demo_base checks [''EdDSA''])) now ''t''
    (public_key_func SigningMethodEdDSA demo_pub) = Inr (demo_token fmempty)"
  by (simp add: demo_lib_def checked_parse_def demo_token_def method_allowed_def buildParser_def method_consts
      public_key_func_def asymmetric_def date_validator_def demo_base_def)

lemma Verify_demo: "Verify (demo_lib (demo_token fmempty)) (demo_verifier []) 0 None ''t'' [] = Inr (demo_token fmempty)"
  using trim_t parse_demo
  by (simp add: Verify_def verify_with_Inr demo_verifier_def all_pass_def demo_base_def)

theorem verify_sound_witness:
  "sigVerifies (demo_lib (demo_token fmempty)) SigningMethodEdDSA ''t'' demo_pub"
proof -
  have "parser_sound (demo_lib (demo_token fmempty))" by (simp add: demo_lib_def)
  from verify_sound [OF this NewVerifier_demo _ Verify_demo]
  show ?thesis by (auto simp: demo_token_def intro: verifier_option.intros)
qed

text \<open>C2. Soundness of the multi-key verifier: the token names, in a non-empty string kid header, a key
  that was registered, its signature verifies under that key, and its algorithm is the one
  registered with that key, whatever other keys and algorithms are configured.\<close>

theorem multi_verify_sound:
  assumes "parser_sound L" "NewMultiKeyVerifier es opts = Inr v" "\<forall>opt \<in> set opts. verifier_option opt"
    "MultiVerify L v now ctx s extra = Inr tok"
  shows "\<exists>e m k. e \<in> set es \<and> Kid e \<noteq> [] \<and> ke_Method e = Some m \<and> PublicKey e = Some k \<and>
    fmlookup (t_header tok) ''kid'' = Some (VString (Kid e)) \<and> sigVerifies L (t_method tok) s k \<and>
    Alg (t_method tok) = Alg m \<and> accepted L (mk_base v) now s tok \<and> all_pass extra None tok"
proof -
  obtain algs where c: "collect_entries es fmempty [] = Inr (entries v, algs)"
    and o: "applyOpts algs opts = Inr (mk_base v, mk_parser v)"
    using assms(2) by (rule NewMultiKeyVerifier_Inr)
  have vw: "verify_with L (mk_base v) (buildParser (mk_base v)) (multi_keyFunc v) now ctx s extra = Inr tok"
    using assms(4) applyOpts_Inr [OF o assms(3)] by (simp add: MultiVerify_def)
  note a = verify_with_accepted [OF assms(1) vw]
  from a(4) obtain k kid m where k: "sigVerifies L (t_method tok) s k" "kid \<noteq> []"
    "fmlookup (t_header tok) ''kid'' = Some (VString kid)" "fmlookup (entries v) kid = Some (m, k)"
    "Alg (t_method tok) = Alg m"
    by (auto simp: multi_keyFunc_Inr)
  with collect_entries_Inr [OF c] obtain e where "e \<in> set es" "Kid e = kid" "ke_Method e = Some m" "PublicKey e = Some k"
    by auto
  with a k show ?thesis by blast
qed

definition demo_entry :: key_entry where
  "demo_entry = \<lparr>Kid = ''k1'', ke_Method = Some SigningMethodEdDSA, PublicKey = Some demo_pub\<rparr>"

definition demo_multi :: multi_verifier where
  "demo_multi = \<lparr>mk_base = demo_base [] [''EdDSA''], mk_parser = buildParser (demo_base [] [''EdDSA'']),
     entries = fmupd ''k1'' (SigningMethodEdDSA, demo_pub) fmempty\<rparr>"

definition kid_token :: token where
  "kid_token = (demo_token fmempty)\<lparr>t_header := fmupd ''kid'' (VString ''k1'') fmempty\<rparr>"

lemma NewMultiKeyVerifier_demo: "NewMultiKeyVerifier [demo_entry] [] = Inr demo_multi"
  by (simp add: NewMultiKeyVerifier_def demo_entry_def demo_pub_def is_public_key_def applyOpts_def demo_multi_def
      demo_base_def method_consts)

lemma MultiVerify_demo: "MultiVerify (demo_lib kid_token) demo_multi 0 None ''t'' [] = Inr kid_token"
proof -
  have "parseWithClaims (demo_lib kid_token) (buildParser (demo_base [] [''EdDSA''])) 0 ''t'' (multi_keyFunc demo_multi) = Inr kid_token"
    by (simp add: demo_lib_def checked_parse_def kid_token_def demo_token_def method_allowed_def buildParser_def
        method_consts multi_keyFunc_def demo_multi_def date_validator_def demo_base_def)
  then show ?thesis
    using trim_t by (simp add: MultiVerify_def verify_with_Inr demo_multi_def all_pass_def demo_base_def)
qed

theorem multi_verify_sound_witness:
  "\<exists>k. sigVerifies (demo_lib kid_token) SigningMethodEdDSA ''t'' k"
proof -
  have "parser_sound (demo_lib kid_token)" by (simp add: demo_lib_def)
  from multi_verify_sound [OF this NewMultiKeyVerifier_demo _ MultiVerify_demo]
  show ?thesis by (auto simp: kid_token_def demo_token_def)
qed

text \<open>C3. A verifier configured with a revoker, single-key or multi-key, returns a token only when the
  revoker was consulted on it and answered not revoked: a revoked token is refused, and so is every
  token whose lookup failed.\<close>

theorem revoked_token_never_accepted:
  assumes "\<forall>opt \<in> set opts. verifier_option opt" "WithRevoker (Some r) \<in> set opts"
  shows "(NewVerifier (Some m) (Some k) opts = Inr v \<and> Verify L v now ctx s extra = Inr tok \<longrightarrow>
      r None (Some tok) = Inr False) \<and>
    (NewMultiKeyVerifier es opts = Inr w \<and> MultiVerify L w now ctx s extra = Inr tok \<longrightarrow>
      r None (Some tok) = Inr False)"
proof (intro conjI impI)
  assume a: "NewVerifier (Some m) (Some k) opts = Inr v \<and> Verify L v now ctx s extra = Inr tok"
  then have "Some (revoker_check r) \<in> set (staticCheck (v_base v))"
    using NewVerifier_Inr applyOpts_revoker assms by blast
  with a show "r None (Some tok) = Inr False"
    by (auto simp: Verify_def verify_with_Inr all_pass_def revoker_check_None)
next
  assume a: "NewMultiKeyVerifier es opts = Inr w \<and> MultiVerify L w now ctx s extra = Inr tok"
  then obtain algs where "applyOpts algs opts = Inr (mk_base w, mk_parser w)" by (auto elim: NewMultiKeyVerifier_Inr)
  then have "Some (revoker_check r) \<in> set (staticCheck (mk_base w))" using applyOpts_revoker assms by blast
  with a show "r None (Some tok) = Inr False"
    by (auto simp: MultiVerify_def verify_with_Inr all_pass_def revoker_check_None)
qed

theorem revoked_token_never_accepted_witness:
  "\<not> (\<exists>v tok. NewVerifier (Some SigningMethodEdDSA) (Some demo_pub) [WithRevoker (Some (\<lambda>_ _. Inr True))] = Inr v \<and>
     Verify (demo_lib (demo_token fmempty)) v 0 None ''t'' [] = Inr tok)"
proof
  let ?opts = "[WithRevoker (Some (\<lambda>_ _. Inr True))]"
  assume "\<exists>v tok. NewVerifier (Some SigningMethodEdDSA) (Some demo_pub) ?opts = Inr v \<and>
     Verify (demo_lib (demo_token fmempty)) v 0 None ''t'' [] = Inr tok"
  then obtain v tok where "NewVerifier (Some SigningMethodEdDSA) (Some demo_pub) ?opts = Inr v \<and>
     Verify (demo_lib (demo_token fmempty)) v 0 None ''t'' [] = Inr tok" by blast
  moreover have "\<forall>opt \<in> set ?opts. verifier_option opt" by (simp add: verifier_option.intros)
  ultimately show False
    using revoked_token_never_accepted [of ?opts "\<lambda>_ _. Inr True"] by (metis Inr_inject list.set_intros(1))
qed

text \<open>C21. How a verifier classifies failures: with a live context the error carries ErrCheck exactly when
  the text parsed (signature and registered claims valid) and a static or per-call check failed; every
  other failure is without it.\<close>

theorem verify_error_classification:
  assumes "parser_errors L" "NewVerifier (Some m) (Some k) opts = Inr v"
  shows "(\<exists>e. Verify L v now None s extra = Inl e \<and> errors_Is e ErrCheck) \<longleftrightarrow>
    TrimSpace s \<noteq> [] \<and>
    (\<exists>tok. parseWithClaims L (v_parser v) now s (v_keyFunc v) = Inr tok \<and>
      \<not> (all_pass (staticCheck (v_base v)) None tok \<and> all_pass extra None tok))"
proof -
  have "v_keyFunc v = public_key_func m k" using NewVerifier_Inr [OF assms(2)] by simp
  then show ?thesis
    unfolding Verify_def by (intro verify_with_ErrCheck [OF assms(1)]) (auto dest: keyfunc_errors(1))
qed

theorem verify_error_classification_witness:
  "\<exists>e. Verify (demo_lib (demo_token fmempty)) (demo_verifier [Some (\<lambda>_ _. Some [ErrNotFound])]) 0 None ''t'' [] = Inl e \<and>
    errors_Is e ErrCheck"
proof -
  have "parser_errors (demo_lib (demo_token fmempty))" by (simp add: demo_lib_def)
  from verify_error_classification [OF this NewVerifier_demo, of "[Some (\<lambda>_ _. Some [ErrNotFound])]" 0 "''t''" "[]"]
  show ?thesis
    using trim_t parse_demo [of "[Some (\<lambda>_ _. Some [ErrNotFound])]" 0]
    by (simp add: demo_verifier_def all_pass_def demo_base_def)
qed

end
