(* ===== verification/Refresh.thy ===== *)
theory Refresh
  imports Signing_Facts Verification_Facts
begin

text \<open>
  Package \<open>refresh\<close>: the refresher parses a signed token without validating its registered claims,
  enforces \<open>MaxAge\<close>, lets the resolver rewrite the claims, recomputes \<open>exp\<close>, \<open>nbf\<close> and \<open>iat\<close> and signs
  again. One call reads the clock once, after parsing; that instant is the argument \<open>now\<close>.
\<close>

type_synonym claims_resolver = "ctx_err \<Rightarrow> mapclaims \<Rightarrow> mapclaims option result"

record refresh_config =
  defaultExpiration :: duration
  maxAge :: duration
  resolver :: "claims_resolver option"

type_synonym refresh_opt = "refresh_config \<Rightarrow> refresh_config result"

definition DefaultExpiration :: duration where "DefaultExpiration = Hour"

definition WithDefaultExpiration :: "duration \<Rightarrow> refresh_opt" where
  "WithDefaultExpiration d c = (if d \<le> 0 then Inl [ErrInvalidValue] else Inr (c\<lparr>defaultExpiration := d\<rparr>))"

definition WithMaxAge :: "duration \<Rightarrow> refresh_opt" where
  "WithMaxAge d c = (if d < 0 then Inl [ErrInvalidValue] else Inr (c\<lparr>maxAge := d\<rparr>))"

definition WithClaimsResolver :: "claims_resolver option \<Rightarrow> refresh_opt" where
  "WithClaimsResolver r c = Inr (c\<lparr>resolver := r\<rparr>)"

record refresher =
  r_method :: smethod
  r_parser :: parser
  r_keyFunc :: keyfunc
  r_privateKey :: pkey
  r_cfg :: refresh_config

definition NewRefresher ::
  "crypto \<Rightarrow> smethod option \<Rightarrow> pkey option \<Rightarrow> pkey option \<Rightarrow> refresh_opt list \<Rightarrow> refresher result" where
  "NewRefresher C meth publicKey privateKey opts =
    (case meth of
       None \<Rightarrow> Inl [ErrInvalidValue]
     | Some m \<Rightarrow>
         if Alg m = [] then Inl [ErrInvalidValue]
         else (case (publicKey, privateKey) of
                 (None, _) \<Rightarrow> Inl [ErrInvalidValue]
               | (Some _, None) \<Rightarrow> Inl [ErrInvalidValue]
               | (Some pub, Some priv) \<Rightarrow>
                   (case ValidatePair C publicKey privateKey of
                      Some e \<Rightarrow> Inl e
                    | None \<Rightarrow>
                        (case PublicKeyFunc meth publicKey of
                           Inl e \<Rightarrow> Inl (ErrInvalidValue # e)
                         | Inr kf \<Rightarrow>
                             (case apply_opts opts
                                \<lparr>defaultExpiration = DefaultExpiration, maxAge = 24 * Hour, resolver = None\<rparr> of
                                Inl e \<Rightarrow> Inl e
                              | Inr cfg \<Rightarrow>
                                  Inr \<lparr>r_method = m,
                                       r_parser = \<lparr>valid_methods = None, parser_leeway = 0, skip_claims = True\<rparr>,
                                       r_keyFunc = kf, r_privateKey = priv, r_cfg = cfg\<rparr>)))))"

text \<open>The age guard, the resolver and the new expiry, in the order of \<open>refresh\<close>.\<close>

definition check_age :: "refresh_config \<Rightarrow> gtime \<Rightarrow> gtime result \<Rightarrow> gerror option" where
  "check_age cfg now iat =
    (if 0 < maxAge cfg then
       (case iat of
          Inl e \<Rightarrow> Some (ErrInvalidClaims # e)
        | Inr i \<Rightarrow> if time_Sub now i > maxAge cfg then Some [ErrExpired] else None)
     else None)"

definition resolve :: "lib \<Rightarrow> refresh_config \<Rightarrow> ctx_err \<Rightarrow> mapclaims \<Rightarrow> mapclaims result" where
  "resolve L cfg ctx parsed =
    (case resolver cfg of
       None \<Rightarrow> Inr parsed
     | Some f \<Rightarrow>
         (case f ctx (DeepCopy L parsed) of
            Inl e \<Rightarrow> Inl (ErrCheck # e)
          | Inr None \<Rightarrow> Inl [ErrInvalidClaims]
          | Inr (Some resolved) \<Rightarrow> Inr resolved))"

definition new_exp :: "lib \<Rightarrow> refresh_config \<Rightarrow> gtime \<Rightarrow> gtime result \<Rightarrow> mapclaims \<Rightarrow> gtime result" where
  "new_exp L cfg now iat parsed =
    (case (iat, ExpiresAt L parsed) of
       (Inr i, Inr ex) \<Rightarrow> Inr (time_Add now (time_Sub ex i))
     | (_, Inl e) \<Rightarrow>
         if errors_Is e ErrNotFound then Inr (time_Add now (defaultExpiration cfg)) else Inl e
     | (Inl _, Inr _) \<Rightarrow> Inr (time_Add now (defaultExpiration cfg)))"

definition refresh ::
  "lib \<Rightarrow> gtime \<Rightarrow> ctx_err \<Rightarrow> smethod \<Rightarrow> parser \<Rightarrow> keyfunc \<Rightarrow> pkey \<Rightarrow> refresh_config \<Rightarrow> string \<Rightarrow> (token \<times> string) result" where
  "refresh L now ctx m p kf priv cfg signed =
    (if TrimSpace signed = [] then Inl [ErrInvalidValue]
     else (case parseWithClaims L p now signed kf of
             Inl e \<Rightarrow> Inl (ErrInvalidToken # e)
           | Inr old \<Rightarrow>
               let parsed = t_claims old; iat = IssuedAt L parsed in
               (case check_age cfg now iat of
                  Some e \<Rightarrow> Inl e
                | None \<Rightarrow>
                    (case resolve L cfg ctx parsed of
                       Inl e \<Rightarrow> Inl e
                     | Inr c \<Rightarrow>
                         (case new_exp L cfg now iat c of
                            Inl e \<Rightarrow> Inl e
                          | Inr newExp \<Rightarrow>
                              let c = SetIssuedAt L (SetNotBefore L (SetExpiresAt L c newExp) now) now;
                                  refreshed = newWithClaims L m c
                              in (case signedString L refreshed priv of
                                    Inl e \<Rightarrow> Inl (ErrSign # e)
                                  | Inr s \<Rightarrow> Inr (refreshed, s)))))))"

definition Refresh :: "lib \<Rightarrow> refresher \<Rightarrow> gtime \<Rightarrow> ctx_err \<Rightarrow> string \<Rightarrow> (token \<times> string) result" where
  "Refresh L r now ctx signed =
    (case ctx of
       Some e \<Rightarrow> Inl e
     | None \<Rightarrow> refresh L now ctx (r_method r) (r_parser r) (r_keyFunc r) (r_privateKey r) (r_cfg r) signed)"

section \<open>Lemmas\<close>

lemma NewRefresher_Inr:
  assumes "NewRefresher C (Some m) (Some pub) (Some priv) opts = Inr r"
  shows "r_method r = m \<and> r_privateKey r = priv \<and> r_keyFunc r = public_key_func m pub \<and>
    r_parser r = \<lparr>valid_methods = None, parser_leeway = 0, skip_claims = True\<rparr> \<and>
    ValidatePair C (Some pub) (Some priv) = None \<and>
    apply_opts opts \<lparr>defaultExpiration = DefaultExpiration, maxAge = 24 * Hour, resolver = None\<rparr> = Inr (r_cfg r)"
  using assms by (auto simp: NewRefresher_def PublicKeyFunc_def split: if_splits option.splits sum.splits)

inductive refresh_option :: "refresh_opt \<Rightarrow> bool" where
  "refresh_option (WithDefaultExpiration d)"
| "refresh_option (WithMaxAge d)"
| "refresh_option (WithClaimsResolver f)"

interpretation refresh_opts: opts_invariant "\<lambda>c. 0 < defaultExpiration c \<and> 0 \<le> maxAge c" refresh_option
  by unfold_locales
    (auto elim!: refresh_option.cases simp: WithDefaultExpiration_def WithMaxAge_def WithClaimsResolver_def split: if_splits)

lemma refresh_Inr:
  assumes "refresh L now ctx m p kf priv cfg s = Inr (tok, str)"
  obtains old c newExp where "parseWithClaims L p now s kf = Inr old" "TrimSpace s \<noteq> []"
    "check_age cfg now (IssuedAt L (t_claims old)) = None" "resolve L cfg ctx (t_claims old) = Inr c"
    "new_exp L cfg now (IssuedAt L (t_claims old)) c = Inr newExp"
    "tok = newWithClaims L m (SetIssuedAt L (SetNotBefore L (SetExpiresAt L c newExp) now) now)"
    "signedString L tok priv = Inr str"
  using assms by (auto simp: refresh_def Let_def split: if_splits sum.splits option.splits)

lemma refreshed_claims_lookup:
  assumes "numericDate_spec L"
  shows "fmlookup (SetIssuedAt L (SetNotBefore L (SetExpiresAt L c e) now) now) k =
    (if k = KeyIssuedAt \<or> k = KeyNotBefore then Some (date (trunc_second now))
     else if k = KeyExpiresAt then Some (date (trunc_second e)) else fmlookup c k)"
  using assms by (simp add: SetIssuedAt_def SetNotBefore_def SetExpiresAt_def)

text \<open>Whole seconds: a lifetime between two second-precision instants survives the truncation.\<close>

lemma trunc_second_shift:
  assumes "trunc_second a = a" "trunc_second b = b"
  shows "trunc_second (t + (a - b)) = trunc_second t + (a - b)"
proof -
  have "a - b = Second * (a div Second - b div Second)"
    using assms by (simp add: trunc_second_def right_diff_distrib)
  then show ?thesis by (metis trunc_second_add_mult)
qed

lemma new_exp_window:
  assumes "numericDate_spec L" "IssuedAt L c = Inr i" "ExpiresAt L d = Inr e"
    "minDuration \<le> e - i" "e - i \<le> maxDuration"
  shows "\<exists>x. new_exp L cfg now (Inr i) d = Inr x \<and> trunc_second x = trunc_second now + (e - i)"
proof -
  have "trunc_second e = e" "trunc_second i = i"
    using assms(2,3) readTime_truncated [OF assms(1)] by (auto simp: ExpiresAt_def IssuedAt_def)
  then show ?thesis
    using assms by (simp add: new_exp_def time_Sub_exact time_simps trunc_second_shift)
qed

section \<open>Properties\<close>

text \<open>C11. A refresh succeeds only for a text whose signature verifies under the configured public key with
  the configured algorithm, and, when MaxAge is set, only when its iat is readable and not older than
  MaxAge; the result is signed with the refresher's method and its iat and nbf are the present second.\<close>

theorem refresh_sound:
  assumes "numericDate_spec L" "newWithClaims_spec L" "parser_sound L"
    "NewRefresher C (Some m) (Some pub) (Some priv) opts = Inr r" "Refresh L r now ctx s = Inr (tok, str)"
  shows "\<exists>old. parseUnverified L s = Inr old \<and> sigVerifies L (t_method old) s pub \<and> Alg (t_method old) = Alg m \<and>
    (0 < maxAge (r_cfg r) \<longrightarrow> (\<exists>i. IssuedAt L (t_claims old) = Inr i \<and> time_Sub now i \<le> maxAge (r_cfg r))) \<and>
    t_method tok = m \<and> signedString L tok priv = Inr str \<and>
    fmlookup (t_claims tok) KeyIssuedAt = Some (date (trunc_second now)) \<and>
    fmlookup (t_claims tok) KeyNotBefore = Some (date (trunc_second now))"
proof -
  note nr = NewRefresher_Inr [OF assms(4)]
  have "refresh L now None m (r_parser r) (public_key_func m pub) priv (r_cfg r) s = Inr (tok, str)"
    using assms(5) nr by (auto simp: Refresh_def split: option.splits)
  then obtain old c e where o: "parseWithClaims L (r_parser r) now s (public_key_func m pub) = Inr old"
    "check_age (r_cfg r) now (IssuedAt L (t_claims old)) = None"
    "tok = newWithClaims L m (SetIssuedAt L (SetNotBefore L (SetExpiresAt L c e) now) now)"
    "signedString L tok priv = Inr str"
    by (rule refresh_Inr)
  obtain k tok0 where "public_key_func m pub (old\<lparr>t_valid := False\<rparr>) = Inr k" "sigVerifies L (t_method old) s k"
    and t0: "parseUnverified L s = Inr tok0" "same_content tok0 old"
    using assms(3) o(1) unfolding parser_sound_def by blast
  then have "sigVerifies L (t_method tok0) s pub" "Alg (t_method tok0) = Alg m"
    by (auto simp: public_key_func_Inr same_content_def)
  moreover have "0 < maxAge (r_cfg r) \<longrightarrow> (\<exists>i. IssuedAt L (t_claims tok0) = Inr i \<and> time_Sub now i \<le> maxAge (r_cfg r))"
    using o(2) t0(2) by (auto simp: check_age_def same_content_def split: sum.splits if_splits)
  moreover have "t_method tok = m" "t_claims tok = SetIssuedAt L (SetNotBefore L (SetExpiresAt L c e) now) now"
    using assms(2) o(3) by (simp_all add: newWithClaims_spec_def)
  ultimately show ?thesis using t0(1) o(4) refreshed_claims_lookup [OF assms(1)] by auto
qed

text \<open>Without a resolver a refresh preserves the lifetime of the token to the second (new exp less new
  iat is old exp less old iat) and every claim other than exp, iat and nbf, the jti included, so a
  revocation by jti also covers the refreshed token.\<close>

theorem refresh_preserves_window:
  assumes "numericDate_spec L" "newWithClaims_spec L"
    "resolver (r_cfg r) = None" "Refresh L r now ctx s = Inr (tok, str)"
  shows "\<exists>old. parseWithClaims L (r_parser r) now s (r_keyFunc r) = Inr old \<and>
    (\<forall>k. k \<notin> {KeyExpiresAt, KeyIssuedAt, KeyNotBefore} \<longrightarrow> fmlookup (t_claims tok) k = fmlookup (t_claims old) k) \<and>
    JTI (t_claims tok) = JTI (t_claims old) \<and>
    (\<forall>i e. IssuedAt L (t_claims old) = Inr i \<and> ExpiresAt L (t_claims old) = Inr e \<and>
        minDuration \<le> e - i \<and> e - i \<le> maxDuration \<longrightarrow>
      fmlookup (t_claims tok) KeyExpiresAt = Some (date (trunc_second now + (e - i)))) \<and>
    (fmlookup (t_claims old) KeyExpiresAt = None \<longrightarrow>
      fmlookup (t_claims tok) KeyExpiresAt = Some (date (trunc_second (now + defaultExpiration (r_cfg r)))))"
proof -
  have "refresh L now None (r_method r) (r_parser r) (r_keyFunc r) (r_privateKey r) (r_cfg r) s = Inr (tok, str)"
    using assms(4) by (auto simp: Refresh_def split: option.splits)
  then obtain old c x where o: "parseWithClaims L (r_parser r) now s (r_keyFunc r) = Inr old"
    "resolve L (r_cfg r) None (t_claims old) = Inr c"
    "new_exp L (r_cfg r) now (IssuedAt L (t_claims old)) c = Inr x"
    "tok = newWithClaims L (r_method r) (SetIssuedAt L (SetNotBefore L (SetExpiresAt L c x) now) now)"
    by (rule refresh_Inr)
  have c: "c = t_claims old" using o(2) assms(3) by (simp add: resolve_def)
  have tc: "fmlookup (t_claims tok) k =
      (if k = KeyIssuedAt \<or> k = KeyNotBefore then Some (date (trunc_second now))
       else if k = KeyExpiresAt then Some (date (trunc_second x)) else fmlookup (t_claims old) k)" for k
    using assms(2) o(4) c refreshed_claims_lookup [OF assms(1)] by (simp add: newWithClaims_spec_def)
  have "JTI (t_claims tok) = JTI (t_claims old)" by (rule jti.get_local) (simp add: tc)
  moreover have "fmlookup (t_claims tok) KeyExpiresAt = Some (date (trunc_second now + (e - i)))"
    if "IssuedAt L (t_claims old) = Inr i" "ExpiresAt L (t_claims old) = Inr e" "minDuration \<le> e - i" "e - i \<le> maxDuration" for i e
    using new_exp_window [OF assms(1) that, of "r_cfg r" now] o(3) that c by (auto simp: tc)
  moreover have "x = now + defaultExpiration (r_cfg r)" if "fmlookup (t_claims old) KeyExpiresAt = None"
    using o(3) that c by (auto simp: new_exp_def ExpiresAt_def readTime_def time_simps split: sum.splits)
  ultimately show ?thesis using o(1) tc by auto
qed

text \<open>The guards of a refresh: a token older than MaxAge is refused as expired, one whose iat cannot be
  read is refused while MaxAge is set, and a resolver that fails or returns nil aborts the refresh.\<close>

theorem refresh_guards:
  assumes "TrimSpace s \<noteq> []" "parseWithClaims L (r_parser r) now s (r_keyFunc r) = Inr old"
  shows "(IssuedAt L (t_claims old) = Inr i \<and> 0 < maxAge (r_cfg r) \<and> maxAge (r_cfg r) < time_Sub now i \<longrightarrow>
      Refresh L r now None s = Inl [ErrExpired]) \<and>
    (IssuedAt L (t_claims old) = Inl e \<and> 0 < maxAge (r_cfg r) \<longrightarrow>
      Refresh L r now None s = Inl (ErrInvalidClaims # e)) \<and>
    (maxAge (r_cfg r) = 0 \<and> resolver (r_cfg r) = Some f \<and> f None (DeepCopy L (t_claims old)) = Inl d \<longrightarrow>
      Refresh L r now None s = Inl (ErrCheck # d)) \<and>
    (maxAge (r_cfg r) = 0 \<and> resolver (r_cfg r) = Some f \<and> f None (DeepCopy L (t_claims old)) = Inr None \<longrightarrow>
      Refresh L r now None s = Inl [ErrInvalidClaims])"
  using assms by (simp add: Refresh_def refresh_def check_age_def resolve_def Let_def)

text \<open>A library that parses one text to a token with the given claims and signs everything.\<close>

definition refresh_lib :: "mapclaims \<Rightarrow> lib" where
  "refresh_lib c = mk_lib (\<lambda>x. if x = ''t'' then Inr (demo_token c) else Inl []) (\<lambda>_ x k. x = ''t'' \<and> k = demo_pub)
     (\<lambda>_ _. Inr ''a.b.c'') (\<lambda>_ _. False)"

definition demo_refresher :: refresher where
  "demo_refresher = \<lparr>r_method = SigningMethodEdDSA,
     r_parser = \<lparr>valid_methods = None, parser_leeway = 0, skip_claims = True\<rparr>,
     r_keyFunc = public_key_func SigningMethodEdDSA demo_pub, r_privateKey = Ed25519Private (replicate 64 (CHR ''k'')),
     r_cfg = \<lparr>defaultExpiration = DefaultExpiration, maxAge = 24 * Hour, resolver = None\<rparr>\<rparr>"

definition demo_claims :: mapclaims where
  "demo_claims = fmupd KeyIssuedAt (VNumericDate 1700000000000000000)
     (fmupd KeyExpiresAt (VNumericDate 1700000060000000000) fmempty)"

lemma demo_parse:
  "parseWithClaims (refresh_lib c) (r_parser demo_refresher) now ''t'' (r_keyFunc demo_refresher) = Inr (demo_token c)"
  by (simp add: refresh_lib_def demo_refresher_def checked_parse_def demo_token_def method_allowed_def
      public_key_func_def method_consts asymmetric_def)

lemma demo_times:
  "IssuedAt (refresh_lib demo_claims) (t_claims (demo_token demo_claims)) = Inr 1700000000000000000"
  "ExpiresAt (refresh_lib demo_claims) (t_claims (demo_token demo_claims)) = Inr 1700000060000000000"
  by (simp_all add: demo_token_def demo_claims_def IssuedAt_def ExpiresAt_def readTime_def nonzero_date_def
      time_IsZero_def zero_time_def refresh_lib_def trunc_second_def Second_def)

lemma Refresh_demo:
  "\<exists>tok. Refresh (refresh_lib demo_claims) demo_refresher 1700000030000000000 None ''t'' = Inr (tok, ''a.b.c'')"
proof -
  let ?L = "refresh_lib demo_claims"
  have "check_age (r_cfg demo_refresher) 1700000030000000000 (Inr 1700000000000000000) = None"
    by (simp add: check_age_def demo_refresher_def time_Sub_def Hour_def Minute_def Second_def maxDuration_def minDuration_def)
  moreover have "resolve ?L (r_cfg demo_refresher) None c = Inr c" for c
    by (simp add: resolve_def demo_refresher_def)
  moreover have "signedString ?L tok k = Inr ''a.b.c''" for tok k by (simp add: refresh_lib_def)
  ultimately show ?thesis
    using trim_t by (simp add: Refresh_def refresh_def demo_parse demo_times new_exp_def)
qed

lemma refresh_lib_specs: "numericDate_spec (refresh_lib c)" "newWithClaims_spec (refresh_lib c)" "parser_sound (refresh_lib c)"
  by (simp_all add: refresh_lib_def)

theorem refresh_preserves_window_witness:
  "\<exists>tok. Refresh (refresh_lib demo_claims) demo_refresher 1700000030000000000 None ''t'' = Inr (tok, ''a.b.c'') \<and>
    fmlookup (t_claims tok) KeyExpiresAt = Some (date 1700000090000000000)"
proof -
  obtain tok where t: "Refresh (refresh_lib demo_claims) demo_refresher 1700000030000000000 None ''t'' = Inr (tok, ''a.b.c'')"
    using Refresh_demo by blast
  have "resolver (r_cfg demo_refresher) = None" by (simp add: demo_refresher_def)
  from refresh_preserves_window [OF refresh_lib_specs(1,2) this t]
  have "fmlookup (t_claims tok) KeyExpiresAt = Some (date 1700000090000000000)"
    using demo_times by (auto simp: demo_parse maxDuration_def minDuration_def trunc_second_def Second_def)
  with t show ?thesis by blast
qed

theorem refresh_guards_witness:
  "Refresh (refresh_lib demo_claims) demo_refresher 1800000000000000000 None ''t'' = Inl [ErrExpired]"
  using refresh_guards [OF trim_t demo_parse [of demo_claims 1800000000000000000], where i = 1700000000000000000] demo_times
  by (simp add: demo_refresher_def Hour_def Minute_def Second_def time_Sub_def maxDuration_def minDuration_def)

definition demo_crypto :: crypto where
  "demo_crypto =
    \<lparr>ecdsa_GenerateKey = (\<lambda>_. Inl []), rsa_GenerateKey = (\<lambda>_. Inl []), ed25519_GenerateKey = Inl [],
     sha256_Sum256 = id, ecdsa_Sign = (\<lambda>_ _. Inl []), ecdsa_Verify = (\<lambda>_ _ _ _. False),
     rsa_SignPKCS1v15 = (\<lambda>_ _. Inl []), rsa_VerifyPKCS1v15 = (\<lambda>_ _ _. None),
     ed25519_Sign = (\<lambda>k m. m), ed25519_Verify = (\<lambda>k m s. s = m),
     ParseECPrivateKeyFromPEM = (\<lambda>_. Inl []), ParseECPublicKeyFromPEM = (\<lambda>_. Inl []),
     ParseRSAPrivateKeyFromPEM = (\<lambda>_. Inl []), ParseRSAPublicKeyFromPEM = (\<lambda>_. Inl []),
     ParseEdPrivateKeyFromPEM = (\<lambda>_. Inl []), ParseEdPublicKeyFromPEM = (\<lambda>_. Inl []),
     MarshalECPrivateKey = (\<lambda>_. Inl []), MarshalPKCS1PrivateKey = (\<lambda>_. []), MarshalPKCS8PrivateKey = (\<lambda>_. Inl []),
     MarshalPKIXPublicKey = (\<lambda>_. Inl []), pem_EncodeToMemory = (\<lambda>t d. t @ d)\<rparr>"

lemma NewRefresher_demo:
  "NewRefresher demo_crypto (Some SigningMethodEdDSA) (Some demo_pub) (Some (Ed25519Private (replicate 64 (CHR ''k'')))) [] =
    Inr demo_refresher"
  by (simp add: NewRefresher_def method_consts demo_pub_def ValidatePair_def ValidateEd25519Pair_def demo_crypto_def
      Ed25519PublicKeySize_def Ed25519PrivateKeySize_def PublicKeyFunc_def is_public_key_def demo_refresher_def Let_def)

theorem refresh_sound_witness:
  "\<exists>tok. Refresh (refresh_lib demo_claims) demo_refresher 1700000030000000000 None ''t'' = Inr (tok, ''a.b.c'') \<and>
    fmlookup (t_claims tok) KeyIssuedAt = Some (date 1700000030000000000)"
proof -
  obtain tok where t: "Refresh (refresh_lib demo_claims) demo_refresher 1700000030000000000 None ''t'' = Inr (tok, ''a.b.c'')"
    using Refresh_demo by blast
  from refresh_sound [OF refresh_lib_specs NewRefresher_demo t]
  have "fmlookup (t_claims tok) KeyIssuedAt = Some (date 1700000030000000000)"
    by (auto simp: trunc_second_def Second_def)
  with t show ?thesis by blast
qed

end
