(* ===== verification/Jwks.thy ===== *)
theory Jwks
  imports Keys Lib_Instance
begin

text \<open>
  Package \<open>jwks\<close>, first part: JSON Web Keys, their conversion from and to public keys, and the key
  set. The SEC1 point encoding of \<open>crypto/ecdsa\<close> is the parameter \<open>ecBytes\<close>. A conversion that would
  dereference a nil pointer or slice past the end of the point panics in Go; that is \<open>None\<close>.
\<close>

section \<open>JSON Web Keys\<close>

definition KeyTypeRSA :: string where "KeyTypeRSA = ''RSA''"
definition KeyTypeEC :: string where "KeyTypeEC = ''EC''"
definition KeyTypeOKP :: string where "KeyTypeOKP = ''OKP''"
definition CurveP256 :: string where "CurveP256 = ''P-256''"
definition CurveP384 :: string where "CurveP384 = ''P-384''"
definition CurveP521 :: string where "CurveP521 = ''P-521''"
definition CurveEd25519 :: string where "CurveEd25519 = ''Ed25519''"
definition UseSig :: string where "UseSig = ''sig''"

lemmas jwk_consts = KeyTypeRSA_def KeyTypeEC_def KeyTypeOKP_def CurveP256_def CurveP384_def CurveP521_def
  CurveEd25519_def UseSig_def

record jwk =
  j_Kty :: string
  j_Kid :: string
  j_Use :: string
  j_Alg :: string
  j_N :: string
  j_E :: string
  j_Crv :: string
  j_X :: string
  j_Y :: string

definition JWK0 :: jwk where
  "JWK0 = \<lparr>j_Kty = [], j_Kid = [], j_Use = [], j_Alg = [], j_N = [], j_E = [], j_Crv = [], j_X = [], j_Y = []\<rparr>"

definition decode_field :: "string \<Rightarrow> string result" where
  "decode_field f = (case RawURL_DecodeString f of None \<Rightarrow> Inl [ErrDecode, ErrExternal ''base64''] | Some b \<Rightarrow> Inr b)"

definition rsaPublicFromJWK :: "jwk \<Rightarrow> rsa_public result" where
  "rsaPublicFromJWK j =
    (case decode_field (j_N j) of
       Inl e \<Rightarrow> Inl e
     | Inr nBytes \<Rightarrow>
         (case decode_field (j_E j) of
            Inl e \<Rightarrow> Inl e
          | Inr eBytes \<Rightarrow>
              if nBytes = [] \<or> eBytes = [] then Inl [ErrInvalidValue]
              else Inr \<lparr>rsa_N = SetBytes nBytes, rsa_E = wrap64 (int (SetBytes eBytes))\<rparr>))"

definition curveFromName :: "string \<Rightarrow> curve result" where
  "curveFromName name =
    (if name = CurveP256 then Inr P256
     else if name = CurveP384 then Inr P384
     else if name = CurveP521 then Inr P521
     else if name = [] then Inl [ErrInvalidValue]
     else Inl [ErrInvalidValue])"

definition nameFromCurve :: "curve \<Rightarrow> string result" where
  "nameFromCurve c =
    (case c of P256 \<Rightarrow> Inr CurveP256 | P384 \<Rightarrow> Inr CurveP384 | P521 \<Rightarrow> Inr CurveP521
     | OtherCurve _ \<Rightarrow> Inl [ErrInvalidValue])"

definition ecPublicFromJWK :: "jwk \<Rightarrow> ecdsa_public result" where
  "ecPublicFromJWK j =
    (case curveFromName (j_Crv j) of
       Inl e \<Rightarrow> Inl e
     | Inr curve \<Rightarrow>
         (case decode_field (j_X j) of
            Inl e \<Rightarrow> Inl e
          | Inr x \<Rightarrow>
              (case decode_field (j_Y j) of
                 Inl e \<Rightarrow> Inl e
               | Inr y \<Rightarrow>
                   if x = [] \<or> y = [] then Inl [ErrInvalidValue]
                   else Inr \<lparr>ec_curve = curve, ec_X = SetBytes x, ec_Y = SetBytes y\<rparr>)))"

definition okpPublicFromJWK :: "jwk \<Rightarrow> string result" where
  "okpPublicFromJWK j =
    (if j_Crv j \<noteq> CurveEd25519 then Inl [ErrInvalidValue]
     else (case decode_field (j_X j) of
             Inl e \<Rightarrow> Inl e
           | Inr x \<Rightarrow> if length x \<noteq> Ed25519PublicKeySize then Inl [ErrInvalidSize] else Inr x))"

definition PublicKeyFromJWK :: "jwk \<Rightarrow> pkey result" where
  "PublicKeyFromJWK j =
    (if j_Kty j = KeyTypeRSA then map_sum id (RsaPublic \<circ> Some) (rsaPublicFromJWK j)
     else if j_Kty j = KeyTypeEC then map_sum id (EcdsaPublic \<circ> Some) (ecPublicFromJWK j)
     else if j_Kty j = KeyTypeOKP then map_sum id Ed25519Public (okpPublicFromJWK j)
     else if j_Kty j = [] then Inl [ErrInvalidValue]
     else Inl [ErrInvalidValue])"

definition jwkFromRSA :: "rsa_public \<Rightarrow> string \<Rightarrow> jwk" where
  "jwkFromRSA k kid =
    JWK0\<lparr>j_Kty := KeyTypeRSA, j_Kid := kid, j_Use := UseSig,
         j_N := RawURL_EncodeToString (be_bytes (rsa_N k)),
         j_E := RawURL_EncodeToString (be_bytes (nat \<bar>rsa_E k\<bar>))\<rparr>"

definition byteLen :: "curve \<Rightarrow> nat" where
  "byteLen c = nat ((BitSize c + 7) div 8)"

definition jwkFromECDSA :: "(ecdsa_public \<Rightarrow> string result) \<Rightarrow> ecdsa_public \<Rightarrow> string \<Rightarrow> jwk result option" where
  "jwkFromECDSA ecBytes k kid =
    (case nameFromCurve (ec_curve k) of
       Inl e \<Rightarrow> Some (Inl e)
     | Inr crv \<Rightarrow>
         (case ecBytes k of
            Inl e \<Rightarrow> Some (Inl e)
          | Inr point \<Rightarrow>
              let n = byteLen (ec_curve k) in
              if length point < 1 + n then None
              else Some (Inr (JWK0\<lparr>j_Kty := KeyTypeEC, j_Kid := kid, j_Use := UseSig, j_Crv := crv,
                     j_X := RawURL_EncodeToString (take n (drop 1 point)),
                     j_Y := RawURL_EncodeToString (drop (1 + n) point)\<rparr>))))"

definition jwkFromEd25519 :: "string \<Rightarrow> string \<Rightarrow> jwk" where
  "jwkFromEd25519 k kid =
    JWK0\<lparr>j_Kty := KeyTypeOKP, j_Kid := kid, j_Use := UseSig, j_Alg := ''EdDSA'', j_Crv := CurveEd25519,
         j_X := RawURL_EncodeToString k\<rparr>"

definition JWKFromPublicKey :: "(ecdsa_public \<Rightarrow> string result) \<Rightarrow> pkey \<Rightarrow> string \<Rightarrow> jwk result option" where
  "JWKFromPublicKey ecBytes publicKey kid =
    (case publicKey of
       RsaPublic (Some k) \<Rightarrow> Some (Inr (jwkFromRSA k kid))
     | RsaPublic None \<Rightarrow> None
     | EcdsaPublic (Some k) \<Rightarrow> jwkFromECDSA ecBytes k kid
     | EcdsaPublic None \<Rightarrow> None
     | Ed25519Public k \<Rightarrow> Some (Inr (jwkFromEd25519 k kid))
     | _ \<Rightarrow> Some (Inl [ErrInvalidType]))"

section \<open>The key set\<close>

type_synonym keyset = "(string, jwk) fmap"
type_synonym jwks = "jwk list"

definition NewKeySet :: keyset where "NewKeySet = fmempty"

definition Add :: "jwk \<Rightarrow> keyset \<Rightarrow> keyset result" where
  "Add j ks =
    (case fmlookup ks (j_Kid j) of Some _ \<Rightarrow> Inl [ErrInvalidValue] | None \<Rightarrow> Inr (fmupd (j_Kid j) j ks))"

definition Replace :: "jwk \<Rightarrow> keyset \<Rightarrow> keyset" where
  "Replace j ks = fmupd (j_Kid j) j ks"

definition Remove :: "string \<Rightarrow> keyset \<Rightarrow> keyset" where
  "Remove kid ks = fmdrop kid ks"

definition Lookup :: "keyset \<Rightarrow> string \<Rightarrow> jwk result" where
  "Lookup ks kid = (case fmlookup ks kid of None \<Rightarrow> Inl [ErrNotFound] | Some j \<Rightarrow> Inr j)"

definition PublicKey :: "keyset \<Rightarrow> string \<Rightarrow> pkey result" where
  "PublicKey ks kid = (case Lookup ks kid of Inl e \<Rightarrow> Inl e | Inr j \<Rightarrow> PublicKeyFromJWK j)"

fun add_all :: "jwk list \<Rightarrow> keyset \<Rightarrow> keyset result" where
  "add_all [] ks = Inr ks"
| "add_all (k # rest) ks = (case Add k ks of Inl e \<Rightarrow> Inl e | Inr ks' \<Rightarrow> add_all rest ks')"

definition FromJWKS :: "jwks \<Rightarrow> keyset result" where
  "FromJWKS j = add_all j NewKeySet"

text \<open>The snapshot lists the keys in the order the map is iterated, \<open>order\<close>.\<close>

definition JWKS :: "string list \<Rightarrow> keyset \<Rightarrow> jwks" where
  "JWKS order ks = List.map_filter (fmlookup ks) order"

definition iteration_order :: "string list \<Rightarrow> keyset \<Rightarrow> bool" where
  "iteration_order order ks \<longleftrightarrow> distinct order \<and> set order = fset (fmdom ks)"

definition Len :: "keyset \<Rightarrow> nat" where
  "Len ks = fcard (fmdom ks)"

section \<open>The contract of a key store\<close>

locale key_store =
  fixes empty :: 's
    and lookup :: "'s \<Rightarrow> string \<Rightarrow> jwk result"
    and add :: "jwk \<Rightarrow> 's \<Rightarrow> 's result"
    and replace :: "jwk \<Rightarrow> 's \<Rightarrow> 's"
    and remove :: "string \<Rightarrow> 's \<Rightarrow> 's"
  assumes lookup_empty: "lookup empty kid = Inl [ErrNotFound]"
    and add_fresh: "add j s = (if lookup s (j_Kid j) = Inl [ErrNotFound] then Inr (replace j s) else Inl [ErrInvalidValue])"
    and lookup_replace: "lookup (replace j s) kid = (if kid = j_Kid j then Inr j else lookup s kid)"
    and lookup_remove: "lookup (remove k s) kid = (if kid = k then Inl [ErrNotFound] else lookup s kid)"
    and lookup_error: "lookup s kid = Inl e \<Longrightarrow> e = [ErrNotFound]"
begin

lemma add_lookup: "add j s = Inr s' \<Longrightarrow> lookup s' kid = (if kid = j_Kid j then Inr j else lookup s kid)"
  by (auto simp: add_fresh lookup_replace split: if_splits)

lemma add_twice: "add j s = Inr s' \<Longrightarrow> j_Kid i = j_Kid j \<Longrightarrow> add i s' = Inl [ErrInvalidValue]"
  by (auto simp: add_fresh lookup_replace split: if_splits)

lemma remove_then_add: "\<exists>s'. add j (remove (j_Kid j) s) = Inr s' \<and> lookup s' (j_Kid j) = Inr j"
  by (simp add: add_fresh lookup_remove lookup_replace)

end

interpretation ks: key_store NewKeySet Lookup Add Replace Remove
  by unfold_locales (auto simp: NewKeySet_def Lookup_def Add_def Replace_def Remove_def split: option.splits)

section \<open>Lemmas\<close>

lemma decode_field_encode [simp]: "decode_field (RawURL_EncodeToString b) = Inr b"
  by (simp add: decode_field_def)

lemma curve_names [simp]: "nameFromCurve c = Inr n \<Longrightarrow> curveFromName n = Inr c"
  by (cases c) (auto simp: nameFromCurve_def curveFromName_def jwk_consts)

text \<open>
  The documented result of \<open>ecdsa.PublicKey.Bytes\<close> for a point of the curve: the uncompressed SEC1
  encoding, coordinates padded to the length of the field.
\<close>

definition sec1_point :: "ecdsa_public \<Rightarrow> string" where
  "sec1_point k = CHR 0x04 # be_pad (byteLen (ec_curve k)) (ec_X k) @ be_pad (byteLen (ec_curve k)) (ec_Y k)"

definition ec_coords_ok :: "ecdsa_public \<Rightarrow> bool" where
  "ec_coords_ok k \<longleftrightarrow> ec_X k < 256 ^ byteLen (ec_curve k) \<and> ec_Y k < 256 ^ byteLen (ec_curve k)"

lemma byteLen_pos: "nameFromCurve c = Inr n \<Longrightarrow> 0 < byteLen c"
  by (cases c) (auto simp: nameFromCurve_def byteLen_def)

lemma be_pad_Nil: "n < 256 ^ len \<Longrightarrow> 0 < len \<Longrightarrow> be_pad len n \<noteq> []"
  using length_be_pad [of n len] by auto

lemma add_all_Inr:
  "add_all js ks = Inr ks' \<Longrightarrow>
    distinct (map j_Kid js) \<and> (\<forall>j \<in> set js. fmlookup ks (j_Kid j) = None) \<and>
    (\<forall>kid j. fmlookup ks' kid = Some j \<longleftrightarrow> fmlookup ks kid = Some j \<or> j \<in> set js \<and> j_Kid j = kid)"
proof (induction js ks rule: add_all.induct)
  case (2 k rest ks)
  have k: "fmlookup ks (j_Kid k) = None" and r: "add_all rest (fmupd (j_Kid k) k ks) = Inr ks'"
    using "2.prems" by (auto simp: Add_def split: option.splits)
  then have "Add k ks = Inr (fmupd (j_Kid k) k ks)" by (simp add: Add_def)
  note ih = "2.IH" [OF this r]
  have "distinct (map j_Kid (k # rest))" "\<forall>j \<in> set (k # rest). fmlookup ks (j_Kid j) = None"
    using ih k by (auto simp: image_iff split: if_splits)
  moreover have "fmlookup ks' kid = Some j \<longleftrightarrow> fmlookup ks kid = Some j \<or> j \<in> set (k # rest) \<and> j_Kid j = kid" for kid j
    using ih k by (cases "kid = j_Kid k") auto
  ultimately show ?case by blast
qed simp

lemma add_all_distinct:
  "distinct (map j_Kid js) \<Longrightarrow> (\<forall>j \<in> set js. fmlookup ks (j_Kid j) = None) \<Longrightarrow> \<exists>ks'. add_all js ks = Inr ks'"
proof (induction js arbitrary: ks)
  case (Cons k rest)
  then have "Add k ks = Inr (fmupd (j_Kid k) k ks)" by (simp add: Add_def)
  moreover have "\<forall>j \<in> set rest. fmlookup (fmupd (j_Kid k) k ks) (j_Kid j) = None" using Cons.prems by auto
  ultimately show ?case using Cons by simp
qed simp

section \<open>Properties\<close>

text \<open>The public keys a JWK can carry: an RSA key with a positive modulus and an exponent of 63 bits, an
  ECDSA key on a named curve whose point the library encodes, an Ed25519 key of 32 bytes.\<close>

definition jwk_encodable :: "(ecdsa_public \<Rightarrow> string result) \<Rightarrow> pkey \<Rightarrow> bool" where
  "jwk_encodable ecBytes key =
    (case key of
       RsaPublic (Some k) \<Rightarrow> 0 < rsa_N k \<and> 0 < rsa_E k \<and> rsa_E k < 2 ^ 63
     | EcdsaPublic (Some k) \<Rightarrow>
         ec_curve k \<in> {P256, P384, P521} \<and> ec_coords_ok k \<and> ecBytes k = Inr (sec1_point k)
     | Ed25519Public k \<Rightarrow> length k = Ed25519PublicKeySize
     | _ \<Rightarrow> False)"

lemma rsa_roundtrip:
  assumes "0 < rsa_N k" "0 < rsa_E k" "rsa_E k < 2 ^ 63"
  shows "PublicKeyFromJWK (jwkFromRSA k kid) = Inr (RsaPublic (Some k))"
proof -
  have "wrap64 (rsa_E k) = rsa_E k" using assms by (intro wrap64_id) simp_all
  then have "rsaPublicFromJWK (jwkFromRSA k kid) = Inr k"
    using assms by (simp add: rsaPublicFromJWK_def jwkFromRSA_def JWK0_def)
  then show ?thesis by (simp add: PublicKeyFromJWK_def jwkFromRSA_def JWK0_def)
qed

lemma ec_roundtrip:
  assumes "ec_curve k \<in> {P256, P384, P521}" "ec_coords_ok k" "ecBytes k = Inr (sec1_point k)"
  shows "\<exists>j. jwkFromECDSA ecBytes k kid = Some (Inr j) \<and> j_Kid j = kid \<and> PublicKeyFromJWK j = Inr (EcdsaPublic (Some k))"
proof -
  let ?n = "byteLen (ec_curve k)"
  obtain crv where crv: "nameFromCurve (ec_curve k) = Inr crv" using assms(1) by (auto simp: nameFromCurve_def)
  have len: "length (be_pad ?n (ec_X k)) = ?n" "length (be_pad ?n (ec_Y k)) = ?n"
    using assms(2) by (simp_all add: ec_coords_ok_def length_be_pad)
  have ne: "be_pad ?n (ec_X k) \<noteq> []" "be_pad ?n (ec_Y k) \<noteq> []"
    using assms(2) byteLen_pos [OF crv] by (simp_all add: ec_coords_ok_def be_pad_Nil)
  let ?j = "JWK0\<lparr>j_Kty := KeyTypeEC, j_Kid := kid, j_Use := UseSig, j_Crv := crv,
     j_X := RawURL_EncodeToString (be_pad ?n (ec_X k)), j_Y := RawURL_EncodeToString (be_pad ?n (ec_Y k))\<rparr>"
  have "jwkFromECDSA ecBytes k kid = Some (Inr ?j)"
    using assms(3) crv len by (simp add: jwkFromECDSA_def sec1_point_def Let_def)
  moreover have "PublicKeyFromJWK ?j = Inr (EcdsaPublic (Some k))"
    using ne curve_names [OF crv] by (simp add: PublicKeyFromJWK_def ecPublicFromJWK_def JWK0_def KeyTypeRSA_def KeyTypeEC_def)
  ultimately show ?thesis by simp
qed

lemma jwk_of_key:
  assumes "jwk_encodable ecBytes key"
  shows "\<exists>j. JWKFromPublicKey ecBytes key kid = Some (Inr j) \<and> j_Kid j = kid \<and> PublicKeyFromJWK j = Inr key"
proof (cases key)
  case (EcdsaPublic p)
  then obtain k where "p = Some k" using assms by (auto simp: jwk_encodable_def split: option.splits)
  with EcdsaPublic assms show ?thesis using ec_roundtrip by (simp add: jwk_encodable_def JWKFromPublicKey_def)
next
  case (RsaPublic p)
  then obtain k where "p = Some k" using assms by (auto simp: jwk_encodable_def split: option.splits)
  with RsaPublic assms show ?thesis
    using rsa_roundtrip [of k kid] by (simp add: jwk_encodable_def JWKFromPublicKey_def jwkFromRSA_def)
next
  case (Ed25519Public k)
  then show ?thesis
    using assms by (simp add: jwk_encodable_def JWKFromPublicKey_def jwkFromEd25519_def PublicKeyFromJWK_def
      okpPublicFromJWK_def JWK0_def jwk_consts)
qed (use assms in \<open>simp_all add: jwk_encodable_def\<close>)

text \<open>C31. A public key survives the trip through its JWK: converting an encodable RSA, ECDSA or Ed25519 key
  to a JWK and back gives the same key, under the requested kid.\<close>

theorem jwk_roundtrip:
  assumes "jwk_encodable ecBytes key"
  shows "\<exists>j. JWKFromPublicKey ecBytes key kid = Some (Inr j) \<and> j_Kid j = kid \<and> PublicKeyFromJWK j = Inr key"
  using assms by (rule jwk_of_key)

theorem jwk_roundtrip_witness:
  "\<exists>j. JWKFromPublicKey (Inr \<circ> sec1_point) (EcdsaPublic (Some \<lparr>ec_curve = P256, ec_X = 7, ec_Y = 300\<rparr>)) ''k'' = Some (Inr j) \<and>
    PublicKeyFromJWK j = Inr (EcdsaPublic (Some \<lparr>ec_curve = P256, ec_X = 7, ec_Y = 300\<rparr>))"
  using jwk_roundtrip [of "Inr \<circ> sec1_point" "EcdsaPublic (Some \<lparr>ec_curve = P256, ec_X = 7, ec_Y = 300\<rparr>)" "''k''"]
  by (auto simp: jwk_encodable_def ec_coords_ok_def byteLen_def)

text \<open>Every key of a set is stored under its own kid, whatever operations built the set.\<close>

definition keyset_inv :: "keyset \<Rightarrow> bool" where
  "keyset_inv ks \<longleftrightarrow> (\<forall>kid j. fmlookup ks kid = Some j \<longrightarrow> j_Kid j = kid)"

lemma keyset_inv_ops:
  "keyset_inv NewKeySet" "keyset_inv ks \<Longrightarrow> Add j ks = Inr ks' \<Longrightarrow> keyset_inv ks'"
  "keyset_inv ks \<Longrightarrow> keyset_inv (Replace j ks)" "keyset_inv ks \<Longrightarrow> keyset_inv (Remove kid ks)"
  by (auto simp: keyset_inv_def NewKeySet_def Add_def Replace_def Remove_def split: option.splits if_splits)

lemma set_map_filter: "set (List.map_filter f xs) = {y. \<exists>x \<in> set xs. f x = Some y}"
  by (induction xs) (auto simp: List.map_filter_simps split: option.splits)

lemma map_filter_kids:
  "keyset_inv ks \<Longrightarrow> set order \<subseteq> fset (fmdom ks) \<Longrightarrow> map j_Kid (List.map_filter (fmlookup ks) order) = order"
proof (induction order)
  case (Cons k order)
  then obtain j where "fmlookup ks k = Some j" by (auto simp: fmlookup_dom_iff)
  moreover from this Cons.prems(1) have "j_Kid j = k" by (simp add: keyset_inv_def)
  ultimately show ?case using Cons by (simp add: List.map_filter_simps)
qed (simp add: List.map_filter_simps)

lemma FromJWKS_lookup: "FromJWKS js = Inr ks \<Longrightarrow> fmlookup ks kid = Some j \<longleftrightarrow> j \<in> set js \<and> j_Kid j = kid"
  using add_all_Inr [of js NewKeySet ks] by (simp add: FromJWKS_def NewKeySet_def)

lemma FromJWKS_inv: "FromJWKS js = Inr ks \<Longrightarrow> keyset_inv ks"
  by (simp add: keyset_inv_def FromJWKS_lookup)

text \<open>A JWKS loads exactly when its kids are distinct, and then looks up each of its keys and no other;
  a snapshot of a key set, in whatever order the map is iterated, loads back to the same set.\<close>

theorem keyset_jwks_roundtrip:
  "((\<exists>ks. FromJWKS js = Inr ks) \<longleftrightarrow> distinct (map j_Kid js)) \<and>
   (\<forall>ks. FromJWKS js = Inr ks \<longrightarrow> keyset_inv ks \<and> (\<forall>kid j. Lookup ks kid = Inr j \<longleftrightarrow> j \<in> set js \<and> j_Kid j = kid)) \<and>
   (keyset_inv ks0 \<and> iteration_order order ks0 \<longrightarrow> FromJWKS (JWKS order ks0) = Inr ks0)"
proof (intro conjI allI impI)
  show "(\<exists>ks. FromJWKS js = Inr ks) \<longleftrightarrow> distinct (map j_Kid js)"
    using add_all_Inr [of js NewKeySet] add_all_distinct [of js NewKeySet] by (auto simp: FromJWKS_def NewKeySet_def)
  fix ks
  assume "FromJWKS js = Inr ks"
  note l = FromJWKS_lookup [OF this] and i = FromJWKS_inv [OF this]
  show "keyset_inv ks" by (rule i)
  show "Lookup ks kid = Inr j \<longleftrightarrow> j \<in> set js \<and> j_Kid j = kid" for kid j
    using l [of kid j] by (auto simp: Lookup_def split: option.splits)
next
  assume a: "keyset_inv ks0 \<and> iteration_order order ks0"
  let ?js = "JWKS order ks0"
  have "distinct (map j_Kid ?js)" using a map_filter_kids [of ks0 order] by (simp add: JWKS_def iteration_order_def)
  then obtain ks where ks: "FromJWKS ?js = Inr ks"
    using add_all_distinct [of ?js NewKeySet] by (auto simp: FromJWKS_def NewKeySet_def)
  have "fmlookup ks kid = Some j \<longleftrightarrow> fmlookup ks0 kid = Some j" for kid j
    using FromJWKS_lookup [OF ks] a
    by (auto simp: JWKS_def set_map_filter keyset_inv_def iteration_order_def intro: fmdomI)
  then have "ks = ks0" by (intro fmap_ext) (metis not_Some_eq)
  with ks show "FromJWKS ?js = Inr ks0" by simp
qed

theorem keyset_jwks_roundtrip_witness:
  "FromJWKS (JWKS [''k''] (Replace (JWK0\<lparr>j_Kid := ''k''\<rparr>) NewKeySet)) = Inr (Replace (JWK0\<lparr>j_Kid := ''k''\<rparr>) NewKeySet)"
  using keyset_jwks_roundtrip [of "[]" "Replace (JWK0\<lparr>j_Kid := ''k''\<rparr>) NewKeySet" "[''k'']"]
    keyset_inv_ops(3) [OF keyset_inv_ops(1), of "JWK0\<lparr>j_Kid := ''k''\<rparr>"]
  by (simp add: iteration_order_def Replace_def NewKeySet_def)

text \<open>An RSA exponent longer than 64 bits is accepted and silently reduced: the JWK with exponent
  2^64 + 65537 decodes, without an error, to the key with exponent 65537.\<close>

theorem rsa_exponent_truncated:
  "rsaPublicFromJWK (JWK0\<lparr>j_N := RawURL_EncodeToString (be_bytes n), j_E := RawURL_EncodeToString (be_bytes (2 ^ 64 + 65537))\<rparr>) =
    (if n = 0 then Inl [ErrInvalidValue] else Inr \<lparr>rsa_N = n, rsa_E = 65537\<rparr>)"
  by (simp add: rsaPublicFromJWK_def wrap64_def)

end
