(* ===== verification/Jwks_Remote.thy ===== *)
theory Jwks_Remote
  imports Jwks
begin

text \<open>
  Package \<open>jwks\<close>, second part: the caching fetcher \<open>Remote\<close>. The network is the argument \<open>reply\<close> of a
  call, the JSON decoder the argument \<open>decode\<close>, and each read of the clock its own argument. The last
  section is the interleaved execution of many callers, with the two locks of the code.
\<close>

section \<open>Configuration\<close>

definition DefaultRemoteTTL :: duration where "DefaultRemoteTTL = 10 * Minute"
definition DefaultNegativeTTL :: duration where "DefaultNegativeTTL = 30 * Second"
definition DefaultMaxBodyBytes :: int where "DefaultMaxBodyBytes = 2 ^ 20"

text \<open>Of the HTTP client the model keeps its timeout, where 0 is none: what a request meets within it is the
  argument \<open>reply\<close>, a timeout being one of the errors of sending.\<close>

record remote =
  url :: string
  client :: duration
  ttl :: duration
  negativeTTL :: duration
  maxBodyBytes :: int
  ignoreCacheControl :: bool
  cached :: "keyset option"
  expiresAt :: gtime
  lastErr :: "gerror option"
  errAt :: gtime

type_synonym remote_opt = "remote \<Rightarrow> remote"

definition WithHTTPClient :: "duration option \<Rightarrow> remote_opt" where
  "WithHTTPClient c r = (case c of Some timeout \<Rightarrow> r\<lparr>client := timeout\<rparr> | None \<Rightarrow> r)"

definition WithTTL :: "duration \<Rightarrow> remote_opt" where
  "WithTTL d r = (if d > 0 then r\<lparr>ttl := d\<rparr> else r)"

definition WithNegativeTTL :: "duration \<Rightarrow> remote_opt" where
  "WithNegativeTTL d r = (if d \<ge> 0 then r\<lparr>negativeTTL := d\<rparr> else r)"

definition WithMaxBodyBytes :: "int \<Rightarrow> remote_opt" where
  "WithMaxBodyBytes n r = (if n > 0 then r\<lparr>maxBodyBytes := n\<rparr> else r)"

definition WithIgnoreCacheControl :: remote_opt where
  "WithIgnoreCacheControl r = r\<lparr>ignoreCacheControl := True\<rparr>"

definition NewRemote :: "string \<Rightarrow> remote_opt list \<Rightarrow> remote result" where
  "NewRemote u opts =
    (if TrimSpace u = [] then Inl [ErrInvalidValue]
     else Inr (fold (\<lambda>opt r. opt r) opts
       \<lparr>url = u, client = 10 * Second, ttl = DefaultRemoteTTL, negativeTTL = DefaultNegativeTTL, maxBodyBytes = DefaultMaxBodyBytes,
        ignoreCacheControl = False, cached = None, expiresAt = zero_time, lastErr = None, errAt = zero_time\<rparr>))"

section \<open>Cache-Control\<close>

definition max_age_prefix :: string where "max_age_prefix = ''max-age=''"

text \<open>The loop over the directives; the product of two \<open>int64\<close> wraps around.\<close>

fun scan_directives :: "string list \<Rightarrow> duration option" where
  "scan_directives [] = None"
| "scan_directives (raw # rest) =
    (let directive = TrimSpace raw; lower = ToLower directive in
     if directive = [] then scan_directives rest
     else if lower = ''no-store'' \<or> lower = ''no-cache'' then None
     else if \<not> HasPrefix lower max_age_prefix then scan_directives rest
     else (case Atoi (TrimSpace (drop (length max_age_prefix) directive)) of
             None \<Rightarrow> None
           | Some secs \<Rightarrow> if secs < 0 then None else Some (wrap64 (secs * Second))))"

definition parseCacheControlMaxAge :: "string \<Rightarrow> duration option" where
  "parseCacheControlMaxAge header =
    (if header = [] then None else scan_directives (Split header (CHR '','')))"

section \<open>Fetching\<close>

text \<open>
  What a request meets: an error building it, an error sending it, or a response with its status,
  its \<open>Cache-Control\<close> header, the bytes of its body and the error that ends the body, if any.
\<close>

datatype http_reply =
    ReqError gerror
  | DoError gerror
  | Reply int string string "gerror option"

definition limited_read :: "int \<Rightarrow> string \<Rightarrow> gerror option \<Rightarrow> string result" where
  "limited_read n body err =
    (if n \<le> int (length body) then Inr (take (nat n) body)
     else (case err of Some e \<Rightarrow> Inl e | None \<Rightarrow> Inr body))"

definition doFetch :: "(string \<Rightarrow> jwks result) \<Rightarrow> remote \<Rightarrow> http_reply \<Rightarrow> (keyset \<times> duration) result" where
  "doFetch decode r reply =
    (case reply of
       ReqError e \<Rightarrow> Inl (ErrInvalidValue # e)
     | DoError e \<Rightarrow> Inl (ErrRead # e)
     | Reply status cc raw err \<Rightarrow>
         if status < 200 \<or> status \<ge> 300 then Inl [ErrRead]
         else (case limited_read (wrap64 (maxBodyBytes r + 1)) raw err of
                 Inl e \<Rightarrow> Inl (ErrRead # e)
               | Inr body \<Rightarrow>
                   if int (length body) > maxBodyBytes r then Inl [ErrRead]
                   else (case decode body of
                           Inl e \<Rightarrow> Inl (ErrDecode # e)
                         | Inr js \<Rightarrow>
                             (case FromJWKS js of
                                Inl e \<Rightarrow> Inl e
                              | Inr ks \<Rightarrow>
                                  let t = (if ignoreCacheControl r then ttl r
                                           else (case parseCacheControlMaxAge cc of
                                                   Some maxAge \<Rightarrow> if maxAge < ttl r then maxAge else ttl r
                                                 | None \<Rightarrow> ttl r))
                                  in Inr (ks, t)))))"

definition fetchLocked :: "(string \<Rightarrow> jwks result) \<Rightarrow> http_reply \<Rightarrow> gtime \<Rightarrow> remote \<Rightarrow> keyset result \<times> remote" where
  "fetchLocked decode reply now r =
    (case doFetch decode r reply of
       Inl e \<Rightarrow> (Inl e, r\<lparr>lastErr := Some e, errAt := now\<rparr>)
     | Inr (ks, t) \<Rightarrow> (Inr ks, r\<lparr>cached := Some ks, expiresAt := time_Add now t, lastErr := None\<rparr>))"

definition Refresh :: "(string \<Rightarrow> jwks result) \<Rightarrow> http_reply \<Rightarrow> gtime \<Rightarrow> remote \<Rightarrow> keyset result \<times> remote" where
  "Refresh decode reply now r = fetchLocked decode reply now r"

definition fresh :: "gtime \<Rightarrow> remote \<Rightarrow> bool" where
  "fresh now r \<longleftrightarrow> cached r \<noteq> None \<and> time_Before now (expiresAt r)"

definition negative :: "gtime \<Rightarrow> remote \<Rightarrow> bool" where
  "negative now r \<longleftrightarrow> lastErr r \<noteq> None \<and> negativeTTL r > 0 \<and> time_Sub now (errAt r) < negativeTTL r"

text \<open>
  The part of \<open>cachedOrFetch\<close> before the request, with the lock held: serve the cache, replay the
  error, or go on to fetch (\<open>None\<close>). The clock is read for the freshness test and again for the age of
  the error.
\<close>

definition cache_answer :: "gtime \<Rightarrow> gtime \<Rightarrow> remote \<Rightarrow> keyset result option" where
  "cache_answer t1 t2 r =
    (if fresh t1 r then map_option Inr (cached r)
     else if negative t2 r then map_option Inl (lastErr r)
     else None)"

definition cachedOrFetch ::
  "(string \<Rightarrow> jwks result) \<Rightarrow> http_reply \<Rightarrow> gtime \<Rightarrow> gtime \<Rightarrow> gtime \<Rightarrow> remote \<Rightarrow> keyset result \<times> remote" where
  "cachedOrFetch decode reply t1 t2 t3 r =
    (case cache_answer t1 t2 r of
       Some a \<Rightarrow> (a, r)
     | None \<Rightarrow> fetchLocked decode reply t3 r)"

definition KeySet ::
  "(string \<Rightarrow> jwks result) \<Rightarrow> http_reply \<Rightarrow> gtime \<Rightarrow> gtime \<Rightarrow> gtime \<Rightarrow> gtime \<Rightarrow> remote \<Rightarrow> keyset result \<times> remote" where
  "KeySet decode reply t0 t1 t2 t3 r =
    (if fresh t0 r then (case cached r of Some ks \<Rightarrow> (Inr ks, r) | None \<Rightarrow> cachedOrFetch decode reply t1 t2 t3 r)
     else cachedOrFetch decode reply t1 t2 t3 r)"

definition remote_PublicKey ::
  "(string \<Rightarrow> jwks result) \<Rightarrow> http_reply \<Rightarrow> gtime \<Rightarrow> gtime \<Rightarrow> gtime \<Rightarrow> gtime \<Rightarrow> string \<Rightarrow> remote \<Rightarrow> pkey result \<times> remote" where
  "remote_PublicKey decode reply t0 t1 t2 t3 kid r =
    (case KeySet decode reply t0 t1 t2 t3 r of
       (Inl e, r') \<Rightarrow> (Inl e, r')
     | (Inr ks, r') \<Rightarrow> (PublicKey ks kid, r'))"

section \<open>Lemmas\<close>

lemma doFetch_Inr:
  assumes "doFetch decode r reply = Inr (ks, t)"
  obtains status cc raw err body js where "reply = Reply status cc raw err" "200 \<le> status" "status < 300"
    "limited_read (wrap64 (maxBodyBytes r + 1)) raw err = Inr body" "int (length body) \<le> maxBodyBytes r"
    "decode body = Inr js" "FromJWKS js = Inr ks"
    "t = (if ignoreCacheControl r then ttl r
          else (case parseCacheControlMaxAge cc of
                  Some maxAge \<Rightarrow> if maxAge < ttl r then maxAge else ttl r | None \<Rightarrow> ttl r))"
  using assms by (auto simp: doFetch_def Let_def split: http_reply.splits if_splits sum.splits)

lemma doFetch_ttl: "doFetch decode r reply = Inr (ks, t) \<Longrightarrow> t \<le> ttl r \<and> keyset_inv ks"
  by (erule doFetch_Inr) (auto intro: FromJWKS_inv split: option.splits)

lemma limited_read_whole:
  assumes "0 < m" "m < 2 ^ 63 - 1" "limited_read (wrap64 (m + 1)) raw err = Inr body" "int (length body) \<le> m"
  shows "body = raw \<and> err = None"
proof -
  have "wrap64 (m + 1) = m + 1" using assms(1,2) by (intro wrap64_id) simp_all
  then show ?thesis using assms by (auto simp: limited_read_def split: if_splits option.splits)
qed

lemma fresh_cached: "fresh t r \<Longrightarrow> \<exists>ks. cached r = Some ks"
  by (auto simp: fresh_def)

section \<open>Many callers\<close>

text \<open>
  A caller of \<open>KeySet\<close> or \<open>Refresh\<close> is idle, waiting for \<open>refreshMu\<close>, holding it before the cache test,
  holding it during a request, or done. The cache test and the recording of a result are atomic
  because of \<open>mu\<close>. A step takes the readings of the clock and the reply of the network it meets.
\<close>

datatype caller = Idle | WaitKeySet | WaitRefresh | Holding | Fetching | Done "keyset result"

record world =
  w_remote :: remote
  w_owner :: "nat option"
  w_pc :: "nat \<Rightarrow> caller"

definition set_pc :: "nat \<Rightarrow> caller \<Rightarrow> world \<Rightarrow> world" where
  "set_pc i c w = w\<lparr>w_pc := (w_pc w)(i := c)\<rparr>"

inductive step :: "(string \<Rightarrow> jwks result) \<Rightarrow> world \<Rightarrow> world \<Rightarrow> bool" for decode where
  call_hit: "w_pc w i = Idle \<Longrightarrow> fresh t (w_remote w) \<Longrightarrow> cached (w_remote w) = Some ks \<Longrightarrow>
    step decode w (set_pc i (Done (Inr ks)) w)"
| call_miss: "w_pc w i = Idle \<Longrightarrow> \<not> fresh t (w_remote w) \<Longrightarrow> step decode w (set_pc i WaitKeySet w)"
| call_refresh: "w_pc w i = Idle \<Longrightarrow> step decode w (set_pc i WaitRefresh w)"
| lock: "w_pc w i = WaitKeySet \<Longrightarrow> w_owner w = None \<Longrightarrow>
    step decode w (set_pc i Holding (w\<lparr>w_owner := Some i\<rparr>))"
| lock_refresh: "w_pc w i = WaitRefresh \<Longrightarrow> w_owner w = None \<Longrightarrow>
    step decode w (set_pc i Fetching (w\<lparr>w_owner := Some i\<rparr>))"
| answer: "w_pc w i = Holding \<Longrightarrow> cache_answer t1 t2 (w_remote w) = Some a \<Longrightarrow>
    step decode w (set_pc i (Done a) (w\<lparr>w_owner := None\<rparr>))"
| request: "w_pc w i = Holding \<Longrightarrow> cache_answer t1 t2 (w_remote w) = None \<Longrightarrow>
    step decode w (set_pc i Fetching w)"
| complete: "w_pc w i = Fetching \<Longrightarrow> fetchLocked decode reply t (w_remote w) = (a, r') \<Longrightarrow>
    step decode w (set_pc i (Done a) (w\<lparr>w_remote := r', w_owner := None\<rparr>))"

inductive reachable :: "(string \<Rightarrow> jwks result) \<Rightarrow> remote \<Rightarrow> world \<Rightarrow> bool" for decode r0 where
  start: "reachable decode r0 \<lparr>w_remote = r0, w_owner = None, w_pc = (\<lambda>_. Idle)\<rparr>"
| steps: "reachable decode r0 w \<Longrightarrow> step decode w w' \<Longrightarrow> reachable decode r0 w'"

definition remote_inv :: "world \<Rightarrow> bool" where
  "remote_inv w \<longleftrightarrow>
    (\<forall>i. w_pc w i \<in> {Holding, Fetching} \<longleftrightarrow> w_owner w = Some i) \<and>
    (\<forall>ks. cached (w_remote w) = Some ks \<longrightarrow> keyset_inv ks) \<and>
    (\<forall>i ks. w_pc w i = Done (Inr ks) \<longrightarrow> keyset_inv ks)"

lemma fetchLocked_inv:
  "fetchLocked decode reply t r = (a, r') \<Longrightarrow> (\<forall>ks. cached r = Some ks \<longrightarrow> keyset_inv ks) \<Longrightarrow>
    (\<forall>ks. cached r' = Some ks \<longrightarrow> keyset_inv ks) \<and> (\<forall>ks. a = Inr ks \<longrightarrow> keyset_inv ks)"
  by (auto simp: fetchLocked_def split: sum.splits dest: doFetch_ttl)

lemma cache_answer_inv:
  "cache_answer t1 t2 r = Some (Inr ks) \<Longrightarrow> cached r = Some ks"
  by (auto simp: cache_answer_def split: if_splits)

lemma inv_exclusive:
  assumes "remote_inv w" "w_pc w i \<in> {Holding, Fetching}" "j \<noteq> i"
  shows "w_pc w j \<noteq> Holding \<and> w_pc w j \<noteq> Fetching"
proof -
  have "w_owner w = Some i" using assms(1,2) unfolding remote_inv_def by blast
  then have "\<not> w_pc w j \<in> {Holding, Fetching}" using assms(1,3) unfolding remote_inv_def by simp
  then show ?thesis by simp
qed

lemma inv_set_pc:
  assumes "remote_inv w" "w_pc w i \<notin> {Holding, Fetching}" "c \<notin> {Holding, Fetching}"
    "\<forall>ks. c = Done (Inr ks) \<longrightarrow> keyset_inv ks"
  shows "remote_inv (set_pc i c w)"
proof -
  have "w_owner w \<noteq> Some i" using assms(1,2) unfolding remote_inv_def by blast
  with assms show ?thesis by (auto simp: remote_inv_def set_pc_def)
qed

lemma inv_lock:
  assumes "remote_inv w" "w_owner w = None" "c \<in> {Holding, Fetching}"
  shows "remote_inv (set_pc i c (w\<lparr>w_owner := Some i\<rparr>))"
  using assms by (auto simp: remote_inv_def set_pc_def)

lemma inv_request: "remote_inv w \<Longrightarrow> w_pc w i = Holding \<Longrightarrow> remote_inv (set_pc i Fetching w)"
  unfolding remote_inv_def set_pc_def by (simp add: fun_upd_def) metis

lemma step_inv: "step decode w w' \<Longrightarrow> remote_inv w \<Longrightarrow> remote_inv w'"
proof (induction rule: step.induct)
  case (complete w i reply t a r')
  then have "(\<forall>ks. cached r' = Some ks \<longrightarrow> keyset_inv ks) \<and> (\<forall>ks. a = Inr ks \<longrightarrow> keyset_inv ks)"
    by (intro fetchLocked_inv) (auto simp: remote_inv_def)
  moreover have "w_pc w j \<noteq> Holding \<and> w_pc w j \<noteq> Fetching" if "j \<noteq> i" for j
    using inv_exclusive [OF complete(3) _ that] complete(1) by simp
  ultimately show ?case using complete(3) by (auto simp: remote_inv_def set_pc_def split: if_splits)
next
  case (answer w i t1 t2 a)
  then have "w_pc w j \<noteq> Holding \<and> w_pc w j \<noteq> Fetching" if "j \<noteq> i" for j
    using inv_exclusive [OF answer(3) _ that] answer(1) by simp
  with answer show ?case by (auto simp: remote_inv_def set_pc_def split: if_splits dest: cache_answer_inv)
next
  case (call_hit w i t ks)
  then show ?case by (intro inv_set_pc) (auto simp: remote_inv_def)
qed (auto intro!: inv_set_pc simp: inv_lock inv_request)

text \<open>The state behind \<open>mu\<close> changes only where a request completes.\<close>

lemma step_remote:
  "step decode w w' \<Longrightarrow> w_remote w' \<noteq> w_remote w \<Longrightarrow>
    \<exists>k a reply t. w_pc w k = Fetching \<and> w_pc w' k = Done a \<and> fetchLocked decode reply t (w_remote w) = (a, w_remote w')"
proof (induction rule: step.induct)
  case (complete w i reply t a r')
  then show ?case by (intro exI [of _ i] exI [of _ a] exI [of _ reply] exI [of _ t]) (simp add: set_pc_def)
qed (simp_all add: set_pc_def)

lemma reachable_inv: "reachable decode r0 w \<Longrightarrow> cached r0 = None \<Longrightarrow> remote_inv w"
proof (induction rule: reachable.induct)
  case start
  then show ?case by (simp add: remote_inv_def)
qed (blast intro: step_inv)

section \<open>Properties\<close>

text \<open>C13. At most one request is in flight: in every reachable state of any number of concurrent callers no two
  of them are fetching, and nobody is at the second test of the cache, the one under the refresh lock, or
  fetching while another fetches; the first, unlocked test of \<open>KeySet\<close> may run at any time. The cache and the
  remembered error change only when a fetching caller, the owner of the lock, records the result of its
  own request, and every key set in the cache or handed out stores each key under its own kid.\<close>

theorem remote_single_flight:
  assumes "reachable decode r0 w" "cached r0 = None"
  shows "(w_pc w i = Fetching \<and> w_pc w j = Fetching \<longrightarrow> i = j) \<and>
    \<not> (w_pc w i = Fetching \<and> w_pc w j = Holding) \<and>
    (\<forall>w'. step decode w w' \<and> w_remote w' \<noteq> w_remote w \<longrightarrow>
      (\<exists>k a reply t. w_owner w = Some k \<and> w_pc w k = Fetching \<and> w_pc w' k = Done a \<and>
        fetchLocked decode reply t (w_remote w) = (a, w_remote w'))) \<and>
    (\<forall>ks. cached (w_remote w) = Some ks \<or> w_pc w i = Done (Inr ks) \<longrightarrow> keyset_inv ks)"
proof -
  have inv: "remote_inv w" using assms by (rule reachable_inv)
  have "i = j" if "w_pc w i = Fetching" "w_pc w j = Fetching \<or> w_pc w j = Holding"
    using inv_exclusive [OF inv, of i j] that by auto
  moreover have "\<exists>k a reply t. w_owner w = Some k \<and> w_pc w k = Fetching \<and> w_pc w' k = Done a \<and>
      fetchLocked decode reply t (w_remote w) = (a, w_remote w')" if "step decode w w'" "w_remote w' \<noteq> w_remote w" for w'
    using step_remote [OF that] inv unfolding remote_inv_def by blast
  ultimately show ?thesis using inv by (auto simp: remote_inv_def)
qed

definition demo_remote :: remote where
  "demo_remote = \<lparr>url = ''u'', client = 10 * Second, ttl = DefaultRemoteTTL, negativeTTL = DefaultNegativeTTL, maxBodyBytes = DefaultMaxBodyBytes,
     ignoreCacheControl = False, cached = None, expiresAt = zero_time, lastErr = None, errAt = zero_time\<rparr>"

lemma reachable_demo:
  "reachable decode demo_remote
    (set_pc 0 Fetching (\<lparr>w_remote = demo_remote, w_owner = None, w_pc = (\<lambda>_. Idle)(0 := WaitRefresh)\<rparr>\<lparr>w_owner := Some 0\<rparr>))"
proof -
  let ?w0 = "\<lparr>w_remote = demo_remote, w_owner = None, w_pc = (\<lambda>_. Idle)\<rparr>"
  have "reachable decode demo_remote (set_pc 0 WaitRefresh ?w0)"
    by (rule reachable.steps [OF reachable.start]) (rule step.call_refresh, simp)
  then have "reachable decode demo_remote \<lparr>w_remote = demo_remote, w_owner = None, w_pc = (\<lambda>_. Idle)(0 := WaitRefresh)\<rparr>"
    by (simp add: set_pc_def)
  then show ?thesis by (rule reachable.steps) (rule step.lock_refresh, simp_all)
qed

theorem remote_single_flight_witness:
  "\<exists>w. reachable (\<lambda>_. Inl []) demo_remote w \<and> w_pc w 0 = Fetching \<and> w_pc w 1 \<noteq> Fetching"
  using remote_single_flight [OF reachable_demo, where i = 0 and j = 1] reachable_demo
  by (auto simp: demo_remote_def set_pc_def intro!: exI)

text \<open>A reply that can replace the cache, with the key set it holds; and how long such a set is kept.\<close>

definition good_reply :: "(string \<Rightarrow> jwks result) \<Rightarrow> remote \<Rightarrow> http_reply \<Rightarrow> keyset \<Rightarrow> string \<Rightarrow> bool" where
  "good_reply decode r reply ks cc \<longleftrightarrow>
    (\<exists>status body js. reply = Reply status cc body None \<and> 200 \<le> status \<and> status < 300 \<and>
      int (length body) \<le> maxBodyBytes r \<and> decode body = Inr js \<and> FromJWKS js = Inr ks)"

definition kept_for :: "remote \<Rightarrow> string \<Rightarrow> duration" where
  "kept_for r cc =
    (case parseCacheControlMaxAge cc of
       None \<Rightarrow> ttl r
     | Some maxAge \<Rightarrow> if ignoreCacheControl r then ttl r else min maxAge (ttl r))"

lemma doFetch_good:
  assumes "0 < maxBodyBytes r" "maxBodyBytes r < 2 ^ 63 - 1"
  shows "doFetch decode r reply = Inr (ks, t) \<longleftrightarrow> (\<exists>cc. good_reply decode r reply ks cc \<and> t = kept_for r cc)"
proof
  assume "doFetch decode r reply = Inr (ks, t)"
  then obtain status cc raw err body js where d: "reply = Reply status cc raw err" "200 \<le> status" "status < 300"
    "limited_read (wrap64 (maxBodyBytes r + 1)) raw err = Inr body" "int (length body) \<le> maxBodyBytes r"
    "decode body = Inr js" "FromJWKS js = Inr ks"
    "t = (if ignoreCacheControl r then ttl r
          else (case parseCacheControlMaxAge cc of Some maxAge \<Rightarrow> if maxAge < ttl r then maxAge else ttl r | None \<Rightarrow> ttl r))"
    by (rule doFetch_Inr)
  have "body = raw" "err = None" using limited_read_whole [OF assms d(4,5)] by simp_all
  then have "good_reply decode r reply ks cc" using d by (auto simp: good_reply_def)
  moreover have "t = kept_for r cc" unfolding d(8) kept_for_def by (auto split: option.split)
  ultimately show "\<exists>cc. good_reply decode r reply ks cc \<and> t = kept_for r cc" by blast
next
  assume "\<exists>cc. good_reply decode r reply ks cc \<and> t = kept_for r cc"
  then obtain status cc body js where d: "reply = Reply status cc body None" "200 \<le> status" "status < 300"
    "int (length body) \<le> maxBodyBytes r" "decode body = Inr js" "FromJWKS js = Inr ks" "t = kept_for r cc"
    by (auto simp: good_reply_def)
  have "wrap64 (maxBodyBytes r + 1) = maxBodyBytes r + 1" using assms by (intro wrap64_id) simp_all
  then have "limited_read (wrap64 (maxBodyBytes r + 1)) body None = Inr body" using d(4) by (simp add: limited_read_def)
  then show "doFetch decode r reply = Inr (ks, t)" using d by (auto simp: doFetch_def kept_for_def min_def split: option.split)
qed



text \<open>A fetched key set comes from a whole response: a success status, a body not longer than the limit
  and read to its end without an error, which decodes to keys with distinct kids; every other reply
  leaves the cached set in place and is remembered as the last error.\<close>

theorem remote_fetch_validated:
  assumes "0 < maxBodyBytes r" "maxBodyBytes r < 2 ^ 63 - 1"
  shows "(\<forall>ks r'. Refresh decode reply now r = (Inr ks, r') \<longrightarrow>
      (\<exists>status cc body js. reply = Reply status cc body None \<and> 200 \<le> status \<and> status < 300 \<and>
        int (length body) \<le> maxBodyBytes r \<and> decode body = Inr js \<and> FromJWKS js = Inr ks \<and> distinct (map j_Kid js))) \<and>
    (\<forall>e r'. Refresh decode reply now r = (Inl e, r') \<longrightarrow>
      cached r' = cached r \<and> expiresAt r' = expiresAt r \<and> lastErr r' = Some e \<and> errAt r' = now)"
proof (intro conjI allI impI)
  fix ks r'
  assume "Refresh decode reply now r = (Inr ks, r')"
  then obtain t where "doFetch decode r reply = Inr (ks, t)"
    by (auto simp: Refresh_def fetchLocked_def split: sum.splits)
  then obtain status cc raw err body js where d: "reply = Reply status cc raw err" "200 \<le> status" "status < 300"
    "limited_read (wrap64 (maxBodyBytes r + 1)) raw err = Inr body" "int (length body) \<le> maxBodyBytes r"
    "decode body = Inr js" "FromJWKS js = Inr ks"
    by (rule doFetch_Inr)
  have "body = raw" "err = None" using limited_read_whole [OF assms d(4,5)] by simp_all
  moreover have "distinct (map j_Kid js)" using d(7) add_all_Inr [of js NewKeySet ks] by (simp add: FromJWKS_def)
  ultimately show "\<exists>status cc body js. reply = Reply status cc body None \<and> 200 \<le> status \<and> status < 300 \<and>
      int (length body) \<le> maxBodyBytes r \<and> decode body = Inr js \<and> FromJWKS js = Inr ks \<and> distinct (map j_Kid js)"
    using d by auto
next
  fix e r'
  assume "Refresh decode reply now r = (Inl e, r')"
  then show "cached r' = cached r" "expiresAt r' = expiresAt r" "lastErr r' = Some e" "errAt r' = now"
    by (auto simp: Refresh_def fetchLocked_def split: sum.splits)
qed

theorem remote_fetch_validated_witness:
  "lastErr (snd (Refresh (\<lambda>_. Inl []) (DoError []) 7 demo_remote)) = Some [ErrRead]"
  using remote_fetch_validated [of demo_remote "\<lambda>_. Inl []" "DoError []" 7]
  by (auto simp: demo_remote_def DefaultMaxBodyBytes_def Refresh_def fetchLocked_def doFetch_def)

lemma trim_headers:
  "TrimSpace ''max-age=9223372036'' = ''max-age=9223372036''" "TrimSpace ''max-age=9223372037'' = ''max-age=9223372037''"
  "TrimSpace ''9223372036'' = ''9223372036''" "TrimSpace ''9223372037'' = ''9223372037''"
  "TrimSpace ''max-age=60'' = ''max-age=60''" "TrimSpace '' max-age=60'' = ''max-age=60''" "TrimSpace ''60'' = ''60''"
  "TrimSpace ''no-store'' = ''no-store''" "TrimSpace '' no-store'' = ''no-store''"
  by code_simp+

lemma lower_headers:
  "ToLower ''max-age=9223372036'' = ''max-age=9223372036''" "ToLower ''max-age=9223372037'' = ''max-age=9223372037''"
  "ToLower ''max-age=60'' = ''max-age=60''" "ToLower ''no-store'' = ''no-store''"
  by code_simp+

lemma atoi_headers:
  "Atoi ''9223372036'' = Some 9223372036" "Atoi ''9223372037'' = Some 9223372037" "Atoi ''60'' = Some 60"
  by (simp_all add: Atoi_def is_digit_def)

lemmas header_eval = parseCacheControlMaxAge_def trim_headers lower_headers atoi_headers max_age_prefix_def HasPrefix_def
  wrap64_def Second_def

text \<open>The server's max-age in seconds is taken as it stands up to about 292 years; one second more
  overflows the 64-bit duration to a negative lifetime, so that the fetched set is stale at once. The
  first of max-age and no-store in the header wins: a no-store after a max-age is not honoured.\<close>

theorem max_age_overflow:
  "parseCacheControlMaxAge ''max-age=9223372036'' = Some 9223372036000000000 \<and>
   parseCacheControlMaxAge ''max-age=9223372037'' = Some (- 9223372036709551616) \<and>
   parseCacheControlMaxAge ''max-age=60, no-store'' = Some 60000000000 \<and>
   parseCacheControlMaxAge ''no-store, max-age=60'' = None"
proof (intro conjI)
  show "parseCacheControlMaxAge ''max-age=9223372036'' = Some 9223372036000000000" by (simp add: header_eval)
  show "parseCacheControlMaxAge ''max-age=9223372037'' = Some (- 9223372036709551616)" by (simp add: header_eval)
  show "parseCacheControlMaxAge ''max-age=60, no-store'' = Some 60000000000" by (simp add: header_eval)
  show "parseCacheControlMaxAge ''no-store, max-age=60'' = None" by (simp add: header_eval)
qed

end
