(* ===== verification/Cli.thy ===== *)
theory Cli
  imports Refresh Jwks_Remote
begin

text \<open>
  Package \<open>cmd\<close>: the subcommands of the command line tool with their flag records, the loading of keys,
  the merge of the claim sources, and the mapping of errors to exit codes. What a command prints is its
  result; \<open>files\<close> is the file system, \<open>unmarshal\<close> the JSON decoder into a map, and \<open>net\<close> the network and the
  clock a command that fetches keys meets. The flag library itself (cobra) is not modelled: a command
  starts from its parsed flags.
\<close>

section \<open>Exit codes\<close>

definition ExitOK :: int where "ExitOK = 0"
definition ExitUsage :: int where "ExitUsage = 2"
definition ExitFailure :: int where "ExitFailure = 1"
definition ExitInterrupted :: int where "ExitInterrupted = 130"

datatype cmd_error = QuietExitError int | CmdError gerror

definition exitCodeFor :: "cmd_error option \<Rightarrow> int" where
  "exitCodeFor err =
    (case err of
       None \<Rightarrow> ExitOK
     | Some (QuietExitError c) \<Rightarrow> c
     | Some (CmdError e) \<Rightarrow>
         if errors_Is e ErrUsage then ExitUsage
         else if errors_Is e CtxCanceled then ExitInterrupted
         else ExitFailure)"

definition exit_of :: "'a result \<Rightarrow> int" where
  "exit_of r = exitCodeFor (case r of Inl e \<Rightarrow> Some (CmdError e) | Inr _ \<Rightarrow> None)"

section \<open>Keys and arguments\<close>

definition loadPrivateKeyForMethod :: "crypto \<Rightarrow> files \<Rightarrow> smethod \<Rightarrow> string \<Rightarrow> pkey result" where
  "loadPrivateKeyForMethod C fs m pemPath =
    (if pemPath = [] then Inl [ErrUsage]
     else (case ReadPEMFile pemPath fs of
             Inl e \<Rightarrow> Inl e
           | Inr pem \<Rightarrow>
               (case m of
                  SigningMethodECDSA _ _ \<Rightarrow> map_sum id (EcdsaPrivate \<circ> Some) (LoadECDSAPrivateFromPEM C pem)
                | SigningMethodRSA _ \<Rightarrow> map_sum id (RsaPrivate \<circ> Some) (LoadRSAPrivateFromPEM C pem)
                | SigningMethodRSAPSS _ \<Rightarrow> map_sum id (RsaPrivate \<circ> Some) (LoadRSAPrivateFromPEM C pem)
                | SigningMethodEd25519 _ \<Rightarrow> map_sum id Ed25519Private (LoadEd25519PrivateFromPEM C pem)
                | _ \<Rightarrow> Inl [ErrInvalidMethod])))"

definition loadPublicKeyForMethod :: "crypto \<Rightarrow> files \<Rightarrow> smethod \<Rightarrow> string \<Rightarrow> pkey result" where
  "loadPublicKeyForMethod C fs m pemPath =
    (if pemPath = [] then Inl [ErrUsage]
     else (case ReadPEMFile pemPath fs of
             Inl e \<Rightarrow> Inl e
           | Inr pem \<Rightarrow>
               (case m of
                  SigningMethodECDSA _ _ \<Rightarrow> map_sum id (EcdsaPublic \<circ> Some) (LoadECDSAPublicFromPEM C pem)
                | SigningMethodRSA _ \<Rightarrow> map_sum id (RsaPublic \<circ> Some) (LoadRSAPublicFromPEM C pem)
                | SigningMethodRSAPSS _ \<Rightarrow> map_sum id (RsaPublic \<circ> Some) (LoadRSAPublicFromPEM C pem)
                | SigningMethodEd25519 _ \<Rightarrow> map_sum id Ed25519Public (LoadEd25519PublicFromPEM C pem)
                | _ \<Rightarrow> Inl [ErrInvalidMethod])))"

definition trimAll :: "string list \<Rightarrow> string list" where
  "trimAll xs = filter (\<lambda>s. s \<noteq> []) (map TrimSpace xs)"

text \<open>The token of \<open>verify\<close>, \<open>refresh\<close> and \<open>inspect\<close>: the flag, else the argument, else standard input.\<close>

definition token_argument :: "string \<Rightarrow> string list \<Rightarrow> string result \<Rightarrow> string result" where
  "token_argument token args stdin =
    (let tok = (if token = [] \<and> length args = 1 then hd args else token) in
     if tok \<noteq> [] then Inr tok
     else (case stdin of
             Inl e \<Rightarrow> Inl e
           | Inr body \<Rightarrow> if TrimSpace body = [] then Inl [ErrUsage] else Inr (TrimSpace body)))"

section \<open>sign\<close>

record signFlags =
  sf_method :: string
  sf_privPath :: string
  sf_expiration :: duration
  sf_claimsFile :: string
  sf_claimsJSON :: string
  sf_claimKV :: "string list"
  sf_headerKV :: "string list"
  sf_subject :: string
  sf_issuer :: string
  sf_audience :: "string list"
  sf_groups :: "string list"
  sf_roles :: "string list"
  sf_entitlements :: "string list"
  sf_permissions :: "string list"
  sf_scope :: "string list"
  sf_email :: string
  sf_name :: string
  sf_username :: string
  sf_tokenType :: string
  sf_jti :: string
  sf_notBefore :: string

definition set_nonempty :: "'a list \<Rightarrow> (mapclaims \<Rightarrow> 'a list \<Rightarrow> mapclaims) \<Rightarrow> mapclaims \<Rightarrow> mapclaims" where
  "set_nonempty v set_claim c = (if v \<noteq> [] then set_claim c v else c)"

definition profile_claims :: "signFlags \<Rightarrow> mapclaims" where
  "profile_claims f =
    (let c = set_nonempty (sf_subject f) SetSubject fmempty;
         c = set_nonempty (sf_issuer f) SetIssuer c;
         c = set_nonempty (trimAll (sf_audience f)) (\<lambda>c a. SetAudience c (Slice a)) c;
         c = set_nonempty (trimAll (sf_groups f)) (\<lambda>c a. SetGroups c (Slice a)) c;
         c = set_nonempty (trimAll (sf_roles f)) (\<lambda>c a. SetRoles c (Slice a)) c;
         c = set_nonempty (trimAll (sf_entitlements f)) (\<lambda>c a. SetEntitlements c (Slice a)) c;
         c = set_nonempty (trimAll (sf_permissions f)) (\<lambda>c a. SetPermissions c (Slice a)) c;
         c = set_nonempty (trimAll (sf_scope f)) SetScope c;
         c = set_nonempty (sf_email f) SetEmail c;
         c = set_nonempty (sf_name f) SetName c;
         c = set_nonempty (sf_username f) SetUsername c;
         c = set_nonempty (sf_tokenType f) SetTokenType c
     in set_nonempty (sf_jti f) (\<lambda>c v. SetID c (VString v)) c)"

definition mergeJSON :: "(string \<Rightarrow> mapclaims result) \<Rightarrow> mapclaims \<Rightarrow> string \<Rightarrow> mapclaims result" where
  "mergeJSON unmarshal dst body = (case unmarshal body of Inl e \<Rightarrow> Inl e | Inr parsed \<Rightarrow> Inr (fmadd dst parsed))"

text \<open>The loop over key=value entries; \<open>err\<close> is the error of a malformed one.\<close>

fun kv_loop :: "gerror \<Rightarrow> string list \<Rightarrow> mapclaims \<Rightarrow> mapclaims result" where
  "kv_loop err [] c = Inr c"
| "kv_loop err (kv # kvs) c =
    (case Cut kv (CHR ''='') of
       (k, v, ok) \<Rightarrow> if \<not> ok \<or> k = [] then Inl err else kv_loop err kvs (fmupd k (VString v) c))"

definition parseKVPairs :: "string list \<Rightarrow> headers result" where
  "parseKVPairs pairs = kv_loop [] pairs fmempty"

definition merge_file :: "(string \<Rightarrow> mapclaims result) \<Rightarrow> files \<Rightarrow> string \<Rightarrow> mapclaims \<Rightarrow> mapclaims result" where
  "merge_file unmarshal fs path c =
    (if path = [] then Inr c
     else (case os_ReadFile path fs of Inl e \<Rightarrow> Inl e | Inr body \<Rightarrow> mergeJSON unmarshal c body))"

definition buildClaims :: "lib \<Rightarrow> (string \<Rightarrow> mapclaims result) \<Rightarrow> files \<Rightarrow> signFlags \<Rightarrow> mapclaims result" where
  "buildClaims L unmarshal fs f =
    (let mc = profile_claims f in
     case (if sf_notBefore f = [] then Inr mc
           else (case timeParseRFC3339 L (sf_notBefore f) of
                   None \<Rightarrow> Inl [ErrUsage, ErrExternal ''time'']
                 | Some t \<Rightarrow> Inr (SetNotBefore L mc t))) of
       Inl e \<Rightarrow> Inl e
     | Inr mc \<Rightarrow>
         (case merge_file unmarshal fs (sf_claimsFile f) mc of
            Inl e \<Rightarrow> Inl e
          | Inr mc \<Rightarrow>
              (case (if sf_claimsJSON f = [] then Inr mc else mergeJSON unmarshal mc (sf_claimsJSON f)) of
                 Inl e \<Rightarrow> Inl e
               | Inr mc \<Rightarrow> kv_loop [ErrUsage] (sf_claimKV f) mc)))"

definition runSign ::
  "lib \<Rightarrow> crypto \<Rightarrow> (string \<Rightarrow> mapclaims result) \<Rightarrow> files \<Rightarrow> gtime \<Rightarrow> gtime \<Rightarrow> string \<Rightarrow> signFlags \<Rightarrow> string result" where
  "runSign L C unmarshal fs now1 now2 uuid f =
    (case SigningMethod (sf_method f) of
       Inl e \<Rightarrow> Inl e
     | Inr m \<Rightarrow>
         (case loadPrivateKeyForMethod C fs m (sf_privPath f) of
            Inl e \<Rightarrow> Inl e
          | Inr priv \<Rightarrow>
              (case buildClaims L unmarshal fs f of
                 Inl e \<Rightarrow> Inl e
               | Inr mc \<Rightarrow>
                   (case parseKVPairs (sf_headerKV f) of
                      Inl e \<Rightarrow> Inl (ErrUsage # e)
                    | Inr headers \<Rightarrow>
                        (case fst (SignedWithExpiration L now1 now2 uuid (sf_expiration f) (Some m) (Some priv) headers (Some mc)) of
                           Inl e \<Rightarrow> Inl e
                         | Inr (signed, _) \<Rightarrow> Inr signed)))))"

section \<open>verify\<close>

record verifyFlags =
  vf_method :: string
  vf_pubPath :: string
  vf_jwksURL :: string
  vf_token :: string
  vf_issuer :: "string list"
  vf_audience :: "string list"
  vf_groups :: "string list"
  vf_roles :: "string list"
  vf_entitlements :: "string list"
  vf_requireKeys :: "string list"
  vf_printClaims :: bool

record net =
  net_decode :: "string \<Rightarrow> jwks result"
  net_reply :: http_reply
  net_t0 :: gtime
  net_t1 :: gtime
  net_t2 :: gtime
  net_t3 :: gtime

definition checkHasEntitlements :: "string list \<Rightarrow> check_func" where
  "checkHasEntitlements required ctx c = result_err (MatchingEntitlements c required)"

definition opt_check :: "string list \<Rightarrow> (string list \<Rightarrow> check_func) \<Rightarrow> check_func option list" where
  "opt_check flag check = (if trimAll flag = [] then [] else [Some (check (trimAll flag))])"

definition verify_checks :: "verifyFlags \<Rightarrow> check_func option list" where
  "verify_checks f =
    opt_check (vf_issuer f) CheckIssuer @ opt_check (vf_audience f) CheckAudience @
    opt_check (vf_groups f) CheckHasGroups @ opt_check (vf_roles f) CheckHasRoles @
    opt_check (vf_entitlements f) checkHasEntitlements @ opt_check (vf_requireKeys f) CheckRequiredKeys"

definition buildVerifyChecks :: "lib \<Rightarrow> verifyFlags \<Rightarrow> token_check option list" where
  "buildVerifyChecks L f = (let cs = verify_checks f in if cs = [] then [] else [Some (CheckClaims L cs)])"

definition resolvePublicKey :: "lib \<Rightarrow> crypto \<Rightarrow> files \<Rightarrow> net \<Rightarrow> smethod \<Rightarrow> verifyFlags \<Rightarrow> pkey result" where
  "resolvePublicKey L C fs n m f =
    (if vf_pubPath f \<noteq> [] then loadPublicKeyForMethod C fs m (vf_pubPath f)
     else (case NewRemote (vf_jwksURL f) [] of
             Inl e \<Rightarrow> Inl e
           | Inr remote \<Rightarrow>
               (case parseUnverified L (vf_token f) of
                  Inl e \<Rightarrow> Inl (ErrUsage # e)
                | Inr tok \<Rightarrow>
                    let kid = (case fmlookup (t_header tok) ''kid'' of Some (VString s) \<Rightarrow> s | _ \<Rightarrow> []) in
                    if kid = [] then Inl [ErrUsage]
                    else fst (remote_PublicKey (net_decode n) (net_reply n) (net_t0 n) (net_t1 n) (net_t2 n) (net_t3 n) kid remote))))"

definition encode_claims :: "lib \<Rightarrow> mapclaims \<Rightarrow> mapclaims result" where
  "encode_claims L c = (if fmpred (\<lambda>_ v. json_marshals L v) c then Inr c else Inl [ErrExternal ''json''])"

text \<open>The result holds the claims printed to standard output, if any were asked for.\<close>

definition runVerify ::
  "lib \<Rightarrow> crypto \<Rightarrow> files \<Rightarrow> net \<Rightarrow> gtime \<Rightarrow> ctx_err \<Rightarrow> verifyFlags \<Rightarrow> mapclaims option result" where
  "runVerify L C fs n now ctx f =
    (case SigningMethod (vf_method f) of
       Inl e \<Rightarrow> Inl e
     | Inr m \<Rightarrow>
         if vf_pubPath f = [] \<and> vf_jwksURL f = [] then Inl [ErrUsage]
         else if vf_pubPath f \<noteq> [] \<and> vf_jwksURL f \<noteq> [] then Inl [ErrUsage]
         else (case resolvePublicKey L C fs n m f of
                 Inl e \<Rightarrow> Inl e
               | Inr pub \<Rightarrow>
                   (case NewVerifier (Some m) (Some pub) [WithStaticChecks (buildVerifyChecks L f)] of
                      Inl e \<Rightarrow> Inl e
                    | Inr v \<Rightarrow>
                        (case Verify L v now ctx (vf_token f) [] of
                           Inl e \<Rightarrow> Inl e
                         | Inr tok \<Rightarrow>
                             if \<not> vf_printClaims f then Inr None
                             else (case ToMapClaims L (AMapClaims (Some (t_claims tok))) of
                                     Inl e \<Rightarrow> Inl e
                                   | Inr mc \<Rightarrow> map_sum id Some (encode_claims L (case mc of None \<Rightarrow> fmempty | Some c \<Rightarrow> c)))))))"

section \<open>refresh, inspect\<close>

definition runRefresh ::
  "lib \<Rightarrow> crypto \<Rightarrow> files \<Rightarrow> gtime \<Rightarrow> ctx_err \<Rightarrow> string \<Rightarrow> string \<Rightarrow> string \<Rightarrow> string \<Rightarrow> duration \<Rightarrow> string result" where
  "runRefresh L C fs now ctx methodName pubPath privPath token defaultExp =
    (case SigningMethod methodName of
       Inl e \<Rightarrow> Inl e
     | Inr m \<Rightarrow>
         (case loadPublicKeyForMethod C fs m pubPath of
            Inl e \<Rightarrow> Inl e
          | Inr pub \<Rightarrow>
              (case loadPrivateKeyForMethod C fs m privPath of
                 Inl e \<Rightarrow> Inl e
               | Inr priv \<Rightarrow>
                   (case NewRefresher C (Some m) (Some pub) (Some priv)
                           (if 0 < defaultExp then [Refresh.WithDefaultExpiration defaultExp] else []) of
                      Inl e \<Rightarrow> Inl e
                    | Inr r \<Rightarrow>
                        (case Refresh.Refresh L r now ctx token of Inl e \<Rightarrow> Inl e | Inr (_, refreshed) \<Rightarrow> Inr refreshed)))))"

record inspection =
  in_Header :: headers
  in_Claims :: mapclaims
  in_Signature :: string

definition runInspect :: "lib \<Rightarrow> string \<Rightarrow> inspection result" where
  "runInspect L token =
    (case parseUnverified L token of
       Inl e \<Rightarrow> Inl (ErrParse # e)
     | Inr tok \<Rightarrow>
         if fmpred (\<lambda>_ v. json_marshals L v) (t_header tok) \<and> fmpred (\<lambda>_ v. json_marshals L v) (t_claims tok)
         then Inr \<lparr>in_Header = t_header tok, in_Claims = t_claims tok, in_Signature = RawURL_EncodeToString (t_signature tok)\<rparr>
         else Inl [ErrEncode, ErrExternal ''json''])"

section \<open>gen-key\<close>

definition algECDSA :: string where "algECDSA = ''ecdsa''"
definition algRSA :: string where "algRSA = ''rsa''"
definition algEd25519 :: string where "algEd25519 = ''ed25519''"

definition cmd_curveFromName :: "string \<Rightarrow> curve result" where
  "cmd_curveFromName name =
    (let n = ToUpper name in
     if n = ''P-256'' \<or> n = ''P256'' then Inr P256
     else if n = ''P-384'' \<or> n = ''P384'' then Inr P384
     else if n = ''P-521'' \<or> n = ''P521'' then Inr P521
     else Inl [ErrUsage])"

definition generatePair :: "crypto \<Rightarrow> string \<Rightarrow> string \<Rightarrow> int \<Rightarrow> (pkey \<times> pkey) result" where
  "generatePair C algorithm curve bits =
    (let a = ToLower algorithm in
     if a = algECDSA then
       (case cmd_curveFromName curve of
          Inl e \<Rightarrow> Inl e
        | Inr ec \<Rightarrow> map_sum id (\<lambda>(p, q). (EcdsaPrivate (Some p), EcdsaPublic (Some q))) (GenerateECDSA C (Some ec)))
     else if a = algRSA then map_sum id (\<lambda>(p, q). (RsaPrivate (Some p), RsaPublic (Some q))) (GenerateRSA C bits)
     else if a = algEd25519 then map_sum id (\<lambda>(p, q). (Ed25519Private p, Ed25519Public q)) (GenerateEd25519 C)
     else Inl [ErrUsage])"

text \<open>What is printed to standard output, and the file system afterwards.\<close>

definition runGenKey ::
  "crypto \<Rightarrow> (string \<Rightarrow> gerror option) \<Rightarrow> string \<Rightarrow> string \<Rightarrow> int \<Rightarrow> string \<Rightarrow> string \<Rightarrow> bool \<Rightarrow> files \<Rightarrow> string result \<times> files" where
  "runGenKey C fail algorithm curve bits privOut pubOut printPEM fs =
    (case generatePair C algorithm curve bits of
       Inl e \<Rightarrow> (Inl e, fs)
     | Inr (priv, pub) \<Rightarrow>
         if printPEM then
           (case EncodePrivateKeyPEM C (Some priv) of
              Inl e \<Rightarrow> (Inl e, fs)
            | Inr privPEM \<Rightarrow>
                (case EncodePublicKeyPEM C (Some pub) of
                   Inl e \<Rightarrow> (Inl e, fs)
                 | Inr pubPEM \<Rightarrow> (Inr (privPEM @ pubPEM), fs)))
         else if privOut = [] \<or> pubOut = [] then (Inl [ErrUsage], fs)
         else (case SavePrivateKey C fail privOut (Some priv) fs of
                 (Some e, fs') \<Rightarrow> (Inl e, fs')
               | (None, fs') \<Rightarrow>
                   (case SavePublicKey C fail pubOut (Some pub) fs' of
                      (Some e, fs'') \<Rightarrow> (Inl e, fs'')
                    | (None, fs'') \<Rightarrow> (Inr [], fs''))))"

section \<open>jwks\<close>

definition loadAnyPublicKey :: "crypto \<Rightarrow> string \<Rightarrow> pkey result" where
  "loadAnyPublicKey C pem =
    (case LoadECDSAPublicFromPEM C pem of
       Inr k \<Rightarrow> Inr (EcdsaPublic (Some k))
     | Inl _ \<Rightarrow>
         (case LoadRSAPublicFromPEM C pem of
            Inr k \<Rightarrow> Inr (RsaPublic (Some k))
          | Inl _ \<Rightarrow>
              (case LoadEd25519PublicFromPEM C pem of
                 Inr k \<Rightarrow> Inr (Ed25519Public k)
               | Inl _ \<Rightarrow> Inl [ErrParse])))"

datatype jwks_output = OneKey jwk | WholeSet jwks

definition jwksFromKey ::
  "crypto \<Rightarrow> (ecdsa_public \<Rightarrow> string result) \<Rightarrow> files \<Rightarrow> string \<Rightarrow> string \<Rightarrow> bool \<Rightarrow> jwks_output result option" where
  "jwksFromKey C ecBytes fs pubPath kid asSet =
    (case ReadPEMFile pubPath fs of
       Inl e \<Rightarrow> Some (Inl e)
     | Inr pem \<Rightarrow>
         (case loadAnyPublicKey C pem of
            Inl e \<Rightarrow> Some (Inl e)
          | Inr pub \<Rightarrow>
              map_option (map_sum id (\<lambda>j. if asSet then WholeSet [j] else OneKey j)) (JWKFromPublicKey ecBytes pub kid)))"

definition jwksFetch :: "net \<Rightarrow> (keyset \<Rightarrow> string list) \<Rightarrow> string \<Rightarrow> string \<Rightarrow> jwks result" where
  "jwksFetch n order u kid =
    (case NewRemote u [] of
       Inl e \<Rightarrow> Inl e
     | Inr r \<Rightarrow>
         (case fst (KeySet (net_decode n) (net_reply n) (net_t0 n) (net_t1 n) (net_t2 n) (net_t3 n) r) of
            Inl e \<Rightarrow> Inl e
          | Inr ks \<Rightarrow>
              if kid = [] then Inr (JWKS (order ks) ks)
              else (case Lookup ks kid of Inl e \<Rightarrow> Inl e | Inr j \<Rightarrow> Inr [j])))"

section \<open>Commands\<close>

text \<open>
  The commands as cobra runs them: the number of arguments is checked first, then the required flags,
  of which \<open>changed\<close> holds the ones given, then \<open>RunE\<close>. The defaults are those of the flag definitions.
\<close>

abbreviation cobra_error :: gerror where "cobra_error \<equiv> [ErrExternal ''cobra'']"

definition sign_defaults :: signFlags where
  "sign_defaults =
    \<lparr>sf_method = ''ES256'', sf_privPath = [], sf_expiration = Hour, sf_claimsFile = [], sf_claimsJSON = [], sf_claimKV = [],
     sf_headerKV = [], sf_subject = [], sf_issuer = [], sf_audience = [], sf_groups = [], sf_roles = [], sf_entitlements = [],
     sf_permissions = [], sf_scope = [], sf_email = [], sf_name = [], sf_username = [], sf_tokenType = [], sf_jti = [],
     sf_notBefore = []\<rparr>"

definition verify_defaults :: verifyFlags where
  "verify_defaults =
    \<lparr>vf_method = ''ES256'', vf_pubPath = [], vf_jwksURL = [], vf_token = [], vf_issuer = [], vf_audience = [], vf_groups = [],
     vf_roles = [], vf_entitlements = [], vf_requireKeys = [], vf_printClaims = False\<rparr>"

definition newSignCmd ::
  "lib \<Rightarrow> crypto \<Rightarrow> (string \<Rightarrow> mapclaims result) \<Rightarrow> files \<Rightarrow> gtime \<Rightarrow> gtime \<Rightarrow> string \<Rightarrow> string set \<Rightarrow> signFlags \<Rightarrow> string result" where
  "newSignCmd L C unmarshal fs now1 now2 uuid changed f =
    (if ''priv'' \<notin> changed then Inl cobra_error else runSign L C unmarshal fs now1 now2 uuid f)"

definition newVerifyCmd ::
  "lib \<Rightarrow> crypto \<Rightarrow> files \<Rightarrow> net \<Rightarrow> gtime \<Rightarrow> ctx_err \<Rightarrow> verifyFlags \<Rightarrow> string list \<Rightarrow> string result \<Rightarrow> mapclaims option result" where
  "newVerifyCmd L C fs n now ctx f args stdin =
    (if 1 < length args then Inl cobra_error
     else (case token_argument (vf_token f) args stdin of
             Inl e \<Rightarrow> Inl e
           | Inr tok \<Rightarrow> runVerify L C fs n now ctx (f\<lparr>vf_token := tok\<rparr>)))"

definition newRefreshCmd ::
  "lib \<Rightarrow> crypto \<Rightarrow> files \<Rightarrow> gtime \<Rightarrow> ctx_err \<Rightarrow> string set \<Rightarrow> string \<Rightarrow> string \<Rightarrow> string \<Rightarrow> string \<Rightarrow> duration \<Rightarrow>
   string list \<Rightarrow> string result \<Rightarrow> string result" where
  "newRefreshCmd L C fs now ctx changed methodName pubPath privPath token defaultExp args stdin =
    (if 1 < length args then Inl cobra_error
     else if ''pub'' \<notin> changed \<or> ''priv'' \<notin> changed then Inl cobra_error
     else (case token_argument token args stdin of
             Inl e \<Rightarrow> Inl e
           | Inr tok \<Rightarrow> runRefresh L C fs now ctx methodName pubPath privPath tok defaultExp))"

definition newInspectCmd :: "lib \<Rightarrow> string \<Rightarrow> string list \<Rightarrow> string result \<Rightarrow> inspection result" where
  "newInspectCmd L token args stdin =
    (if 1 < length args then Inl cobra_error
     else (case token_argument token args stdin of Inl e \<Rightarrow> Inl e | Inr tok \<Rightarrow> runInspect L tok))"

record genKeyFlags =
  gk_algorithm :: string
  gk_curve :: string
  gk_bits :: int
  gk_privOut :: string
  gk_pubOut :: string
  gk_printPEM :: bool

definition genkey_defaults :: genKeyFlags where
  "genkey_defaults = \<lparr>gk_algorithm = algECDSA, gk_curve = ''P-256'', gk_bits = 2048, gk_privOut = [], gk_pubOut = [], gk_printPEM = False\<rparr>"

definition newGenKeyCmd :: "crypto \<Rightarrow> (string \<Rightarrow> gerror option) \<Rightarrow> genKeyFlags \<Rightarrow> files \<Rightarrow> string result \<times> files" where
  "newGenKeyCmd C fail f fs =
    runGenKey C fail (gk_algorithm f) (gk_curve f) (gk_bits f) (gk_privOut f) (gk_pubOut f) (gk_printPEM f) fs"

definition newJWKSFromKeyCmd ::
  "crypto \<Rightarrow> (ecdsa_public \<Rightarrow> string result) \<Rightarrow> files \<Rightarrow> string set \<Rightarrow> string \<Rightarrow> string \<Rightarrow> bool \<Rightarrow> jwks_output result option" where
  "newJWKSFromKeyCmd C ecBytes fs changed pubPath kid asSet =
    (if ''pub'' \<notin> changed then Some (Inl cobra_error) else jwksFromKey C ecBytes fs pubPath kid asSet)"

definition newJWKSFetchCmd :: "net \<Rightarrow> (keyset \<Rightarrow> string list) \<Rightarrow> string set \<Rightarrow> string \<Rightarrow> string \<Rightarrow> jwks result" where
  "newJWKSFetchCmd n order changed u kid = (if ''url'' \<notin> changed then Inl cobra_error else jwksFetch n order u kid)"

end
