(* ===== verification/Http_Auth.thy ===== *)
theory Http_Auth
  imports Verification_Facts
begin

text \<open>
  Packages \<open>middleware/httpauth\<close> and \<open>middleware/grpcauth\<close>: the bearer-token middleware of HTTP servers,
  the interceptors of gRPC servers, and the token sources and transports of their clients. A header
  map has canonical names and the values in order; the values a middleware puts into the request
  context are fields of the request. A nil verifier or source panics at construction, which is \<open>None\<close>.
\<close>

section \<open>Requests and responses\<close>

type_synonym header_map = "(string, string list) fmap"

definition Header_Get :: "header_map \<Rightarrow> string \<Rightarrow> string" where
  "Header_Get h k = (case fmlookup h k of Some (v # _) \<Rightarrow> v | _ \<Rightarrow> [])"

definition Header_Set :: "header_map \<Rightarrow> string \<Rightarrow> string \<Rightarrow> header_map" where
  "Header_Set h k v = fmupd k [v] h"

record http_request =
  rq_Method :: string
  rq_Path :: string
  rq_Header :: header_map
  rq_Body :: string
  rq_TLS :: bool
  rq_ctx :: ctx_err
  rq_claims :: "mapclaims option"
  rq_token :: "token option"

record 'b http_response =
  rs_Status :: int
  rs_Header :: header_map
  rs_Body :: 'b

type_synonym verify_fn = "gtime \<Rightarrow> ctx_err \<Rightarrow> string \<Rightarrow> token_check option list \<Rightarrow> token result"

section \<open>The bearer scheme\<close>

definition HeaderAuthorization :: string where "HeaderAuthorization = ''Authorization''"
definition SchemeBearer :: string where "SchemeBearer = ''Bearer''"
definition MetadataKeyAuthorization :: string where "MetadataKeyAuthorization = ''authorization''"

definition bearerToken :: "string \<Rightarrow> string" where
  "bearerToken authz =
    (let p = SchemeBearer @ '' '' in
     if \<not> HasPrefix authz p then [] else TrimSpace (TrimPrefix authz p))"

definition defaultTokenSource :: "http_request \<Rightarrow> string" where
  "defaultTokenSource r =
    (let authz = Header_Get (rq_Header r) HeaderAuthorization in
     if authz = [] then []
     else let p = SchemeBearer @ '' '' in
          if \<not> HasPrefix authz p then [] else TrimSpace (TrimPrefix authz p))"

section \<open>The HTTP middleware\<close>

text \<open>The body of the default error response is its detail, the text of the error.\<close>

record 'b mw_config =
  mw_extra :: "token_check option list"
  mw_claimsChecks :: "check_func option list"
  mw_errorHandler :: "http_request \<Rightarrow> gerror \<Rightarrow> 'b http_response"
  mw_tokenSource :: "http_request \<Rightarrow> string"

type_synonym 'b mw_opt = "'b mw_config \<Rightarrow> 'b mw_config"

definition WithCheck :: "token_check option list \<Rightarrow> 'b mw_opt" where
  "WithCheck checks c = c\<lparr>mw_extra := mw_extra c @ checks\<rparr>"

definition WithClaimsCheck :: "check_func option list \<Rightarrow> 'b mw_opt" where
  "WithClaimsCheck checks c = c\<lparr>mw_claimsChecks := mw_claimsChecks c @ checks\<rparr>"

definition WithErrorHandler :: "(http_request \<Rightarrow> gerror \<Rightarrow> 'b http_response) option \<Rightarrow> 'b mw_opt" where
  "WithErrorHandler h c = (case h of Some f \<Rightarrow> c\<lparr>mw_errorHandler := f\<rparr> | None \<Rightarrow> c)"

definition WithTokenSource :: "(http_request \<Rightarrow> string) option \<Rightarrow> 'b mw_opt" where
  "WithTokenSource f c = (case f of Some g \<Rightarrow> c\<lparr>mw_tokenSource := g\<rparr> | None \<Rightarrow> c)"

definition defaultErrorHandler :: "(gerror \<Rightarrow> 'b) \<Rightarrow> http_request \<Rightarrow> gerror \<Rightarrow> 'b http_response" where
  "defaultErrorHandler detail r e =
    \<lparr>rs_Status = (if errors_Is e ErrCheck then 403 else 401),
     rs_Header = Header_Set (Header_Set fmempty ''Content-Type'' ''application/json'')
       ''Www-Authenticate'' (''Bearer realm='' @ [CHR 0x22] @ ''jwtmint'' @ [CHR 0x22]),
     rs_Body = detail e\<rparr>"

definition authorize :: "verify_fn \<Rightarrow> 'b mw_config \<Rightarrow> gtime \<Rightarrow> http_request \<Rightarrow> token result" where
  "authorize v cfg now r =
    (let tok = mw_tokenSource cfg r in
     if tok = [] then Inl [ErrInvalidValue]
     else v now (rq_ctx r) tok (mw_extra cfg))"

definition mw_build :: "lib \<Rightarrow> (gerror \<Rightarrow> 'b) \<Rightarrow> 'b mw_opt list \<Rightarrow> 'b mw_config" where
  "mw_build L detail opts =
    (let cfg = fold (\<lambda>opt c. opt c) opts
       \<lparr>mw_extra = [], mw_claimsChecks = [], mw_errorHandler = defaultErrorHandler detail, mw_tokenSource = defaultTokenSource\<rparr>
     in if mw_claimsChecks cfg \<noteq> [] then cfg\<lparr>mw_extra := mw_extra cfg @ [Some (CheckClaims L (mw_claimsChecks cfg))]\<rparr> else cfg)"

definition claims_of_token :: "lib \<Rightarrow> token \<Rightarrow> mapclaims option" where
  "claims_of_token L tok =
    (case ToMapClaims L (AMapClaims (Some (t_claims tok))) of Inr mc \<Rightarrow> mc | Inl _ \<Rightarrow> None)"

definition Middleware ::
  "lib \<Rightarrow> (gerror \<Rightarrow> 'b) \<Rightarrow> verify_fn option \<Rightarrow> 'b mw_opt list \<Rightarrow>
   ((http_request \<Rightarrow> 'b http_response) \<Rightarrow> gtime \<Rightarrow> http_request \<Rightarrow> 'b http_response) option" where
  "Middleware L detail v opts =
    (case v of
       None \<Rightarrow> None
     | Some vf \<Rightarrow>
         let cfg = mw_build L detail opts in
         Some (\<lambda>next now r.
           case authorize vf cfg now r of
             Inl e \<Rightarrow> mw_errorHandler cfg r e
           | Inr tok \<Rightarrow> next (r\<lparr>rq_token := Some tok, rq_claims := claims_of_token L tok\<rparr>)))"

definition HandlerFunc ::
  "lib \<Rightarrow> (gerror \<Rightarrow> 'b) \<Rightarrow> verify_fn option \<Rightarrow> (http_request \<Rightarrow> 'b http_response) \<Rightarrow> 'b mw_opt list \<Rightarrow>
   (gtime \<Rightarrow> http_request \<Rightarrow> 'b http_response) option" where
  "HandlerFunc L detail v next opts = map_option (\<lambda>mw. mw next) (Middleware L detail v opts)"

definition ClaimsFromContext :: "http_request \<Rightarrow> mapclaims option" where "ClaimsFromContext r = rq_claims r"
definition TokenFromContext :: "http_request \<Rightarrow> token option" where "TokenFromContext r = rq_token r"

section \<open>The gRPC interceptors\<close>

datatype grpc_code = Unauthenticated | PermissionDenied
datatype grpc_error = Status grpc_code | GoError gerror

record grpc_ctx =
  g_err :: ctx_err
  g_incoming :: "header_map option"
  g_outgoing :: "(string \<times> string) list"
  g_claims :: "mapclaims option"
  g_token :: "token option"

record grpc_config =
  gc_extra :: "token_check option list"
  gc_claimsChecks :: "check_func option list"

definition grpc_WithCheck :: "token_check option list \<Rightarrow> grpc_config \<Rightarrow> grpc_config" where
  "grpc_WithCheck checks c = c\<lparr>gc_extra := gc_extra c @ checks\<rparr>"

definition grpc_WithClaimsCheck :: "check_func option list \<Rightarrow> grpc_config \<Rightarrow> grpc_config" where
  "grpc_WithClaimsCheck checks c = c\<lparr>gc_claimsChecks := gc_claimsChecks c @ checks\<rparr>"

definition buildConfig :: "lib \<Rightarrow> (grpc_config \<Rightarrow> grpc_config) list \<Rightarrow> grpc_config" where
  "buildConfig L opts =
    (let cfg = fold (\<lambda>opt c. opt c) opts \<lparr>gc_extra = [], gc_claimsChecks = []\<rparr>
     in if gc_claimsChecks cfg \<noteq> [] then cfg\<lparr>gc_extra := gc_extra cfg @ [Some (CheckClaims L (gc_claimsChecks cfg))]\<rparr> else cfg)"

definition isCheckFailure :: "gerror \<Rightarrow> bool" where "isCheckFailure e = errors_Is e ErrCheck"

definition grpc_authorize :: "lib \<Rightarrow> gtime \<Rightarrow> grpc_ctx \<Rightarrow> verify_fn \<Rightarrow> grpc_config \<Rightarrow> grpc_error + grpc_ctx" where
  "grpc_authorize L now ctx v cfg =
    (case g_incoming ctx of
       None \<Rightarrow> Inl (Status Unauthenticated)
     | Some md \<Rightarrow>
         (case fmlookup md MetadataKeyAuthorization of
            Some (val # _) \<Rightarrow>
              let tok = bearerToken val in
              if tok = [] then Inl (Status Unauthenticated)
              else (case v now (g_err ctx) tok (gc_extra cfg) of
                      Inl e \<Rightarrow> Inl (Status (if isCheckFailure e then PermissionDenied else Unauthenticated))
                    | Inr t \<Rightarrow> Inr (ctx\<lparr>g_token := Some t, g_claims := claims_of_token L t\<rparr>))
          | _ \<Rightarrow> Inl (Status Unauthenticated)))"

definition UnaryServerInterceptor ::
  "lib \<Rightarrow> verify_fn option \<Rightarrow> (grpc_config \<Rightarrow> grpc_config) list \<Rightarrow>
   (gtime \<Rightarrow> grpc_ctx \<Rightarrow> 'q \<Rightarrow> (grpc_ctx \<Rightarrow> 'q \<Rightarrow> grpc_error + 'r) \<Rightarrow> grpc_error + 'r) option" where
  "UnaryServerInterceptor L v opts =
    (case v of
       None \<Rightarrow> None
     | Some vf \<Rightarrow>
         let cfg = buildConfig L opts in
         Some (\<lambda>now ctx req handler.
           case grpc_authorize L now ctx vf cfg of Inl e \<Rightarrow> Inl e | Inr ctx' \<Rightarrow> handler ctx' req))"

text \<open>A stream is its context; the wrapped stream has the new one.\<close>

definition StreamServerInterceptor ::
  "lib \<Rightarrow> verify_fn option \<Rightarrow> (grpc_config \<Rightarrow> grpc_config) list \<Rightarrow>
   (gtime \<Rightarrow> 's \<Rightarrow> grpc_ctx \<Rightarrow> ('s \<Rightarrow> grpc_ctx \<Rightarrow> grpc_error option) \<Rightarrow> grpc_error option) option" where
  "StreamServerInterceptor L v opts =
    (case v of
       None \<Rightarrow> None
     | Some vf \<Rightarrow>
         let cfg = buildConfig L opts in
         Some (\<lambda>now srv ss handler.
           case grpc_authorize L now ss vf cfg of Inl e \<Rightarrow> Some e | Inr ctx' \<Rightarrow> handler srv ctx'))"

section \<open>Token sources\<close>

definition StaticToken :: "string \<Rightarrow> string result" where
  "StaticToken val = (if val = [] then Inl [ErrInvalidValue] else Inr val)"

record file_source =
  fs_Path :: string
  fs_RefreshInterval :: duration
  fs_cached :: string
  fs_cachedAt :: gtime

text \<open>
  One call of \<open>FileTokenSource.Token\<close>: the clock readings of the two freshness tests, what reading the
  file gives, and the clock reading that stamps the new value.
\<close>

record file_call =
  fc_first :: gtime
  fc_second :: gtime
  fc_read :: "string result"
  fc_stamp :: gtime

definition file_interval :: "file_source \<Rightarrow> duration" where
  "file_interval f = (if fs_RefreshInterval f \<le> 0 then 5 * Second else fs_RefreshInterval f)"

definition file_fresh :: "gtime \<Rightarrow> file_source \<Rightarrow> bool" where
  "file_fresh now f \<longleftrightarrow> fs_cached f \<noteq> [] \<and> time_Sub now (fs_cachedAt f) < file_interval f"

definition FileToken :: "file_call \<Rightarrow> file_source \<Rightarrow> string result \<times> file_source" where
  "FileToken c f =
    (if fs_Path f = [] then (Inl [ErrInvalidValue], f)
     else if file_fresh (fc_first c) f then (Inr (fs_cached f), f)
     else if file_fresh (fc_second c) f then (Inr (fs_cached f), f)
     else (case fc_read c of
             Inl e \<Rightarrow> (Inl (ErrRead # e), f)
           | Inr body \<Rightarrow>
               let tok = TrimSpace body in
               if tok = [] then (Inl [ErrInvalidValue], f)
               else (Inr tok, f\<lparr>fs_cached := tok, fs_cachedAt := fc_stamp c\<rparr>)))"

text \<open>The wrapped source has a state of its own; \<open>UnixNano\<close> is an \<open>int64\<close>.\<close>

record 's cached_source =
  cs_TTL :: duration
  cs_value :: string
  cs_expireAt :: int
  cs_inner :: 's

record 'e cached_call =
  cc_first :: gtime
  cc_second :: gtime
  cc_inner :: 'e
  cc_stamp :: gtime

definition UnixNano :: "gtime \<Rightarrow> int" where "UnixNano t = wrap64 t"

definition CachedToken ::
  "('e \<Rightarrow> 's \<Rightarrow> string result \<times> 's) option \<Rightarrow> 'e cached_call \<Rightarrow> 's cached_source \<Rightarrow> string result \<times> 's cached_source" where
  "CachedToken src c s =
    (case src of
       None \<Rightarrow> (Inl [ErrInvalidValue], s)
     | Some f \<Rightarrow>
         if cs_TTL s \<le> 0 then (Inl [ErrInvalidValue], s)
         else if cs_value s \<noteq> [] \<and> UnixNano (cc_first c) < cs_expireAt s then (Inr (cs_value s), s)
         else if cs_value s \<noteq> [] \<and> UnixNano (cc_second c) < cs_expireAt s then (Inr (cs_value s), s)
         else (case f (cc_inner c) (cs_inner s) of
                 (Inl e, s') \<Rightarrow> (Inl e, s\<lparr>cs_inner := s'\<rparr>)
               | (Inr tok, s') \<Rightarrow>
                   (Inr tok, s\<lparr>cs_inner := s', cs_value := tok, cs_expireAt := UnixNano (time_Add (cc_stamp c) (cs_TTL s))\<rparr>)))"

section \<open>Client transports\<close>

definition NewRoundTripper :: "'src option \<Rightarrow> 'base option \<Rightarrow> 'base \<Rightarrow> ('src \<times> 'base) option" where
  "NewRoundTripper src base defaultTransport =
    (case src of None \<Rightarrow> None | Some s \<Rightarrow> Some (s, case base of None \<Rightarrow> defaultTransport | Some b \<Rightarrow> b))"

definition RoundTrip :: "(http_request \<Rightarrow> 'r result) \<Rightarrow> string result \<Rightarrow> http_request \<Rightarrow> 'r result" where
  "RoundTrip base tok r =
    (case tok of
       Inl e \<Rightarrow> Inl (ErrRead # e)
     | Inr t \<Rightarrow> base (r\<lparr>rq_Header := Header_Set (rq_Header r) ''Authorization'' (''Bearer '' @ t)\<rparr>))"

definition withBearer :: "grpc_ctx \<Rightarrow> string result \<Rightarrow> grpc_ctx result" where
  "withBearer ctx tok =
    (case tok of
       Inl e \<Rightarrow> Inl (ErrRead # e)
     | Inr t \<Rightarrow> Inr (ctx\<lparr>g_outgoing := g_outgoing ctx @ [(MetadataKeyAuthorization, ''Bearer '' @ t)]\<rparr>))"

definition UnaryClientInterceptor ::
  "string result \<Rightarrow> (grpc_ctx \<Rightarrow> 'q \<Rightarrow> gerror option) \<Rightarrow> grpc_ctx \<Rightarrow> 'q \<Rightarrow> gerror option" where
  "UnaryClientInterceptor tok invoker ctx call =
    (case withBearer ctx tok of Inl e \<Rightarrow> Some e | Inr ctx' \<Rightarrow> invoker ctx' call)"

definition StreamClientInterceptor ::
  "string result \<Rightarrow> (grpc_ctx \<Rightarrow> 'q \<Rightarrow> 'r result) \<Rightarrow> grpc_ctx \<Rightarrow> 'q \<Rightarrow> 'r result" where
  "StreamClientInterceptor tok streamer ctx call =
    (case withBearer ctx tok of Inl e \<Rightarrow> Inl e | Inr ctx' \<Rightarrow> streamer ctx' call)"

end
