(* ===== verification/Http_Auth_Facts.thy ===== *)
theory Http_Auth_Facts
  imports Http_Auth
begin

text \<open>
  What the middlewares and the token sources promise: the wrapped handler runs only on a verified
  token and sees its claims, HTTP and gRPC decide alike, a source never hands out an empty or an
  overdue token, and what a client transport attaches is what a server extracts.
\<close>

section \<open>The token source interface\<close>

text \<open>
  A source keeps an invariant of its state and never returns an empty token. \<open>trimmed\<close> says that its
  tokens carry no white space at their ends.
\<close>

locale token_source =
  fixes tok :: "'e \<Rightarrow> 's \<Rightarrow> string result \<times> 's"
    and inv :: "'s \<Rightarrow> bool"
  assumes keeps: "inv s \<Longrightarrow> inv (snd (tok e s))"
    and nonempty: "inv s \<Longrightarrow> fst (tok e s) = Inr t \<Longrightarrow> t \<noteq> []"
begin

fun run :: "'e list \<Rightarrow> 's \<Rightarrow> string result list \<times> 's" where
  "run [] s = ([], s)"
| "run (e # es) s = (let (r, s') = tok e s; (rs, s'') = run es s' in (r # rs, s''))"

lemma run_nonempty: "inv s \<Longrightarrow> run es s = (rs, s') \<Longrightarrow> inv s' \<and> Inr [] \<notin> set rs"
proof (induction es arbitrary: s rs s')
  case (Cons e es)
  obtain r s1 where 1: "tok e s = (r, s1)" by force
  obtain rs1 s2 where 2: "run es s1 = (rs1, s2)" by force
  have "inv s1" using keeps [OF Cons.prems(1), of e] 1 by simp
  then have "inv s2 \<and> Inr [] \<notin> set rs1" using Cons.IH 2 by blast
  moreover have "r \<noteq> Inr []" using nonempty [OF Cons.prems(1), of e] 1 by auto
  ultimately show ?case using Cons.prems(2) 1 2 by auto
qed simp

end

interpretation static_source: token_source "\<lambda>_ val. (StaticToken val, val)" "\<lambda>_. True"
  by unfold_locales (auto simp: StaticToken_def split: if_splits)

text \<open>The cached text of a file source is trimmed.\<close>

definition file_inv :: "file_source \<Rightarrow> bool" where
  "file_inv f \<longleftrightarrow> TrimSpace (fs_cached f) = fs_cached f"

lemma FileToken_cases:
  obtains (path) "fs_Path f = []" "FileToken c f = (Inl [ErrInvalidValue], f)"
  | (hit) now where "now \<in> {fc_first c, fc_second c}" "file_fresh now f" "FileToken c f = (Inr (fs_cached f), f)"
  | (unread) e where "fc_read c = Inl e" "FileToken c f = (Inl (ErrRead # e), f)"
  | (empty) body where "fc_read c = Inr body" "TrimSpace body = []" "FileToken c f = (Inl [ErrInvalidValue], f)"
  | (read) body where "fc_read c = Inr body" "TrimSpace body \<noteq> []"
      "FileToken c f = (Inr (TrimSpace body), f\<lparr>fs_cached := TrimSpace body, fs_cachedAt := fc_stamp c\<rparr>)"
proof -
  consider "fs_Path f = []" | now where "fs_Path f \<noteq> []" "now \<in> {fc_first c, fc_second c}" "file_fresh now f"
    | "fs_Path f \<noteq> []" "\<not> file_fresh (fc_first c) f" "\<not> file_fresh (fc_second c) f" by blast
  then show thesis
  proof cases
    case (2 now)
    then have "FileToken c f = (Inr (fs_cached f), f)" by (auto simp: FileToken_def)
    then show thesis using hit 2 by blast
  next
    case 3
    then show thesis
      using unread empty read by (cases "fc_read c"; cases "TrimSpace (projr (fc_read c)) = []") (auto simp: FileToken_def Let_def)
  qed (use path in \<open>auto simp: FileToken_def\<close>)
qed

interpretation file_token: token_source FileToken file_inv
proof
  show "file_inv (snd (FileToken c f))" if "file_inv f" for c f
    using that by (cases rule: FileToken_cases [of f c]) (simp_all add: file_inv_def)
  show "t \<noteq> []" if "file_inv f" "fst (FileToken c f) = Inr t" for c f t
    using that by (cases rule: FileToken_cases [of f c]) (auto simp: file_fresh_def)
qed

text \<open>A cached source inherits the promise from the source it wraps.\<close>

locale wrapped_source = token_source tok inv for tok :: "'e \<Rightarrow> 's \<Rightarrow> string result \<times> 's" and inv

sublocale wrapped_source \<subseteq> cached: token_source "CachedToken (Some tok)" "\<lambda>s. inv (cs_inner s)"
proof
  show "inv (cs_inner (snd (CachedToken (Some tok) c s)))" if "inv (cs_inner s)" for c s
    using that keeps [OF that, of "cc_inner c"] by (auto simp: CachedToken_def split: prod.split sum.split)
  show "t \<noteq> []" if "inv (cs_inner s)" "fst (CachedToken (Some tok) c s) = Inr t" for c s t
    using that nonempty [OF that(1), of "cc_inner c"] by (auto simp: CachedToken_def split: prod.splits sum.splits if_splits)
qed

interpretation cached_file: wrapped_source FileToken file_inv
  by unfold_locales

section \<open>The bearer scheme\<close>

lemma bearerToken_prefix [simp]: "bearerToken (''Bearer '' @ t) = TrimSpace t"
  by (simp add: bearerToken_def HasPrefix_def Let_def TrimPrefix_def SchemeBearer_def)

lemma defaultTokenSource_eq: "defaultTokenSource r = bearerToken (Header_Get (rq_Header r) HeaderAuthorization)"
  by (simp add: defaultTokenSource_def bearerToken_def Let_def HasPrefix_def SchemeBearer_def)

lemma bearerToken_trimmed: "TrimSpace (bearerToken a) = bearerToken a"
  by (simp add: bearerToken_def Let_def)

section \<open>Construction\<close>

lemma claims_of_token [simp]: "claims_of_token L t = Some (t_claims t)"
  by (simp add: claims_of_token_def ToMapClaims_def)

lemma Middleware_Some:
  assumes "Middleware L detail v opts = Some mw"
  obtains vf where "v = Some vf"
    "\<And>next now r. mw next now r =
      (case authorize vf (mw_build L detail opts) now r of
         Inl e \<Rightarrow> mw_errorHandler (mw_build L detail opts) r e
       | Inr t \<Rightarrow> next (r\<lparr>rq_token := Some t, rq_claims := Some (t_claims t)\<rparr>))"
  using assms by (auto simp: Middleware_def Let_def split: option.splits cong: sum.case_cong)

lemma all_pass_append: "all_pass (xs @ ys) ctx t \<longleftrightarrow> all_pass xs ctx t \<and> all_pass ys ctx t"
  by (auto simp: all_pass_def)

text \<open>Options only add checks, so every check of an option is among those the verifier runs.\<close>

inductive mw_option :: "'b mw_opt \<Rightarrow> bool" where
  "mw_option (WithCheck checks)"
| "mw_option (WithClaimsCheck ccs)"
| "mw_option (WithErrorHandler h)"
| "mw_option (WithTokenSource f)"

lemmas mw_option_defs = WithCheck_def WithClaimsCheck_def WithErrorHandler_def WithTokenSource_def

lemma mw_option_mono:
  "mw_option opt \<Longrightarrow> set (mw_extra c) \<subseteq> set (mw_extra (opt c)) \<and> set (mw_claimsChecks c) \<subseteq> set (mw_claimsChecks (opt c))"
  by (auto elim!: mw_option.cases simp: mw_option_defs split: option.splits)

lemma mw_fold_mono:
  "\<forall>opt \<in> set opts. mw_option opt \<Longrightarrow>
    set (mw_extra c) \<subseteq> set (mw_extra (fold (\<lambda>opt c. opt c) opts c)) \<and>
    set (mw_claimsChecks c) \<subseteq> set (mw_claimsChecks (fold (\<lambda>opt c. opt c) opts c))"
proof (induction opts arbitrary: c)
  case (Cons opt opts)
  then show ?case using mw_option_mono [of opt c] by fastforce
qed simp

lemma mw_fold_keeps:
  assumes "\<forall>opt \<in> set opts. mw_option opt" "opt \<in> set opts"
  shows "\<exists>c'. set (mw_extra (opt c')) \<subseteq> set (mw_extra (fold (\<lambda>opt c. opt c) opts c)) \<and>
    set (mw_claimsChecks (opt c')) \<subseteq> set (mw_claimsChecks (fold (\<lambda>opt c. opt c) opts c))"
proof -
  obtain xs ys where o: "opts = xs @ opt # ys" using assms(2) by (meson split_list)
  then show ?thesis
    using mw_fold_mono [of ys "opt (fold (\<lambda>opt c. opt c) xs c)"] assms(1) by auto
qed

lemma mw_build_checks:
  assumes "\<forall>opt \<in> set opts. mw_option opt"
  shows "WithCheck cs \<in> set opts \<Longrightarrow> set cs \<subseteq> set (mw_extra (mw_build L detail opts))"
    and "WithClaimsCheck ccs \<in> set opts \<Longrightarrow>
      \<exists>all. set ccs \<subseteq> set all \<and> (all = [] \<or> Some (CheckClaims L all) \<in> set (mw_extra (mw_build L detail opts)))"
proof -
  let ?init = "\<lparr>mw_extra = [], mw_claimsChecks = [], mw_errorHandler = defaultErrorHandler detail, mw_tokenSource = defaultTokenSource\<rparr>"
  let ?c = "fold (\<lambda>opt c. opt c) opts ?init"
  have b: "mw_build L detail opts =
      (if mw_claimsChecks ?c \<noteq> [] then ?c\<lparr>mw_extra := mw_extra ?c @ [Some (CheckClaims L (mw_claimsChecks ?c))]\<rparr> else ?c)"
    by (simp only: mw_build_def Let_def)
  show "set cs \<subseteq> set (mw_extra (mw_build L detail opts))" if "WithCheck cs \<in> set opts"
    using mw_fold_keeps [OF assms that, of ?init] by (auto simp: b WithCheck_def)
  show "\<exists>all. set ccs \<subseteq> set all \<and> (all = [] \<or> Some (CheckClaims L all) \<in> set (mw_extra (mw_build L detail opts)))"
    if "WithClaimsCheck ccs \<in> set opts"
    using mw_fold_keeps [OF assms that, of ?init]
    by (intro exI [of _ "mw_claimsChecks ?c"]) (auto simp: b WithClaimsCheck_def)
qed

lemma CheckClaims_None:
  "CheckClaims L checks ctx t = None \<longleftrightarrow> (\<forall>f. Some f \<in> set checks \<longrightarrow> f ctx (t_claims t) = None)"
  by (auto simp: CheckClaims_def ToMapClaims_def first_err_None Some_in_map_option)

text \<open>The checks a list of options asks for, and the value the last option of a kind sets.\<close>

definition opts_pass :: "'b mw_opt list \<Rightarrow> token \<Rightarrow> bool" where
  "opts_pass opts t \<longleftrightarrow>
    (\<forall>cs. WithCheck cs \<in> set opts \<longrightarrow> all_pass cs None t) \<and>
    (\<forall>ccs f. WithClaimsCheck ccs \<in> set opts \<and> Some f \<in> set ccs \<longrightarrow> f None (t_claims t) = None)"

definition last_option :: "('x \<Rightarrow> 'b mw_opt) \<Rightarrow> 'x \<Rightarrow> 'b mw_opt list \<Rightarrow> 'x \<Rightarrow> bool" where
  "last_option mk def opts x \<longleftrightarrow>
    (x = def \<and> (\<forall>y. mk y \<notin> set opts)) \<or> (\<exists>o1 o2. opts = o1 @ mk x # o2 \<and> (\<forall>y. mk y \<notin> set o2))"

abbreviation source_option :: "(http_request \<Rightarrow> string) \<Rightarrow> 'b mw_opt" where "source_option f \<equiv> WithTokenSource (Some f)"
abbreviation handler_option :: "(http_request \<Rightarrow> gerror \<Rightarrow> 'b http_response) \<Rightarrow> 'b mw_opt" where
  "handler_option h \<equiv> WithErrorHandler (Some h)"

lemma mw_fold_checks:
  "\<forall>opt \<in> set opts. mw_option opt \<Longrightarrow>
    set (mw_extra (fold (\<lambda>opt c. opt c) opts c)) \<subseteq> set (mw_extra c) \<union> \<Union> (set ` {cs. WithCheck cs \<in> set opts}) \<and>
    set (mw_claimsChecks (fold (\<lambda>opt c. opt c) opts c)) \<subseteq> set (mw_claimsChecks c) \<union> \<Union> (set ` {cs. WithClaimsCheck cs \<in> set opts})"
proof (induction opts arbitrary: c)
  case (Cons opt opts)
  have "set (mw_extra (opt c)) \<subseteq> set (mw_extra c) \<union> \<Union> (set ` {cs. WithCheck cs = opt}) \<and>
      set (mw_claimsChecks (opt c)) \<subseteq> set (mw_claimsChecks c) \<union> \<Union> (set ` {cs. WithClaimsCheck cs = opt})"
    using Cons.prems by (auto elim!: mw_option.cases simp: mw_option_defs split: option.splits)
  moreover have "\<forall>opt \<in> set opts. mw_option opt" using Cons.prems by simp
  note Cons.IH [OF this, of "opt c"]
  ultimately show ?case by (simp, elim conjE, intro conjI) blast+
qed simp

lemma mw_option_source:
  assumes "mw_option opt" "\<And>f. opt \<noteq> source_option f"
  shows "mw_tokenSource (opt c) = mw_tokenSource c"
  using assms(1)
proof cases
  case (4 f)
  with assms(2) show ?thesis by (cases f) (auto simp: WithTokenSource_def)
qed (simp_all add: mw_option_defs split: option.split)

lemma mw_option_handler:
  assumes "mw_option opt" "\<And>h. opt \<noteq> handler_option h"
  shows "mw_errorHandler (opt c) = mw_errorHandler c"
  using assms(1)
proof cases
  case (3 h)
  with assms(2) show ?thesis by (cases h) (auto simp: WithErrorHandler_def)
qed (simp_all add: mw_option_defs split: option.split)

lemma mw_fold_source:
  "\<forall>opt \<in> set opts. mw_option opt \<Longrightarrow> \<forall>f. source_option f \<notin> set opts \<Longrightarrow>
    mw_tokenSource (fold (\<lambda>opt c. opt c) opts c) = mw_tokenSource c"
proof (induction opts arbitrary: c)
  case (Cons opt opts)
  have "mw_tokenSource (opt c) = mw_tokenSource c" using Cons.prems by (intro mw_option_source) auto
  then show ?case using Cons.IH [of "opt c"] Cons.prems by simp
qed simp

lemma mw_fold_handler:
  "\<forall>opt \<in> set opts. mw_option opt \<Longrightarrow> \<forall>h. handler_option h \<notin> set opts \<Longrightarrow>
    mw_errorHandler (fold (\<lambda>opt c. opt c) opts c) = mw_errorHandler c"
proof (induction opts arbitrary: c)
  case (Cons opt opts)
  have "mw_errorHandler (opt c) = mw_errorHandler c" using Cons.prems by (intro mw_option_handler) auto
  then show ?case using Cons.IH [of "opt c"] Cons.prems by simp
qed simp

text \<open>The configuration the options build: the checks of all of them, the last source and the last handler.\<close>

lemma mw_build_pass:
  assumes "\<forall>opt \<in> set opts. mw_option opt"
  shows "all_pass (mw_extra (mw_build L detail opts)) None t \<longleftrightarrow> opts_pass opts t"
proof
  assume p: "all_pass (mw_extra (mw_build L detail opts)) None t"
  have "all_pass cs None t" if "WithCheck cs \<in> set opts" for cs
    using mw_build_checks(1) [OF assms that, of L detail] p by (auto simp: all_pass_def)
  moreover have "f None (t_claims t) = None" if w: "WithClaimsCheck ccs \<in> set opts" "Some f \<in> set ccs" for ccs f
  proof -
    obtain cs where cs: "set ccs \<subseteq> set cs" "cs = [] \<or> Some (CheckClaims L cs) \<in> set (mw_extra (mw_build L detail opts))"
      using mw_build_checks(2) [OF assms w(1), of L detail] by blast
    then have "CheckClaims L cs None t = None" using w p by (auto simp: all_pass_def)
    then show ?thesis using w cs(1) by (auto simp: CheckClaims_None)
  qed
  ultimately show "opts_pass opts t" by (auto simp: opts_pass_def)
next
  assume o: "opts_pass opts t"
  let ?c = "fold (\<lambda>opt c. opt c) opts
    \<lparr>mw_extra = [], mw_claimsChecks = [], mw_errorHandler = defaultErrorHandler detail, mw_tokenSource = defaultTokenSource\<rparr>"
  note f = mw_fold_checks [OF assms, of "\<lparr>mw_extra = [], mw_claimsChecks = [], mw_errorHandler = defaultErrorHandler detail,
      mw_tokenSource = defaultTokenSource\<rparr>", simplified]
  have e: "all_pass (mw_extra ?c) None t" using conjunct1 [OF f] o by (auto simp: all_pass_def opts_pass_def)
  have "CheckClaims L (mw_claimsChecks ?c) None t = None"
    unfolding CheckClaims_None using conjunct2 [OF f] o by (auto simp: opts_pass_def)
  with e show "all_pass (mw_extra (mw_build L detail opts)) None t"
    by (auto simp: mw_build_def Let_def all_pass_def)
qed

lemma mw_build_fields:
  "mw_tokenSource (mw_build L detail opts) = mw_tokenSource (fold (\<lambda>opt c. opt c) opts
     \<lparr>mw_extra = [], mw_claimsChecks = [], mw_errorHandler = defaultErrorHandler detail, mw_tokenSource = defaultTokenSource\<rparr>)"
  "mw_errorHandler (mw_build L detail opts) = mw_errorHandler (fold (\<lambda>opt c. opt c) opts
     \<lparr>mw_extra = [], mw_claimsChecks = [], mw_errorHandler = defaultErrorHandler detail, mw_tokenSource = defaultTokenSource\<rparr>)"
  by (simp_all add: mw_build_def Let_def)

lemma mw_build_source:
  assumes "\<forall>opt \<in> set opts. mw_option opt" "last_option source_option defaultTokenSource opts source"
  shows "mw_tokenSource (mw_build L detail opts) = source"
  using assms(2) unfolding last_option_def
proof (elim disjE exE conjE)
  fix o1 o2
  assume o: "opts = o1 @ source_option source # o2" "\<forall>y. source_option y \<notin> set o2"
  with assms(1) have "\<forall>opt \<in> set o2. mw_option opt" by simp
  from mw_fold_source [OF this o(2)] show ?thesis unfolding mw_build_fields o(1) by (simp add: WithTokenSource_def)
next
  assume o: "source = defaultTokenSource" "\<forall>y. source_option y \<notin> set opts"
  from mw_fold_source [OF assms(1) o(2)] show ?thesis unfolding mw_build_fields by (simp add: o(1))
qed

lemma mw_build_handler:
  assumes "\<forall>opt \<in> set opts. mw_option opt" "last_option handler_option (defaultErrorHandler detail) opts handler"
  shows "mw_errorHandler (mw_build L detail opts) = handler"
  using assms(2) unfolding last_option_def
proof (elim disjE exE conjE)
  fix o1 o2
  assume o: "opts = o1 @ handler_option handler # o2" "\<forall>y. handler_option y \<notin> set o2"
  with assms(1) have "\<forall>opt \<in> set o2. mw_option opt" by simp
  from mw_fold_handler [OF this o(2)] show ?thesis unfolding mw_build_fields o(1) by (simp add: WithErrorHandler_def)
next
  assume o: "handler = defaultErrorHandler detail" "\<forall>y. handler_option y \<notin> set opts"
  from mw_fold_handler [OF assms(1) o(2)] show ?thesis unfolding mw_build_fields by (simp add: o(1))
qed

section \<open>Properties\<close>

text \<open>The requests the middleware lets through, and those it refuses because of a check.\<close>

definition mw_accepts :: "lib \<Rightarrow> verifier \<Rightarrow> 'b mw_opt list \<Rightarrow> string \<Rightarrow> gtime \<Rightarrow> ctx_err \<Rightarrow> token \<Rightarrow> bool" where
  "mw_accepts L v opts src now ctx t \<longleftrightarrow> ctx = None \<and> Verify L v now None src [] = Inr t \<and> opts_pass opts t"

definition mw_check_failed :: "lib \<Rightarrow> verifier \<Rightarrow> 'b mw_opt list \<Rightarrow> string \<Rightarrow> gtime \<Rightarrow> bool" where
  "mw_check_failed L v opts src now \<longleftrightarrow> TrimSpace src \<noteq> [] \<and>
    (\<exists>t. parseWithClaims L (v_parser v) now src (v_keyFunc v) = Inr t \<and> \<not> (all_pass (staticCheck (v_base v)) None t \<and> opts_pass opts t))"

lemma authorize_Inr:
  assumes "\<forall>opt \<in> set opts. mw_option opt" "mw_tokenSource (mw_build L detail opts) = source"
  shows "authorize (Verify L v) (mw_build L detail opts) now r = Inr t \<longleftrightarrow> mw_accepts L v opts (source r) now (rq_ctx r) t"
proof -
  have "Verify L v now None [] [] \<noteq> Inr t" using single.accepted_not_blank by fastforce
  then show ?thesis
    using single.accepted_iff [of L v now "rq_ctx r" "source r"] mw_build_pass [OF assms(1), of L detail t]
    by (auto simp: authorize_def Let_def assms(2) mw_accepts_def)
qed

lemma authorize_ErrCheck:
  assumes "parser_errors L" "NewVerifier (Some m) (Some k) vopts = Inr v" "\<forall>opt \<in> set opts. mw_option opt"
    "mw_tokenSource (mw_build L detail opts) = source" "rq_ctx r = None" "authorize (Verify L v) (mw_build L detail opts) now r = Inl e"
  shows "errors_Is e ErrCheck \<longleftrightarrow> mw_check_failed L v opts (source r) now"
proof (cases "source r = []")
  case True
  then have "e = [ErrInvalidValue]" using assms(6) by (simp add: authorize_def Let_def assms(4))
  with True show ?thesis by (simp add: mw_check_failed_def errors_Is_def)
next
  case False
  let ?x = "mw_extra (mw_build L detail opts)"
  have e: "Verify L v now None (source r) ?x = Inl e" using assms(5,6) False by (simp add: authorize_def Let_def assms(4))
  have "v_keyFunc v = public_key_func m k" using NewVerifier_Inr [OF assms(2)] by simp
  then have "(\<exists>e. Verify L v now None (source r) ?x = Inl e \<and> errors_Is e ErrCheck) \<longleftrightarrow> TrimSpace (source r) \<noteq> [] \<and>
      (\<exists>tok. parseWithClaims L (v_parser v) now (source r) (v_keyFunc v) = Inr tok \<and>
        \<not> (all_pass (staticCheck (v_base v)) None tok \<and> all_pass ?x None tok))"
    unfolding Verify_def by (intro verify_with_ErrCheck [OF assms(1)]) (auto dest: keyfunc_errors(1))
  then show ?thesis unfolding e mw_build_pass [OF assms(3)] mw_check_failed_def by simp
qed

text \<open>C9. The HTTP middleware over a single-key verifier: the wrapped handler runs exactly when the context is live, the
  verifier accepts the text that the last configured token source (by default the Authorization header)
  finds in the request, and every check of every option passes; it then sees that token and its claims
  in the context. Otherwise the last configured error handler answers and the wrapped handler has no part
  in the answer; on a live context the error is a check failure exactly when the token parsed and a check
  of the verifier or of the options failed, which the default handler answers with 403, and with 401
  every other refusal.\<close>

theorem http_middleware_guards:
  assumes "parser_errors L" "NewVerifier (Some m) (Some k) vopts = Inr v" "Middleware L detail (Some (Verify L v)) opts = Some mw"
    "\<forall>opt \<in> set opts. mw_option opt" "last_option source_option defaultTokenSource opts source"
    "last_option handler_option (defaultErrorHandler detail) opts handler"
  shows "(\<forall>t. mw_accepts L v opts (source r) now (rq_ctx r) t \<longrightarrow>
      (\<forall>next. mw next now r = next (r\<lparr>rq_token := Some t, rq_claims := Some (t_claims t)\<rparr>))) \<and>
    ((\<nexists>t. mw_accepts L v opts (source r) now (rq_ctx r) t) \<longrightarrow>
      (\<exists>e. (\<forall>next. mw next now r = handler r e) \<and>
        (rq_ctx r = None \<longrightarrow> (errors_Is e ErrCheck \<longleftrightarrow> mw_check_failed L v opts (source r) now)) \<and>
        (rq_ctx r = None \<and> handler = defaultErrorHandler detail \<longrightarrow>
          rs_Status (handler r e) = (if mw_check_failed L v opts (source r) now then 403 else 401))))"
proof -
  let ?cfg = "mw_build L detail opts"
  note src = mw_build_source [OF assms(4,5), of L detail] and h = mw_build_handler [OF assms(4,6), of L]
  note acc = authorize_Inr [OF assms(4) src, of v now r]
  have m: "mw next now r = (case authorize (Verify L v) ?cfg now r of
         Inl e \<Rightarrow> handler r e | Inr t \<Rightarrow> next (r\<lparr>rq_token := Some t, rq_claims := Some (t_claims t)\<rparr>))" for "next"
    using assms(3) by (rule Middleware_Some) (simp add: h split: sum.split)
  show ?thesis
  proof (cases "authorize (Verify L v) ?cfg now r")
    case (Inl e)
    have none: "\<nexists>t. mw_accepts L v opts (source r) now (rq_ctx r) t" using acc Inl by auto
    have "\<exists>e. (\<forall>next. mw next now r = handler r e) \<and>
        (rq_ctx r = None \<longrightarrow> (errors_Is e ErrCheck \<longleftrightarrow> mw_check_failed L v opts (source r) now)) \<and>
        (rq_ctx r = None \<and> handler = defaultErrorHandler detail \<longrightarrow>
          rs_Status (handler r e) = (if mw_check_failed L v opts (source r) now then 403 else 401))"
      using authorize_ErrCheck [OF assms(1,2,4) src _ Inl] by (intro exI [of _ e]) (auto simp: m Inl defaultErrorHandler_def)
    with none show ?thesis by blast
  next
    case (Inr t)
    have "mw_accepts L v opts (source r) now (rq_ctx r) t" using acc [of t] Inr by simp
    moreover have "t' = t" if "mw_accepts L v opts (source r) now (rq_ctx r) t'" for t' using acc [of t'] Inr that by simp
    ultimately show ?thesis by (auto simp: m Inr)
  qed
qed

definition bearer_request :: http_request where
  "bearer_request = \<lparr>rq_Method = ''GET'', rq_Path = ''/'', rq_Header = fmupd ''Authorization'' [''Bearer t''] fmempty, rq_Body = [],
     rq_TLS = False, rq_ctx = None, rq_claims = None, rq_token = None\<rparr>"

lemma bearer_request_token: "defaultTokenSource bearer_request = ''t''"
proof -
  have "TrimSpace ''t'' = ''t''" by code_simp
  then show ?thesis
    using bearerToken_prefix [of "''t''"] by (simp add: defaultTokenSource_eq bearer_request_def Header_Get_def HeaderAuthorization_def)
qed

lemma default_options:
  "last_option source_option defaultTokenSource [] defaultTokenSource" "last_option handler_option def [] def"
  by (simp_all add: last_option_def)

text \<open>One request that passes and one, without a token, that does not.\<close>

theorem http_middleware_guards_witness:
  "\<exists>mw. Middleware (demo_lib (demo_token fmempty)) (\<lambda>_. ''e'') (Some (Verify (demo_lib (demo_token fmempty)) (demo_verifier []))) [] = Some mw \<and>
    rs_Status (mw (\<lambda>r. \<lparr>rs_Status = if rq_token r = Some (demo_token fmempty) then 200 else 500, rs_Header = fmempty, rs_Body = []\<rparr>) 0 bearer_request) = 200 \<and>
    rs_Status (mw (\<lambda>r. \<lparr>rs_Status = 200, rs_Header = fmempty, rs_Body = []\<rparr>) 0 (bearer_request\<lparr>rq_Header := fmempty\<rparr>)) = 401"
proof -
  let ?L = "demo_lib (demo_token fmempty)"
  let ?opts = "[] :: string mw_opt list"
  obtain mw where mw: "Middleware ?L (\<lambda>_. ''e'') (Some (Verify ?L (demo_verifier []))) ?opts = Some mw"
    by (simp add: Middleware_def Let_def)
  have e: "parser_errors ?L" by (simp add: demo_lib_def)
  note th = http_middleware_guards [OF e NewVerifier_demo [of "[]"] mw _ default_options(1) default_options(2)]
  have ok: "mw_accepts ?L (demo_verifier []) ?opts (defaultTokenSource bearer_request) 0 (rq_ctx bearer_request) (demo_token fmempty)"
    using Verify_demo by (simp add: mw_accepts_def bearer_request_token opts_pass_def, simp add: bearer_request_def)
  have no: "defaultTokenSource (bearer_request\<lparr>rq_Header := fmempty\<rparr>) = []" by (simp add: defaultTokenSource_def Header_Get_def)
  have "\<not> mw_accepts ?L (demo_verifier []) ?opts [] 0 None t" for t
    using single.accepted_not_blank [of ?L "demo_verifier []" 0 None "[]" "[]" t] by (auto simp: mw_accepts_def)
  then have "rs_Status (mw (\<lambda>r. \<lparr>rs_Status = 200, rs_Header = fmempty, rs_Body = []\<rparr>) 0 (bearer_request\<lparr>rq_Header := fmempty\<rparr>)) = 401"
    using th [of "bearer_request\<lparr>rq_Header := fmempty\<rparr>" 0] by (simp add: no mw_check_failed_def) (auto simp: bearer_request_def)
  moreover have "rs_Status (mw (\<lambda>r. \<lparr>rs_Status = if rq_token r = Some (demo_token fmempty) then 200 else 500, rs_Header = fmempty,
      rs_Body = []\<rparr>) 0 bearer_request) = 200"
    using th [of bearer_request 0] ok by simp
  ultimately show ?thesis using mw by blast
qed

section \<open>HTTP and gRPC\<close>

text \<open>A list of token checks and claims checks, as options of either package.\<close>

type_synonym check_opts = "(token_check option list + check_func option list) list"

definition http_opts :: "check_opts \<Rightarrow> 'b mw_opt list" where
  "http_opts ps = map (case_sum WithCheck WithClaimsCheck) ps"

definition grpc_opts :: "check_opts \<Rightarrow> (grpc_config \<Rightarrow> grpc_config) list" where
  "grpc_opts ps = map (case_sum grpc_WithCheck grpc_WithClaimsCheck) ps"

lemma fold_same_checks:
  "mw_extra c = gc_extra g \<Longrightarrow> mw_claimsChecks c = gc_claimsChecks g \<Longrightarrow>
    mw_extra (fold (\<lambda>opt c. opt c) (http_opts ps) c) = gc_extra (fold (\<lambda>opt c. opt c) (grpc_opts ps) g) \<and>
    mw_claimsChecks (fold (\<lambda>opt c. opt c) (http_opts ps) c) = gc_claimsChecks (fold (\<lambda>opt c. opt c) (grpc_opts ps) g)"
  by (induction ps arbitrary: c g)
    (auto simp: http_opts_def grpc_opts_def WithCheck_def WithClaimsCheck_def grpc_WithCheck_def grpc_WithClaimsCheck_def split: sum.splits)

lemma build_same_checks: "mw_extra (mw_build L detail (http_opts ps)) = gc_extra (buildConfig L (grpc_opts ps))"
  using fold_same_checks [of "\<lparr>mw_extra = [], mw_claimsChecks = [], mw_errorHandler = defaultErrorHandler detail,
      mw_tokenSource = defaultTokenSource\<rparr>" "\<lparr>gc_extra = [], gc_claimsChecks = []\<rparr>" ps]
  by (simp add: mw_build_def buildConfig_def Let_def)

lemma http_opts_source:
  "mw_tokenSource (fold (\<lambda>opt c. opt c) (http_opts ps) c) = mw_tokenSource c \<and>
   mw_errorHandler (fold (\<lambda>opt c. opt c) (http_opts ps) c) = mw_errorHandler c"
  by (induction ps arbitrary: c) (auto simp: http_opts_def WithCheck_def WithClaimsCheck_def split: sum.splits)

text \<open>The two answers to one request: both go on with one token, or both refuse, for the same reason.\<close>

definition grpc_status :: "grpc_code \<Rightarrow> int" where
  "grpc_status c = (case c of PermissionDenied \<Rightarrow> 403 | Unauthenticated \<Rightarrow> 401)"

lemma authorize_agree:
  assumes "mw_tokenSource cfg = defaultTokenSource" "mw_errorHandler cfg = defaultErrorHandler detail" "gc_extra gcfg = mw_extra cfg"
    "g_err ctx = rq_ctx r" "g_incoming ctx = Some md" "fmlookup md MetadataKeyAuthorization = Some (a # rest)"
    "Header_Get (rq_Header r) HeaderAuthorization = a"
  shows "(\<exists>t. authorize vf cfg now r = Inr t \<and>
      grpc_authorize L now ctx vf gcfg = Inr (ctx\<lparr>g_token := Some t, g_claims := Some (t_claims t)\<rparr>)) \<or>
    (\<exists>e c. authorize vf cfg now r = Inl e \<and> grpc_authorize L now ctx vf gcfg = Inl (Status c) \<and>
      rs_Status (mw_errorHandler cfg r e) = grpc_status c)"
proof -
  have s: "mw_tokenSource cfg r = bearerToken a" using assms(1,7) by (simp add: defaultTokenSource_eq)
  show ?thesis
  proof (cases "bearerToken a = []")
    case True
    then show ?thesis using assms s
      by (simp add: authorize_def grpc_authorize_def Let_def defaultErrorHandler_def grpc_status_def err_simps)
  next
    case False
    then show ?thesis using assms s
      by (cases "vf now (rq_ctx r) (bearerToken a) (mw_extra cfg)")
        (auto simp: authorize_def grpc_authorize_def Let_def defaultErrorHandler_def isCheckFailure_def grpc_status_def)
  qed
qed

text \<open>C34. HTTP and gRPC decide alike: given the same verifier, the same checks as options and the same Authorization
  value, a request either passes the HTTP middleware and both gRPC interceptors, each handler seeing the
  same token and claims, or all three refuse it without running a handler, and the HTTP status is 403
  where the code is PermissionDenied and 401 where it is Unauthenticated.\<close>

theorem http_grpc_agree:
  assumes "Middleware L detail (Some vf) (http_opts ps) = Some mw" "UnaryServerInterceptor L (Some vf) (grpc_opts ps) = Some ui"
    "StreamServerInterceptor L (Some vf) (grpc_opts ps) = Some si"
    "g_err ctx = rq_ctx r" "g_incoming ctx = Some md" "fmlookup md MetadataKeyAuthorization = Some (a # rest)"
    "Header_Get (rq_Header r) HeaderAuthorization = a"
  shows "(\<exists>t. let ctx' = ctx\<lparr>g_token := Some t, g_claims := Some (t_claims t)\<rparr> in
      (\<forall>next. mw next now r = next (r\<lparr>rq_token := Some t, rq_claims := Some (t_claims t)\<rparr>)) \<and>
      (\<forall>q h. ui now ctx q h = h ctx' q) \<and> (\<forall>srv h. si now srv ctx h = h srv ctx')) \<or>
    (\<exists>rsp c. (\<forall>next. mw next now r = rsp) \<and> (\<forall>q h. ui now ctx q h = Inl (Status c)) \<and>
      (\<forall>srv h. si now srv ctx h = Some (Status c)) \<and> rs_Status rsp = grpc_status c)"
proof -
  let ?cfg = "mw_build L detail (http_opts ps)" and ?gcfg = "buildConfig L (grpc_opts ps)"
  have src: "mw_tokenSource ?cfg = defaultTokenSource" "mw_errorHandler ?cfg = defaultErrorHandler detail"
    unfolding mw_build_fields by (simp_all add: http_opts_source)
  have m: "mw next now r = (case authorize vf ?cfg now r of
         Inl e \<Rightarrow> mw_errorHandler ?cfg r e | Inr t \<Rightarrow> next (r\<lparr>rq_token := Some t, rq_claims := Some (t_claims t)\<rparr>))" for "next"
    using assms(1) by (rule Middleware_Some) simp
  have u: "ui now ctx q h = (case grpc_authorize L now ctx vf ?gcfg of Inl e \<Rightarrow> Inl e | Inr ctx' \<Rightarrow> h ctx' q)" for q h
    using assms(2) by (auto simp: UnaryServerInterceptor_def Let_def)
  have s: "si now srv ctx h = (case grpc_authorize L now ctx vf ?gcfg of Inl e \<Rightarrow> Some e | Inr ctx' \<Rightarrow> h srv ctx')" for srv h
    using assms(3) by (auto simp: StreamServerInterceptor_def Let_def)
  from authorize_agree [OF src build_same_checks [symmetric] assms(4-7), of vf now L] show ?thesis
    unfolding m u s Let_def by (elim disjE exE conjE) (simp_all only: sum.case, blast+)
qed

theorem http_grpc_agree_witness:
  "\<exists>mw ui. Middleware no_lib (\<lambda>_. ''e'') (Some (\<lambda>_ _ _ _. Inl [ErrCheck])) (http_opts []) = Some mw \<and>
    UnaryServerInterceptor no_lib (Some (\<lambda>_ _ _ _. Inl [ErrCheck])) (grpc_opts []) = Some ui \<and>
    rs_Status (mw (\<lambda>_. \<lparr>rs_Status = 200, rs_Header = fmempty, rs_Body = []\<rparr>) 0 bearer_request) = 403 \<and>
    ui 0 \<lparr>g_err = None, g_incoming = Some (fmupd ''authorization'' [''Bearer t''] fmempty), g_outgoing = [],
      g_claims = None, g_token = None\<rparr> () (\<lambda>_ _. Inr ()) = Inl (Status PermissionDenied)"
proof -
  let ?v = "Some (\<lambda>_ _ _ _. Inl [ErrCheck]) :: verify_fn option"
  let ?next = "\<lambda>_. \<lparr>rs_Status = 200, rs_Header = fmempty, rs_Body = []\<rparr> :: string http_response"
  define ctx where "ctx = \<lparr>g_err = None, g_incoming = Some (fmupd ''authorization'' [''Bearer t''] fmempty), g_outgoing = [],
    g_claims = None, g_token = None\<rparr>"
  obtain mw where mw: "Middleware no_lib (\<lambda>_. ''e'') ?v (http_opts []) = Some mw" by (simp add: Middleware_def Let_def)
  obtain ui :: "gtime \<Rightarrow> grpc_ctx \<Rightarrow> unit \<Rightarrow> (grpc_ctx \<Rightarrow> unit \<Rightarrow> grpc_error + unit) \<Rightarrow> grpc_error + unit"
    where ui: "UnaryServerInterceptor no_lib ?v (grpc_opts []) = Some ui" by (simp add: UnaryServerInterceptor_def Let_def)
  obtain si :: "gtime \<Rightarrow> unit \<Rightarrow> grpc_ctx \<Rightarrow> (unit \<Rightarrow> grpc_ctx \<Rightarrow> grpc_error option) \<Rightarrow> grpc_error option"
    where si: "StreamServerInterceptor no_lib ?v (grpc_opts []) = Some si" by (simp add: StreamServerInterceptor_def Let_def)
  have c: "g_err ctx = rq_ctx bearer_request" "g_incoming ctx = Some (fmupd ''authorization'' [''Bearer t''] fmempty)"
    "fmlookup (fmupd ''authorization'' [''Bearer t''] fmempty) MetadataKeyAuthorization = Some [''Bearer t'']"
    "Header_Get (rq_Header bearer_request) HeaderAuthorization = ''Bearer t''"
    by (simp_all add: ctx_def bearer_request_def MetadataKeyAuthorization_def Header_Get_def HeaderAuthorization_def)
  have f: "rs_Status (mw ?next 0 bearer_request) = 403"
    using mw bearer_request_token
    by (auto simp: Middleware_def Let_def authorize_def mw_build_def http_opts_def defaultErrorHandler_def errors_Is_def)
  from http_grpc_agree [OF mw ui si c, of 0] have "ui 0 ctx () (\<lambda>_ _. Inr ()) = Inl (Status PermissionDenied)"
  proof (elim disjE exE conjE)
    fix t
    assume "let ctx' = ctx\<lparr>g_token := Some t, g_claims := Some (t_claims t)\<rparr> in
      (\<forall>next. mw next 0 bearer_request = next (bearer_request\<lparr>rq_token := Some t, rq_claims := Some (t_claims t)\<rparr>)) \<and>
      (\<forall>q h. ui 0 ctx q h = h ctx' q) \<and> (\<forall>srv h. si 0 srv ctx h = h srv ctx')"
    then have "rs_Status (mw ?next 0 bearer_request) = 200" by (simp add: Let_def)
    with f show ?thesis by simp
  next
    fix rsp code
    assume "\<forall>next. mw next 0 bearer_request = rsp" "\<forall>q h. ui 0 ctx q h = Inl (Status code)" "rs_Status rsp = grpc_status code"
    with f show ?thesis by (cases code) (auto simp: grpc_status_def)
  qed
  with mw ui f show ?thesis unfolding ctx_def by blast
qed

text \<open>A file read at some instant gave the cached token, and it was stamped at most \<open>lat\<close> later.\<close>

definition file_history :: "(gtime \<Rightarrow> string result) \<Rightarrow> duration \<Rightarrow> file_source \<Rightarrow> bool" where
  "file_history content lat f \<longleftrightarrow> (fs_cached f \<noteq> [] \<longrightarrow>
    (\<exists>rt body. content rt = Inr body \<and> fs_cached f = TrimSpace body \<and> fs_cachedAt f \<le> rt + lat))"

text \<open>A file token source hands out only tokens the file held: the token is the trimmed, non-empty content of
  the file at an instant less than the refresh interval (five seconds unless configured) plus the time
  one read takes before the call, whatever the order of calls; the history invariant is kept.\<close>

theorem file_token_fresh:
  assumes "file_history content lat f" "0 \<le> lat" "fs_RefreshInterval f \<le> maxDuration"
    "fc_first c \<le> fc_second c" "fc_read c = content rt" "fc_first c \<le> rt" "fc_stamp c \<le> rt + lat"
    "FileToken c f = (res, f')"
  shows "file_history content lat f' \<and>
    (\<forall>t. res = Inr t \<longrightarrow> t \<noteq> [] \<and>
      (\<exists>rt body. content rt = Inr body \<and> t = TrimSpace body \<and> fc_first c - rt < file_interval f + lat))"
proof -
  have i: "0 < file_interval f" "file_interval f \<le> maxDuration"
    using assms(3) by (auto simp: file_interval_def Second_def maxDuration_def)
  show ?thesis
  proof (cases rule: FileToken_cases [of f c])
    case (hit now)
    then obtain s body where h: "content s = Inr body" "fs_cached f = TrimSpace body" "fs_cachedAt f \<le> s + lat" "fs_cached f \<noteq> []"
      using assms(1) by (auto simp: file_history_def file_fresh_def)
    have "time_Sub now (fs_cachedAt f) < file_interval f" using hit(2) by (simp add: file_fresh_def)
    then have "now - fs_cachedAt f < file_interval f"
      using i by (auto simp: time_Sub_def max_def min_def split: if_splits)
    then have "fc_first c - s < file_interval f + lat" using hit(1) h(3) assms(4) by auto
    then show ?thesis using hit h assms(1,8) by auto
  next
    case (read body)
    moreover have "fc_first c - rt < file_interval f + lat" using assms(2,6) i(1) by linarith
    ultimately show ?thesis using assms(5,7,8) by (auto simp: file_history_def)
  qed (use assms(1,8) in auto)
qed

theorem file_token_fresh_witness:
  "file_history (\<lambda>_. Inr ''t'') 0 (snd (FileToken \<lparr>fc_first = 0, fc_second = 0, fc_read = Inr ''t'', fc_stamp = 0\<rparr>
     \<lparr>fs_Path = ''p'', fs_RefreshInterval = 0, fs_cached = [], fs_cachedAt = 0\<rparr>))"
proof -
  let ?f = "\<lparr>fs_Path = ''p'', fs_RefreshInterval = 0, fs_cached = [], fs_cachedAt = 0\<rparr>"
  let ?c = "\<lparr>fc_first = 0, fc_second = 0, fc_read = Inr ''t'', fc_stamp = 0\<rparr>"
  obtain res f' where r: "FileToken ?c ?f = (res, f')" by force
  have "file_history (\<lambda>_. Inr ''t'') 0 f'"
    using file_token_fresh [of "\<lambda>_. Inr ''t''" 0 ?f ?c 0, OF _ _ _ _ _ _ _ r]
    by (simp add: file_history_def maxDuration_def)
  then show ?thesis by (simp add: r)
qed

text \<open>What a client attaches is what a server reads back: a token a file source returns reaches the verifier
  of an HTTP server unchanged through the round tripper and the Authorization header, and that of a
  gRPC server through the metadata; a source that fails sends nothing.\<close>

theorem bearer_token_roundtrip:
  assumes "file_inv f" "FileToken c f = (res, f')"
  shows "(\<forall>t. res = Inr t \<longrightarrow> (\<exists>r'. RoundTrip base res r = base r' \<and> defaultTokenSource r' = t \<and>
        rq_Body r' = rq_Body r \<and> rq_Path r' = rq_Path r \<and> rq_Method r' = rq_Method r) \<and>
      (\<exists>a. withBearer ctx res = Inr (ctx\<lparr>g_outgoing := g_outgoing ctx @ [(MetadataKeyAuthorization, a)]\<rparr>) \<and> bearerToken a = t)) \<and>
    (\<forall>e. res = Inl e \<longrightarrow> RoundTrip base res r = Inl (ErrRead # e) \<and> withBearer ctx res = Inl (ErrRead # e))"
proof (intro conjI allI impI)
  fix t
  assume t: "res = Inr t"
  have trim: "TrimSpace t = t"
    using assms t by (cases rule: FileToken_cases [of f c]) (auto simp: file_inv_def)
  let ?r' = "r\<lparr>rq_Header := Header_Set (rq_Header r) ''Authorization'' (''Bearer '' @ t)\<rparr>"
  have "defaultTokenSource ?r' = t"
    using bearerToken_prefix [of t] trim
    by (simp only: defaultTokenSource_eq Header_Set_def Header_Get_def HeaderAuthorization_def) simp
  then show "\<exists>r'. RoundTrip base res r = base r' \<and> defaultTokenSource r' = t \<and>
        rq_Body r' = rq_Body r \<and> rq_Path r' = rq_Path r \<and> rq_Method r' = rq_Method r"
    by (intro exI [of _ ?r']) (simp add: t RoundTrip_def)
  show "\<exists>a. withBearer ctx res = Inr (ctx\<lparr>g_outgoing := g_outgoing ctx @ [(MetadataKeyAuthorization, a)]\<rparr>) \<and> bearerToken a = t"
    using bearerToken_prefix [of t] trim by (intro exI [of _ "''Bearer '' @ t"]) (simp only: t withBearer_def sum.case simp_thms)
qed (simp_all add: RoundTrip_def withBearer_def)

theorem bearer_token_roundtrip_witness:
  "\<exists>r'. RoundTrip Inr (fst (FileToken \<lparr>fc_first = 0, fc_second = 0, fc_read = Inr ''t'', fc_stamp = 0\<rparr>
     \<lparr>fs_Path = ''p'', fs_RefreshInterval = 0, fs_cached = [], fs_cachedAt = 0\<rparr>))
     \<lparr>rq_Method = [], rq_Path = [], rq_Header = fmempty, rq_Body = [], rq_TLS = False,
      rq_ctx = None, rq_claims = None, rq_token = None\<rparr> = Inr r' \<and> defaultTokenSource r' = ''t''"
proof -
  let ?f = "\<lparr>fs_Path = ''p'', fs_RefreshInterval = 0, fs_cached = [], fs_cachedAt = 0\<rparr>"
  let ?c = "\<lparr>fc_first = 0, fc_second = 0, fc_read = Inr ''t'', fc_stamp = 0\<rparr>"
  have "file_inv ?f" by (simp add: file_inv_def)
  moreover have "TrimSpace ''t'' = ''t''" by code_simp
  then have "FileToken ?c ?f = (Inr ''t'', ?f\<lparr>fs_cached := ''t''\<rparr>)"
    by (simp add: FileToken_def file_fresh_def Let_def)
  ultimately show ?thesis
    using bearer_token_roundtrip [of ?f ?c, where base = Inr] by fastforce
qed

end
