(* ===== verification/Token_Review.thy ===== *)
theory Token_Review
  imports Http_Auth_Facts
begin

text \<open>
  Package \<open>k8s/tokenreview\<close>: the webhook that answers a Kubernetes TokenReview by verifying the token. The
  JSON decoder of the body is an argument: it gets the bytes below the limit and whether the body was
  cut there. The claims map is iterated in an order given to the mapper.
\<close>

section \<open>Reviews\<close>

record user_info =
  tr_Username :: string
  tr_UID :: string
  tr_Groups :: "string list"
  tr_Extra :: "(string, string list) fmap"

record review_status =
  rv_Authenticated :: bool
  rv_User :: user_info
  rv_StatusAudiences :: "string list"
  rv_Error :: string

record token_review =
  rv_Token :: string
  rv_Audiences :: "string list"
  rv_Status :: review_status

definition no_user :: user_info where
  "no_user = \<lparr>tr_Username = [], tr_UID = [], tr_Groups = [], tr_Extra = fmempty\<rparr>"

definition deniedReview :: "string \<Rightarrow> token_review" where
  "deniedReview reason =
    \<lparr>rv_Token = [], rv_Audiences = [],
     rv_Status = \<lparr>rv_Authenticated = False, rv_User = no_user, rv_StatusAudiences = [], rv_Error = reason\<rparr>\<rparr>"

section \<open>From claims to a user\<close>

definition extra_value :: "gval \<Rightarrow> string list option" where
  "extra_value v =
    (case v of
       VString s \<Rightarrow> Some [s]
     | VStrings ss \<Rightarrow> Some (elems ss)
     | VAnys vs \<Rightarrow>
         let ev = List.map_filter (\<lambda>x. case x of VString s \<Rightarrow> Some s | _ \<Rightarrow> None) (elems vs)
         in if ev \<noteq> [] then Some ev else None
     | _ \<Rightarrow> None)"

fun extra_loop :: "(string \<times> gval) list \<Rightarrow> (string, string list) fmap \<Rightarrow> (string, string list) fmap" where
  "extra_loop [] extra = extra"
| "extra_loop ((k, v) # kvs) extra =
    (if IsRegisteredClaim k \<or> k = KeyGroups then extra_loop kvs extra
     else (case extra_value v of
             None \<Rightarrow> extra_loop kvs extra
           | Some ev \<Rightarrow> extra_loop kvs (fmupd (''claim_'' @ k) ev extra)))"

text \<open>The mapper of a configuration; \<open>order\<close> lists the entries of the claims as the loop visits them.\<close>

type_synonym user_info_mapper = "(string \<times> gval) list \<Rightarrow> mapclaims \<Rightarrow> user_info result"

definition DefaultUserInfoMapper :: user_info_mapper where
  "DefaultUserInfoMapper order c =
    (let user = \<lparr>tr_Username = (case Subject c of Inr s \<Rightarrow> s | Inl _ \<Rightarrow> []),
                 tr_UID = (case ID c of Inr j \<Rightarrow> j | Inl _ \<Rightarrow> []),
                 tr_Groups = (case Groups c of Inr gs \<Rightarrow> gs | Inl _ \<Rightarrow> []),
                 tr_Extra = extra_loop order (case Audience c of Inr a \<Rightarrow> fmupd ''aud'' a fmempty | Inl _ \<Rightarrow> fmempty)\<rparr>
     in if tr_Username user = [] then Inl [ErrInvalidClaims] else Inr user)"

section \<open>The handler\<close>

record review_config =
  rc_extra :: "token_check option list"
  rc_claimsChecks :: "check_func option list"
  rc_mapper :: user_info_mapper
  rc_audiences :: "string list"

type_synonym review_opt = "review_config \<Rightarrow> review_config"

definition review_WithCheck :: "token_check option list \<Rightarrow> review_opt" where
  "review_WithCheck checks c = c\<lparr>rc_extra := rc_extra c @ checks\<rparr>"

definition review_WithClaimsCheck :: "check_func option list \<Rightarrow> review_opt" where
  "review_WithClaimsCheck checks c = c\<lparr>rc_claimsChecks := rc_claimsChecks c @ checks\<rparr>"

definition WithUserInfoMapper :: "user_info_mapper option \<Rightarrow> review_opt" where
  "WithUserInfoMapper m c = (case m of Some f \<Rightarrow> c\<lparr>rc_mapper := f\<rparr> | None \<Rightarrow> c)"

definition WithAudiences :: "string list \<Rightarrow> review_opt" where
  "WithAudiences audiences c = c\<lparr>rc_audiences := rc_audiences c @ audiences\<rparr>"

definition audience_check :: "lib \<Rightarrow> string list \<Rightarrow> token_check option" where
  "audience_check L audiences = Some (CheckClaims L [Some (CheckAudience audiences)])"

definition review_config_of :: "lib \<Rightarrow> review_opt list \<Rightarrow> review_config" where
  "review_config_of L opts =
    (let cfg = fold (\<lambda>opt c. opt c) opts
           \<lparr>rc_extra = [], rc_claimsChecks = [], rc_mapper = DefaultUserInfoMapper, rc_audiences = []\<rparr>;
         cfg = (if rc_claimsChecks cfg \<noteq> []
                then cfg\<lparr>rc_extra := rc_extra cfg @ [Some (CheckClaims L (rc_claimsChecks cfg))]\<rparr> else cfg)
     in if rc_audiences cfg \<noteq> [] then cfg\<lparr>rc_extra := rc_extra cfg @ [audience_check L (rc_audiences cfg)]\<rparr> else cfg)"

definition max_review_body :: nat where "max_review_body = 64 * 1024"

definition limited_body :: "nat \<Rightarrow> string \<Rightarrow> string \<times> bool" where
  "limited_body n body = (take n body, n < length body)"

text \<open>
  The checks a request runs. All requests share the slice \<open>cfg.extra\<close>, and the handler appends the audience
  check of a request to it. \<open>append\<close> copies a full slice; into one with spare capacity it writes in place,
  one cell behind the shared elements, where a concurrent request may put its own check before this one
  runs its list. \<open>rr_spare\<close>: the configured slice has spare capacity (a nil slice never has);
  \<open>rr_other\<close>: the audiences of the last concurrent request that wrote the cell in between, if any.
\<close>

record review_race =
  rr_spare :: bool
  rr_other :: "string list option"

definition overwritten :: "review_config \<Rightarrow> review_race \<Rightarrow> bool" where
  "overwritten cfg race \<longleftrightarrow> rc_extra cfg \<noteq> [] \<and> rr_spare race \<and> rr_other race \<noteq> None"

definition request_checks :: "lib \<Rightarrow> review_config \<Rightarrow> review_race \<Rightarrow> string list \<Rightarrow> token_check option list" where
  "request_checks L cfg race audiences =
    (if audiences = [] then rc_extra cfg
     else rc_extra cfg @ [audience_check L (if overwritten cfg race then the (rr_other race) else audiences)])"

text \<open>One request: the configured handler, the order of the claims, the requests beside it, the clock of the verification.\<close>

definition serve_review ::
  "lib \<Rightarrow> verify_fn \<Rightarrow> review_config \<Rightarrow> review_race \<Rightarrow> (string \<times> bool \<Rightarrow> token_review option) \<Rightarrow>
   (mapclaims \<Rightarrow> (string \<times> gval) list) \<Rightarrow> gtime \<Rightarrow> ctx_err \<Rightarrow> string \<Rightarrow> int \<times> token_review" where
  "serve_review L v cfg race decode order now ctx body =
    (case decode (limited_body max_review_body body) of
       None \<Rightarrow> (400, deniedReview ''invalid TokenReview body'')
     | Some review \<Rightarrow>
         if rv_Token review = [] then (400, deniedReview ''spec.token required'')
         else
           let extra = request_checks L cfg race (rv_Audiences review)
           in (case v now ctx (rv_Token review) extra of
                 Inl _ \<Rightarrow> (200, deniedReview ''token did not validate'')
               | Inr tok \<Rightarrow>
                   (case ToMapClaims L (AMapClaims (Some (t_claims tok))) of
                      Inl _ \<Rightarrow> (500, deniedReview ''internal error'')
                    | Inr mc \<Rightarrow>
                        let c = (case mc of None \<Rightarrow> fmempty | Some m \<Rightarrow> m) in
                        (case rc_mapper cfg (order c) c of
                           Inl _ \<Rightarrow> (500, deniedReview ''user mapper failed'')
                         | Inr user \<Rightarrow>
                             (200, \<lparr>rv_Token = [], rv_Audiences = rv_Audiences review,
                                    rv_Status = \<lparr>rv_Authenticated = True, rv_User = user,
                                      rv_StatusAudiences = (if rv_Audiences review = [] then rc_audiences cfg else rv_Audiences review),
                                      rv_Error = []\<rparr>\<rparr>)))))"

definition Handler ::
  "lib \<Rightarrow> verify_fn option \<Rightarrow> review_opt list \<Rightarrow> (string \<times> bool \<Rightarrow> token_review option) \<Rightarrow>
   (mapclaims \<Rightarrow> (string \<times> gval) list) \<Rightarrow> (review_race \<Rightarrow> gtime \<Rightarrow> ctx_err \<Rightarrow> string \<Rightarrow> int \<times> token_review) option" where
  "Handler L v opts decode order =
    map_option (\<lambda>vf race. serve_review L vf (review_config_of L opts) race decode order) v"

section \<open>Slices\<close>

text \<open>
  Go slices share their backing array: \<open>append\<close> writes in place when the capacity allows it and copies
  otherwise.
\<close>

record go_slice =
  sl_array :: nat
  sl_len :: nat
  sl_cap :: nat

type_synonym 'a arrays = "nat \<Rightarrow> 'a list"

definition go_append :: "nat \<Rightarrow> 'a \<Rightarrow> go_slice \<times> 'a arrays \<Rightarrow> go_slice \<times> 'a arrays" where
  "go_append fresh x sh =
    (case sh of (s, h) \<Rightarrow>
       if sl_len s < sl_cap s
       then (s\<lparr>sl_len := Suc (sl_len s)\<rparr>, h(sl_array s := (h (sl_array s))[sl_len s := x]))
       else (s\<lparr>sl_array := fresh, sl_len := Suc (sl_len s), sl_cap := 2 * Suc (sl_len s)\<rparr>,
             h(fresh := take (sl_len s) (h (sl_array s)) @ x # replicate (Suc (sl_len s)) x)))"

definition slice_elems :: "'a arrays \<Rightarrow> go_slice \<Rightarrow> 'a list" where
  "slice_elems h s = take (sl_len s) (h (sl_array s))"

text \<open>A request appends its check to the shared slice, perhaps another one does the same, then the first runs its list.\<close>

definition first_request_checks :: "nat \<Rightarrow> nat \<Rightarrow> 'a \<Rightarrow> 'a option \<Rightarrow> go_slice \<Rightarrow> 'a arrays \<Rightarrow> 'a list" where
  "first_request_checks fresh1 fresh2 own other extra h =
    (let (s1, h1) = go_append fresh1 own (extra, h);
         h2 = (case other of None \<Rightarrow> h1 | Some x \<Rightarrow> snd (go_append fresh2 x (extra, h1)))
     in slice_elems h2 s1)"

end
