(* ===== verification/Http_Server.thy ===== *)
theory Http_Server
  imports Refresh Jwks Token_Review
begin

text \<open>
  Packages \<open>httpserver\<close> and \<open>httpserver/k8sauth\<close> with \<open>internal/jsonutil\<close>: the daemon's configuration, the
  construction of its signer, verifier, refresher and key set, the routing table of its endpoints, the
  handlers, the authenticators and the middlewares around them. A request meets an environment: what
  its body decodes to, the clock readings, the generated token id and the text of an error.
\<close>

section \<open>Configuration\<close>

type_synonym authenticator = "http_request \<Rightarrow> string option"

record server_config =
  sv_Logger :: bool
  sv_Method :: "smethod option"
  sv_PrivateKey :: "pkey option"
  sv_PublicKey :: "pkey option"
  sv_Kid :: string
  sv_DefaultIssuer :: string
  sv_DefaultExpiration :: duration
  sv_AuthToken :: string
  sv_Authenticator :: "authenticator option"
  sv_RefreshMaxAge :: "duration option"
  sv_RefreshClaimsResolver :: "claims_resolver option"
  sv_Revoker :: "revoker option"
  sv_AdditionalKeys :: "key_entry list"
  sv_EnableTokenReview :: bool
  sv_Issuer :: string
  sv_CertFile :: string
  sv_KeyFile :: string
  sv_Addr :: string
  sv_ReadTimeout :: duration
  sv_WriteTimeout :: duration
  sv_ShutdownTimeout :: duration

definition withDefaults :: "server_config \<Rightarrow> server_config" where
  "withDefaults c =
    (let c = (if sv_Addr c = [] then c\<lparr>sv_Addr := '':8080''\<rparr> else c);
         c = (if sv_ReadTimeout c = 0 then c\<lparr>sv_ReadTimeout := 10 * Second\<rparr> else c);
         c = (if sv_WriteTimeout c = 0 then c\<lparr>sv_WriteTimeout := 10 * Second\<rparr> else c);
         c = (if sv_ShutdownTimeout c = 0 then c\<lparr>sv_ShutdownTimeout := 15 * Second\<rparr> else c);
         c = (if sv_DefaultExpiration c = 0 then c\<lparr>sv_DefaultExpiration := Hour\<rparr> else c)
     in c)"

section \<open>Verifier and key set\<close>

datatype server_verifier = SingleKey verifier | MultiKey multi_verifier

fun server_verify :: "lib \<Rightarrow> server_verifier \<Rightarrow> verify_fn" where
  "server_verify L (SingleKey v) = Verify L v"
| "server_verify L (MultiKey v) = MultiVerify L v"

definition buildVerifier :: "server_config \<Rightarrow> server_verifier result" where
  "buildVerifier cfg =
    (let opts = (case sv_Revoker cfg of None \<Rightarrow> [] | Some r \<Rightarrow> [WithRevoker (Some r)]) in
     if sv_AdditionalKeys cfg = []
     then (case NewVerifier (sv_Method cfg) (sv_PublicKey cfg) opts of Inl e \<Rightarrow> Inl e | Inr v \<Rightarrow> Inr (SingleKey v))
     else if sv_Kid cfg = [] then Inl [ErrInvalidValue]
     else (case NewMultiKeyVerifier
                  (\<lparr>Kid = sv_Kid cfg, ke_Method = sv_Method cfg, PublicKey = sv_PublicKey cfg\<rparr> # sv_AdditionalKeys cfg) opts of
             Inl e \<Rightarrow> Inl e | Inr v \<Rightarrow> Inr (MultiKey v)))"

text \<open>A nil key or method, or a point shorter than its curve needs, panics: \<open>None\<close>.\<close>

definition entry_jwk :: "(ecdsa_public \<Rightarrow> string result) \<Rightarrow> key_entry \<Rightarrow> jwk result option" where
  "entry_jwk ecBytes e =
    (case key_entry.PublicKey e of
       None \<Rightarrow> Some (Inl [ErrInvalidType])
     | Some k \<Rightarrow>
         (case JWKFromPublicKey ecBytes k (Kid e) of
            None \<Rightarrow> None
          | Some (Inl err) \<Rightarrow> Some (Inl err)
          | Some (Inr j) \<Rightarrow>
              (case ke_Method e of None \<Rightarrow> None | Some m \<Rightarrow> Some (Inr (j\<lparr>j_Alg := Alg m\<rparr>)))))"

fun entries_jwks :: "(ecdsa_public \<Rightarrow> string result) \<Rightarrow> key_entry list \<Rightarrow> jwks result option" where
  "entries_jwks ecBytes [] = Some (Inr [])"
| "entries_jwks ecBytes (e # es) =
    (case entry_jwk ecBytes e of
       None \<Rightarrow> None
     | Some (Inl err) \<Rightarrow> Some (Inl err)
     | Some (Inr j) \<Rightarrow>
         (case entries_jwks ecBytes es of
            None \<Rightarrow> None
          | Some (Inl err) \<Rightarrow> Some (Inl err)
          | Some (Inr js) \<Rightarrow> Some (Inr (j # js))))"

definition buildJWKS :: "(ecdsa_public \<Rightarrow> string result) \<Rightarrow> server_config \<Rightarrow> jwks result option" where
  "buildJWKS ecBytes cfg =
    entries_jwks ecBytes
      (\<lparr>Kid = sv_Kid cfg, ke_Method = sv_Method cfg, PublicKey = sv_PublicKey cfg\<rparr> # sv_AdditionalKeys cfg)"

section \<open>The server\<close>

record server =
  sr_cfg :: server_config
  sr_signer :: signer
  sr_verify :: server_verifier
  sr_refresh :: refresher
  sr_jwksSet :: jwks

definition signer_opts :: "server_config \<Rightarrow> signer_opt list" where
  "signer_opts cfg =
    (if sv_DefaultIssuer cfg \<noteq> [] then [WithDefaultIssuer (sv_DefaultIssuer cfg)] else []) @
    (if 0 < sv_DefaultExpiration cfg then [Signing.WithDefaultExpiration (sv_DefaultExpiration cfg)] else []) @
    (if sv_Kid cfg \<noteq> [] then [WithStaticHeaders (fmupd ''kid'' (VString (sv_Kid cfg)) fmempty)] else [])"

definition refresher_opts :: "server_config \<Rightarrow> refresh_opt list" where
  "refresher_opts cfg =
    (if 0 < sv_DefaultExpiration cfg then [Refresh.WithDefaultExpiration (sv_DefaultExpiration cfg)] else []) @
    (case sv_RefreshMaxAge cfg of None \<Rightarrow> [] | Some d \<Rightarrow> [WithMaxAge d]) @
    (case sv_RefreshClaimsResolver cfg of None \<Rightarrow> [] | Some f \<Rightarrow> [WithClaimsResolver (Some f)])"

definition config_errors :: "crypto \<Rightarrow> server_config \<Rightarrow> gerror option" where
  "config_errors C cfg =
    (if \<not> sv_Logger cfg then Some [ErrInvalidValue]
     else if sv_Method cfg = None then Some [ErrInvalidValue]
     else if sv_PrivateKey cfg = None then Some [ErrInvalidValue]
     else if sv_PublicKey cfg = None then Some [ErrInvalidValue]
     else (case ValidatePair C (sv_PublicKey cfg) (sv_PrivateKey cfg) of
             Some e \<Rightarrow> Some e
           | None \<Rightarrow> if (sv_CertFile cfg = []) \<noteq> (sv_KeyFile cfg = []) then Some [ErrInvalidValue] else None))"

definition New :: "crypto \<Rightarrow> (ecdsa_public \<Rightarrow> string result) \<Rightarrow> server_config \<Rightarrow> server result option" where
  "New C ecBytes cfg0 =
    (case config_errors C cfg0 of
       Some e \<Rightarrow> Some (Inl e)
     | None \<Rightarrow>
        let cfg = withDefaults cfg0 in
        (case NewSigner (sv_Method cfg) (sv_PrivateKey cfg) (signer_opts cfg) of
           Inl e \<Rightarrow> Some (Inl e)
         | Inr s \<Rightarrow>
            (case buildVerifier cfg of
               Inl e \<Rightarrow> Some (Inl e)
             | Inr v \<Rightarrow>
                (case NewRefresher C (sv_Method cfg) (sv_PublicKey cfg) (sv_PrivateKey cfg) (refresher_opts cfg) of
                   Inl e \<Rightarrow> Some (Inl e)
                 | Inr r \<Rightarrow>
                    (case buildJWKS ecBytes cfg of
                       None \<Rightarrow> None
                     | Some (Inl e) \<Rightarrow> Some (Inl e)
                     | Some (Inr js) \<Rightarrow>
                         Some (Inr \<lparr>sr_cfg = cfg, sr_signer = s, sr_verify = v, sr_refresh = r, sr_jwksSet = js\<rparr>))))))"

fun add_algs :: "string list \<Rightarrow> string list \<Rightarrow> string list" where
  "add_algs [] out = out"
| "add_algs (a # as) out = (if a = [] \<or> a \<in> set out then add_algs as out else add_algs as (out @ [a]))"

definition supportedAlgs :: "server_config \<Rightarrow> string list" where
  "supportedAlgs cfg =
    add_algs (map (\<lambda>m. case m of Some x \<Rightarrow> Alg x | None \<Rightarrow> []) (sv_Method cfg # map ke_Method (sv_AdditionalKeys cfg))) []"

end
