(* ===== verification/Http_Endpoints.thy ===== *)
theory Http_Endpoints
  imports Http_Server
begin

text \<open>
  Packages \<open>httpserver\<close> and \<open>httpserver/k8sauth\<close>, second part: bodies and their JSON encoding, the
  authenticators, the handlers, the routing table and the wrappers around it. A request is served in
  an environment \<open>env\<close>: the decoders of the bodies, the clock readings of the handlers, the generated
  token id, the iteration order of claims and the text of an error.
\<close>

section \<open>Bodies\<close>

record sign_request =
  sq_Claims :: "mapclaims option"
  sq_Headers :: headers
  sq_ExpiresIn :: string

record discovery_doc =
  d_Issuer :: string
  d_JWKSURI :: string
  d_Algs :: "string list"
  d_ResponseTypes :: "string list"
  d_SubjectTypes :: "string list"

datatype reply_body =
    SignResponse string int
  | VerifyResponse bool mapclaims headers
  | RefreshResponse string int
  | ErrorResponse string string
  | HealthResponse gtime
  | JWKSResponse jwks
  | DiscoveryResponse discovery_doc
  | ReviewResponse token_review
  | MetricsText
  | PlainText string
  | NoBody

type_synonym response = "reply_body http_response"

text \<open>\<open>jsonutil.Write\<close> on the header map the wrappers have filled so far. Only claims and headers can hold a
  value JSON cannot express; the text of the encoding error in the plain answer is left out.\<close>

definition body_marshals :: "lib \<Rightarrow> reply_body \<Rightarrow> bool" where
  "body_marshals L b =
    (case b of
       VerifyResponse _ c h \<Rightarrow> fmpred (\<lambda>_ v. json_marshals L v) c \<and> fmpred (\<lambda>_ v. json_marshals L v) h
     | _ \<Rightarrow> True)"

definition Write :: "lib \<Rightarrow> header_map \<Rightarrow> int \<Rightarrow> reply_body \<Rightarrow> response" where
  "Write L h status b =
    (if body_marshals L b
     then \<lparr>rs_Status = status, rs_Header = Header_Set h ''Content-Type'' ''application/json'', rs_Body = b\<rparr>
     else \<lparr>rs_Status = 500,
           rs_Header = Header_Set (Header_Set h ''Content-Type'' ''text/plain; charset=utf-8'') ''X-Content-Type-Options'' ''nosniff'',
           rs_Body = PlainText []\<rparr>)"

definition writeError :: "lib \<Rightarrow> header_map \<Rightarrow> int \<Rightarrow> string \<Rightarrow> string \<Rightarrow> response" where
  "writeError L h status code detail = Write L h status (ErrorResponse code detail)"

section \<open>The environment of a request\<close>

record env =
  en_sign :: "string \<times> bool \<Rightarrow> sign_request option"
  en_token :: "string \<times> bool \<Rightarrow> string option"
  en_review :: "string \<times> bool \<Rightarrow> token_review option"
  en_race :: review_race
  en_order :: "mapclaims \<Rightarrow> (string \<times> gval) list"
  en_now1 :: gtime
  en_now2 :: gtime
  en_uuid :: string
  en_text :: "gerror \<Rightarrow> string"

type_synonym handler = "header_map \<Rightarrow> http_request \<Rightarrow> response"

section \<open>Authentication\<close>

definition requireAuth :: "lib \<Rightarrow> authenticator option \<Rightarrow> handler \<Rightarrow> handler" where
  "requireAuth L a next =
    (case a of
       None \<Rightarrow> next
     | Some f \<Rightarrow> (\<lambda>h r.
         case f r of
           Some err \<Rightarrow>
             writeError L (Header_Set h ''Www-Authenticate'' (''Bearer realm='' @ [CHR 0x22] @ ''jwtmintd'' @ [CHR 0x22]))
               401 ''unauthorized'' err
         | None \<Rightarrow> next h r))"

definition StaticBearerAuthenticator :: "string \<Rightarrow> authenticator option" where
  "StaticBearerAuthenticator expected =
    (if expected = [] then None
     else Some (\<lambda>r.
       let authz = Header_Get (rq_Header r) ''Authorization''; got = TrimPrefix authz ''Bearer '' in
       if got = authz \<or> got \<noteq> expected then Some ''valid bearer token required'' else None))"

definition authenticator_of :: "server_config \<Rightarrow> authenticator option" where
  "authenticator_of cfg =
    (case sv_Authenticator cfg of Some a \<Rightarrow> Some a | None \<Rightarrow> StaticBearerAuthenticator (sv_AuthToken cfg))"

text \<open>
  \<open>k8sauth.SAAuthenticator\<close>: the API server's answer to a TokenReview is the function \<open>sa_create\<close> of the
  context, the token and the audiences. A nil allow-list and an empty one are the same to the code.
\<close>

record sa_authenticator =
  sa_create :: "ctx_err \<Rightarrow> string \<Rightarrow> string list \<Rightarrow> review_status result"
  sa_allowed :: "string fset"
  sa_audiences :: "string list"

type_synonym sa_opt = "sa_authenticator \<Rightarrow> sa_authenticator"

definition WithAllowedSAs :: "string list \<Rightarrow> sa_opt" where
  "WithAllowedSAs usernames a =
    a\<lparr>sa_allowed := fold (\<lambda>u s. if u \<noteq> [] then finsert u s else s) usernames (sa_allowed a)\<rparr>"

definition sa_WithAudiences :: "string list \<Rightarrow> sa_opt" where
  "sa_WithAudiences audiences a = a\<lparr>sa_audiences := sa_audiences a @ audiences\<rparr>"

definition sa_New :: "(ctx_err \<Rightarrow> string \<Rightarrow> string list \<Rightarrow> review_status result) option \<Rightarrow> sa_opt list \<Rightarrow> sa_authenticator result" where
  "sa_New client opts =
    (case client of
       None \<Rightarrow> Inl [ErrInvalidValue]
     | Some create \<Rightarrow>
         Inr (fold (\<lambda>opt a. opt a) opts \<lparr>sa_create = create, sa_allowed = {||}, sa_audiences = []\<rparr>))"

text \<open>The in-cluster configuration and client are the cluster's: an error or the client they give.\<close>

definition NewInCluster :: "(ctx_err \<Rightarrow> string \<Rightarrow> string list \<Rightarrow> review_status result) result \<Rightarrow> sa_opt list \<Rightarrow> sa_authenticator result" where
  "NewInCluster client opts =
    (case client of Inl e \<Rightarrow> Inl (ErrInvalidValue # e) | Inr create \<Rightarrow> sa_New (Some create) opts)"

definition Authenticate :: "(gerror \<Rightarrow> string) \<Rightarrow> (string \<Rightarrow> string) \<Rightarrow> sa_authenticator \<Rightarrow> authenticator" where
  "Authenticate errText quote a r =
    (let authz = Header_Get (rq_Header r) ''Authorization'' in
     if authz = [] then Some ''missing Authorization header''
     else if \<not> HasPrefix authz ''Bearer '' then Some ''authorization is not a bearer token''
     else
       let tok = TrimSpace (TrimPrefix authz ''Bearer '') in
       if tok = [] then Some ''empty bearer token''
       else (case sa_create a (rq_ctx r) tok (sa_audiences a) of
               Inl e \<Rightarrow> Some (''token review failed: '' @ errText e)
             | Inr status \<Rightarrow>
                 if \<not> rv_Authenticated status then
                   (if rv_Error status \<noteq> [] then Some (''apiserver rejected token: '' @ rv_Error status)
                    else Some ''apiserver did not authenticate token'')
                 else if sa_allowed a \<noteq> {||} \<and> tr_Username (rv_User status) |\<notin>| sa_allowed a
                   then Some (''ServiceAccount '' @ quote (tr_Username (rv_User status)) @ '' not in allow-list'')
                 else None))"

section \<open>Handlers\<close>

definition MaxSignBodyBytes :: nat where "MaxSignBodyBytes = 64 * 1024"
definition MaxVerifyBodyBytes :: nat where "MaxVerifyBodyBytes = 64 * 1024"
definition MaxRefreshBodyBytes :: nat where "MaxRefreshBodyBytes = 64 * 1024"

definition exp_seconds :: "lib \<Rightarrow> token \<Rightarrow> int" where
  "exp_seconds L tok =
    (case ToMapClaims L (AMapClaims (Some (t_claims tok))) of
       Inr (Some mc) \<Rightarrow> (case ExpiresAt L mc of Inr ex \<Rightarrow> unix_seconds ex | Inl _ \<Rightarrow> 0)
     | _ \<Rightarrow> 0)"

definition sign_body :: "lib \<Rightarrow> env \<Rightarrow> signer \<Rightarrow> header_map \<Rightarrow> ctx_err \<Rightarrow> mapclaims \<Rightarrow> headers \<Rightarrow> response" where
  "sign_body L en s h ctx c hdrs =
    (case Sign L (en_now2 en) (en_uuid en) s ctx c hdrs of
       Inl e \<Rightarrow>
         if errors_Is e ErrReservedHeader then writeError L h 400 ''reserved_header'' (en_text en e)
         else writeError L h 500 ''sign_failed'' ''could not sign claims''
     | Inr (tok, parsed) \<Rightarrow> Write L h 200 (SignResponse tok (exp_seconds L parsed)))"

definition handleSign :: "lib \<Rightarrow> env \<Rightarrow> signer \<Rightarrow> handler" where
  "handleSign L en s h r =
    (case en_sign en (limited_body MaxSignBodyBytes (rq_Body r)) of
       None \<Rightarrow> writeError L h 400 ''invalid_body'' ''could not decode request body''
     | Some req \<Rightarrow>
         let c = (case sq_Claims req of None \<Rightarrow> fmempty | Some m \<Rightarrow> m) in
         if sq_ExpiresIn req = [] then sign_body L en s h (rq_ctx r) c (sq_Headers req)
         else (case parseDuration L (sq_ExpiresIn req) of
                 None \<Rightarrow> writeError L h 400 ''invalid_expires_in'' ''expires_in must be a Go duration string''
               | Some d \<Rightarrow>
                   if d \<le> 0 then writeError L h 400 ''invalid_expires_in'' ''expires_in must be > 0''
                   else sign_body L en s h (rq_ctx r) (SetExpiresAt L c (time_Add (en_now1 en) d)) (sq_Headers req)))"

definition handleVerify :: "lib \<Rightarrow> env \<Rightarrow> verify_fn \<Rightarrow> handler" where
  "handleVerify L en v h r =
    (case en_token en (limited_body MaxVerifyBodyBytes (rq_Body r)) of
       None \<Rightarrow> writeError L h 400 ''invalid_body'' ''could not decode request body''
     | Some tok \<Rightarrow>
         if tok = [] then writeError L h 400 ''missing_token'' ''token required''
         else (case v (en_now1 en) (rq_ctx r) tok [] of
                 Inl _ \<Rightarrow> Write L h 200 (VerifyResponse False fmempty fmempty)
               | Inr t \<Rightarrow>
                   (case ToMapClaims L (AMapClaims (Some (t_claims t))) of
                      Inl _ \<Rightarrow> writeError L h 500 ''claims_extract_failed'' ''could not extract claims''
                    | Inr mc \<Rightarrow>
                        Write L h 200 (VerifyResponse True (case mc of None \<Rightarrow> fmempty | Some m \<Rightarrow> m) (t_header t)))))"

definition handleRefresh :: "lib \<Rightarrow> env \<Rightarrow> refresher \<Rightarrow> handler" where
  "handleRefresh L en rf h r =
    (case en_token en (limited_body MaxRefreshBodyBytes (rq_Body r)) of
       None \<Rightarrow> writeError L h 400 ''invalid_body'' ''could not decode request body''
     | Some tok \<Rightarrow>
         if tok = [] then writeError L h 400 ''missing_token'' ''token required''
         else (case Refresh L rf (en_now1 en) (rq_ctx r) tok of
                 Inl _ \<Rightarrow> writeError L h 400 ''refresh_failed'' ''token could not be refreshed''
               | Inr (t, refreshed) \<Rightarrow> Write L h 200 (RefreshResponse refreshed (exp_seconds L t))))"

definition handleHealth :: "lib \<Rightarrow> env \<Rightarrow> handler" where
  "handleHealth L en h r = Write L h 200 (HealthResponse (en_now1 en))"

definition handleJWKS :: "lib \<Rightarrow> jwks \<Rightarrow> handler" where
  "handleJWKS L js h r = Write L (Header_Set h ''Cache-Control'' ''public, max-age=300'') 200 (JWKSResponse js)"

definition handleOIDCDiscovery :: "lib \<Rightarrow> string \<Rightarrow> string list \<Rightarrow> handler" where
  "handleOIDCDiscovery L iss algs h r =
    Write L (Header_Set h ''Cache-Control'' ''public, max-age=300'') 200
      (DiscoveryResponse \<lparr>d_Issuer = TrimRight iss (CHR ''/''),
         d_JWKSURI = TrimRight iss (CHR ''/'') @ ''/.well-known/jwks.json'', d_Algs = algs,
         d_ResponseTypes = [''id_token''], d_SubjectTypes = [''public'']\<rparr>)"

section \<open>Wrappers\<close>

definition withCORS :: "handler \<Rightarrow> handler" where
  "withCORS next h r =
    (let h = Header_Set (Header_Set (Header_Set (Header_Set h ''Access-Control-Allow-Origin'' ''*'')
               ''Access-Control-Allow-Methods'' ''GET, OPTIONS'')
               ''Access-Control-Allow-Headers'' ''Authorization, Content-Type'')
               ''Access-Control-Max-Age'' ''300''
     in if rq_Method r = ''OPTIONS'' then \<lparr>rs_Status = 204, rs_Header = h, rs_Body = NoBody\<rparr> else next h r)"

definition withSecurityHeaders :: "bool \<Rightarrow> handler \<Rightarrow> handler" where
  "withSecurityHeaders tlsEnabled next h r =
    (let h = Header_Set h ''X-Content-Type-Options'' ''nosniff'';
         h = (if tlsEnabled \<or> rq_TLS r
              then Header_Set h ''Strict-Transport-Security'' ''max-age=31536000; includeSubDomains'' else h)
     in next h r)"

section \<open>Routing\<close>

datatype route =
    RHealth | RJWKS | RJWKSOptions | RVerify | RSign | RRefresh | RTokenReview | RDiscovery | RDiscoveryOptions | RMetrics

definition route_table :: "server_config \<Rightarrow> (string \<times> string \<times> route) list" where
  "route_table cfg =
    [(''GET'', ''/healthz'', RHealth),
     (''GET'', ''/.well-known/jwks.json'', RJWKS),
     (''OPTIONS'', ''/.well-known/jwks.json'', RJWKSOptions),
     (''POST'', ''/verify'', RVerify),
     (''POST'', ''/sign'', RSign),
     (''POST'', ''/refresh'', RRefresh)] @
    (if sv_EnableTokenReview cfg then [(''POST'', ''/k8s/token-review'', RTokenReview)] else []) @
    (if sv_Issuer cfg \<noteq> []
     then [(''GET'', ''/.well-known/openid-configuration'', RDiscovery),
           (''OPTIONS'', ''/.well-known/openid-configuration'', RDiscoveryOptions)] else []) @
    [(''GET'', ''/metrics'', RMetrics)]"

text \<open>\<open>http.ServeMux\<close>: a pattern matches its own method, GET also matches HEAD.\<close>

definition pattern_matches :: "string \<Rightarrow> string \<Rightarrow> string \<times> string \<times> route \<Rightarrow> bool" where
  "pattern_matches m p e = (case e of (pm, pp, _) \<Rightarrow> pp = p \<and> (pm = m \<or> pm = ''GET'' \<and> m = ''HEAD''))"

definition find_route :: "server_config \<Rightarrow> string \<Rightarrow> string \<Rightarrow> (string \<times> string \<times> route) option" where
  "find_route cfg m p = find (pattern_matches m p) (route_table cfg)"

definition run_route :: "lib \<Rightarrow> env \<Rightarrow> server \<Rightarrow> route \<Rightarrow> handler" where
  "run_route L en srv rt =
    (let cfg = sr_cfg srv; auth = authenticator_of cfg; v = server_verify L (sr_verify srv) in
     case rt of
       RHealth \<Rightarrow> handleHealth L en
     | RJWKS \<Rightarrow> withCORS (handleJWKS L (sr_jwksSet srv))
     | RJWKSOptions \<Rightarrow> withCORS (\<lambda>h r. \<lparr>rs_Status = 200, rs_Header = h, rs_Body = NoBody\<rparr>)
     | RVerify \<Rightarrow> handleVerify L en v
     | RSign \<Rightarrow> requireAuth L auth (handleSign L en (sr_signer srv))
     | RRefresh \<Rightarrow> requireAuth L auth (handleRefresh L en (sr_refresh srv))
     | RTokenReview \<Rightarrow> (\<lambda>h r.
         case serve_review L v (review_config_of L []) (en_race en) (en_review en) (en_order en) (en_now1 en) (rq_ctx r) (rq_Body r) of
           (st, out) \<Rightarrow> Write L h st (ReviewResponse out))
     | RDiscovery \<Rightarrow> withCORS (handleOIDCDiscovery L (sv_Issuer cfg) (supportedAlgs cfg))
     | RDiscoveryOptions \<Rightarrow> withCORS (\<lambda>h r. \<lparr>rs_Status = 200, rs_Header = h, rs_Body = NoBody\<rparr>)
     | RMetrics \<Rightarrow> (\<lambda>h r. \<lparr>rs_Status = 200, rs_Header = h, rs_Body = MetricsText\<rparr>))"

text \<open>
  \<open>http.ServeMux\<close> looks a request up under its cleaned path, redirects a request whose path was not
  clean, and answers 405 or 404 where no pattern matches. The body of the redirect is left out.
\<close>

fun clean_segments :: "string list \<Rightarrow> string list \<Rightarrow> string list" where
  "clean_segments stack [] = rev stack"
| "clean_segments stack (s # ss) =
    (if s = [] \<or> s = ''.'' then clean_segments stack ss
     else if s = ''..'' then clean_segments (tl stack) ss
     else clean_segments (s # stack) ss)"

definition cleanPath :: "string \<Rightarrow> string" where
  "cleanPath p =
    (if p = [] then ''/''
     else
       let p = (if hd p = CHR ''/'' then p else CHR ''/'' # p);
           np = CHR ''/'' # Join (clean_segments [] (Split p (CHR ''/''))) ''/''
       in if last p = CHR ''/'' \<and> np \<noteq> ''/'' then np @ ''/'' else np)"

definition lookup_path :: "http_request \<Rightarrow> string" where
  "lookup_path r = (if rq_Method r = ''CONNECT'' then rq_Path r else cleanPath (rq_Path r))"

definition matched_route :: "server_config \<Rightarrow> http_request \<Rightarrow> (string \<times> string \<times> route) option" where
  "matched_route cfg r = find_route cfg (rq_Method r) (lookup_path r)"

definition allowed_methods :: "server_config \<Rightarrow> string \<Rightarrow> string list" where
  "allowed_methods cfg p =
    concat (map (\<lambda>(m, pp, _). if pp \<noteq> p then [] else if m = ''GET'' then [''GET'', ''HEAD''] else [m]) (route_table cfg))"

definition plain_error :: "header_map \<Rightarrow> int \<Rightarrow> string \<Rightarrow> response" where
  "plain_error h status txt =
    \<lparr>rs_Status = status,
     rs_Header = Header_Set (Header_Set h ''Content-Type'' ''text/plain; charset=utf-8'') ''X-Content-Type-Options'' ''nosniff'',
     rs_Body = PlainText txt\<rparr>"

text \<open>
  Go 1.26's \<open>ServeMux\<close> redirects an unclean path with 307. A path here has no escapes, so that \<open>URL.Path\<close> and the
  escaped path the mux compares are the same text.
\<close>

definition mux :: "lib \<Rightarrow> env \<Rightarrow> server \<Rightarrow> handler" where
  "mux L en srv h r =
    (let cfg = sr_cfg srv; p = lookup_path r in
     if p \<noteq> rq_Path r then \<lparr>rs_Status = 307, rs_Header = Header_Set h ''Location'' p, rs_Body = NoBody\<rparr>
     else
       case matched_route cfg r of
         Some (_, _, rt) \<Rightarrow> run_route L en srv rt h r
       | None \<Rightarrow>
           if allowed_methods cfg p \<noteq> []
           then plain_error (Header_Set h ''Allow'' (Join (allowed_methods cfg p) '', '')) 405 ''Method Not Allowed''
           else plain_error h 404 ''404 page not found'')"

text \<open>What \<open>instrument\<close> records of a request: the path label, the method and the status.\<close>

definition routePath :: "server_config \<Rightarrow> http_request \<Rightarrow> string" where
  "routePath cfg r =
    (case matched_route cfg r of
       Some (m, p, _) \<Rightarrow> m @ '' '' @ p
     | None \<Rightarrow> rq_Path r)"

definition serve :: "lib \<Rightarrow> env \<Rightarrow> server \<Rightarrow> http_request \<Rightarrow> response \<times> string \<times> string \<times> int" where
  "serve L en srv r =
    (let rsp = withSecurityHeaders (sv_CertFile (sr_cfg srv) \<noteq> []) (mux L en srv) fmempty r
     in (rsp, routePath (sr_cfg srv) r, rq_Method r, rs_Status rsp))"

end
