(* ===== verification/Daemon.thy ===== *)
theory Daemon
  imports Cli Http_Endpoints
begin

text \<open>
  Packages \<open>cmd/config\<close> and \<open>cmd/jwtmintd/internal/cli\<close> and the daemon's \<open>main\<close>: the resolution of a setting
  from flag, environment and default, the daemon's flags, and the construction of the server from
  them. The environment is a function from names to values; the flags are the list of assignments the
  flag library reads from the arguments, in their order.
\<close>

section \<open>Configuration values\<close>

type_synonym environment = "string \<Rightarrow> string option"

definition EnvPrefix :: string where "EnvPrefix = ''JWTMINT''"

definition EnvKey :: "string \<Rightarrow> string" where
  "EnvKey flagName = EnvPrefix @ ''_'' @ ToUpper (ReplaceAll flagName (CHR ''-'') (CHR ''_''))"

text \<open>The value of a variable that is set and not empty.\<close>

definition env_value :: "environment \<Rightarrow> string \<Rightarrow> string option" where
  "env_value env flagName = (case env (EnvKey flagName) of Some v \<Rightarrow> if v = [] then None else Some v | None \<Rightarrow> None)"

definition config_String :: "environment \<Rightarrow> string \<Rightarrow> string \<Rightarrow> string \<Rightarrow> string" where
  "config_String env flagName flagValue def =
    (if flagValue \<noteq> [] then flagValue
     else (case env_value env flagName of Some v \<Rightarrow> v | None \<Rightarrow> def))"

definition ParseBool :: "string \<Rightarrow> bool option" where
  "ParseBool s =
    (if s \<in> set [''1'', ''t'', ''T'', ''true'', ''TRUE'', ''True''] then Some True
     else if s \<in> set [''0'', ''f'', ''F'', ''false'', ''FALSE'', ''False''] then Some False else None)"

definition config_Bool :: "environment \<Rightarrow> string \<Rightarrow> bool \<Rightarrow> bool \<Rightarrow> bool \<Rightarrow> bool result" where
  "config_Bool env flagName flagValue def explicitlySet =
    (if explicitlySet then Inr flagValue
     else (case env_value env flagName of
             Some v \<Rightarrow> (case ParseBool v of None \<Rightarrow> Inl [ErrInvalidValue, ErrExternal ''strconv''] | Some b \<Rightarrow> Inr b)
           | None \<Rightarrow> Inr def))"

definition config_Int :: "environment \<Rightarrow> string \<Rightarrow> int \<Rightarrow> int \<Rightarrow> int result" where
  "config_Int env flagName flagValue def =
    (if flagValue \<noteq> 0 then Inr flagValue
     else (case env_value env flagName of
             Some v \<Rightarrow> (case Atoi v of None \<Rightarrow> Inl [ErrInvalidValue, ErrExternal ''strconv''] | Some n \<Rightarrow> Inr n)
           | None \<Rightarrow> Inr def))"

definition config_Duration :: "lib \<Rightarrow> environment \<Rightarrow> string \<Rightarrow> duration \<Rightarrow> duration \<Rightarrow> duration result" where
  "config_Duration L env flagName flagValue def =
    (if flagValue \<noteq> 0 then Inr flagValue
     else (case env_value env flagName of
             Some v \<Rightarrow> (case parseDuration L v of None \<Rightarrow> Inl [ErrInvalidValue, ErrExternal ''time''] | Some d \<Rightarrow> Inr d)
           | None \<Rightarrow> Inr def))"

definition config_StringSlice :: "environment \<Rightarrow> string \<Rightarrow> string list \<Rightarrow> string list \<Rightarrow> string list" where
  "config_StringSlice env flagName flagValue def =
    (if flagValue \<noteq> [] then flagValue
     else (case env_value env flagName of Some v \<Rightarrow> Split v (CHR '','') | None \<Rightarrow> def))"

section \<open>Flags of the daemon\<close>

record cli_key_entry =
  ck_Kid :: string
  ck_Path :: string

record cli_config =
  cc_Addr :: string
  cc_Method :: string
  cc_PrivPath :: string
  cc_PubPath :: string
  cc_Kid :: string
  cc_AdditionalKeys :: "cli_key_entry list"
  cc_DefaultIssuer :: string
  cc_DefaultExpiration :: duration
  cc_AuthMode :: string
  cc_AuthToken :: string
  cc_AllowedSAs :: "string list"
  cc_AuthAudiences :: "string list"
  cc_EnableTokenReview :: bool
  cc_Issuer :: string
  cc_CertFile :: string
  cc_KeyFile :: string
  cc_LogLevel :: string
  cc_ReadTimeout :: duration
  cc_WriteTimeout :: duration
  cc_ShutdownTimeout :: duration

definition Config0 :: cli_config where
  "Config0 = \<lparr>cc_Addr = [], cc_Method = [], cc_PrivPath = [], cc_PubPath = [], cc_Kid = [], cc_AdditionalKeys = [],
     cc_DefaultIssuer = [], cc_DefaultExpiration = 0, cc_AuthMode = [], cc_AuthToken = [], cc_AllowedSAs = [],
     cc_AuthAudiences = [], cc_EnableTokenReview = False, cc_Issuer = [], cc_CertFile = [], cc_KeyFile = [],
     cc_LogLevel = [], cc_ReadTimeout = 0, cc_WriteTimeout = 0, cc_ShutdownTimeout = 0\<rparr>"

definition additionalKey_String :: "cli_key_entry list \<Rightarrow> string" where
  "additionalKey_String es = Join (map (\<lambda>e. ck_Kid e @ ''='' @ ck_Path e) es) '',''"

definition additionalKey_Set :: "string \<Rightarrow> cli_key_entry list \<Rightarrow> cli_key_entry list result" where
  "additionalKey_Set s dst =
    (case Cut s (CHR ''='') of
       (kid, path, ok) \<Rightarrow> if \<not> ok \<or> kid = [] \<or> path = [] then Inl [ErrExternal ''flag'']
         else Inr (dst @ [\<lparr>ck_Kid = kid, ck_Path = path\<rparr>]))"

definition stringSlice_String :: "string list \<Rightarrow> string" where "stringSlice_String xs = Join xs '',''"
definition stringSlice_Set :: "string \<Rightarrow> string list \<Rightarrow> string list" where "stringSlice_Set v dst = dst @ [v]"

text \<open>One assignment of the command line, through the \<open>Set\<close> of its flag.\<close>

definition set_duration :: "lib \<Rightarrow> string \<Rightarrow> (duration \<Rightarrow> cli_config) \<Rightarrow> cli_config result" where
  "set_duration L v f = (case parseDuration L v of None \<Rightarrow> Inl [ErrExternal ''flag''] | Some d \<Rightarrow> Inr (f d))"

definition set_flag :: "lib \<Rightarrow> string \<Rightarrow> string \<Rightarrow> cli_config \<Rightarrow> cli_config result" where
  "set_flag L name v c =
    (if name = ''addr'' then Inr (c\<lparr>cc_Addr := v\<rparr>)
     else if name = ''method'' then Inr (c\<lparr>cc_Method := v\<rparr>)
     else if name = ''priv'' then Inr (c\<lparr>cc_PrivPath := v\<rparr>)
     else if name = ''pub'' then Inr (c\<lparr>cc_PubPath := v\<rparr>)
     else if name = ''kid'' then Inr (c\<lparr>cc_Kid := v\<rparr>)
     else if name = ''additional-key'' then
       (case additionalKey_Set v (cc_AdditionalKeys c) of Inl e \<Rightarrow> Inl e | Inr es \<Rightarrow> Inr (c\<lparr>cc_AdditionalKeys := es\<rparr>))
     else if name = ''default-issuer'' then Inr (c\<lparr>cc_DefaultIssuer := v\<rparr>)
     else if name = ''default-expires'' then set_duration L v (\<lambda>d. c\<lparr>cc_DefaultExpiration := d\<rparr>)
     else if name = ''auth-mode'' then Inr (c\<lparr>cc_AuthMode := v\<rparr>)
     else if name = ''auth-token'' then Inr (c\<lparr>cc_AuthToken := v\<rparr>)
     else if name = ''allowed-sa'' then Inr (c\<lparr>cc_AllowedSAs := stringSlice_Set v (cc_AllowedSAs c)\<rparr>)
     else if name = ''auth-audience'' then Inr (c\<lparr>cc_AuthAudiences := stringSlice_Set v (cc_AuthAudiences c)\<rparr>)
     else if name = ''enable-token-review'' then
       (case ParseBool v of None \<Rightarrow> Inl [ErrExternal ''flag''] | Some b \<Rightarrow> Inr (c\<lparr>cc_EnableTokenReview := b\<rparr>))
     else if name = ''issuer'' then Inr (c\<lparr>cc_Issuer := v\<rparr>)
     else if name = ''cert'' then Inr (c\<lparr>cc_CertFile := v\<rparr>)
     else if name = ''key'' then Inr (c\<lparr>cc_KeyFile := v\<rparr>)
     else if name = ''log-level'' then Inr (c\<lparr>cc_LogLevel := v\<rparr>)
     else if name = ''read-timeout'' then set_duration L v (\<lambda>d. c\<lparr>cc_ReadTimeout := d\<rparr>)
     else if name = ''write-timeout'' then set_duration L v (\<lambda>d. c\<lparr>cc_WriteTimeout := d\<rparr>)
     else if name = ''shutdown-timeout'' then set_duration L v (\<lambda>d. c\<lparr>cc_ShutdownTimeout := d\<rparr>)
     else Inl [ErrExternal ''flag''])"

fun set_flags :: "lib \<Rightarrow> (string \<times> string) list \<Rightarrow> cli_config \<Rightarrow> cli_config result" where
  "set_flags L [] c = Inr c"
| "set_flags L ((name, v) # rest) c =
    (case set_flag L name v c of Inl e \<Rightarrow> Inl e | Inr c' \<Rightarrow> set_flags L rest c')"

definition resolve_strings :: "environment \<Rightarrow> cli_config \<Rightarrow> cli_config" where
  "resolve_strings env c =
    c\<lparr>cc_Addr := config_String env ''addr'' (cc_Addr c) '':8080'',
      cc_Method := config_String env ''method'' (cc_Method c) [],
      cc_PrivPath := config_String env ''priv'' (cc_PrivPath c) [],
      cc_PubPath := config_String env ''pub'' (cc_PubPath c) [],
      cc_Kid := config_String env ''kid'' (cc_Kid c) [],
      cc_DefaultIssuer := config_String env ''default-issuer'' (cc_DefaultIssuer c) [],
      cc_AuthMode := config_String env ''auth-mode'' (cc_AuthMode c) ''static'',
      cc_AuthToken := config_String env ''auth-token'' (cc_AuthToken c) [],
      cc_Issuer := config_String env ''issuer'' (cc_Issuer c) [],
      cc_CertFile := config_String env ''cert'' (cc_CertFile c) [],
      cc_KeyFile := config_String env ''key'' (cc_KeyFile c) [],
      cc_LogLevel := config_String env ''log-level'' (cc_LogLevel c) ''info''\<rparr>"

definition validate_config :: "cli_config \<Rightarrow> cli_config result" where
  "validate_config c =
    (if cc_Method c = [] then Inl []
     else if cc_PrivPath c = [] then Inl []
     else if cc_PubPath c = [] then Inl []
     else if (cc_CertFile c = []) \<noteq> (cc_KeyFile c = []) then Inl []
     else if cc_AuthMode c \<notin> set [[], ''static'', ''sa'', ''none''] then Inl []
     else Inr c)"

definition Parse :: "lib \<Rightarrow> environment \<Rightarrow> (string \<times> string) list \<Rightarrow> cli_config result" where
  "Parse L env args =
    (case set_flags L args Config0 of
       Inl e \<Rightarrow> Inl e
     | Inr c0 \<Rightarrow>
         let c = resolve_strings env c0 in
         (case config_Duration L env ''default-expires'' (cc_DefaultExpiration c) Hour of
            Inl e \<Rightarrow> Inl e
          | Inr d \<Rightarrow> validate_config (c\<lparr>cc_DefaultExpiration := d\<rparr>)))"

section \<open>Starting the daemon\<close>

definition ecdsa_names :: "string list" where "ecdsa_names = [''ES256'', ''ES384'', ''ES512'']"
definition rsa_names :: "string list" where
  "rsa_names = [''RS256'', ''RS384'', ''RS512'', ''PS256'', ''PS384'', ''PS512'']"

definition loadPublicForMethod :: "crypto \<Rightarrow> string \<Rightarrow> string \<Rightarrow> pkey result" where
  "loadPublicForMethod C methodName pem =
    (if methodName \<in> set ecdsa_names then map_sum id (EcdsaPublic \<circ> Some) (LoadECDSAPublicFromPEM C pem)
     else if methodName \<in> set rsa_names then map_sum id (RsaPublic \<circ> Some) (LoadRSAPublicFromPEM C pem)
     else if methodName = ''EdDSA'' then map_sum id Ed25519Public (LoadEd25519PublicFromPEM C pem)
     else Inl [])"

definition load_pair :: "pkey result \<Rightarrow> pkey result \<Rightarrow> (pkey \<times> pkey) result" where
  "load_pair p q = (case p of Inl e \<Rightarrow> Inl e | Inr priv \<Rightarrow> (case q of Inl e \<Rightarrow> Inl e | Inr pub \<Rightarrow> Inr (priv, pub)))"

definition loadKeyPairForMethod :: "crypto \<Rightarrow> string \<Rightarrow> string \<Rightarrow> string \<Rightarrow> (pkey \<times> pkey) result" where
  "loadKeyPairForMethod C meth privPEM pubPEM =
    (if meth \<in> set ecdsa_names then
       load_pair (map_sum id (EcdsaPrivate \<circ> Some) (LoadECDSAPrivateFromPEM C privPEM))
         (map_sum id (EcdsaPublic \<circ> Some) (LoadECDSAPublicFromPEM C pubPEM))
     else if meth \<in> set rsa_names then
       load_pair (map_sum id (RsaPrivate \<circ> Some) (LoadRSAPrivateFromPEM C privPEM))
         (map_sum id (RsaPublic \<circ> Some) (LoadRSAPublicFromPEM C pubPEM))
     else if meth = ''EdDSA'' then
       load_pair (map_sum id Ed25519Private (LoadEd25519PrivateFromPEM C privPEM))
         (map_sum id Ed25519Public (LoadEd25519PublicFromPEM C pubPEM))
     else Inl [])"

fun loadAdditionalKeys :: "crypto \<Rightarrow> files \<Rightarrow> string \<Rightarrow> smethod \<Rightarrow> cli_key_entry list \<Rightarrow> key_entry list result" where
  "loadAdditionalKeys C fs methodName m [] = Inr []"
| "loadAdditionalKeys C fs methodName m (e # es) =
    (case ReadPEMFile (ck_Path e) fs of
       Inl err \<Rightarrow> Inl err
     | Inr pem \<Rightarrow>
         (case loadPublicForMethod C methodName pem of
            Inl err \<Rightarrow> Inl err
          | Inr pub \<Rightarrow>
              (case loadAdditionalKeys C fs methodName m es of
                 Inl err \<Rightarrow> Inl err
               | Inr out \<Rightarrow> Inr (\<lparr>Kid = ck_Kid e, ke_Method = Some m, PublicKey = Some pub\<rparr> # out))))"

record cluster_env =
  ce_client :: "(ctx_err \<Rightarrow> string \<Rightarrow> string list \<Rightarrow> review_status result) result"
  ce_text :: "gerror \<Rightarrow> string"
  ce_quote :: "string \<Rightarrow> string"

definition buildAuthenticator :: "cluster_env \<Rightarrow> cli_config \<Rightarrow> (authenticator option \<times> string) result" where
  "buildAuthenticator ce cfg =
    (if cc_AuthMode cfg = [] \<or> cc_AuthMode cfg = ''static'' then Inr (None, cc_AuthToken cfg)
     else if cc_AuthMode cfg = ''none'' then Inr (None, [])
     else if cc_AuthMode cfg = ''sa'' then
       (let opts = (if cc_AllowedSAs cfg \<noteq> [] then [WithAllowedSAs (cc_AllowedSAs cfg)] else []) @
                   (if cc_AuthAudiences cfg \<noteq> [] then [sa_WithAudiences (cc_AuthAudiences cfg)] else [])
        in (case NewInCluster (ce_client ce) opts of
              Inl e \<Rightarrow> Inl e
            | Inr a \<Rightarrow> Inr (Some (Authenticate (ce_text ce) (ce_quote ce) a), [])))
     else Inl [])"

definition server_config_of ::
  "cli_config \<Rightarrow> smethod \<Rightarrow> pkey \<Rightarrow> pkey \<Rightarrow> key_entry list \<Rightarrow> authenticator option \<Rightarrow> string \<Rightarrow> server_config" where
  "server_config_of cfg m priv pub additional authn authToken =
    \<lparr>sv_Logger = True, sv_Method = Some m, sv_PrivateKey = Some priv, sv_PublicKey = Some pub, sv_Kid = cc_Kid cfg,
     sv_DefaultIssuer = cc_DefaultIssuer cfg, sv_DefaultExpiration = cc_DefaultExpiration cfg, sv_AuthToken = authToken,
     sv_Authenticator = authn, sv_RefreshMaxAge = None, sv_RefreshClaimsResolver = None, sv_Revoker = None,
     sv_AdditionalKeys = additional, sv_EnableTokenReview = cc_EnableTokenReview cfg, sv_Issuer = cc_Issuer cfg,
     sv_CertFile = cc_CertFile cfg, sv_KeyFile = cc_KeyFile cfg, sv_Addr = cc_Addr cfg,
     sv_ReadTimeout = cc_ReadTimeout cfg, sv_WriteTimeout = cc_WriteTimeout cfg, sv_ShutdownTimeout = cc_ShutdownTimeout cfg\<rparr>"

text \<open>
  \<open>run\<close> up to the server it starts; \<open>levelOK\<close> says which names the logging library accepts as a level.
  \<open>None\<close> is a panic in the construction of the key set.
\<close>

definition run ::
  "lib \<Rightarrow> crypto \<Rightarrow> (ecdsa_public \<Rightarrow> string result) \<Rightarrow> (string \<Rightarrow> bool) \<Rightarrow> cluster_env \<Rightarrow> files \<Rightarrow> environment \<Rightarrow>
   (string \<times> string) list \<Rightarrow> server result option" where
  "run L C ecBytes levelOK ce fs env args =
    (case Parse L env args of
       Inl e \<Rightarrow> Some (Inl e)
     | Inr cfg \<Rightarrow>
         if cc_LogLevel cfg \<noteq> [] \<and> \<not> levelOK (cc_LogLevel cfg) then Some (Inl [])
         else (case SigningMethod (cc_Method cfg) of
           Inl e \<Rightarrow> Some (Inl e)
         | Inr m \<Rightarrow>
             (case ReadPEMFile (cc_PrivPath cfg) fs of
                Inl e \<Rightarrow> Some (Inl e)
              | Inr privBytes \<Rightarrow>
                  (case ReadPEMFile (cc_PubPath cfg) fs of
                     Inl e \<Rightarrow> Some (Inl e)
                   | Inr pubBytes \<Rightarrow>
                       (case loadKeyPairForMethod C (cc_Method cfg) privBytes pubBytes of
                          Inl e \<Rightarrow> Some (Inl e)
                        | Inr (priv, pub) \<Rightarrow>
                            (case loadAdditionalKeys C fs (cc_Method cfg) m (cc_AdditionalKeys cfg) of
                               Inl e \<Rightarrow> Some (Inl e)
                             | Inr additional \<Rightarrow>
                                 (case buildAuthenticator ce cfg of
                                    Inl e \<Rightarrow> Some (Inl e)
                                  | Inr (authn, authToken) \<Rightarrow>
                                      New C ecBytes (server_config_of cfg m priv pub additional authn authToken))))))))"

end
