(* ===== verification/Http_Facts.thy ===== *)
theory Http_Facts
  imports Http_Endpoints
begin

text \<open>
  What the daemon promises: its parts are built from one key pair, mutating endpoints are behind the
  configured authenticator, every response carries the security headers and only the metadata
  endpoints the CORS ones, and the published key set is the one it verifies with.
\<close>

section \<open>Handlers and their headers\<close>

abbreviation xcto :: string where "xcto \<equiv> ''X-Content-Type-Options''"
abbreviation hsts :: string where "hsts \<equiv> ''Strict-Transport-Security''"
abbreviation acao :: string where "acao \<equiv> ''Access-Control-Allow-Origin''"

lemma Header_Set_lookup: "fmlookup (Header_Set h k v) j = (if j = k then Some [v] else fmlookup h j)"
  by (simp add: Header_Set_def)

text \<open>
  A plain handler leaves the security and CORS headers of the wrappers alone, except that it may repeat
  \<open>nosniff\<close>.
\<close>

locale plain_handler =
  fixes f :: handler
  assumes keeps: "k \<in> {hsts, acao} \<Longrightarrow> fmlookup (rs_Header (f h r)) k = fmlookup h k"
    and sniff: "fmlookup h xcto = Some [''nosniff''] \<Longrightarrow> fmlookup (rs_Header (f h r)) xcto = Some [''nosniff'']"
begin

lemma cors_headers:
  "fmlookup (rs_Header (withCORS f h r)) acao = Some [''*'']"
  "fmlookup (rs_Header (withCORS f h r)) hsts = fmlookup h hsts"
  "fmlookup h xcto = Some [''nosniff''] \<Longrightarrow> fmlookup (rs_Header (withCORS f h r)) xcto = Some [''nosniff'']"
  using sniff by (auto simp: withCORS_def Let_def keeps Header_Set_lookup)

lemma secured_headers:
  "fmlookup (rs_Header (withSecurityHeaders tls f fmempty r)) xcto = Some [''nosniff'']"
  "fmlookup (rs_Header (withSecurityHeaders tls f fmempty r)) hsts =
    (if tls \<or> rq_TLS r then Some [''max-age=31536000; includeSubDomains''] else None)"
  using sniff by (auto simp: withSecurityHeaders_def Let_def keeps Header_Set_lookup)

end

lemma Write_lookup:
  "fmlookup (rs_Header (Write L h st b)) k =
    (if k = ''Content-Type'' then Some [if body_marshals L b then ''application/json'' else ''text/plain; charset=utf-8'']
     else if k = ''X-Content-Type-Options'' \<and> \<not> body_marshals L b then Some [''nosniff''] else fmlookup h k)"
  by (simp add: Write_def Header_Set_lookup)

interpretation json_write: plain_handler "\<lambda>h r. Write L h (st r) (b r)" for L st b
  by unfold_locales (auto simp: Write_lookup)

lemma json_write_lookup:
  "k \<in> {hsts, acao} \<Longrightarrow> fmlookup (rs_Header (Write L h st b)) k = fmlookup h k"
  "fmlookup h xcto = Some [''nosniff''] \<Longrightarrow> fmlookup (rs_Header (Write L h st b)) xcto = Some [''nosniff'']"
  by (auto simp: Write_lookup)

text \<open>Handlers answer by \<open>Write\<close> on the header map they got, with at most other headers set.\<close>

lemma plain_handler_if_writes:
  assumes "\<And>h r. \<exists>st b. f h r = Write L h st b"
  shows "plain_handler f"
proof
  fix k h r assume "k \<in> {hsts, acao}"
  then show "fmlookup (rs_Header (f h r)) k = fmlookup h k"
    using assms [of h r] json_write_lookup(1) by metis
next
  fix h r assume "fmlookup h xcto = Some [''nosniff'']"
  then show "fmlookup (rs_Header (f h r)) xcto = Some [''nosniff'']"
    using assms [of h r] json_write_lookup(2) by metis
qed

lemma sign_body_writes: "\<exists>st b. sign_body L en s h ctx c hdrs = Write L h st b"
  unfolding sign_body_def writeError_def by (auto split: sum.split)

interpretation sign_handler: plain_handler "handleSign L en s" for L en s
  by (rule plain_handler_if_writes [of _ L])
    (auto simp: handleSign_def Let_def writeError_def sign_body_writes split: option.split)

interpretation verify_handler: plain_handler "handleVerify L en v" for L en v
  by (rule plain_handler_if_writes [of _ L])
    (auto simp: handleVerify_def writeError_def split: option.split sum.split)

interpretation refresh_handler: plain_handler "handleRefresh L en rf" for L en rf
  by (rule plain_handler_if_writes [of _ L])
    (auto simp: handleRefresh_def writeError_def split: option.split sum.split)

interpretation health_handler: plain_handler "handleHealth L en" for L en
  by unfold_locales (auto simp: handleHealth_def Write_lookup)

interpretation jwks_handler: plain_handler "handleJWKS L js" for L js
  by unfold_locales (auto simp: handleJWKS_def Write_lookup Header_Set_lookup)

interpretation discovery_handler: plain_handler "handleOIDCDiscovery L iss algs" for L iss algs
  by unfold_locales (auto simp: handleOIDCDiscovery_def Write_lookup Header_Set_lookup)

interpretation empty_handler: plain_handler "\<lambda>h r. \<lparr>rs_Status = st, rs_Header = h, rs_Body = b\<rparr>" for st b
  by unfold_locales simp_all

text \<open>An authenticated handler is plain when the handler behind it is.\<close>

locale guarded_handler = plain_handler f for f :: handler

sublocale guarded_handler \<subseteq> guarded: plain_handler "requireAuth L a f"
  using keeps sniff
  by unfold_locales (auto simp: requireAuth_def writeError_def Write_lookup Header_Set_lookup split: option.splits)

interpretation sign_route: guarded_handler "handleSign L en s" for L en s ..

interpretation refresh_route: guarded_handler "handleRefresh L en rf" for L en rf ..

section \<open>Routing\<close>

abbreviation jwks_path :: string where "jwks_path \<equiv> ''/.well-known/jwks.json''"
abbreviation discovery_path :: string where "discovery_path \<equiv> ''/.well-known/openid-configuration''"
abbreviation get_like :: "string \<Rightarrow> bool" where "get_like m \<equiv> m = ''GET'' \<or> m = ''HEAD''"

text \<open>The routing table read as a decision: the patterns are disjoint, so their order does not matter.\<close>

lemma find_route_eq:
  "find_route cfg m p =
    (if p = ''/healthz'' then (if get_like m then Some (''GET'', p, RHealth) else None)
     else if p = jwks_path then
       (if get_like m then Some (''GET'', p, RJWKS) else if m = ''OPTIONS'' then Some (m, p, RJWKSOptions) else None)
     else if p = ''/verify'' then (if m = ''POST'' then Some (m, p, RVerify) else None)
     else if p = ''/sign'' then (if m = ''POST'' then Some (m, p, RSign) else None)
     else if p = ''/refresh'' then (if m = ''POST'' then Some (m, p, RRefresh) else None)
     else if p = ''/k8s/token-review'' then
       (if m = ''POST'' \<and> sv_EnableTokenReview cfg then Some (m, p, RTokenReview) else None)
     else if p = discovery_path then
       (if sv_Issuer cfg = [] then None else if get_like m then Some (''GET'', p, RDiscovery)
        else if m = ''OPTIONS'' then Some (m, p, RDiscoveryOptions) else None)
     else if p = ''/metrics'' then (if get_like m then Some (''GET'', p, RMetrics) else None)
     else None)"
  by (simp add: find_route_def route_table_def pattern_matches_def) auto

lemma metadata_lookup_path: "p \<in> {jwks_path, discovery_path} \<Longrightarrow> cleanPath p = p"
  by (auto simp: cleanPath_def Let_def)

text \<open>A request reaches a handler only under its own, clean path.\<close>

lemma mux_routed:
  "lookup_path r = rq_Path r \<Longrightarrow> find_route (sr_cfg srv) (rq_Method r) (rq_Path r) = Some (m, p, rt) \<Longrightarrow>
    mux L en srv h r = run_route L en srv rt h r"
  by (simp add: mux_def matched_route_def)

lemma mux_unrouted:
  assumes "lookup_path r \<noteq> rq_Path r \<or> find_route (sr_cfg srv) (rq_Method r) (rq_Path r) = None"
  shows "rs_Body (mux L en srv h r) \<in> insert NoBody (range PlainText)"
    and "rs_Status (mux L en srv h r) \<in> {307, 404, 405}"
    and "k \<in> {hsts, acao} \<Longrightarrow> fmlookup (rs_Header (mux L en srv h r)) k = fmlookup h k"
    and "fmlookup h xcto = Some [''nosniff''] \<Longrightarrow> fmlookup (rs_Header (mux L en srv h r)) xcto = Some [''nosniff'']"
  using assms by (auto simp: mux_def matched_route_def Let_def plain_error_def Header_Set_lookup)

section \<open>Security headers\<close>

lemma run_route_headers:
  assumes "fmlookup h xcto = Some [''nosniff'']"
  shows "fmlookup (rs_Header (run_route L en srv rt h r)) xcto = Some [''nosniff''] \<and>
    fmlookup (rs_Header (run_route L en srv rt h r)) hsts = fmlookup h hsts \<and>
    fmlookup (rs_Header (run_route L en srv rt h r)) acao =
      (if rt \<in> {RJWKS, RJWKSOptions, RDiscovery, RDiscoveryOptions} then Some [''*''] else fmlookup h acao)"
  using assms
  by (cases rt)
    (simp_all add: run_route_def Let_def split_def jwks_handler.cors_headers discovery_handler.cors_headers
      empty_handler.cors_headers sign_route.guarded.keeps sign_route.guarded.sniff refresh_route.guarded.keeps
      refresh_route.guarded.sniff verify_handler.keeps verify_handler.sniff health_handler.keeps
      health_handler.sniff json_write_lookup)

abbreviation secured :: "bool \<Rightarrow> header_map" where
  "secured tls \<equiv> (let h = Header_Set fmempty xcto ''nosniff'' in
    if tls then Header_Set h hsts ''max-age=31536000; includeSubDomains'' else h)"

lemma serve_eq: "fst (serve L en srv r) = mux L en srv (secured (sv_CertFile (sr_cfg srv) \<noteq> [] \<or> rq_TLS r)) r"
  by (simp add: serve_def withSecurityHeaders_def Let_def)

lemma cors_routes:
  "find_route cfg m p = Some (pm, pp, rt) \<Longrightarrow>
    rt \<in> {RJWKS, RJWKSOptions, RDiscovery, RDiscoveryOptions} \<longleftrightarrow> p \<in> {jwks_path, discovery_path}"
  by (auto simp: find_route_eq split: if_splits)

text \<open>Every response of the daemon, errors and redirects included, forbids content sniffing, carries a
  strict transport security header exactly when the connection is or is configured to be TLS, and allows
  cross-origin reads exactly on the two metadata documents, never on a token endpoint.\<close>

theorem server_response_headers:
  "fmlookup (rs_Header (fst (serve L en srv r))) ''X-Content-Type-Options'' = Some [''nosniff''] \<and>
   fmlookup (rs_Header (fst (serve L en srv r))) ''Strict-Transport-Security'' =
     (if sv_CertFile (sr_cfg srv) \<noteq> [] \<or> rq_TLS r then Some [''max-age=31536000; includeSubDomains''] else None) \<and>
   fmlookup (rs_Header (fst (serve L en srv r))) ''Access-Control-Allow-Origin'' =
     (if rq_Method r \<in> {''GET'', ''HEAD'', ''OPTIONS''} \<and>
         (rq_Path r = ''/.well-known/jwks.json'' \<or>
          rq_Path r = ''/.well-known/openid-configuration'' \<and> sv_Issuer (sr_cfg srv) \<noteq> [])
      then Some [''*''] else None)"
proof -
  let ?h = "secured (sv_CertFile (sr_cfg srv) \<noteq> [] \<or> rq_TLS r)"
  have h: "fmlookup ?h xcto = Some [''nosniff'']" "fmlookup ?h acao = None"
    "fmlookup ?h hsts = (if sv_CertFile (sr_cfg srv) \<noteq> [] \<or> rq_TLS r then Some [''max-age=31536000; includeSubDomains''] else None)"
    by (simp_all add: Header_Set_lookup Let_def)
  let ?found = "find_route (sr_cfg srv) (rq_Method r) (rq_Path r)"
  let ?meta = "rq_Method r \<in> {''GET'', ''HEAD'', ''OPTIONS''} \<and>
    (rq_Path r = jwks_path \<or> rq_Path r = discovery_path \<and> sv_Issuer (sr_cfg srv) \<noteq> [])"
  have meta: "?meta \<longleftrightarrow> lookup_path r = rq_Path r \<and> ?found \<noteq> None \<and> rq_Path r \<in> {jwks_path, discovery_path}"
    using metadata_lookup_path [of "rq_Path r"] by (auto simp: find_route_eq lookup_path_def)
  show ?thesis
  proof (cases "lookup_path r = rq_Path r \<and> ?found \<noteq> None")
    case True
    then obtain m p rt where f: "?found = Some (m, p, rt)" by auto
    have "mux L en srv ?h r = run_route L en srv rt ?h r" using True f by (intro mux_routed) simp_all
    then show ?thesis
      using run_route_headers [OF h(1), of L en srv rt r] h cors_routes [OF f] True
      unfolding serve_eq meta by simp
  next
    case False
    then have "lookup_path r \<noteq> rq_Path r \<or> ?found = None" by blast
    from mux_unrouted(3) [OF this, of _ L en ?h] mux_unrouted(4) [OF this, of ?h L en] h False
    show ?thesis unfolding serve_eq meta by simp
  qed
qed

section \<open>Issuing endpoints\<close>

lemma static_bearer_accepts:
  assumes "StaticBearerAuthenticator expected = Some f"
  shows "expected \<noteq> []" "f r = None \<longleftrightarrow> Header_Get (rq_Header r) ''Authorization'' = ''Bearer '' @ expected"
  using assms TrimPrefix_strips [of "''Bearer ''" "Header_Get (rq_Header r) ''Authorization''" expected]
  by (auto simp: StaticBearerAuthenticator_def Let_def split: if_splits)

text \<open>The bodies of the answers.\<close>

lemma Write_body: "rs_Body (Write L h st b) = (if body_marshals L b then b else PlainText [])"
  by (simp add: Write_def)

lemma Write_status: "rs_Status (Write L h st b) = (if body_marshals L b then st else 500)"
  by (simp add: Write_def)

lemma body_marshals_simps [simp]:
  "body_marshals L (SignResponse t x)" "body_marshals L (RefreshResponse t x)"
  "body_marshals L (ErrorResponse a b)" "body_marshals L (HealthResponse n)" "body_marshals L (JWKSResponse js)"
  "body_marshals L (DiscoveryResponse d)" "body_marshals L (ReviewResponse rv)"
  "body_marshals L (VerifyResponse False fmempty fmempty)"
  by (simp_all add: body_marshals_def)

lemmas reply_simps = Write_body Write_status writeError_def

lemma sign_body_issues:
  "rs_Body (sign_body L en s h ctx c hdrs) = SignResponse t x \<longleftrightarrow>
    (\<exists>tok. Sign L (en_now2 en) (en_uuid en) s ctx c hdrs = Inr (t, tok) \<and> x = exp_seconds L tok)"
  "rs_Body (sign_body L en s h ctx c hdrs) \<noteq> RefreshResponse t x"
  by (auto simp: sign_body_def reply_simps split: sum.split)

lemma handleSign_issues:
  "rs_Body (handleSign L en s h r) = SignResponse t x \<Longrightarrow>
    \<exists>c hdrs tok. Sign L (en_now2 en) (en_uuid en) s (rq_ctx r) c hdrs = Inr (t, tok) \<and> x = exp_seconds L tok"
  "rs_Body (handleSign L en s h r) \<noteq> RefreshResponse t x"
  by (auto simp: handleSign_def Let_def reply_simps sign_body_issues split: option.splits if_splits)

lemma handleRefresh_issues:
  "rs_Body (handleRefresh L en rf h r) = RefreshResponse t x \<Longrightarrow>
    \<exists>old tok. Refresh L rf (en_now1 en) (rq_ctx r) old = Inr (tok, t) \<and> x = exp_seconds L tok"
  "rs_Body (handleRefresh L en rf h r) \<noteq> SignResponse t x"
  by (auto simp: handleRefresh_def reply_simps split: option.splits if_splits sum.splits) blast

lemma run_route_issues:
  assumes "authenticator_of (sr_cfg srv) = Some auth"
  shows "rs_Body (run_route L en srv rt h r) = SignResponse t x \<Longrightarrow>
      rt = RSign \<and> auth r = None \<and> rs_Body (handleSign L en (sr_signer srv) h r) = SignResponse t x"
    and "rs_Body (run_route L en srv rt h r) = RefreshResponse t x \<Longrightarrow>
      rt = RRefresh \<and> auth r = None \<and> rs_Body (handleRefresh L en (sr_refresh srv) h r) = RefreshResponse t x"
  using assms
  by (cases rt; auto simp: run_route_def Let_def requireAuth_def withCORS_def handleHealth_def handleJWKS_def
      handleOIDCDiscovery_def handleVerify_def reply_simps handleSign_issues(2) handleRefresh_issues(2) split_def
      split: option.splits if_splits sum.splits)+

lemma serve_issues:
  assumes "rs_Body (fst (serve L en srv r)) \<notin> insert NoBody (range PlainText)"
  obtains m rt where "find_route (sr_cfg srv) (rq_Method r) (rq_Path r) = Some (m, rq_Path r, rt)"
    "fst (serve L en srv r) = run_route L en srv rt (secured (sv_CertFile (sr_cfg srv) \<noteq> [] \<or> rq_TLS r)) r"
proof -
  have "lookup_path r = rq_Path r" "find_route (sr_cfg srv) (rq_Method r) (rq_Path r) \<noteq> None"
    using assms mux_unrouted(1) unfolding serve_eq by blast+
  then obtain m p rt where f: "find_route (sr_cfg srv) (rq_Method r) (rq_Path r) = Some (m, p, rt)" by auto
  moreover from f have "p = rq_Path r" by (auto simp: find_route_eq split: if_splits)
  ultimately show thesis using that mux_routed [OF \<open>lookup_path r = rq_Path r\<close> f] by (simp add: serve_eq)
qed

lemma serve_POST:
  assumes "rq_Method r = ''POST''"
  shows "rq_Path r = ''/sign'' \<Longrightarrow> fst (serve L en srv r) =
      requireAuth L (authenticator_of (sr_cfg srv)) (handleSign L en (sr_signer srv)) (secured (sv_CertFile (sr_cfg srv) \<noteq> [] \<or> rq_TLS r)) r"
    and "rq_Path r = ''/refresh'' \<Longrightarrow> fst (serve L en srv r) =
      requireAuth L (authenticator_of (sr_cfg srv)) (handleRefresh L en (sr_refresh srv)) (secured (sv_CertFile (sr_cfg srv) \<noteq> [] \<or> rq_TLS r)) r"
    and "rq_Path r = ''/verify'' \<Longrightarrow> fst (serve L en srv r) =
      handleVerify L en (server_verify L (sr_verify srv)) (secured (sv_CertFile (sr_cfg srv) \<noteq> [] \<or> rq_TLS r)) r"
proof -
  have "fst (serve L en srv r) = run_route L en srv rt (secured (sv_CertFile (sr_cfg srv) \<noteq> [] \<or> rq_TLS r)) r"
    if "(rq_Path r, rt) \<in> {(''/sign'', RSign), (''/refresh'', RRefresh), (''/verify'', RVerify)}" for rt
  proof -
    have "lookup_path r = rq_Path r" using that assms by (auto simp: lookup_path_def cleanPath_def Let_def)
    moreover have "find_route (sr_cfg srv) (rq_Method r) (rq_Path r) = Some (''POST'', rq_Path r, rt)"
      using that assms by (auto simp: find_route_eq)
    ultimately show ?thesis unfolding serve_eq by (rule mux_routed)
  qed
  from this [of RSign] this [of RRefresh] this [of RVerify]
  show "rq_Path r = ''/sign'' \<Longrightarrow> fst (serve L en srv r) =
      requireAuth L (authenticator_of (sr_cfg srv)) (handleSign L en (sr_signer srv)) (secured (sv_CertFile (sr_cfg srv) \<noteq> [] \<or> rq_TLS r)) r"
    and "rq_Path r = ''/refresh'' \<Longrightarrow> fst (serve L en srv r) =
      requireAuth L (authenticator_of (sr_cfg srv)) (handleRefresh L en (sr_refresh srv)) (secured (sv_CertFile (sr_cfg srv) \<noteq> [] \<or> rq_TLS r)) r"
    and "rq_Path r = ''/verify'' \<Longrightarrow> fst (serve L en srv r) =
      handleVerify L en (server_verify L (sr_verify srv)) (secured (sv_CertFile (sr_cfg srv) \<noteq> [] \<or> rq_TLS r)) r"
    by (simp_all add: run_route_def)
qed

lemma requireAuth_refused:
  "a r = Some err \<Longrightarrow> rs_Status (requireAuth L (Some a) f h r) = 401 \<and>
    rs_Body (requireAuth L (Some a) f h r) = ErrorResponse ''unauthorized'' err"
  by (simp add: requireAuth_def reply_simps)

text \<open>C6. Tokens are issued behind the authenticator: when one is configured, an answer that carries a
  freshly signed token comes from a POST to /sign that the authenticator accepted and holds what the
  signer produced, one that carries a refreshed token likewise from /refresh, a refused POST to either
  is answered 401 with the authenticator's reason, and the authenticator built from a static token
  accepts exactly the requests that present it as a bearer token.\<close>

theorem issuing_endpoints_guarded:
  assumes "authenticator_of (sr_cfg srv) = Some auth"
  shows "(rs_Body (fst (serve L en srv r)) = SignResponse t x \<longrightarrow>
      auth r = None \<and> rq_Method r = ''POST'' \<and> rq_Path r = ''/sign'' \<and>
      (\<exists>c hdrs tok. Sign L (en_now2 en) (en_uuid en) (sr_signer srv) (rq_ctx r) c hdrs = Inr (t, tok))) \<and>
    (rs_Body (fst (serve L en srv r)) = RefreshResponse t x \<longrightarrow>
      auth r = None \<and> rq_Method r = ''POST'' \<and> rq_Path r = ''/refresh'' \<and>
      (\<exists>old tok. Refresh L (sr_refresh srv) (en_now1 en) (rq_ctx r) old = Inr (tok, t))) \<and>
    (rq_Method r = ''POST'' \<and> rq_Path r \<in> {''/sign'', ''/refresh''} \<and> auth r = Some err \<longrightarrow>
      rs_Status (fst (serve L en srv r)) = 401 \<and>
      rs_Body (fst (serve L en srv r)) = ErrorResponse ''unauthorized'' err) \<and>
    (sv_Authenticator (sr_cfg srv) = None \<longrightarrow>
      sv_AuthToken (sr_cfg srv) \<noteq> [] \<and>
      (auth r = None \<longleftrightarrow> Header_Get (rq_Header r) ''Authorization'' = ''Bearer '' @ sv_AuthToken (sr_cfg srv)))"
proof (intro conjI impI)
  assume s: "rs_Body (fst (serve L en srv r)) = SignResponse t x"
  then have "rs_Body (fst (serve L en srv r)) \<notin> insert NoBody (range PlainText)" by auto
  then obtain m rt where f: "find_route (sr_cfg srv) (rq_Method r) (rq_Path r) = Some (m, rq_Path r, rt)"
    and e: "fst (serve L en srv r) = run_route L en srv rt (secured (sv_CertFile (sr_cfg srv) \<noteq> [] \<or> rq_TLS r)) r"
    by (rule serve_issues)
  note i = run_route_issues(1) [OF assms s [unfolded e]]
  show "auth r = None" "rq_Method r = ''POST''" "rq_Path r = ''/sign''" using i f by (auto simp: find_route_eq split: if_splits)
  show "\<exists>c hdrs tok. Sign L (en_now2 en) (en_uuid en) (sr_signer srv) (rq_ctx r) c hdrs = Inr (t, tok)"
    using i handleSign_issues(1) by blast
next
  assume s: "rs_Body (fst (serve L en srv r)) = RefreshResponse t x"
  then have "rs_Body (fst (serve L en srv r)) \<notin> insert NoBody (range PlainText)" by auto
  then obtain m rt where f: "find_route (sr_cfg srv) (rq_Method r) (rq_Path r) = Some (m, rq_Path r, rt)"
    and e: "fst (serve L en srv r) = run_route L en srv rt (secured (sv_CertFile (sr_cfg srv) \<noteq> [] \<or> rq_TLS r)) r"
    by (rule serve_issues)
  note i = run_route_issues(2) [OF assms s [unfolded e]]
  show "auth r = None" "rq_Method r = ''POST''" "rq_Path r = ''/refresh''" using i f by (auto simp: find_route_eq split: if_splits)
  show "\<exists>old tok. Refresh L (sr_refresh srv) (en_now1 en) (rq_ctx r) old = Inr (tok, t)"
    using i handleRefresh_issues(1) by blast
next
  assume a: "rq_Method r = ''POST'' \<and> rq_Path r \<in> {''/sign'', ''/refresh''} \<and> auth r = Some err"
  then show "rs_Status (fst (serve L en srv r)) = 401" "rs_Body (fst (serve L en srv r)) = ErrorResponse ''unauthorized'' err"
    using serve_POST [of r L en srv] requireAuth_refused [of auth r err] assms by auto
next
  assume "sv_Authenticator (sr_cfg srv) = None"
  with assms have "StaticBearerAuthenticator (sv_AuthToken (sr_cfg srv)) = Some auth" by (simp add: authenticator_of_def)
  note s = static_bearer_accepts [OF this]
  show "sv_AuthToken (sr_cfg srv) \<noteq> []" by (rule s)
  show "auth r = None \<longleftrightarrow> Header_Get (rq_Header r) ''Authorization'' = ''Bearer '' @ sv_AuthToken (sr_cfg srv)" by (rule s)
qed

section \<open>Construction\<close>

lemma withDefaults_keeps [simp]:
  "sv_Method (withDefaults c) = sv_Method c" "sv_PublicKey (withDefaults c) = sv_PublicKey c"
  "sv_PrivateKey (withDefaults c) = sv_PrivateKey c" "sv_Kid (withDefaults c) = sv_Kid c"
  "sv_AdditionalKeys (withDefaults c) = sv_AdditionalKeys c" "sv_DefaultIssuer (withDefaults c) = sv_DefaultIssuer c"
  "sv_DefaultExpiration (withDefaults c) = (if sv_DefaultExpiration c = 0 then Hour else sv_DefaultExpiration c)"
  "sv_AuthToken (withDefaults c) = sv_AuthToken c" "sv_Authenticator (withDefaults c) = sv_Authenticator c"
  "sv_Revoker (withDefaults c) = sv_Revoker c" "sv_RefreshMaxAge (withDefaults c) = sv_RefreshMaxAge c"
  "sv_RefreshClaimsResolver (withDefaults c) = sv_RefreshClaimsResolver c"
  "sv_CertFile (withDefaults c) = sv_CertFile c" "sv_KeyFile (withDefaults c) = sv_KeyFile c"
  by (simp_all add: withDefaults_def Let_def)

lemma New_Inr:
  assumes "New C ecBytes cfg = Some (Inr srv)"
  shows "config_errors C cfg = None" "sr_cfg srv = withDefaults cfg"
    "NewSigner (sv_Method cfg) (sv_PrivateKey cfg) (signer_opts (withDefaults cfg)) = Inr (sr_signer srv)"
    "buildVerifier (withDefaults cfg) = Inr (sr_verify srv)"
    "NewRefresher C (sv_Method cfg) (sv_PublicKey cfg) (sv_PrivateKey cfg) (refresher_opts (withDefaults cfg)) = Inr (sr_refresh srv)"
    "buildJWKS ecBytes (withDefaults cfg) = Some (Inr (sr_jwksSet srv))"
  using assms by (auto simp: New_def Let_def split: option.splits sum.splits)

lemma config_errors_None:
  "config_errors C cfg = None \<Longrightarrow>
    ValidatePair C (sv_PublicKey cfg) (sv_PrivateKey cfg) = None \<and> (sv_CertFile cfg = [] \<longleftrightarrow> sv_KeyFile cfg = []) \<and>
    sv_Method cfg \<noteq> None \<and> sv_PublicKey cfg \<noteq> None \<and> sv_PrivateKey cfg \<noteq> None"
  by (auto simp: config_errors_def split: if_splits option.splits)

abbreviation server_entries :: "server_config \<Rightarrow> key_entry list" where
  "server_entries cfg \<equiv> \<lparr>Kid = sv_Kid cfg, ke_Method = sv_Method cfg, PublicKey = sv_PublicKey cfg\<rparr> # sv_AdditionalKeys cfg"

lemma PublicKeyFromJWK_alg: "PublicKeyFromJWK (j\<lparr>j_Alg := a\<rparr>) = PublicKeyFromJWK j"
  by (simp add: PublicKeyFromJWK_def rsaPublicFromJWK_def ecPublicFromJWK_def okpPublicFromJWK_def cong: sum.case_cong if_cong)

definition entry_published :: "key_entry \<Rightarrow> jwk \<Rightarrow> bool" where
  "entry_published e j \<longleftrightarrow>
    (\<exists>m k. ke_Method e = Some m \<and> key_entry.PublicKey e = Some k \<and>
      j_Kid j = Kid e \<and> j_Alg j = Alg m \<and> PublicKeyFromJWK j = Inr k)"

lemma entry_jwk_published:
  assumes "entry_jwk ecBytes e = Some (Inr j)" "\<And>k. key_entry.PublicKey e = Some k \<Longrightarrow> jwk_encodable ecBytes k"
  shows "entry_published e j"
proof -
  from assms(1) obtain m k j0 where mk: "ke_Method e = Some m" "key_entry.PublicKey e = Some k"
    and j: "JWKFromPublicKey ecBytes k (Kid e) = Some (Inr j0)" "j = j0\<lparr>j_Alg := Alg m\<rparr>"
    by (auto simp: entry_jwk_def split: option.splits sum.splits)
  with jwk_of_key [OF assms(2) [OF mk(2)], of "Kid e"] show ?thesis
    by (simp add: entry_published_def PublicKeyFromJWK_alg)
qed

lemma entries_jwks_published:
  assumes "entries_jwks ecBytes es = Some (Inr js)"
    "\<forall>e \<in> set es. \<forall>k. key_entry.PublicKey e = Some k \<longrightarrow> jwk_encodable ecBytes k"
  shows "list_all2 entry_published es js"
  using assms
proof (induction es arbitrary: js)
  case (Cons e es)
  from Cons.prems(1) obtain j js' where "entry_jwk ecBytes e = Some (Inr j)" "entries_jwks ecBytes es = Some (Inr js')"
    "js = j # js'" by (auto split: option.splits sum.splits)
  moreover have "entry_published e j" by (rule entry_jwk_published) (use calculation Cons.prems(2) in auto)
  ultimately show ?case using Cons by simp
qed simp

text \<open>The key a token is checked with.\<close>

fun verifier_key :: "server_verifier \<Rightarrow> keyfunc" where
  "verifier_key (SingleKey v) = v_keyFunc v"
| "verifier_key (MultiKey v) = multi_keyFunc v"

lemma buildVerifier_single:
  assumes "buildVerifier cfg = Inr v" "sv_AdditionalKeys cfg = []" "sv_Method cfg = Some m" "sv_PublicKey cfg = Some k"
  shows "verifier_key v = public_key_func m k \<and> Alg m \<noteq> []"
  using assms NewVerifier_Inr [of m k] by (auto simp: buildVerifier_def split: sum.splits)

lemma buildVerifier_withDefaults [simp]: "buildVerifier (withDefaults cfg) = buildVerifier cfg"
  by (simp add: buildVerifier_def Let_def)

lemma buildVerifier_multi:
  assumes "buildVerifier cfg = Inr v" "sv_AdditionalKeys cfg \<noteq> []"
  shows "verifier_key v tok = Inr k \<longleftrightarrow>
    (\<exists>e \<in> set (server_entries cfg). \<exists>m. fmlookup (t_header tok) ''kid'' = Some (VString (Kid e)) \<and>
      ke_Method e = Some m \<and> key_entry.PublicKey e = Some k \<and> Alg (t_method tok) = Alg m)"
proof -
  from assms obtain w opts where w: "NewMultiKeyVerifier (server_entries cfg) opts = Inr w" "v = MultiKey w"
    by (auto simp: buildVerifier_def Let_def split: if_splits sum.splits)
  obtain algs where c: "collect_entries (server_entries cfg) fmempty [] = Inr (entries w, algs)"
    using NewMultiKeyVerifier_Inr [OF w(1)] by blast
  have look: "fmlookup (entries w) kid = Some (m, k) \<longleftrightarrow>
      (\<exists>e \<in> set (server_entries cfg). Kid e = kid \<and> ke_Method e = Some m \<and> key_entry.PublicKey e = Some k \<and> is_public_key k)"
    for kid m k using collect_entries_Inr [OF c] by simp
  have ok: "Kid e \<noteq> []" "key_entry.PublicKey e = Some k \<Longrightarrow> is_public_key k" if "e \<in> set (server_entries cfg)" for e k
    using collect_entries_kids [OF c] that by auto
  show ?thesis
    unfolding w(2) verifier_key.simps multi_keyFunc_Inr look using ok by blast
qed

lemma add_algs_spec:
  "distinct out \<Longrightarrow> distinct (add_algs as out) \<and> set (add_algs as out) = set out \<union> (set as - {[]})"
  by (induction as out rule: add_algs.induct) auto

definition entry_alg :: "key_entry \<Rightarrow> string" where
  "entry_alg e = (case ke_Method e of Some x \<Rightarrow> Alg x | None \<Rightarrow> [])"

lemma supportedAlgs_spec:
  "distinct (supportedAlgs cfg) \<and> set (supportedAlgs cfg) = entry_alg ` set (server_entries cfg) - {[]}"
proof -
  have "supportedAlgs cfg = add_algs (map entry_alg (server_entries cfg)) []"
    by (simp add: supportedAlgs_def entry_alg_def [abs_def] comp_def)
  then show ?thesis using add_algs_spec [of "[]" "map entry_alg (server_entries cfg)"] by (simp only: set_map) simp
qed

lemma supportedAlgs_published:
  assumes "list_all2 entry_published (server_entries cfg) js"
  shows "distinct (supportedAlgs cfg) \<and> set (supportedAlgs cfg) = j_Alg ` set js - {[]}"
proof -
  have "map entry_alg es = map j_Alg js" if "list_all2 entry_published es js" for es js
    using that by (induction rule: list_all2_induct) (auto simp: entry_published_def entry_alg_def)
  then have "set (map entry_alg (server_entries cfg)) = set (map j_Alg js)" using assms by metis
  then show ?thesis using supportedAlgs_spec [of cfg] by (simp only: set_map)
qed

lemma supportedAlgs_withDefaults [simp]: "supportedAlgs (withDefaults cfg) = supportedAlgs cfg"
  by (simp add: supportedAlgs_def)

text \<open>C24. What the daemon publishes is what it verifies with: every key of the published set, in the order
  primary then additional, carries the configured kid and algorithm; the key the verifier uses for a
  token that names a published kid and that key's algorithm is the published one; and every key the
  verifier ever uses is published with the token's algorithm; the algorithms the discovery document
  lists are those of the published keys, each once.\<close>

theorem published_keys_verify:
  assumes "New C ecBytes cfg = Some (Inr srv)"
    "\<forall>e \<in> set (server_entries cfg). \<forall>k. key_entry.PublicKey e = Some k \<longrightarrow> jwk_encodable ecBytes k"
  shows "list_all2 entry_published (server_entries cfg) (sr_jwksSet srv) \<and>
    (j \<in> set (sr_jwksSet srv) \<and> asymmetric (t_method tok) \<and> Alg (t_method tok) = j_Alg j \<and>
      fmlookup (t_header tok) ''kid'' = Some (VString (j_Kid j)) \<longrightarrow>
      (\<exists>k. PublicKeyFromJWK j = Inr k \<and> verifier_key (sr_verify srv) tok = Inr k)) \<and>
    (verifier_key (sr_verify srv) tok = Inr k \<longrightarrow>
      (\<exists>j \<in> set (sr_jwksSet srv). PublicKeyFromJWK j = Inr k \<and> j_Alg j = Alg (t_method tok))) \<and>
    distinct (supportedAlgs (sr_cfg srv)) \<and> set (supportedAlgs (sr_cfg srv)) = j_Alg ` set (sr_jwksSet srv) - {[]}"
proof -
  note n = New_Inr [OF assms(1)]
  have pub: "list_all2 entry_published (server_entries cfg) (sr_jwksSet srv)"
    using n(6) assms(2) by (intro entries_jwks_published) (simp_all add: buildJWKS_def)
  note algs = supportedAlgs_published [OF pub]
  have fwd: "\<exists>e \<in> set (server_entries cfg). entry_published e j" if "j \<in> set (sr_jwksSet srv)" for j
    using list_all2_matches(2) [OF pub that] .
  have bwd: "\<exists>j \<in> set (sr_jwksSet srv). entry_published e j" if "e \<in> set (server_entries cfg)" for e
    using list_all2_matches(1) [OF pub that] .
  obtain m0 k0 where p0: "sv_Method cfg = Some m0" "sv_PublicKey cfg = Some k0"
    using config_errors_None [OF n(1)] by auto
  show ?thesis
  proof (cases "sv_AdditionalKeys cfg = []")
    case True
    have v: "verifier_key (sr_verify srv) = public_key_func m0 k0" "Alg m0 \<noteq> []"
      using buildVerifier_single [OF n(4)] True p0 by simp_all
    show ?thesis
      using pub fwd [of j] bwd [of "hd (server_entries cfg)"] True p0 v algs n(2)
      by (auto simp: public_key_func_Inr entry_published_def)
  next
    case False
    note used = buildVerifier_multi [OF n(4) [simplified] False]
    show ?thesis
    proof (intro conjI impI)
      assume a: "j \<in> set (sr_jwksSet srv) \<and> asymmetric (t_method tok) \<and> Alg (t_method tok) = j_Alg j \<and>
        fmlookup (t_header tok) ''kid'' = Some (VString (j_Kid j))"
      then obtain e m k where "e \<in> set (server_entries cfg)" "ke_Method e = Some m" "key_entry.PublicKey e = Some k"
        "j_Kid j = Kid e" "j_Alg j = Alg m" "PublicKeyFromJWK j = Inr k"
        using fwd [of j] unfolding entry_published_def by blast
      with a show "\<exists>k. PublicKeyFromJWK j = Inr k \<and> verifier_key (sr_verify srv) tok = Inr k"
        unfolding used by auto
    next
      assume "verifier_key (sr_verify srv) tok = Inr k"
      then obtain e m where "e \<in> set (server_entries cfg)" "ke_Method e = Some m" "key_entry.PublicKey e = Some k"
        "Alg (t_method tok) = Alg m" unfolding used by blast
      with bwd [of e] show "\<exists>j \<in> set (sr_jwksSet srv). PublicKeyFromJWK j = Inr k \<and> j_Alg j = Alg (t_method tok)"
        by (auto simp: entry_published_def)
    qed (use pub algs n(2) in simp_all)
  qed
qed

definition demo_config :: server_config where
  "demo_config =
    \<lparr>sv_Logger = True, sv_Method = Some SigningMethodEdDSA, sv_PrivateKey = Some (Ed25519Private (replicate 64 (CHR ''k''))),
     sv_PublicKey = Some demo_pub, sv_Kid = ''a'', sv_DefaultIssuer = [], sv_DefaultExpiration = 0, sv_AuthToken = ''s3cret'',
     sv_Authenticator = None, sv_RefreshMaxAge = None, sv_RefreshClaimsResolver = None, sv_Revoker = None,
     sv_AdditionalKeys = [\<lparr>Kid = ''b'', ke_Method = Some SigningMethodEdDSA, PublicKey = Some demo_pub\<rparr>],
     sv_EnableTokenReview = False, sv_Issuer = [], sv_CertFile = [], sv_KeyFile = [], sv_Addr = [],
     sv_ReadTimeout = 0, sv_WriteTimeout = 0, sv_ShutdownTimeout = 0\<rparr>"

lemma demo_pub_encodable: "jwk_encodable ec demo_pub"
  by (simp add: jwk_encodable_def demo_pub_def Ed25519PublicKeySize_def)

text \<open>A server that starts: Ed25519 keys that match, with or without one more verification key.\<close>

lemma New_Ed25519:
  assumes C: "ed25519_Verify C = (\<lambda>k m s. s = m)" "ed25519_Sign C = (\<lambda>k m. m)"
    and cfg: "sv_Logger cfg" "sv_Method cfg = Some SigningMethodEdDSA" "sv_PrivateKey cfg = Some (Ed25519Private (replicate 64 (CHR ''k'')))"
    "sv_PublicKey cfg = Some demo_pub" "sv_CertFile cfg = []" "sv_KeyFile cfg = []" "sv_RefreshMaxAge cfg = None"
    "sv_RefreshClaimsResolver cfg = None" "sv_Revoker cfg = None" "0 \<le> sv_DefaultExpiration cfg"
    and keys: "sv_AdditionalKeys cfg \<noteq> [] \<Longrightarrow> sv_Kid cfg = ''a'' \<and>
      sv_AdditionalKeys cfg = [\<lparr>Kid = ''b'', ke_Method = Some SigningMethodEdDSA, PublicKey = Some demo_pub\<rparr>]"
  shows "\<exists>srv. New C ec cfg = Some (Inr srv)"
proof -
  have pair: "ValidatePair C (Some demo_pub) (Some (Ed25519Private (replicate 64 (CHR ''k'')))) = None"
    by (simp add: demo_pub_def ValidatePair_def ValidateEd25519Pair_def C Ed25519PublicKeySize_def Ed25519PrivateKeySize_def Let_def)
  have d: "0 < sv_DefaultExpiration (withDefaults cfg)" using cfg by (auto simp: Hour_def Minute_def Second_def)
  have "config_errors C cfg = None" by (simp add: config_errors_def cfg pair)
  moreover have "\<exists>s. NewSigner (sv_Method cfg) (sv_PrivateKey cfg) (signer_opts (withDefaults cfg)) = Inr s"
    using d by (simp add: NewSigner_def cfg validateMethodAndKey_def method_consts signer_opts_def
        Signing.WithDefaultExpiration_def WithStaticHeaders_def WithDefaultIssuer_def HeaderKeyAlg_def)
  moreover have "\<exists>v. buildVerifier cfg = Inr v"
    using keys by (cases "sv_AdditionalKeys cfg = []")
      (simp_all add: buildVerifier_def cfg NewVerifier_def PublicKeyFunc_def method_consts NewMultiKeyVerifier_def demo_pub_def
        is_public_key_def applyOpts_def Let_def)
  moreover have "\<exists>r. NewRefresher C (sv_Method cfg) (sv_PublicKey cfg) (sv_PrivateKey cfg) (refresher_opts (withDefaults cfg)) = Inr r"
    using d pair by (simp add: NewRefresher_def cfg method_consts PublicKeyFunc_def is_public_key_def refresher_opts_def
        Refresh.WithDefaultExpiration_def) (simp add: demo_pub_def)
  moreover have "\<exists>js. buildJWKS ec (withDefaults cfg) = Some (Inr js)"
  proof -
    obtain j where "JWKFromPublicKey ec demo_pub kid = Some (Inr (j kid))" for kid
      using jwk_of_key [OF demo_pub_encodable] by metis
    with keys show ?thesis
      by (cases "sv_AdditionalKeys cfg = []") (simp_all add: buildJWKS_def entry_jwk_def cfg)
  qed
  ultimately show ?thesis by (auto simp: New_def Let_def)
qed

lemma New_demo: "\<exists>srv. New demo_crypto ec demo_config = Some (Inr srv)"
  by (rule New_Ed25519) (simp_all add: demo_config_def demo_crypto_def)

theorem published_keys_verify_witness:
  "\<exists>srv j. New demo_crypto (\<lambda>_. Inl []) demo_config = Some (Inr srv) \<and> j \<in> set (sr_jwksSet srv) \<and>
    PublicKeyFromJWK j = Inr demo_pub \<and> j_Alg j = ''EdDSA'' \<and>
    verifier_key (sr_verify srv) ((demo_token fmempty)\<lparr>t_header := fmupd ''kid'' (VString ''b'') fmempty\<rparr>) = Inr demo_pub"
proof -
  obtain srv where n: "New demo_crypto (\<lambda>_. Inl []) demo_config = Some (Inr srv)" using New_demo by blast
  have enc: "\<forall>e \<in> set (server_entries demo_config). \<forall>k. key_entry.PublicKey e = Some k \<longrightarrow> jwk_encodable (\<lambda>_. Inl []) k"
    by (simp add: demo_config_def demo_pub_encodable)
  note p = published_keys_verify [OF n enc]
  have "list_all2 entry_published (server_entries demo_config) (sr_jwksSet srv)" using p by blast
  then obtain j where j: "j \<in> set (sr_jwksSet srv)" "j_Kid j = ''b''" "j_Alg j = ''EdDSA''" "PublicKeyFromJWK j = Inr demo_pub"
    by (auto simp: demo_config_def list_all2_Cons1 entry_published_def method_consts) blast
  then show ?thesis
    using n p [of j "(demo_token fmempty)\<lparr>t_header := fmupd ''kid'' (VString ''b'') fmempty\<rparr>"]
    by (auto simp: demo_token_def asymmetric_def method_consts)
qed

definition demo_env :: env where
  "demo_env = \<lparr>en_sign = (\<lambda>_. Some \<lparr>sq_Claims = None, sq_Headers = fmempty, sq_ExpiresIn = []\<rparr>), en_token = (\<lambda>_. Some ''t''),
     en_review = (\<lambda>_. None), en_race = \<lparr>rr_spare = False, rr_other = None\<rparr>, en_order = (\<lambda>_. []), en_now1 = 0, en_now2 = 0, en_uuid = ''u'', en_text = (\<lambda>_. [])\<rparr>"

definition demo_request :: "string \<Rightarrow> string \<Rightarrow> header_map \<Rightarrow> http_request" where
  "demo_request m p h = \<lparr>rq_Method = m, rq_Path = p, rq_Header = h, rq_Body = [], rq_TLS = False, rq_ctx = None,
     rq_claims = None, rq_token = None\<rparr>"

theorem issuing_endpoints_guarded_witness:
  "\<exists>srv auth. New demo_crypto (\<lambda>_. Inl []) demo_config = Some (Inr srv) \<and> authenticator_of (sr_cfg srv) = Some auth \<and>
    auth (demo_request ''POST'' ''/sign'' (Header_Set fmempty ''Authorization'' ''Bearer s3cret'')) = None \<and>
    rs_Status (fst (serve no_lib demo_env srv (demo_request ''POST'' ''/sign'' fmempty))) = 401"
proof -
  obtain srv where n: "New demo_crypto (\<lambda>_. Inl []) demo_config = Some (Inr srv)" using New_demo by blast
  have c: "sr_cfg srv = withDefaults demo_config" "sv_Authenticator (withDefaults demo_config) = None"
    "sv_AuthToken (withDefaults demo_config) = ''s3cret''"
    using New_Inr(2) [OF n] by (simp_all add: demo_config_def)
  obtain auth where a: "authenticator_of (sr_cfg srv) = Some auth"
    by (simp add: New_Inr(2) [OF n] authenticator_of_def StaticBearerAuthenticator_def demo_config_def)
  have ok: "auth r = None \<longleftrightarrow> Header_Get (rq_Header r) ''Authorization'' = ''Bearer s3cret''" for r
    using conjunct2 [OF conjunct2 [OF conjunct2 [OF issuing_endpoints_guarded [OF a, of no_lib demo_env r]]]] c by simp
  let ?bad = "demo_request ''POST'' ''/sign'' fmempty"
  have "auth ?bad \<noteq> None" using ok [of ?bad] by (simp add: demo_request_def Header_Get_def)
  then obtain err where "auth ?bad = Some err" by blast
  then have "rs_Status (fst (serve no_lib demo_env srv ?bad)) = 401"
    using issuing_endpoints_guarded [OF a, of no_lib demo_env ?bad] by (simp add: demo_request_def)
  moreover have "auth (demo_request ''POST'' ''/sign'' (Header_Set fmempty ''Authorization'' ''Bearer s3cret'')) = None"
    by (simp add: ok demo_request_def Header_Get_def Header_Set_def)
  ultimately show ?thesis using n a by blast
qed

theorem server_response_headers_witness:
  "\<exists>srv. New demo_crypto (\<lambda>_. Inl []) demo_config = Some (Inr srv) \<and>
    (\<forall>L en. let h = rs_Header (fst (serve L en srv (demo_request ''GET'' ''/.well-known/jwks.json'' fmempty))) in
       fmlookup h ''X-Content-Type-Options'' = Some [''nosniff''] \<and> fmlookup h ''Strict-Transport-Security'' = None \<and>
       fmlookup h ''Access-Control-Allow-Origin'' = Some [''*'']) \<and>
    (\<forall>L en. fmlookup (rs_Header (fst (serve L en srv (demo_request ''POST'' ''/sign'' fmempty)))) ''Access-Control-Allow-Origin'' = None)"
proof -
  obtain srv where n: "New demo_crypto (\<lambda>_. Inl []) demo_config = Some (Inr srv)" using New_demo by blast
  have c: "sv_CertFile (sr_cfg srv) = []" using New_Inr(2) [OF n] by (simp add: demo_config_def)
  from n c show ?thesis
    using server_response_headers [of _ _ srv "demo_request ''GET'' ''/.well-known/jwks.json'' fmempty"]
      server_response_headers [of _ _ srv "demo_request ''POST'' ''/sign'' fmempty"]
    by (intro exI [of _ srv] conjI n allI) (simp_all add: demo_request_def Let_def)
qed

section \<open>Metric labels\<close>

text \<open>The path label of the request metrics: a request that matches a pattern is recorded under the
  pattern, so under one of at most ten labels; any other request is recorded under the path it asked
  for, so each of infinitely many unmatched clean paths gets a label of its own.\<close>

theorem metric_label_of_request:
  "(matched_route cfg r \<noteq> None \<longrightarrow> routePath cfg r \<in> (\<lambda>(m, p, _). m @ '' '' @ p) ` set (route_table cfg)) \<and>
   (matched_route cfg r = None \<longrightarrow> routePath cfg r = rq_Path r) \<and>
   infinite {routePath cfg (r\<lparr>rq_Method := ''GET'', rq_Path := p\<rparr>) | p. cleanPath p = p \<and>
     matched_route cfg (r\<lparr>rq_Method := ''GET'', rq_Path := p\<rparr>) = None}"
proof (intro conjI impI)
  assume "matched_route cfg r \<noteq> None"
  then obtain m p rt where f: "find_route cfg (rq_Method r) (lookup_path r) = Some (m, p, rt)" by (auto simp: matched_route_def)
  then have "(m, p, rt) \<in> set (route_table cfg)" by (metis find_Some_iff find_route_def nth_mem)
  with f show "routePath cfg r \<in> (\<lambda>(m, p, _). m @ '' '' @ p) ` set (route_table cfg)"
    by (force simp: routePath_def matched_route_def)
next
  let ?r = "\<lambda>p. r\<lparr>rq_Method := ''GET'', rq_Path := p\<rparr>"
  let ?p = "\<lambda>n. CHR ''/'' # CHR ''x'' # replicate n (CHR ''y'')"
  have split: "Split (replicate n (CHR ''y'')) (CHR ''/'') = [replicate n (CHR ''y'')]" for n by (induction n) simp_all
  have last: "last (?p n) \<noteq> CHR ''/''" for n by (simp add: last_replicate)
  have clean: "cleanPath (?p n) = ?p n" for n
    using last [of n] by (simp add: cleanPath_def Let_def split)
  have none: "matched_route cfg (?r (?p n)) = None" for n
    by (simp add: matched_route_def lookup_path_def clean find_route_eq)
  have "inj (\<lambda>n. ?p n)" by (rule injI) simp
  then have "infinite (range ?p)" using finite_imageD infinite_UNIV_nat by blast
  moreover have "range ?p \<subseteq> {routePath cfg (?r p) | p. cleanPath p = p \<and> matched_route cfg (?r p) = None}"
  proof
    fix q assume "q \<in> range ?p"
    then obtain n where "q = ?p n" by blast
    with clean none have "q = routePath cfg (?r (?p n)) \<and> cleanPath (?p n) = ?p n \<and> matched_route cfg (?r (?p n)) = None"
      by (simp add: routePath_def)
    then show "q \<in> {routePath cfg (?r p) | p. cleanPath p = p \<and> matched_route cfg (?r p) = None}" by blast
  qed
  ultimately show "infinite {routePath cfg (?r p) | p. cleanPath p = p \<and> matched_route cfg (?r p) = None}"
    using finite_subset by blast
qed (simp add: routePath_def)

theorem metric_label_of_request_witness:
  "routePath demo_config (demo_request ''GET'' ''/healthz'' fmempty) \<in> (\<lambda>(m, p, _). m @ '' '' @ p) ` set (route_table demo_config) \<and>
   routePath demo_config (demo_request ''GET'' ''/any'' fmempty) = ''/any''"
proof -
  have "matched_route demo_config (demo_request ''GET'' ''/healthz'' fmempty) \<noteq> None"
    "matched_route demo_config (demo_request ''GET'' ''/any'' fmempty) = None"
    by (simp_all add: matched_route_def lookup_path_def demo_request_def cleanPath_def Let_def find_route_eq)
  then show ?thesis
    using metric_label_of_request [of demo_config "demo_request ''GET'' ''/healthz'' fmempty"]
      metric_label_of_request [of demo_config "demo_request ''GET'' ''/any'' fmempty"]
    by (simp add: demo_request_def)
qed

section \<open>ServiceAccount authenticator\<close>

lemma fold_allowed: "fold (\<lambda>u s. if u \<noteq> [] then finsert u s else s) us s = fset_of_list (filter (\<lambda>u. u \<noteq> []) us) |\<union>| s"
  by (induction us arbitrary: s) auto

lemma Authenticate_accepts:
  "Authenticate errText quote a r = None \<longleftrightarrow>
     (\<exists>tok status. Header_Get (rq_Header r) ''Authorization'' = ''Bearer '' @ tok \<and> TrimSpace tok \<noteq> [] \<and>
       sa_create a (rq_ctx r) (TrimSpace tok) (sa_audiences a) = Inr status \<and> rv_Authenticated status \<and>
       (sa_allowed a = {||} \<or> tr_Username (rv_User status) |\<in>| sa_allowed a))"
proof (cases "HasPrefix (Header_Get (rq_Header r) ''Authorization'') ''Bearer ''")
  case True
  then obtain t where "Header_Get (rq_Header r) ''Authorization'' = ''Bearer '' @ t" by (auto simp: HasPrefix_iff)
  then show ?thesis
    using TrimPrefix_append [of "''Bearer ''" t] HasPrefix_append [of "''Bearer ''" t]
    by (auto simp: Authenticate_def Let_def split: sum.splits if_splits)
next
  case False
  then have "Authenticate errText quote a r \<noteq> None" by (simp add: Authenticate_def Let_def)
  moreover have "Header_Get (rq_Header r) ''Authorization'' \<noteq> ''Bearer '' @ tok" for tok
    using False HasPrefix_iff by blast
  ultimately show ?thesis by blast
qed

text \<open>The ServiceAccount authenticator accepts a request exactly when it presents a non-blank bearer token
  that the API server, asked with the configured audiences, authenticates, and the allow-list is empty
  or holds the ServiceAccount. An allow-list option given only empty names leaves the list empty, so the
  authenticator it builds accepts every ServiceAccount.\<close>

theorem sa_authenticator_correct:
  "(Authenticate errText quote a r = None \<longleftrightarrow>
     (\<exists>tok status. Header_Get (rq_Header r) ''Authorization'' = ''Bearer '' @ tok \<and> TrimSpace tok \<noteq> [] \<and>
       sa_create a (rq_ctx r) (TrimSpace tok) (sa_audiences a) = Inr status \<and> rv_Authenticated status \<and>
       (sa_allowed a = {||} \<or> tr_Username (rv_User status) |\<in>| sa_allowed a))) \<and>
   (\<exists>b. sa_New (Some create) [WithAllowedSAs us, sa_WithAudiences aud] = Inr b \<and> sa_create b = create \<and> sa_audiences b = aud \<and>
     sa_allowed b = fset_of_list (filter (\<lambda>u. u \<noteq> []) us))"
  by (auto simp: Authenticate_accepts sa_New_def WithAllowedSAs_def sa_WithAudiences_def fold_allowed)


end
