(* ===== verification/Cli_Facts.thy ===== *)
theory Cli_Facts
  imports Daemon Http_Facts Signing_Facts Http_Auth_Facts
begin

text \<open>
  What the command line tool and the daemon's start-up promise: the order of the claim sources, when
  the verify command succeeds, which files key generation writes, how settings are resolved, and who
  may ask a daemon started with given flags for a token.
\<close>

section \<open>Claim sources\<close>

lemma fmadd_lookup_case: "fmlookup (fmadd m n) k = (case fmlookup n k of Some v \<Rightarrow> Some v | None \<Rightarrow> fmlookup m k)"
  by (cases "fmlookup n k") (auto simp: fmdomI fmdom_notI)

definition kv_pair :: "string \<Rightarrow> string \<times> string" where
  "kv_pair kv = (fst (Cut kv (CHR ''='')), fst (snd (Cut kv (CHR ''=''))))"

lemma kv_loop_lookup:
  "kv_loop err kvs c = Inr c' \<Longrightarrow>
    fmlookup c' k = (case map_of (rev (map kv_pair kvs)) k of Some v \<Rightarrow> Some (VString v) | None \<Rightarrow> fmlookup c k)"
proof (induction err kvs c rule: kv_loop.induct)
  case (2 err kv kvs c)
  obtain a v ok where cut: "Cut kv (CHR ''='') = (a, v, ok)" by (cases "Cut kv (CHR ''='')") auto
  then have "kv_loop err kvs (fmupd a (VString v) c) = Inr c'" "ok" "a \<noteq> []" using "2.prems" by (auto split: if_splits)
  with "2.IH" [OF cut [symmetric] refl] show ?case
    by (auto simp: kv_pair_def cut map_add_def split: option.split)
qed simp

lemma kv_loop_error: "kv_loop err kvs c = Inl e \<Longrightarrow> e = err"
  by (induction err kvs c rule: kv_loop.induct) (auto split: if_splits prod.splits)

lemma mergeJSON_Inr:
  "mergeJSON unmarshal dst body = Inr c \<longleftrightarrow> (\<exists>m. unmarshal body = Inr m \<and> c = fmadd dst m)"
  by (auto simp: mergeJSON_def split: sum.split)

definition json_source :: "(string \<Rightarrow> mapclaims result) \<Rightarrow> string result option \<Rightarrow> mapclaims \<Rightarrow> bool" where
  "json_source unmarshal src m \<longleftrightarrow>
    (case src of None \<Rightarrow> m = fmempty | Some r \<Rightarrow> (\<exists>body. r = Inr body \<and> unmarshal body = Inr m))"

lemma merge_file_Inr:
  "merge_file unmarshal fs path dst = Inr c \<longleftrightarrow>
    (\<exists>m. json_source unmarshal (if path = [] then None else Some (os_ReadFile path fs)) m \<and> c = fmadd dst m)"
  by (auto simp: merge_file_def mergeJSON_Inr json_source_def split: sum.split)

text \<open>The claims of the sign command: a claim comes from the last --claim entry that names it, else from
  --claims-json, else from --claims-file, else from the profile flags (with --not-before as nbf); each
  named source was read and decoded, and a malformed --claim entry is a usage error.\<close>

theorem sign_claim_precedence:
  assumes "buildClaims L unmarshal fs f = Inr c"
  shows "\<exists>file json.
    json_source unmarshal (if sf_claimsFile f = [] then None else Some (os_ReadFile (sf_claimsFile f) fs)) file \<and>
    json_source unmarshal (if sf_claimsJSON f = [] then None else Some (Inr (sf_claimsJSON f))) json \<and>
    (\<forall>k. fmlookup c k =
      (case map_of (rev (map kv_pair (sf_claimKV f))) k of
         Some v \<Rightarrow> Some (VString v)
       | None \<Rightarrow> (case fmlookup json k of Some v \<Rightarrow> Some v
       | None \<Rightarrow> (case fmlookup file k of Some v \<Rightarrow> Some v
       | None \<Rightarrow> if k = KeyNotBefore \<and> sf_notBefore f \<noteq> []
                then map_option (\<lambda>t. VNumericDatePtr (Some (newNumericDate L t))) (timeParseRFC3339 L (sf_notBefore f))
                else fmlookup (profile_claims f) k))))"
proof -
  let ?mc = "if sf_notBefore f = [] then profile_claims f
    else SetNotBefore L (profile_claims f) (the (timeParseRFC3339 L (sf_notBefore f)))"
  from assms obtain c1 c2 where
    nbf: "sf_notBefore f = [] \<or> timeParseRFC3339 L (sf_notBefore f) \<noteq> None"
    and 1: "merge_file unmarshal fs (sf_claimsFile f) ?mc = Inr c1"
    and 2: "(if sf_claimsJSON f = [] then Inr c1 else mergeJSON unmarshal c1 (sf_claimsJSON f)) = Inr c2"
    and 3: "kv_loop [ErrUsage] (sf_claimKV f) c2 = Inr c"
    by (auto simp: buildClaims_def Let_def split: sum.splits option.splits if_splits)
  obtain fm where fm: "json_source unmarshal (if sf_claimsFile f = [] then None else Some (os_ReadFile (sf_claimsFile f) fs)) fm"
    "c1 = fmadd ?mc fm" using 1 unfolding merge_file_Inr by blast
  obtain jm where jm: "json_source unmarshal (if sf_claimsJSON f = [] then None else Some (Inr (sf_claimsJSON f))) jm"
    "c2 = fmadd c1 jm" using 2 by (auto simp: json_source_def mergeJSON_Inr split: if_splits)
  have base: "fmlookup ?mc k = (if k = KeyNotBefore \<and> sf_notBefore f \<noteq> []
    then map_option (\<lambda>t. VNumericDatePtr (Some (newNumericDate L t))) (timeParseRFC3339 L (sf_notBefore f))
    else fmlookup (profile_claims f) k)" for k
    using nbf by (auto simp: SetNotBefore_def)
  have look: "fmlookup c2 k = (case fmlookup jm k of Some v \<Rightarrow> Some v | None \<Rightarrow>
    (case fmlookup fm k of Some v \<Rightarrow> Some v | None \<Rightarrow> fmlookup ?mc k))" for k
    unfolding jm(2) fm(2) fmadd_lookup_case by (rule refl)
  show ?thesis
    by (intro exI [of _ fm] exI [of _ jm] conjI allI fm(1) jm(1)) (simp only: kv_loop_lookup [OF 3] look base)
qed

definition demo_sign_flags :: signFlags where
  "demo_sign_flags = \<lparr>sf_method = ''EdDSA'', sf_privPath = ''k.pem'', sf_expiration = Hour, sf_claimsFile = [], sf_claimsJSON = ''j'',
     sf_claimKV = [''sub=a'', ''sub=b''], sf_headerKV = [], sf_subject = ''s'', sf_issuer = ''i'', sf_audience = [], sf_groups = [],
     sf_roles = [], sf_entitlements = [], sf_permissions = [], sf_scope = [], sf_email = [], sf_name = [], sf_username = [],
     sf_tokenType = [], sf_jti = [], sf_notBefore = []\<rparr>"

lemma buildClaims_demo:
  "\<exists>c. buildClaims no_lib (\<lambda>_. Inr (fmupd KeyIssuer (VString ''from-json'') fmempty)) fmempty demo_sign_flags = Inr c"
  by (simp add: buildClaims_def demo_sign_flags_def merge_file_def mergeJSON_def Cut_def)

theorem sign_claim_precedence_witness:
  "\<exists>c. buildClaims no_lib (\<lambda>_. Inr (fmupd KeyIssuer (VString ''from-json'') fmempty)) fmempty demo_sign_flags = Inr c \<and>
    fmlookup c KeySubject = Some (VString ''b'') \<and> fmlookup c KeyIssuer = Some (VString ''from-json'')"
proof -
  obtain c where c: "buildClaims no_lib (\<lambda>_. Inr (fmupd KeyIssuer (VString ''from-json'') fmempty)) fmempty demo_sign_flags = Inr c"
    using buildClaims_demo by blast
  have "fmlookup c KeySubject = Some (VString ''b'') \<and> fmlookup c KeyIssuer = Some (VString ''from-json'')"
    using sign_claim_precedence [OF c] by (auto simp: demo_sign_flags_def kv_pair_def Cut_def json_source_def key_defs)
  with c show ?thesis by blast
qed

section \<open>The verify command\<close>

lemma exit_of_ok: "exit_of r = ExitOK \<longleftrightarrow> is_ok r"
  by (cases r) (auto simp: exit_of_def exitCodeFor_def ExitOK_def ExitUsage_def ExitFailure_def ExitInterrupted_def)

lemma buildVerifyChecks_pass:
  "all_pass (buildVerifyChecks L f) ctx tok \<longleftrightarrow> (\<forall>chk. Some chk \<in> set (verify_checks f) \<longrightarrow> chk ctx (t_claims tok) = None)"
  by (auto simp: buildVerifyChecks_def all_pass_def Let_def CheckClaims_None)

lemma NewVerifier_checks:
  assumes "NewVerifier (Some m) (Some k) [WithStaticChecks cs] = Inr v"
  shows "v_base v = \<lparr>staticCheck = cs, vb_leeway = DefaultLeeway, skipRegisteredClaims = False, vb_algs = [Alg m]\<rparr>"
  using assms by (auto simp: NewVerifier_def applyOpts_def WithStaticChecks_def split: if_splits sum.splits)

text \<open>The values a list flag asks for: its entries without the white space around them, blank ones apart.\<close>

definition asked :: "string list \<Rightarrow> string set" where
  "asked flag = {v. v \<noteq> [] \<and> (\<exists>e \<in> set flag. TrimSpace e = v)}"

definition shares :: "string list result \<Rightarrow> string set \<Rightarrow> bool" where
  "shares r wanted \<longleftrightarrow> (\<exists>have. r = Inr have \<and> normalizeString ` set have \<inter> normalizeString ` wanted \<noteq> {})"

text \<open>What the flags of the command ask of the claims, and where its key comes from.\<close>

definition flags_hold :: "verifyFlags \<Rightarrow> mapclaims \<Rightarrow> bool" where
  "flags_hold f c \<longleftrightarrow>
    (asked (vf_issuer f) \<noteq> {} \<longrightarrow> (\<exists>iss \<in> asked (vf_issuer f). Claims.Issuer c = Inr iss)) \<and>
    (asked (vf_audience f) \<noteq> {} \<longrightarrow> shares (Claims.Audience c) (asked (vf_audience f))) \<and>
    (asked (vf_groups f) \<noteq> {} \<longrightarrow> shares (Claims.Groups c) (asked (vf_groups f))) \<and>
    (asked (vf_roles f) \<noteq> {} \<longrightarrow> shares (Claims.Roles c) (asked (vf_roles f))) \<and>
    (asked (vf_entitlements f) \<noteq> {} \<longrightarrow> shares (Claims.Entitlements c) (asked (vf_entitlements f))) \<and>
    (\<forall>k \<in> asked (vf_requireKeys f). fmlookup c k \<noteq> None)"

definition flags_key :: "crypto \<Rightarrow> files \<Rightarrow> net \<Rightarrow> smethod \<Rightarrow> verifyFlags \<Rightarrow> token \<Rightarrow> pkey \<Rightarrow> bool" where
  "flags_key C fs n m f tok pub \<longleftrightarrow>
    (vf_pubPath f \<noteq> [] \<and> vf_jwksURL f = [] \<and> loadPublicKeyForMethod C fs m (vf_pubPath f) = Inr pub) \<or>
    (vf_pubPath f = [] \<and> vf_jwksURL f \<noteq> [] \<and>
      (\<exists>r ks cc kid. NewRemote (vf_jwksURL f) [] = Inr r \<and> good_reply (net_decode n) r (net_reply n) ks cc \<and>
        fmlookup (t_header tok) ''kid'' = Some (VString kid) \<and> kid \<noteq> [] \<and> Jwks.PublicKey ks kid = Inr pub))"

lemma set_trimAll: "set (trimAll flag) = asked flag" "trimAll flag = [] \<longleftrightarrow> asked flag = {}"
proof -
  show s: "set (trimAll flag) = asked flag" by (auto simp: trimAll_def asked_def)
  show "trimAll flag = [] \<longleftrightarrow> asked flag = {}" unfolding s [symmetric] by simp
qed

lemma opt_check_pass:
  "(\<forall>chk. Some chk \<in> set (opt_check flag check) \<longrightarrow> chk ctx c = None) \<longleftrightarrow> asked flag \<noteq> {} \<longrightarrow> check (trimAll flag) ctx c = None"
  by (auto simp: opt_check_def set_trimAll(2))

lemma overlaps_shares: "overlaps r (trimAll flag) \<longleftrightarrow> shares r (asked flag)"
  by (simp add: overlaps_def shares_def set_trimAll(1))

lemma CheckRequiredKeys_None: "CheckRequiredKeys ks ctx c = None \<longleftrightarrow> (\<forall>k \<in> set ks. fmlookup c k \<noteq> None)"
  by (induction ks ctx c rule: CheckRequiredKeys.induct) (auto split: option.splits)

lemma verify_checks_hold: "(\<forall>chk. Some chk \<in> set (verify_checks f) \<longrightarrow> chk ctx c = None) \<longleftrightarrow> flags_hold f c"
proof -
  have iss: "CheckIssuer (trimAll flag) ctx c = None \<longleftrightarrow> (\<exists>iss \<in> asked flag. Claims.Issuer c = Inr iss)" for flag
    by (auto simp: CheckIssuer_def set_trimAll(1) split: sum.split)
  have keys: "CheckRequiredKeys (trimAll flag) ctx c = None \<longleftrightarrow> (\<forall>k \<in> asked flag. fmlookup c k \<noteq> None)" for flag
    by (simp add: CheckRequiredKeys_None set_trimAll(1))
  have ent: "checkHasEntitlements (trimAll flag) ctx c = None \<longleftrightarrow> overlaps (Claims.Entitlements c) (trimAll flag)" for flag
    using overlap_checks_correct [of "trimAll flag" ctx c] by (cases "MatchingEntitlements c (trimAll flag)") (auto simp: checkHasEntitlements_def result_err_def)
  have "(\<forall>chk. Some chk \<in> set (verify_checks f) \<longrightarrow> chk ctx c = None) \<longleftrightarrow>
      (asked (vf_issuer f) \<noteq> {} \<longrightarrow> CheckIssuer (trimAll (vf_issuer f)) ctx c = None) \<and>
      (asked (vf_audience f) \<noteq> {} \<longrightarrow> CheckAudience (trimAll (vf_audience f)) ctx c = None) \<and>
      (asked (vf_groups f) \<noteq> {} \<longrightarrow> CheckHasGroups (trimAll (vf_groups f)) ctx c = None) \<and>
      (asked (vf_roles f) \<noteq> {} \<longrightarrow> CheckHasRoles (trimAll (vf_roles f)) ctx c = None) \<and>
      (asked (vf_entitlements f) \<noteq> {} \<longrightarrow> checkHasEntitlements (trimAll (vf_entitlements f)) ctx c = None) \<and>
      (asked (vf_requireKeys f) \<noteq> {} \<longrightarrow> CheckRequiredKeys (trimAll (vf_requireKeys f)) ctx c = None)"
    unfolding opt_check_pass [symmetric] verify_checks_def set_append by blast
  also have "\<dots> \<longleftrightarrow> flags_hold f c"
    unfolding flags_hold_def iss keys ent overlaps_shares [symmetric] using overlap_checks_correct by auto
  finally show ?thesis .
qed

lemma first_PublicKey:
  assumes "NewRemote u [] = Inr r" "fst (remote_PublicKey decode reply t0 t1 t2 t3 kid r) = Inr pub"
  shows "\<exists>ks cc. good_reply decode r reply ks cc \<and> Jwks.PublicKey ks kid = Inr pub"
proof -
  have r: "cached r = None" "lastErr r = None" "maxBodyBytes r = 2 ^ 20"
    using assms(1) by (auto simp: NewRemote_def DefaultMaxBodyBytes_def split: if_splits)
  have "\<not> fresh t r" "cache_answer t t' r = None" for t t' using r(1,2) by (simp_all add: fresh_def cache_answer_def negative_def)
  then obtain ks t where "doFetch decode r reply = Inr (ks, t)" "Jwks.PublicKey ks kid = Inr pub"
    using assms(2) by (auto simp: remote_PublicKey_def KeySet_def cachedOrFetch_def fetchLocked_def split: sum.splits)
  moreover have "0 < maxBodyBytes r" "maxBodyBytes r < 2 ^ 63 - 1" by (simp_all add: r(3))
  ultimately show ?thesis using doFetch_good by blast
qed

lemma resolvePublicKey_flags:
  assumes "resolvePublicKey L C fs n m f = Inr pub" "(vf_pubPath f = []) \<noteq> (vf_jwksURL f = [])"
    "parseUnverified L (vf_token f) = Inr tok0" "t_header tok0 = t_header tok"
  shows "flags_key C fs n m f tok pub"
proof (cases "vf_pubPath f = []")
  case True
  then obtain r kid where "NewRemote (vf_jwksURL f) [] = Inr r" "fmlookup (t_header tok) ''kid'' = Some (VString kid)" "kid \<noteq> []"
    "fst (remote_PublicKey (net_decode n) (net_reply n) (net_t0 n) (net_t1 n) (net_t2 n) (net_t3 n) kid r) = Inr pub"
    using assms(1,3,4) by (auto simp: resolvePublicKey_def Let_def split: sum.splits if_splits option.splits gval.splits)
  then show ?thesis using first_PublicKey True assms(2) unfolding flags_key_def by blast
next
  case False
  then show ?thesis using assms(1,2) by (simp add: resolvePublicKey_def flags_key_def)
qed


definition demo_verify_flags :: verifyFlags where
  "demo_verify_flags = \<lparr>vf_method = ''EdDSA'', vf_pubPath = ''p.pem'', vf_jwksURL = [], vf_token = ''t'', vf_issuer = [],
     vf_audience = [], vf_groups = [], vf_roles = [], vf_entitlements = [], vf_requireKeys = [], vf_printClaims = False\<rparr>"

definition pem_crypto :: crypto where
  "pem_crypto = demo_crypto\<lparr>ParseEdPublicKeyFromPEM := (\<lambda>_. Inr demo_pub),
     ParseEdPrivateKeyFromPEM := (\<lambda>_. Inr (Ed25519Private (replicate 64 (CHR ''k''))))\<rparr>"

definition pem_files :: files where
  "pem_files = fmupd ''p.pem'' (''pem'', 420) (fmupd ''k.pem'' (''pem'', 384) fmempty)"

lemma LoadEd_demo:
  "LoadEd25519PublicFromPEM pem_crypto ''pem'' = Inr (replicate 32 (CHR ''p''))"
  "LoadEd25519PrivateFromPEM pem_crypto ''pem'' = Inr (replicate 64 (CHR ''k''))"
  by (simp_all add: LoadEd25519PublicFromPEM_def LoadEd25519PrivateFromPEM_def load_pem_def pem_crypto_def demo_pub_def)

lemma SigningMethod_EdDSA: "SigningMethod ''EdDSA'' = Inr SigningMethodEdDSA"
  unfolding SigningMethod_iff by (simp add: std_methods_def method_consts)

lemma loadPublic_demo: "loadPublicKeyForMethod pem_crypto pem_files SigningMethodEdDSA ''p.pem'' = Inr demo_pub"
  by (simp add: loadPublicKeyForMethod_def ReadPEMFile_def os_ReadFile_def pem_files_def method_consts LoadEd_demo demo_pub_def)


section \<open>Key generation\<close>

lemma os_WriteFile_None:
  "os_WriteFile fail name data perm fs = (None, fs') \<Longrightarrow>
    fs' = fmupd name (data, case fmlookup fs name of None \<Rightarrow> perm | Some (_, mode) \<Rightarrow> mode) fs"
  by (auto simp: os_WriteFile_def Let_def split: option.splits)

lemma SaveKey_None:
  "SavePrivateKey C fail n k fs = (None, fs') \<Longrightarrow> \<exists>d. EncodePrivateKeyPEM C k = Inr d \<and>
    fs' = fmupd n (d, case fmlookup fs n of None \<Rightarrow> 384 | Some (_, mode) \<Rightarrow> mode) fs"
  "SavePublicKey C fail n k fs = (None, fs') \<Longrightarrow> \<exists>d. EncodePublicKeyPEM C k = Inr d \<and>
    fs' = fmupd n (d, case fmlookup fs n of None \<Rightarrow> 420 | Some (_, mode) \<Rightarrow> mode) fs"
  by (auto simp: SavePrivateKey_def SavePublicKey_def PrivateKeyFilePerm_def PublicKeyFilePerm_def
      dest!: os_WriteFile_None split: sum.splits prod.splits option.splits)

text \<open>A gen-key run that succeeds without --print has written both halves of the generated pair to the
  named files and nothing else: the private key file is created with mode 0600 and the public one with
  0644, but a file that existed keeps its mode, so an existing private key file may stay readable by
  others.\<close>

theorem gen_key_writes_pair:
  assumes "runGenKey C fail algorithm curve bits privOut pubOut False fs = (Inr printed, fs')" "privOut \<noteq> pubOut"
  shows "\<exists>priv pub d1 d2. generatePair C algorithm curve bits = Inr (priv, pub) \<and>
      EncodePrivateKeyPEM C (Some priv) = Inr d1 \<and> EncodePublicKeyPEM C (Some pub) = Inr d2 \<and>
      fmlookup fs' privOut = Some (d1, case fmlookup fs privOut of None \<Rightarrow> 384 | Some (_, mode) \<Rightarrow> mode) \<and>
      fmlookup fs' pubOut = Some (d2, case fmlookup fs pubOut of None \<Rightarrow> 420 | Some (_, mode) \<Rightarrow> mode) \<and>
      (\<forall>p. p \<notin> {privOut, pubOut} \<longrightarrow> fmlookup fs' p = fmlookup fs p)"
proof -
  from assms(1) obtain priv pub fs1 where g: "generatePair C algorithm curve bits = Inr (priv, pub)"
    and 1: "SavePrivateKey C fail privOut (Some priv) fs = (None, fs1)"
    and 2: "SavePublicKey C fail pubOut (Some pub) fs1 = (None, fs')"
    by (auto simp: runGenKey_def split: sum.splits if_splits prod.splits option.splits)
  from SaveKey_None(1) [OF 1] SaveKey_None(2) [OF 2] g assms(2) show ?thesis by auto
qed

definition gen_crypto :: crypto where
  "gen_crypto = demo_crypto\<lparr>ed25519_GenerateKey := Inr (''pub'', ''priv''), MarshalPKCS8PrivateKey := (\<lambda>_. Inr ''d1''),
     MarshalPKIXPublicKey := (\<lambda>_. Inr ''d2'')\<rparr>"

lemma runGenKey_demo:
  "runGenKey gen_crypto (\<lambda>_. None) ''Ed25519'' [] 0 ''k'' ''p'' False (fmupd ''k'' (''old'', 438) fmempty) =
    (Inr [], fmupd ''p'' (''PUBLIC KEYd2'', 420) (fmupd ''k'' (''PRIVATE KEYd1'', 438) (fmupd ''k'' (''old'', 438) fmempty)))"
proof -
  have "ToLower ''Ed25519'' = ''ed25519''" by code_simp
  then have "generatePair gen_crypto ''Ed25519'' [] 0 = Inr (Ed25519Private ''priv'', Ed25519Public ''pub'')"
    by (simp add: generatePair_def algECDSA_def algRSA_def algEd25519_def GenerateEd25519_def gen_crypto_def Let_def)
  then show ?thesis
    by (simp add: runGenKey_def SavePrivateKey_def SavePublicKey_def EncodePrivateKeyPEM_def EncodePublicKeyPEM_def
        gen_crypto_def demo_crypto_def is_public_key_def os_WriteFile_def PublicKeyFilePerm_def PrivateKeyFilePerm_def
        BlockTypePKCS8Private_def BlockTypePublic_def)
qed

theorem gen_key_writes_pair_witness:
  "\<exists>fs'. runGenKey gen_crypto (\<lambda>_. None) ''Ed25519'' [] 0 ''k'' ''p'' False (fmupd ''k'' (''old'', 438) fmempty) = (Inr [], fs') \<and>
    map_option snd (fmlookup fs' ''k'') = Some 438 \<and> map_option snd (fmlookup fs' ''p'') = Some 420"
  using gen_key_writes_pair [OF runGenKey_demo] runGenKey_demo by auto

section \<open>Settings of the daemon\<close>

definition string_settings :: "(string \<times> (cli_config \<Rightarrow> string) \<times> string) list" where
  "string_settings =
    [(''addr'', cc_Addr, '':8080''), (''method'', cc_Method, []), (''priv'', cc_PrivPath, []), (''pub'', cc_PubPath, []),
     (''kid'', cc_Kid, []), (''default-issuer'', cc_DefaultIssuer, []), (''auth-mode'', cc_AuthMode, ''static''),
     (''auth-token'', cc_AuthToken, []), (''issuer'', cc_Issuer, []), (''cert'', cc_CertFile, []), (''key'', cc_KeyFile, []),
     (''log-level'', cc_LogLevel, ''info'')]"

lemma Parse_Inr:
  assumes "Parse L env args = Inr c"
  obtains c0 d where "set_flags L args Config0 = Inr c0" "config_Duration L env ''default-expires'' (cc_DefaultExpiration c0) Hour = Inr d"
    "c = (resolve_strings env c0)\<lparr>cc_DefaultExpiration := d\<rparr>" "validate_config c = Inr c"
  using assms by (auto simp: Parse_def Let_def resolve_strings_def validate_config_def split: sum.splits if_splits)

lemma config_String_default: "def \<noteq> [] \<Longrightarrow> config_String env name v def \<noteq> []"
  by (auto simp: config_String_def env_value_def split: option.splits)

lemma Parse_mode:
  assumes "Parse L env args = Inr c"
  shows "cc_AuthMode c \<in> {''static'', ''sa'', ''none''}"
proof -
  obtain c0 d where c: "c = (resolve_strings env c0)\<lparr>cc_DefaultExpiration := d\<rparr>" "validate_config c = Inr c"
    using Parse_Inr [OF assms] by blast
  have "cc_AuthMode c \<noteq> []" unfolding c(1) by (simp add: resolve_strings_def config_String_default)
  with c(2) show ?thesis by (simp add: validate_config_def split: if_splits)
qed

text \<open>The daemon's settings: every text setting is the flag when given, else the environment variable of
  its name when set and not empty, else its default, and no two settings share a variable; a start-up
  that is not refused has a method, both key paths, a certificate with its key or neither, and a known
  authentication mode. The timeouts, the token review switch and the repeatable flags come from the
  command line alone, whatever the environment holds.\<close>

theorem daemon_settings_resolved:
  assumes "Parse L env args = Inr c"
  shows "\<exists>c0. set_flags L args Config0 = Inr c0 \<and>
    list_all (\<lambda>(name, get, def). get c =
      (if get c0 \<noteq> [] then get c0
       else (case env (EnvKey name) of Some v \<Rightarrow> if v = [] then def else v | None \<Rightarrow> def))) string_settings \<and>
    distinct (map (EnvKey \<circ> fst) string_settings) \<and>
    cc_Method c \<noteq> [] \<and> cc_PrivPath c \<noteq> [] \<and> cc_PubPath c \<noteq> [] \<and> (cc_CertFile c = [] \<longleftrightarrow> cc_KeyFile c = []) \<and>
    cc_AuthMode c \<in> {''static'', ''sa'', ''none''} \<and>
    cc_ReadTimeout c = cc_ReadTimeout c0 \<and> cc_WriteTimeout c = cc_WriteTimeout c0 \<and>
    cc_ShutdownTimeout c = cc_ShutdownTimeout c0 \<and> cc_EnableTokenReview c = cc_EnableTokenReview c0 \<and>
    cc_AdditionalKeys c = cc_AdditionalKeys c0 \<and> cc_AllowedSAs c = cc_AllowedSAs c0 \<and> cc_AuthAudiences c = cc_AuthAudiences c0"
proof -
  obtain c0 d where c: "set_flags L args Config0 = Inr c0" "c = (resolve_strings env c0)\<lparr>cc_DefaultExpiration := d\<rparr>"
    "validate_config c = Inr c" using Parse_Inr [OF assms] by blast
  have "list_all (\<lambda>(name, get, def). get c = config_String env name (get c0) def) string_settings"
    by (simp add: c(2) string_settings_def resolve_strings_def)
  moreover have "config_String env name v def =
      (if v \<noteq> [] then v else (case env (EnvKey name) of Some v \<Rightarrow> if v = [] then def else v | None \<Rightarrow> def))" for name v def
    by (auto simp: config_String_def env_value_def split: option.split)
  moreover have "distinct (map (EnvKey \<circ> fst) string_settings)" by code_simp
  moreover note Parse_mode [OF assms]
  moreover have "cc_Method c \<noteq> [] \<and> cc_PrivPath c \<noteq> [] \<and> cc_PubPath c \<noteq> [] \<and> (cc_CertFile c = [] \<longleftrightarrow> cc_KeyFile c = [])"
    using c(3) by (auto simp: validate_config_def split: if_splits)
  ultimately show ?thesis
    by (intro exI [of _ c0]) (simp add: c(1), simp add: c(2) resolve_strings_def)
qed

definition demo_args :: "(string \<times> string) list" where
  "demo_args = [(''method'', ''EdDSA''), (''priv'', ''k.pem''), (''pub'', ''p.pem''), (''auth-token'', ''s3cret'')]"

definition demo_cli :: cli_config where
  "demo_cli = Config0\<lparr>cc_Method := ''EdDSA'', cc_PrivPath := ''k.pem'', cc_PubPath := ''p.pem'', cc_AuthToken := ''s3cret'',
     cc_Addr := '':8080'', cc_AuthMode := ''static'', cc_LogLevel := ''info'', cc_DefaultExpiration := Hour\<rparr>"

lemma Parse_demo: "Parse L (\<lambda>_. None) demo_args = Inr demo_cli"
  by (simp add: Parse_def demo_args_def set_flag_def Config0_def resolve_strings_def config_String_def env_value_def
      config_Duration_def validate_config_def demo_cli_def)

theorem daemon_settings_resolved_witness:
  "Parse no_lib (\<lambda>_. None) demo_args = Inr demo_cli \<and> cc_AuthMode demo_cli \<in> {''static'', ''sa'', ''none''} \<and>
    cc_Method demo_cli \<noteq> []"
  using daemon_settings_resolved [OF Parse_demo [of no_lib]] Parse_demo [of no_lib] by blast

section \<open>Who may ask the daemon for a token\<close>

lemma authenticator_of_withDefaults [simp]: "authenticator_of (withDefaults c) = authenticator_of c"
  by (simp add: authenticator_of_def split: option.split)

lemma run_Inr:
  assumes "run L C ecBytes levelOK ce fs env args = Some (Inr srv)"
  obtains cfg m priv pub more authn tok where "Parse L env args = Inr cfg" "buildAuthenticator ce cfg = Inr (authn, tok)"
    "New C ecBytes (server_config_of cfg m priv pub more authn tok) = Some (Inr srv)"
  using assms by (auto simp: run_def split: sum.splits if_splits prod.splits)

definition sa_of :: "cli_config \<Rightarrow> (ctx_err \<Rightarrow> string \<Rightarrow> string list \<Rightarrow> review_status result) \<Rightarrow> sa_authenticator" where
  "sa_of cfg create = \<lparr>sa_create = create, sa_allowed = fset_of_list (filter (\<lambda>u. u \<noteq> []) (cc_AllowedSAs cfg)),
     sa_audiences = cc_AuthAudiences cfg\<rparr>"

lemma ffilter_fempty: "ffilter P {||} = {||}"
  by auto

lemma buildAuthenticator_sa:
  assumes "buildAuthenticator ce cfg = Inr (authn, tok)" "cc_AuthMode cfg = ''sa''"
  shows "\<exists>create. ce_client ce = Inr create \<and> authn = Some (Authenticate (ce_text ce) (ce_quote ce) (sa_of cfg create))"
  using assms
  by (auto simp: buildAuthenticator_def NewInCluster_def sa_New_def WithAllowedSAs_def sa_WithAudiences_def fold_allowed Let_def
      sa_of_def ffilter_fempty split: sum.splits if_splits)

lemma sa_of_allowed:
  "sa_allowed (sa_of cfg create) = {||} \<longleftrightarrow> set (cc_AllowedSAs cfg) \<subseteq> {[]}"
  "u |\<in>| sa_allowed (sa_of cfg create) \<longleftrightarrow> u \<in> set (cc_AllowedSAs cfg) - {[]}"
proof -
  show mem: "u |\<in>| sa_allowed (sa_of cfg create) \<longleftrightarrow> u \<in> set (cc_AllowedSAs cfg) - {[]}" for u
    by (auto simp: sa_of_def fset_of_list_elem)
  then show "sa_allowed (sa_of cfg create) = {||} \<longleftrightarrow> set (cc_AllowedSAs cfg) \<subseteq> {[]}" by blast
qed

text \<open>Whom the authenticator of mode sa accepts.\<close>

lemma sa_mode_accepts:
  assumes "buildAuthenticator ce cfg = Inr (authn, tok)" "cc_AuthMode cfg = ''sa''"
  shows "\<exists>a. authn = Some a \<and> (\<forall>r. a r = None \<longleftrightarrow>
    (\<exists>create tok status. ce_client ce = Inr create \<and>
      Header_Get (rq_Header r) ''Authorization'' = ''Bearer '' @ tok \<and> TrimSpace tok \<noteq> [] \<and>
      create (rq_ctx r) (TrimSpace tok) (cc_AuthAudiences cfg) = Inr status \<and> rv_Authenticated status \<and>
      (set (cc_AllowedSAs cfg) \<subseteq> {[]} \<or> tr_Username (rv_User status) \<in> set (cc_AllowedSAs cfg) - {[]})))"
proof -
  obtain create where a: "ce_client ce = Inr create" "authn = Some (Authenticate (ce_text ce) (ce_quote ce) (sa_of cfg create))"
    using buildAuthenticator_sa [OF assms] by blast
  have fields: "sa_create (sa_of cfg create) = create" "sa_audiences (sa_of cfg create) = cc_AuthAudiences cfg"
    by (simp_all add: sa_of_def)
  have "Authenticate (ce_text ce) (ce_quote ce) (sa_of cfg create) r = None \<longleftrightarrow>
    (\<exists>create tok status. ce_client ce = Inr create \<and>
      Header_Get (rq_Header r) ''Authorization'' = ''Bearer '' @ tok \<and> TrimSpace tok \<noteq> [] \<and>
      create (rq_ctx r) (TrimSpace tok) (cc_AuthAudiences cfg) = Inr status \<and> rv_Authenticated status \<and>
      (set (cc_AllowedSAs cfg) \<subseteq> {[]} \<or> tr_Username (rv_User status) \<in> set (cc_AllowedSAs cfg) - {[]}))" for r
    unfolding Authenticate_accepts fields sa_of_allowed a(1) by blast
  with a(2) show ?thesis by blast
qed

text \<open>C37. Who may ask a started daemon for a token: with authentication mode none, or static without a token,
  everybody; static with a token, exactly who presents it as a bearer token; mode sa, exactly who presents
  a token the API server authenticates for the configured audiences and whose ServiceAccount is on the
  allow-list, where a list without a non-empty name allows all.\<close>

theorem daemon_auth_modes:
  assumes "run L C ecBytes levelOK ce fs env args = Some (Inr srv)"
  shows "\<exists>cfg. Parse L env args = Inr cfg \<and>
    (if cc_AuthMode cfg = ''none'' \<or> cc_AuthMode cfg = ''static'' \<and> cc_AuthToken cfg = []
     then authenticator_of (sr_cfg srv) = None
     else \<exists>a. authenticator_of (sr_cfg srv) = Some a \<and>
       (\<forall>r. a r = None \<longleftrightarrow>
         (if cc_AuthMode cfg = ''static''
          then Header_Get (rq_Header r) ''Authorization'' = ''Bearer '' @ cc_AuthToken cfg
          else \<exists>create tok status. ce_client ce = Inr create \<and>
            Header_Get (rq_Header r) ''Authorization'' = ''Bearer '' @ tok \<and> TrimSpace tok \<noteq> [] \<and>
            create (rq_ctx r) (TrimSpace tok) (cc_AuthAudiences cfg) = Inr status \<and> rv_Authenticated status \<and>
            (set (cc_AllowedSAs cfg) \<subseteq> {[]} \<or> tr_Username (rv_User status) \<in> set (cc_AllowedSAs cfg) - {[]}))))"
proof -
  obtain cfg m priv pub more authn tok where p: "Parse L env args = Inr cfg" and b: "buildAuthenticator ce cfg = Inr (authn, tok)"
    and n: "New C ecBytes (server_config_of cfg m priv pub more authn tok) = Some (Inr srv)"
    using assms by (rule run_Inr)
  have auth: "authenticator_of (sr_cfg srv) = (case authn of Some a \<Rightarrow> Some a | None \<Rightarrow> StaticBearerAuthenticator tok)"
    by (simp add: New_Inr(2) [OF n] authenticator_of_def server_config_of_def split: option.split)
  have mode: "cc_AuthMode cfg \<in> {''static'', ''sa'', ''none''}"
    using Parse_mode [OF p] .
  show ?thesis
  proof (cases "cc_AuthMode cfg = ''sa''")
    case True
    from sa_mode_accepts [OF b this] obtain a where a: "authn = Some a" "\<And>r. a r = None \<longleftrightarrow>
      (\<exists>create tok status. ce_client ce = Inr create \<and>
        Header_Get (rq_Header r) ''Authorization'' = ''Bearer '' @ tok \<and> TrimSpace tok \<noteq> [] \<and>
        create (rq_ctx r) (TrimSpace tok) (cc_AuthAudiences cfg) = Inr status \<and> rv_Authenticated status \<and>
        (set (cc_AllowedSAs cfg) \<subseteq> {[]} \<or> tr_Username (rv_User status) \<in> set (cc_AllowedSAs cfg) - {[]}))" by blast
    have "authenticator_of (sr_cfg srv) = Some a" by (simp add: auth a(1))
    with a(2) p True show ?thesis by (intro exI [of _ cfg]) simp
  next
    case False
    then have "authn = None" "tok = (if cc_AuthMode cfg = ''none'' then [] else cc_AuthToken cfg)"
      using b mode by (auto simp: buildAuthenticator_def split: if_splits)
    note at = this
    show ?thesis
    proof (cases "tok = []")
      case True
      then have "authenticator_of (sr_cfg srv) = None" by (simp add: auth at(1) StaticBearerAuthenticator_def)
      moreover have "cc_AuthMode cfg = ''none'' \<or> cc_AuthMode cfg = ''static'' \<and> cc_AuthToken cfg = []"
        using True at(2) mode False by auto
      ultimately show ?thesis using p by (intro exI [of _ cfg]) simp
    next
      case ne: False
      then obtain f where f: "StaticBearerAuthenticator tok = Some f" by (simp add: StaticBearerAuthenticator_def)
      have st: "cc_AuthMode cfg = ''static''" and tk: "tok = cc_AuthToken cfg" using ne at(2) mode False by (auto split: if_splits)
      from static_bearer_accepts(2) [OF f] ne p show ?thesis
        by (intro exI [of _ cfg]) (simp add: auth at(1) f [unfolded tk] st tk)
    qed
  qed
qed

definition no_cluster :: cluster_env where
  "no_cluster = \<lparr>ce_client = Inl [], ce_text = (\<lambda>_. []), ce_quote = id\<rparr>"

lemma run_demo: "\<exists>srv. run no_lib pem_crypto (\<lambda>_. Inl []) (\<lambda>_. True) no_cluster pem_files (\<lambda>_. None) demo_args = Some (Inr srv)"
proof -
  have "loadKeyPairForMethod pem_crypto ''EdDSA'' ''pem'' ''pem'' = Inr (Ed25519Private (replicate 64 (CHR ''k'')), demo_pub)"
    by (simp add: loadKeyPairForMethod_def ecdsa_names_def rsa_names_def load_pair_def LoadEd_demo demo_pub_def)
  moreover have "\<exists>srv. New pem_crypto (\<lambda>_. Inl []) (server_config_of demo_cli SigningMethodEdDSA
      (Ed25519Private (replicate 64 (CHR ''k''))) demo_pub [] None ''s3cret'') = Some (Inr srv)"
    by (rule New_Ed25519) (simp_all add: server_config_of_def demo_cli_def Config0_def pem_crypto_def demo_crypto_def Hour_def Minute_def Second_def)
  ultimately show ?thesis
    by (simp add: run_def Parse_demo demo_cli_def Config0_def SigningMethod_EdDSA ReadPEMFile_def os_ReadFile_def pem_files_def
        buildAuthenticator_def)
qed

theorem daemon_auth_modes_witness:
  "\<exists>srv a. run no_lib pem_crypto (\<lambda>_. Inl []) (\<lambda>_. True) no_cluster pem_files (\<lambda>_. None) demo_args = Some (Inr srv) \<and>
    authenticator_of (sr_cfg srv) = Some a \<and>
    a (demo_request ''POST'' ''/sign'' (Header_Set fmempty ''Authorization'' ''Bearer s3cret'')) = None"
proof -
  obtain srv where r: "run no_lib pem_crypto (\<lambda>_. Inl []) (\<lambda>_. True) no_cluster pem_files (\<lambda>_. None) demo_args = Some (Inr srv)"
    using run_demo by blast
  from daemon_auth_modes [OF r] obtain a where "authenticator_of (sr_cfg srv) = Some a"
    "\<And>r. a r = None \<longleftrightarrow> Header_Get (rq_Header r) ''Authorization'' = ''Bearer '' @ ''s3cret''"
    by (auto simp: Parse_demo demo_cli_def Config0_def)
  with r show ?thesis by (auto simp: demo_request_def Header_Get_def Header_Set_def)
qed

section \<open>Loading keys\<close>

lemma method_names:
  "m \<in> set std_methods \<Longrightarrow>
    (case m of
       SigningMethodECDSA a _ \<Rightarrow> a \<in> set ecdsa_names
     | SigningMethodRSA a \<Rightarrow> a \<notin> set ecdsa_names \<and> a \<in> set rsa_names
     | SigningMethodRSAPSS a \<Rightarrow> a \<notin> set ecdsa_names \<and> a \<in> set rsa_names
     | SigningMethodEd25519 a \<Rightarrow> a = ''EdDSA''
     | _ \<Rightarrow> False)"
proof -
  have "list_all (\<lambda>m. case m of
       SigningMethodECDSA a _ \<Rightarrow> a \<in> set ecdsa_names
     | SigningMethodRSA a \<Rightarrow> a \<notin> set ecdsa_names \<and> a \<in> set rsa_names
     | SigningMethodRSAPSS a \<Rightarrow> a \<notin> set ecdsa_names \<and> a \<in> set rsa_names
     | SigningMethodEd25519 a \<Rightarrow> a = ''EdDSA''
     | _ \<Rightarrow> False) std_methods" by code_simp
  then show "m \<in> set std_methods \<Longrightarrow> ?thesis" by (simp add: list_all_iff)
qed

text \<open>The tool, which dispatches on the method's type, and the daemon, which dispatches on its name, load
  the same key from the same file for every supported method, so a key that signs in one is accepted by
  the other.\<close>

theorem key_loading_agrees:
  assumes "SigningMethod name = Inr m" "privPath \<noteq> []" "pubPath \<noteq> []"
    "ReadPEMFile privPath fs = Inr privPEM" "ReadPEMFile pubPath fs = Inr pubPEM"
  shows "loadPublicKeyForMethod C fs m pubPath = loadPublicForMethod C name pubPEM \<and>
    load_pair (loadPrivateKeyForMethod C fs m privPath) (loadPublicKeyForMethod C fs m pubPath) =
      loadKeyPairForMethod C name privPEM pubPEM"
proof -
  have m: "m \<in> set std_methods" "name = Alg m" using assms(1) by (simp_all add: SigningMethod_iff)
  have ed: "''EdDSA'' \<notin> set ecdsa_names" "''EdDSA'' \<notin> set rsa_names" by code_simp+
  show ?thesis
    by (cases m) (use method_names [OF m(1)] m(2) ed assms(2-) in
      \<open>simp_all add: loadPublicKeyForMethod_def loadPrivateKeyForMethod_def loadPublicForMethod_def loadKeyPairForMethod_def\<close>)
qed

theorem key_loading_agrees_witness:
  "loadPublicForMethod pem_crypto ''EdDSA'' ''pem'' = Inr demo_pub"
  using key_loading_agrees [OF SigningMethod_EdDSA, of "''k.pem''" "''p.pem''" pem_files "''pem''" "''pem''" pem_crypto] loadPublic_demo
  by (simp add: ReadPEMFile_def os_ReadFile_def pem_files_def)

end
