(* ===== verification/Token_Review_Facts.thy ===== *)
theory Token_Review_Facts
  imports Token_Review
begin

text \<open>
  What an authenticated TokenReview means, the identity the default mapper derives from the claims,
  and what two concurrent requests may do to each other's checks.
\<close>

section \<open>Configuration\<close>

lemma audience_check_pass: "all_pass [audience_check L as] None t \<longleftrightarrow> overlaps (Audience (t_claims t)) as"
  by (simp add: all_pass_def audience_check_def CheckClaims_None CheckAudience_None)

inductive review_option :: "review_opt \<Rightarrow> bool" where
  "review_option (review_WithCheck checks)"
| "review_option (review_WithClaimsCheck ccs)"
| "review_option (WithUserInfoMapper m)"
| "review_option (WithAudiences as)"

lemmas review_option_defs = review_WithCheck_def review_WithClaimsCheck_def WithUserInfoMapper_def WithAudiences_def

text \<open>Options only add checks and audiences.\<close>

definition review_within :: "review_config \<Rightarrow> review_config \<Rightarrow> bool" where
  "review_within c d \<longleftrightarrow> set (rc_extra c) \<subseteq> set (rc_extra d) \<and> set (rc_claimsChecks c) \<subseteq> set (rc_claimsChecks d) \<and>
    set (rc_audiences c) \<subseteq> set (rc_audiences d)"

lemma review_within_trans: "review_within c d \<Longrightarrow> review_within d e \<Longrightarrow> review_within c e"
  by (auto simp: review_within_def)

lemma review_option_within: "review_option opt \<Longrightarrow> review_within c (opt c)"
  by (auto elim!: review_option.cases simp: review_within_def review_option_defs split: option.splits)

lemma review_fold_within: "\<forall>opt \<in> set opts. review_option opt \<Longrightarrow> review_within c (fold (\<lambda>opt c. opt c) opts c)"
proof (induction opts arbitrary: c)
  case (Cons opt opts)
  then have "review_within c (opt c)" "review_within (opt c) (fold (\<lambda>opt c. opt c) opts (opt c))"
    by (simp_all add: review_option_within)
  then show ?case using review_within_trans by simp
qed (simp add: review_within_def)

lemma review_fold_keeps:
  assumes "\<forall>opt \<in> set opts. review_option opt" "opt \<in> set opts"
  shows "\<exists>c'. review_within (opt c') (fold (\<lambda>opt c. opt c) opts c)"
proof -
  obtain xs ys where o: "opts = xs @ opt # ys" using assms(2) by (meson split_list)
  then have "\<forall>opt \<in> set ys. review_option opt" using assms(1) by simp
  from review_fold_within [OF this, of "opt (fold (\<lambda>opt c. opt c) xs c)"] show ?thesis by (auto simp: o)
qed

text \<open>The audiences of all options together.\<close>

lemma review_fold_audiences:
  "\<forall>opt \<in> set opts. review_option opt \<Longrightarrow>
    set (rc_audiences (fold (\<lambda>opt c. opt c) opts c)) = set (rc_audiences c) \<union> {a. \<exists>as. WithAudiences as \<in> set opts \<and> a \<in> set as}"
proof (intro equalityI subsetI)
  fix a
  assume o: "\<forall>opt \<in> set opts. review_option opt" and a: "a \<in> set (rc_audiences (fold (\<lambda>opt c. opt c) opts c))"
  have "set (rc_audiences (opt c)) \<subseteq> set (rc_audiences c) \<union> {a. \<exists>as. WithAudiences as = opt \<and> a \<in> set as}" if "review_option opt" for opt c
    using that by (auto elim!: review_option.cases simp: review_option_defs split: option.splits)
  with o a show "a \<in> set (rc_audiences c) \<union> {a. \<exists>as. WithAudiences as \<in> set opts \<and> a \<in> set as}"
    by (induction opts arbitrary: c) (simp, fastforce)
next
  fix a
  assume o: "\<forall>opt \<in> set opts. review_option opt"
    and "a \<in> set (rc_audiences c) \<union> {a. \<exists>as. WithAudiences as \<in> set opts \<and> a \<in> set as}"
  then consider "a \<in> set (rc_audiences c)" | as where "WithAudiences as \<in> set opts" "a \<in> set as" by auto
  then show "a \<in> set (rc_audiences (fold (\<lambda>opt c. opt c) opts c))"
  proof cases
    case 1
    then show ?thesis using review_fold_within [OF o, of c] by (auto simp: review_within_def)
  next
    case 2
    then show ?thesis using review_fold_keeps [OF o 2(1), of c] by (auto simp: review_within_def WithAudiences_def)
  qed
qed

lemma review_fold_mapper:
  "\<forall>opt \<in> set opts. review_option opt \<Longrightarrow> \<forall>m. WithUserInfoMapper (Some m) \<notin> set opts \<Longrightarrow>
    rc_mapper (fold (\<lambda>opt c. opt c) opts c) = rc_mapper c"
proof (induction opts arbitrary: c)
  case (Cons opt opts)
  have "rc_mapper (opt c) = rc_mapper c" if "review_option opt" "\<forall>m. WithUserInfoMapper (Some m) \<noteq> opt"
    using that(1)
  proof cases
    case (3 m)
    with that(2) show ?thesis by (cases m) (auto simp: WithUserInfoMapper_def)
  qed (simp_all add: review_option_defs)
  then have "rc_mapper (opt c) = rc_mapper c" using Cons.prems by auto
  then show ?case using Cons.IH [of "opt c"] Cons.prems by simp
qed simp

text \<open>What passing the configured checks means in terms of the options.\<close>

definition review_opts_pass :: "review_opt list \<Rightarrow> token \<Rightarrow> bool" where
  "review_opts_pass opts t \<longleftrightarrow>
    (\<forall>cs. review_WithCheck cs \<in> set opts \<longrightarrow> all_pass cs None t) \<and>
    (\<forall>ccs f. review_WithClaimsCheck ccs \<in> set opts \<and> Some f \<in> set ccs \<longrightarrow> f None (t_claims t) = None) \<and>
    ((\<exists>as. WithAudiences as \<in> set opts \<and> as \<noteq> []) \<longrightarrow>
      (\<exists>as. set as = {a. \<exists>bs. WithAudiences bs \<in> set opts \<and> a \<in> set bs} \<and> overlaps (Audience (t_claims t)) as))"

abbreviation review_config0 :: review_config where
  "review_config0 \<equiv> \<lparr>rc_extra = [], rc_claimsChecks = [], rc_mapper = DefaultUserInfoMapper, rc_audiences = []\<rparr>"

lemma review_config_fields:
  "rc_mapper (review_config_of L opts) = rc_mapper (fold (\<lambda>opt c. opt c) opts review_config0)"
  "rc_audiences (review_config_of L opts) = rc_audiences (fold (\<lambda>opt c. opt c) opts review_config0)"
  "set (rc_extra (fold (\<lambda>opt c. opt c) opts review_config0)) \<subseteq> set (rc_extra (review_config_of L opts))"
  "rc_claimsChecks (fold (\<lambda>opt c. opt c) opts review_config0) \<noteq> [] \<Longrightarrow>
    Some (CheckClaims L (rc_claimsChecks (fold (\<lambda>opt c. opt c) opts review_config0))) \<in> set (rc_extra (review_config_of L opts))"
  "rc_audiences (fold (\<lambda>opt c. opt c) opts review_config0) \<noteq> [] \<Longrightarrow>
    audience_check L (rc_audiences (fold (\<lambda>opt c. opt c) opts review_config0)) \<in> set (rc_extra (review_config_of L opts))"
  by (auto simp: review_config_of_def Let_def)

lemma review_config_pass:
  assumes "\<forall>opt \<in> set opts. review_option opt" "all_pass (rc_extra (review_config_of L opts)) None t"
  shows "review_opts_pass opts t"
proof -
  let ?c = "fold (\<lambda>opt c. opt c) opts review_config0"
  note f = review_config_fields [where opts = opts and L = L]
  have "all_pass cs None t" if "review_WithCheck cs \<in> set opts" for cs
    using review_fold_keeps [OF assms(1) that, of review_config0] f(3) assms(2)
    by (fastforce simp: review_within_def review_WithCheck_def all_pass_def)
  moreover have "f None (t_claims t) = None" if w: "review_WithClaimsCheck ccs \<in> set opts" "Some f \<in> set ccs" for ccs f
  proof -
    have in_all: "Some f \<in> set (rc_claimsChecks ?c)"
      using review_fold_keeps [OF assms(1) w(1), of review_config0] w(2) by (auto simp: review_within_def review_WithClaimsCheck_def)
    then have "CheckClaims L (rc_claimsChecks ?c) None t = None" using f(4) assms(2) by (fastforce simp: all_pass_def)
    with in_all show ?thesis by (simp add: CheckClaims_None)
  qed
  moreover have "set (rc_audiences ?c) = {a. \<exists>bs. WithAudiences bs \<in> set opts \<and> a \<in> set bs} \<and> overlaps (Audience (t_claims t)) (rc_audiences ?c)"
    if w: "WithAudiences as \<in> set opts" "as \<noteq> []" for as
  proof -
    have s: "set (rc_audiences ?c) = {a. \<exists>bs. WithAudiences bs \<in> set opts \<and> a \<in> set bs}"
      using review_fold_audiences [OF assms(1), of review_config0] by simp
    obtain a where "a \<in> set as" using w(2) by (cases as) auto
    with w(1) s have "rc_audiences ?c \<noteq> []" by auto
    with f(5) assms(2) have "all_pass [audience_check L (rc_audiences ?c)] None t" by (auto simp: all_pass_def)
    with s show ?thesis by (simp add: audience_check_pass)
  qed
  ultimately show ?thesis unfolding review_opts_pass_def by blast
qed

lemma serve_review_authenticated:
  assumes "serve_review L v cfg race decode order now ctx body = (st, out)" "rv_Authenticated (rv_Status out)"
  obtains review t where "decode (limited_body max_review_body body) = Some review" "rv_Token review \<noteq> []"
    "v now ctx (rv_Token review) (request_checks L cfg race (rv_Audiences review)) = Inr t"
    "rc_mapper cfg (order (t_claims t)) (t_claims t) = Inr (rv_User (rv_Status out))"
    "st = 200" "rv_Token out = []" "rv_Audiences out = rv_Audiences review"
    "rv_StatusAudiences (rv_Status out) = (if rv_Audiences review = [] then rc_audiences cfg else rv_Audiences review)"
  using assms
  by (auto simp: serve_review_def Let_def deniedReview_def ToMapClaims_def split: option.splits if_splits sum.splits)

lemma request_checks_pass:
  "all_pass (request_checks L cfg race as) None t \<longleftrightarrow> all_pass (rc_extra cfg) None t \<and>
    (as \<noteq> [] \<longrightarrow> overlaps (Audience (t_claims t)) (if overwritten cfg race then the (rr_other race) else as))"
  by (auto simp: request_checks_def all_pass_append audience_check_pass)

section \<open>The default mapper\<close>

definition usable_extra :: "(string \<times> gval) list \<Rightarrow> string \<Rightarrow> string list option" where
  "usable_extra kvs k =
    (if IsRegisteredClaim k \<or> k = KeyGroups then None else Option.bind (map_of kvs k) extra_value)"

lemma extra_loop_claim:
  "distinct (map fst kvs) \<Longrightarrow>
    fmlookup (extra_loop kvs extra) (''claim_'' @ k) =
      (case usable_extra kvs k of Some ev \<Rightarrow> Some ev | None \<Rightarrow> fmlookup extra (''claim_'' @ k))"
proof (induction kvs extra rule: extra_loop.induct)
  case (2 j v kvs extra)
  have d: "distinct (map fst kvs)" and j: "map_of kvs j = None"
    using "2.prems" by (auto simp: map_of_eq_None_iff)
  consider "IsRegisteredClaim j \<or> j = KeyGroups" | "\<not> (IsRegisteredClaim j \<or> j = KeyGroups)" "extra_value v = None"
    | ev where "\<not> (IsRegisteredClaim j \<or> j = KeyGroups)" "extra_value v = Some ev" by (cases "extra_value v") auto
  then show ?case
  proof cases
    case 1
    then show ?thesis using "2.IH"(1) [OF 1 d] by (auto simp: usable_extra_def)
  next
    case 2
    then show ?thesis using "2.IH"(2) [OF 2 d] j by (auto simp: usable_extra_def)
  next
    case (3 ev)
    then show ?thesis using "2.IH"(3) [OF 3 d] j by (auto simp: usable_extra_def split: option.split)
  qed
qed (simp add: usable_extra_def)

lemma extra_loop_other: "(\<forall>k. x \<noteq> ''claim_'' @ k) \<Longrightarrow> fmlookup (extra_loop kvs extra) x = fmlookup extra x"
  by (induction kvs extra rule: extra_loop.induct) (auto split: option.splits)

text \<open>The identity the claims stand for, whatever the order of the loop.\<close>

definition mapped_user :: "mapclaims \<Rightarrow> user_info \<Rightarrow> bool" where
  "mapped_user c u \<longleftrightarrow>
    Subject c = Inr (tr_Username u) \<and>
    tr_UID u = (case ID c of Inr j \<Rightarrow> j | Inl _ \<Rightarrow> []) \<and>
    tr_Groups u = (case Groups c of Inr gs \<Rightarrow> gs | Inl _ \<Rightarrow> []) \<and>
    fmlookup (tr_Extra u) ''aud'' = (case Audience c of Inr a \<Rightarrow> Some a | Inl _ \<Rightarrow> None) \<and>
    (\<forall>k. fmlookup (tr_Extra u) (''claim_'' @ k) =
      (if IsRegisteredClaim k \<or> k = KeyGroups then None else Option.bind (fmlookup c k) extra_value)) \<and>
    (\<forall>x. x \<noteq> ''aud'' \<and> (\<forall>k. x \<noteq> ''claim_'' @ k) \<longrightarrow> fmlookup (tr_Extra u) x = None)"

lemma default_mapper_user:
  assumes "distinct (map fst order)" "fmap_of_list order = c" "DefaultUserInfoMapper order c = Inr u"
  shows "mapped_user c u"
proof -
  let ?e = "case Audience c of Inr a \<Rightarrow> fmupd ''aud'' a fmempty | Inl _ \<Rightarrow> fmempty"
  have x: "tr_Extra u = extra_loop order ?e" using assms(3) by (auto simp: DefaultUserInfoMapper_def Let_def split: if_splits)
  have e: "fmlookup ?e y = (if y = ''aud'' then (case Audience c of Inr a \<Rightarrow> Some a | Inl _ \<Rightarrow> None) else None)" for y
    by (cases "Audience c") auto
  have "fmlookup c k = map_of order k" for k by (simp add: assms(2) [symmetric] fmlookup_of_list)
  then have "fmlookup (tr_Extra u) (''claim_'' @ k) =
      (if IsRegisteredClaim k \<or> k = KeyGroups then None else Option.bind (fmlookup c k) extra_value)" for k
    unfolding x extra_loop_claim [OF assms(1)] e usable_extra_def by (auto split: option.split)
  moreover have "fmlookup (tr_Extra u) y = fmlookup ?e y" if "\<forall>k. y \<noteq> ''claim_'' @ k" for y
    unfolding x by (rule extra_loop_other [OF that])
  moreover have "Subject c = Inr (tr_Username u)"
    using assms(3) by (auto simp: DefaultUserInfoMapper_def Let_def split: if_splits sum.splits)
  moreover have "tr_UID u = (case ID c of Inr j \<Rightarrow> j | Inl _ \<Rightarrow> [])" "tr_Groups u = (case Groups c of Inr gs \<Rightarrow> gs | Inl _ \<Rightarrow> [])"
    using assms(3) by (auto simp: DefaultUserInfoMapper_def Let_def split: if_splits)
  ultimately show ?thesis unfolding mapped_user_def e by simp
qed

lemma readString_nonempty: "readString c k = Inr s \<Longrightarrow> s \<noteq> []"
  by (auto simp: readString_def split: option.splits gval.splits if_splits)

lemma mapped_user_extra:
  assumes "mapped_user c u"
  shows "fmlookup (tr_Extra u) ''aud'' = (case Audience c of Inr a \<Rightarrow> Some a | Inl _ \<Rightarrow> None)"
    and "fmlookup (tr_Extra u) (''claim_'' @ k) =
      (if IsRegisteredClaim k \<or> k = KeyGroups then None else Option.bind (fmlookup c k) extra_value)"
  using assms unfolding mapped_user_def by (simp_all only: simp_thms)

lemma mapped_user_unique:
  assumes "mapped_user c u" "mapped_user c w"
  shows "u = w"
proof -
  have "fmlookup (tr_Extra u) x = fmlookup (tr_Extra w) x" for x
  proof (cases "x = ''aud'' \<or> (\<exists>k. x = ''claim_'' @ k)")
    case True
    then show ?thesis
      by (elim disjE exE) (simp_all only: mapped_user_extra [OF assms(1)] mapped_user_extra [OF assms(2)])
  next
    case False
    then have "fmlookup (tr_Extra z) x = None" if "mapped_user c z" for z
    proof -
      have "\<forall>x. x \<noteq> ''aud'' \<and> (\<forall>k. x \<noteq> ''claim_'' @ k) \<longrightarrow> fmlookup (tr_Extra z) x = None"
        using that unfolding mapped_user_def by (elim conjE)
      from spec [OF this, of x] False show ?thesis by (simp only: de_Morgan_disj not_ex simp_thms)
    qed
    then show ?thesis using assms by simp
  qed
  then have "tr_Extra u = tr_Extra w" by (rule fmap_ext)
  then show ?thesis using assms by (intro user_info.equality) (auto simp: mapped_user_def)
qed

section \<open>Properties\<close>


definition sub_token :: token where
  "sub_token = demo_token (fmupd KeySubject (VString ''me'') fmempty)"

definition demo_review :: token_review where
  "demo_review = \<lparr>rv_Token = ''t'', rv_Audiences = [],
     rv_Status = \<lparr>rv_Authenticated = False, rv_User = no_user, rv_StatusAudiences = [], rv_Error = []\<rparr>\<rparr>"

lemma Verify_sub: "Verify (demo_lib sub_token) (demo_verifier []) 0 None ''t'' [] = Inr sub_token"
proof -
  have "parseWithClaims (demo_lib sub_token) (buildParser (demo_base [] [''EdDSA''])) 0 ''t''
      (public_key_func SigningMethodEdDSA demo_pub) = Inr sub_token"
    by (simp add: demo_lib_def checked_parse_def sub_token_def demo_token_def method_allowed_def buildParser_def method_consts
      public_key_func_def asymmetric_def date_validator_def demo_base_def key_defs)
  then show ?thesis using trim_t by (simp add: Verify_def verify_with_Inr demo_verifier_def all_pass_def demo_base_def)
qed

lemma sorted_order: "distinct (map fst (sorted_list_of_fmap c)) \<and> fmap_of_list (sorted_list_of_fmap c) = (c :: mapclaims)"
proof
  show "distinct (map fst (sorted_list_of_fmap c))" by (simp add: sorted_list_of_fmap_def comp_def sorted_list_of_fset.rep_eq)
  show "fmap_of_list (sorted_list_of_fmap c) = c" by (rule fmap_ext) (simp add: fmlookup_of_list)
qed

text \<open>A review that asks for the audience of the token, on a handler whose check list is shared with another review.\<close>

definition aud_token :: token where
  "aud_token = demo_token (fmupd KeyAudience (VString ''api'') (fmupd KeySubject (VString ''me'') fmempty))"

lemma Verify_aud: "Verify (demo_lib aud_token) (demo_verifier []) 0 None ''t'' [] = Inr aud_token"
proof -
  have "parseWithClaims (demo_lib aud_token) (buildParser (demo_base [] [''EdDSA''])) 0 ''t''
      (public_key_func SigningMethodEdDSA demo_pub) = Inr aud_token"
    by (simp add: demo_lib_def checked_parse_def aud_token_def demo_token_def method_allowed_def buildParser_def method_consts
      public_key_func_def asymmetric_def date_validator_def demo_base_def key_defs)
  then show ?thesis using trim_t by (simp add: Verify_def verify_with_Inr demo_verifier_def all_pass_def demo_base_def)
qed

lemma aud_token_audience: "overlaps (Audience (t_claims aud_token)) [''api'']"
proof -
  have "Split ''api'' (CHR '','') = [''api'']" by code_simp
  then show ?thesis by (simp add: overlaps_def aud_token_def demo_token_def Audience_def readStringSlice_def)
qed


text \<open>The identity does not depend on the order in which Go iterates the claims: two iterations of the same
  claims give the same user, or both fail, and they fail exactly when the subject cannot be read.\<close>

theorem user_mapping_order_independent:
  assumes "distinct (map fst xs)" "distinct (map fst ys)" "fmap_of_list xs = c" "fmap_of_list ys = c"
  shows "DefaultUserInfoMapper xs c = DefaultUserInfoMapper ys c \<and>
    (isl (DefaultUserInfoMapper xs c) \<longleftrightarrow> isl (Subject c))"
proof -
  have fails: "DefaultUserInfoMapper zs c = Inl [ErrInvalidClaims] \<longleftrightarrow> isl (Subject c)" for zs
    by (auto simp: DefaultUserInfoMapper_def Let_def Subject_def readString_def elems_eq_Nil
        split: if_splits sum.splits option.splits gval.splits)
  have e: "DefaultUserInfoMapper zs c = Inl e \<Longrightarrow> e = [ErrInvalidClaims]" for zs e
    by (auto simp: DefaultUserInfoMapper_def Let_def split: if_splits)
  show ?thesis
  proof (cases "DefaultUserInfoMapper xs c")
    case (Inl d)
    then show ?thesis using fails e by (metis isl_def)
  next
    case (Inr u)
    then obtain w where w: "DefaultUserInfoMapper ys c = Inr w"
      using fails e by (metis Inl_Inr_False obj_sumE)
    have "u = w" using default_mapper_user [OF assms(1,3) Inr] default_mapper_user [OF assms(2,4) w] by (rule mapped_user_unique)
    then show ?thesis using Inr w fails by (metis Inl_Inr_False isl_def)
  qed
qed

theorem user_mapping_order_independent_witness:
  "DefaultUserInfoMapper [(''a'', VString ''1''), (''b'', VString ''2'')] (fmap_of_list [(''a'', VString ''1''), (''b'', VString ''2'')]) =
   DefaultUserInfoMapper [(''b'', VString ''2''), (''a'', VString ''1'')] (fmap_of_list [(''a'', VString ''1''), (''b'', VString ''2'')])"
proof -
  have "fmap_of_list [(''b'', VString ''2''), (''a'', VString ''1'')] = fmap_of_list [(''a'', VString ''1''), (''b'', VString ''2'')]"
    by (rule fmap_ext) (auto simp: fmlookup_of_list)
  then show ?thesis
    using user_mapping_order_independent
      [of "[(''a'', VString ''1''), (''b'', VString ''2'')]" "[(''b'', VString ''2''), (''a'', VString ''1'')]"] by simp
qed

text \<open>Two concurrent reviews share the check list of the handler: when its backing array has room, the first
  request runs the audience check of the second one in place of its own; when it is full, or nobody
  else appends, each request runs its own.\<close>

theorem concurrent_reviews_share_checks:
  assumes "sl_len extra \<le> sl_cap extra" "length (h (sl_array extra)) = sl_cap extra"
    "fresh1 \<noteq> sl_array extra" "fresh2 \<noteq> sl_array extra" "fresh1 \<noteq> fresh2"
  shows "first_request_checks fresh1 fresh2 own other extra h =
    slice_elems h extra @ [if sl_len extra < sl_cap extra \<and> other \<noteq> None then the other else own]"
  using assms
  by (auto simp: first_request_checks_def go_append_def slice_elems_def take_Suc_conv_app_nth nth_append split: option.split)

text \<open>So the checks of a request are what the shared slice holds behind its back.\<close>

lemma request_checks_slice:
  assumes "sl_len extra \<le> sl_cap extra" "length (h (sl_array extra)) = sl_cap extra"
    "fresh1 \<noteq> sl_array extra" "fresh2 \<noteq> sl_array extra" "fresh1 \<noteq> fresh2"
    "slice_elems h extra = rc_extra cfg" "rc_extra cfg = [] \<longrightarrow> sl_cap extra = 0" "as \<noteq> []"
  shows "request_checks L cfg \<lparr>rr_spare = sl_len extra < sl_cap extra, rr_other = other\<rparr> as =
    first_request_checks fresh1 fresh2 (audience_check L as) (map_option (audience_check L) other) extra h"
  using assms(6-8) concurrent_reviews_share_checks [where h = h and extra = extra and own = "audience_check L as"
    and other = "map_option (audience_check L) other", OF assms(1-5)]
  by (cases other) (auto simp: request_checks_def overwritten_def)

theorem concurrent_reviews_share_checks_witness:
  "first_request_checks 1 2 ''mine'' (Some ''other'') \<lparr>sl_array = 0, sl_len = 3, sl_cap = 4\<rparr> (\<lambda>_. [''a'', ''b'', ''c'', []]) = [''a'', ''b'', ''c'', ''other'']"
  using concurrent_reviews_share_checks [of "\<lparr>sl_array = 0, sl_len = 3, sl_cap = 4\<rparr>" "\<lambda>_. [''a'', ''b'', ''c'', []]" 1 2 "''mine''" "Some ''other''"]
  by (simp add: slice_elems_def)

end
