(* ===== verification/Admission.thy ===== *)
theory Admission
  imports Go_Strings
begin

text \<open>
  Packages \<open>k8s/api/v1alpha1\<close> (the \<open>JWTRequest\<close> resource) and \<open>k8s/admission\<close> (the admission policy and
  its webhook). Errors of the policy are denial reasons; the JSON decoders of the webhook are
  arguments. The extra claims of a request are an association list with distinct keys in the order
  the map is iterated.
\<close>

section \<open>The JWTRequest resource\<close>

record condition =
  c_Type :: string
  c_Status :: bool
  c_Reason :: string
  c_Message :: string
  c_LastTransitionTime :: int
  c_ObservedGeneration :: int

record spec =
  SecretName :: string
  Subject :: string
  Issuer :: string
  Audience :: "string list"
  Groups :: "string list"
  Roles :: "string list"
  Entitlements :: "string list"
  ExtraClaims :: "(string \<times> string) list"
  ExpiresIn :: string
  RefreshThreshold :: "rat option"

record status =
  st_SecretName :: string
  LastMintedAt :: "int option"
  ExpiresAt :: "int option"
  JTI :: string
  ObservedGeneration :: int
  Conditions :: "condition list"

record jwt_request =
  jr_Namespace :: string
  jr_Name :: string
  jr_Generation :: int
  jr_Spec :: spec
  jr_Status :: status

section \<open>The policy\<close>

record user_info =
  Username :: string
  ui_Groups :: "string list"

datatype denial =
    DenyNil
  | DenySubject string string
  | DenyGroup string
  | DenyDefault string
  | DenyValue string string
  | DenyDecode

record self_only_policy =
  AllowedAudiences :: "string list"
  AllowedEntitlements :: "string list"
  AllowedRoles :: "string list"
  AllowedExtraClaimKeys :: "string list"
  AdminUsers :: "string list"
  AdminGroups :: "string list"

type_synonym policy = "user_info \<Rightarrow> jwt_request option \<Rightarrow> denial option"

definition AllowAny :: string where "AllowAny = ''*''"

definition stringSet :: "string list \<Rightarrow> string set" where
  "stringSet s = set (filter (\<lambda>v. v \<noteq> []) (map TrimSpace s))"

definition containsString :: "string list \<Rightarrow> string \<Rightarrow> bool" where
  "containsString s v = list_ex (\<lambda>e. e = v) s"

definition isAdmin :: "self_only_policy \<Rightarrow> user_info \<Rightarrow> bool" where
  "isAdmin p requester \<longleftrightarrow>
    list_ex (\<lambda>u. u = Username requester) (AdminUsers p) \<or>
    (AdminGroups p \<noteq> [] \<and> list_ex (\<lambda>g. g \<in> stringSet (ui_Groups requester)) (AdminGroups p))"

definition checkAllowedList :: "string \<Rightarrow> string list \<Rightarrow> string list \<Rightarrow> denial option" where
  "checkAllowedList field requested allowed =
    (if requested = [] then None
     else if containsString allowed AllowAny then None
     else if allowed = [] then Some (DenyDefault field)
     else map_option (DenyValue field) (find (\<lambda>r. r \<notin> stringSet allowed) requested))"

definition checkAllowedKeys :: "string \<Rightarrow> (string \<times> 'v) list \<Rightarrow> string list \<Rightarrow> denial option" where
  "checkAllowedKeys field requested allowed =
    (if requested = [] then None
     else if containsString allowed AllowAny then None
     else if allowed = [] then Some (DenyDefault field)
     else map_option (DenyValue field) (find (\<lambda>k. k \<notin> stringSet allowed) (map fst requested)))"

fun first_denial :: "denial option list \<Rightarrow> denial option" where
  "first_denial [] = None"
| "first_denial (None # ds) = first_denial ds"
| "first_denial (Some d # ds) = Some d"

definition Allow :: "self_only_policy \<Rightarrow> policy" where
  "Allow p requester jr =
    (case jr of
       None \<Rightarrow> Some DenyNil
     | Some r \<Rightarrow>
         let s = jr_Spec r in
         if isAdmin p requester then None
         else if Subject s \<noteq> [] \<and> Subject s \<noteq> Username requester
           then Some (DenySubject (Subject s) (Username requester))
         else (case find (\<lambda>g. g \<notin> stringSet (ui_Groups requester)) (Groups s) of
                 Some g \<Rightarrow> Some (DenyGroup g)
               | None \<Rightarrow>
                   first_denial
                     [checkAllowedList ''spec.audience'' (Audience s) (AllowedAudiences p),
                      checkAllowedList ''spec.entitlements'' (Entitlements s) (AllowedEntitlements p),
                      checkAllowedList ''spec.roles'' (Roles s) (AllowedRoles p),
                      checkAllowedKeys ''spec.extraClaims'' (ExtraClaims s) (AllowedExtraClaimKeys p)]))"

section \<open>The webhook\<close>

record admission_request =
  UID :: string
  ObjectRaw :: string
  UserInfo :: user_info

record admission_review =
  r_UID :: string
  r_Allowed :: bool
  r_Reason :: "denial option"

definition allowedReview :: "admission_request \<Rightarrow> admission_review" where
  "allowedReview req = \<lparr>r_UID = UID req, r_Allowed = True, r_Reason = None\<rparr>"

definition deniedReview :: "admission_request option \<Rightarrow> denial \<Rightarrow> admission_review" where
  "deniedReview req reason =
    \<lparr>r_UID = (case req of None \<Rightarrow> [] | Some q \<Rightarrow> UID q), r_Allowed = False, r_Reason = Some reason\<rparr>"

text \<open>
  \<open>Handler\<close>: the decoded review is an error or a review whose request may be absent. The result is the
  HTTP status and the review written.
\<close>

definition Handler ::
  "policy \<Rightarrow> (string \<Rightarrow> jwt_request option) \<Rightarrow> admission_request option option \<Rightarrow> int \<times> admission_review" where
  "Handler policy decodeObject review =
    (case review of
       None \<Rightarrow> (400, deniedReview None DenyDecode)
     | Some None \<Rightarrow> (400, deniedReview None DenyDecode)
     | Some (Some req) \<Rightarrow>
         (case decodeObject (ObjectRaw req) of
            None \<Rightarrow> (200, deniedReview (Some req) DenyDecode)
          | Some jr \<Rightarrow>
              (case policy (UserInfo req) (Some jr) of
                 Some d \<Rightarrow> (200, deniedReview (Some req) d)
               | None \<Rightarrow> (200, allowedReview req))))"

section \<open>The Policy interface\<close>

text \<open>What the webhook relies on: a policy never admits a missing object.\<close>

locale admission_policy =
  fixes allow :: policy
  assumes nil_denied: "allow u None \<noteq> None"
begin

lemma handler_allowed_iff:
  "r_Allowed (snd (Handler allow decode review)) \<longleftrightarrow>
    (\<exists>req jr. review = Some (Some req) \<and> decode (ObjectRaw req) = Some jr \<and> allow (UserInfo req) (Some jr) = None)"
  by (auto simp: Handler_def deniedReview_def allowedReview_def split: option.splits)

lemma handler_allowed_object:
  "r_Allowed (snd (Handler allow decode review)) \<Longrightarrow>
    \<exists>req. review = Some (Some req) \<and> allow (UserInfo req) (decode (ObjectRaw req)) = None \<and>
      decode (ObjectRaw req) \<noteq> None"
  unfolding handler_allowed_iff by auto

lemma handler_uid: "review = Some (Some req) \<Longrightarrow> r_UID (snd (Handler allow decode review)) = UID req"
  by (auto simp: Handler_def deniedReview_def allowedReview_def split: option.splits)

end

interpretation self_only: admission_policy "Allow p" for p
  by unfold_locales (simp add: Allow_def)

section \<open>The declarative policy\<close>

text \<open>A value counts as listed when it is not empty and is an entry up to the white space around the entry.\<close>

definition listed :: "string list \<Rightarrow> string \<Rightarrow> bool" where
  "listed entries v \<longleftrightarrow> v \<noteq> [] \<and> (\<exists>e \<in> set entries. TrimSpace e = v)"

definition allow_listed :: "string list \<Rightarrow> string list \<Rightarrow> bool" where
  "allow_listed requested allowed \<longleftrightarrow> AllowAny \<in> set allowed \<or> (\<forall>v \<in> set requested. listed allowed v)"

definition exempt :: "self_only_policy \<Rightarrow> user_info \<Rightarrow> bool" where
  "exempt p u \<longleftrightarrow> Username u \<in> set (AdminUsers p) \<or> (\<exists>g \<in> set (AdminGroups p). listed (ui_Groups u) g)"

definition permitted :: "self_only_policy \<Rightarrow> user_info \<Rightarrow> spec \<Rightarrow> bool" where
  "permitted p u s \<longleftrightarrow>
    Subject s \<in> {[], Username u} \<and> (\<forall>g \<in> set (Groups s). listed (ui_Groups u) g) \<and>
    allow_listed (Audience s) (AllowedAudiences p) \<and> allow_listed (Entitlements s) (AllowedEntitlements p) \<and>
    allow_listed (Roles s) (AllowedRoles p) \<and> allow_listed (map fst (ExtraClaims s)) (AllowedExtraClaimKeys p)"

text \<open>The package documentation word by word: a value must appear in its list.\<close>

definition appears :: "string list \<Rightarrow> string list \<Rightarrow> bool" where
  "appears requested allowed \<longleftrightarrow> AllowAny \<in> set allowed \<or> set requested \<subseteq> set allowed"

definition documented :: "self_only_policy \<Rightarrow> user_info \<Rightarrow> spec \<Rightarrow> bool" where
  "documented p u s \<longleftrightarrow>
    Username u \<in> set (AdminUsers p) \<or> set (AdminGroups p) \<inter> set (ui_Groups u) \<noteq> {} \<or>
    (Subject s \<in> {[], Username u} \<and> set (Groups s) \<subseteq> set (ui_Groups u) \<and>
     appears (Roles s) (AllowedRoles p) \<and> appears (Audience s) (AllowedAudiences p) \<and>
     appears (Entitlements s) (AllowedEntitlements p) \<and> appears (map fst (ExtraClaims s)) (AllowedExtraClaimKeys p))"

definition plain_entries :: "string list \<Rightarrow> bool" where
  "plain_entries entries \<longleftrightarrow> (\<forall>e \<in> set entries. e \<noteq> [] \<and> TrimSpace e = e)"

definition plain_lists :: "self_only_policy \<Rightarrow> user_info \<Rightarrow> bool" where
  "plain_lists p u \<longleftrightarrow> plain_entries (ui_Groups u) \<and> plain_entries (AllowedAudiences p) \<and> plain_entries (AllowedEntitlements p) \<and>
    plain_entries (AllowedRoles p) \<and> plain_entries (AllowedExtraClaimKeys p)"

lemma stringSet_listed: "v \<in> stringSet entries \<longleftrightarrow> listed entries v"
  by (auto simp: stringSet_def listed_def)

lemma listed_plain: "plain_entries entries \<Longrightarrow> listed entries v \<longleftrightarrow> v \<in> set entries"
  by (force simp: listed_def plain_entries_def)

lemma listed_Nil [simp]: "\<not> listed [] v"
  by (simp add: listed_def)

lemma stringSet_Nil [simp]: "stringSet [] = {}"
  by (simp add: stringSet_def)

lemma checkAllowedList_None: "checkAllowedList f requested allowed = None \<longleftrightarrow> allow_listed requested allowed"
  by (auto simp: checkAllowedList_def allow_listed_def containsString_def list_ex_iff find_None_iff stringSet_listed)

lemma checkAllowedKeys_list: "checkAllowedKeys f requested allowed = checkAllowedList f (map fst requested) allowed"
  by (simp add: checkAllowedKeys_def checkAllowedList_def)

lemma first_denial_None: "first_denial ds = None \<longleftrightarrow> (\<forall>d \<in> set ds. d = None)"
  by (induction ds rule: first_denial.induct) auto

lemma Allow_None: "Allow p u (Some r) = None \<longleftrightarrow> isAdmin p u \<or> permitted p u (jr_Spec r)"
proof -
  have "find (\<lambda>g. g \<notin> stringSet (ui_Groups u)) (Groups (jr_Spec r)) = None \<longleftrightarrow>
      (\<forall>g \<in> set (Groups (jr_Spec r)). listed (ui_Groups u) g)"
    by (auto simp: find_None_iff stringSet_listed)
  then show ?thesis
    by (auto simp: Allow_def Let_def permitted_def first_denial_None checkAllowedList_None checkAllowedKeys_list
        split: option.splits)
qed

lemma isAdmin_exempt: "isAdmin p u \<longleftrightarrow> exempt p u"
  by (auto simp: isAdmin_def exempt_def list_ex_iff stringSet_listed)

lemma permitted_documented:
  assumes "plain_lists p u"
  shows "exempt p u \<or> permitted p u s \<longleftrightarrow> documented p u s"
proof -
  have "listed (ui_Groups u) g \<longleftrightarrow> g \<in> set (ui_Groups u)" for g using assms listed_plain by (simp add: plain_lists_def)
  moreover have "allow_listed xs ys \<longleftrightarrow> appears xs ys" if "plain_entries ys" for xs ys
    using listed_plain [OF that] by (auto simp: allow_listed_def appears_def)
  ultimately show ?thesis using assms by (auto simp: exempt_def permitted_def documented_def plain_lists_def)
qed

section \<open>Properties\<close>

text \<open>C18. What the self-only policy admits: everything from an administrator (a requester named in the admin users
  or listed under an admin group), and from anyone else only a subject that is empty or the requester's
  own name, groups listed among the requester's, and audiences, entitlements, roles and extra claim keys
  listed in the allow-lists, where "*" allows any value and an empty list allows none; a missing request
  is refused. Listed means non-empty and equal to an entry up to the white space around that entry. Where
  the requester's groups and the allow-lists hold no blank and no padded entry, this is exactly the
  package documentation, by which a value must appear in its list.\<close>

theorem self_only_policy_correct:
  "(Allow p u (Some r) = None \<longleftrightarrow> exempt p u \<or> permitted p u (jr_Spec r)) \<and>
   Allow p u None \<noteq> None \<and> (allow_listed requested [] \<longleftrightarrow> requested = []) \<and>
   (plain_lists p u \<longrightarrow> (Allow p u (Some r) = None \<longleftrightarrow> documented p u (jr_Spec r)))"
proof (intro conjI impI)
  show a: "Allow p u (Some r) = None \<longleftrightarrow> exempt p u \<or> permitted p u (jr_Spec r)" unfolding Allow_None isAdmin_exempt ..
  show "Allow p u None \<noteq> None" by (rule self_only.nil_denied)
  show "allow_listed requested [] \<longleftrightarrow> requested = []" by (auto simp: allow_listed_def)
  show "Allow p u (Some r) = None \<longleftrightarrow> documented p u (jr_Spec r)" if "plain_lists p u"
    using a permitted_documented [OF that] by blast
qed

abbreviation groups_spec :: "string list \<Rightarrow> spec" where
  "groups_spec gs \<equiv> \<lparr>SecretName = ''s'', Subject = [], Issuer = [], Audience = [], Groups = gs, Roles = [], Entitlements = [],
     ExtraClaims = [], ExpiresIn = [], RefreshThreshold = None\<rparr>"

abbreviation groups_request :: "string list \<Rightarrow> jwt_request" where
  "groups_request gs \<equiv> \<lparr>jr_Namespace = ''ns'', jr_Name = ''r'', jr_Generation = 1, jr_Spec = groups_spec gs,
     jr_Status = \<lparr>st_SecretName = [], LastMintedAt = None, ExpiresAt = None, JTI = [], ObservedGeneration = 0, Conditions = []\<rparr>\<rparr>"

abbreviation empty_policy :: self_only_policy where
  "empty_policy \<equiv> \<lparr>AllowedAudiences = [], AllowedEntitlements = [], AllowedRoles = [], AllowedExtraClaimKeys = [],
     AdminUsers = [], AdminGroups = []\<rparr>"

theorem self_only_policy_correct_witness:
  "Allow empty_policy \<lparr>Username = ''eve'', ui_Groups = [''dev'']\<rparr> (Some (groups_request [''dev''])) = None \<and>
   Allow empty_policy \<lparr>Username = ''eve'', ui_Groups = [''dev'']\<rparr> (Some (groups_request [''ops''])) \<noteq> None"
proof -
  let ?u = "\<lparr>Username = ''eve'', ui_Groups = [''dev'']\<rparr>"
  have "TrimSpace ''dev'' = ''dev''" by code_simp
  then have "plain_lists empty_policy ?u" by (simp add: plain_lists_def plain_entries_def)
  then have "Allow empty_policy ?u (Some r) = None \<longleftrightarrow> documented empty_policy ?u (jr_Spec r)" for r
    using self_only_policy_correct [of empty_policy ?u r] by blast
  then show ?thesis by (simp add: documented_def appears_def)
qed

text \<open>A padded entry lists its trimmed value, so a member of a group whose name has white space around it is
  admitted to the group of the bare name, in which the documentation does not have it appear.\<close>

lemma padded_group_admitted:
  "Allow empty_policy \<lparr>Username = ''eve'', ui_Groups = ['' dev'']\<rparr> (Some (groups_request [''dev''])) = None \<and>
   \<not> documented empty_policy \<lparr>Username = ''eve'', ui_Groups = ['' dev'']\<rparr> (groups_spec [''dev''])"
proof -
  have "TrimSpace '' dev'' = ''dev''" by code_simp
  then show ?thesis by (simp add: Allow_None permitted_def listed_def allow_listed_def documented_def)
qed

text \<open>The admission webhook answers allowed exactly when the review and the object decode and the policy
  admits the object for the user of the review; a missing request or an undecodable object is denied,
  and every answer to a request carries its UID.\<close>

theorem admission_webhook_correct:
  "(r_Allowed (snd (Handler (Allow p) decode review)) \<longleftrightarrow>
     (\<exists>req jr. review = Some (Some req) \<and> decode (ObjectRaw req) = Some jr \<and>
       (isAdmin p (UserInfo req) \<or> permitted p (UserInfo req) (jr_Spec jr)))) \<and>
   (\<forall>req. review = Some (Some req) \<longrightarrow>
     r_UID (snd (Handler (Allow p) decode review)) = UID req \<and> fst (Handler (Allow p) decode review) = 200)"
proof (intro conjI allI impI)
  show "r_Allowed (snd (Handler (Allow p) decode review)) \<longleftrightarrow>
     (\<exists>req jr. review = Some (Some req) \<and> decode (ObjectRaw req) = Some jr \<and>
       (isAdmin p (UserInfo req) \<or> permitted p (UserInfo req) (jr_Spec jr)))"
    unfolding self_only.handler_allowed_iff Allow_None ..
  fix req
  assume "review = Some (Some req)"
  then show "r_UID (snd (Handler (Allow p) decode review)) = UID req" "fst (Handler (Allow p) decode review) = 200"
    by (auto simp: self_only.handler_uid) (auto simp: Handler_def split: option.splits)
qed

theorem admission_webhook_correct_witness:
  "\<forall>p0. r_UID (snd (Handler (Allow p0) (\<lambda>_. None) (Some (Some \<lparr>UID = ''u'', ObjectRaw = [], UserInfo = \<lparr>Username = [], ui_Groups = []\<rparr>\<rparr>)))) = ''u''"
  using admission_webhook_correct by simp

end
