(* ===== verification/Controller.thy ===== *)
theory Controller
  imports Signing_Facts Admission
begin

text \<open>
  Package \<open>k8s/controller\<close>: the reconciler that mints the token of a \<open>JWTRequest\<close> into a Secret. The API
  server is an explicit store of requests and secrets; \<open>api\<close> holds the error each call of the client
  meets in a run, if any, and the owner reference helper. The signer, the JSON decoder of the extra
  claims and the text of an error are arguments, and so is every clock read.
\<close>

section \<open>The API server\<close>

record secret =
  sec_data :: "(string, string) fmap"
  sec_annotations :: "(string, string) fmap"
  sec_type :: string
  sec_owner :: "string option"

record cluster =
  requests :: "(string \<times> string, jwt_request) fmap"
  secrets :: "(string \<times> string, secret) fmap"

record api =
  api_get :: "gerror option"
  api_getSecret :: "gerror option"
  api_upsert :: "gerror option"
  api_status :: "gerror option"
  api_setOwner :: "jwt_request \<Rightarrow> secret \<Rightarrow> secret result"
  api_formatTime :: "gtime \<Rightarrow> string"

type_synonym signer_fn = "ctx_err \<Rightarrow> mapclaims \<Rightarrow> headers \<Rightarrow> (string \<times> token) result"

record reconciler =
  rc_Signer :: signer_fn
  rc_DefaultExpiration :: duration
  rc_unmarshal :: "string \<Rightarrow> gval option"
  rc_errText :: "gerror \<Rightarrow> string"

definition SecretDataKey :: string where "SecretDataKey = ''token''"
definition DefaultRefreshThreshold :: rat where "DefaultRefreshThreshold = 1 / 4"
definition SecretTypeOpaque :: string where "SecretTypeOpaque = ''Opaque''"

definition ConditionReady :: string where "ConditionReady = ''Ready''"
definition ConditionMinted :: string where "ConditionMinted = ''Minted''"
definition ConditionClaimsAccepted :: string where "ConditionClaimsAccepted = ''ClaimsAccepted''"
definition ReasonMinted :: string where "ReasonMinted = ''Minted''"
definition ReasonRefreshed :: string where "ReasonRefreshed = ''Refreshed''"
definition ReasonMintFailed :: string where "ReasonMintFailed = ''MintFailed''"
definition ReasonAllClaimsAccepted :: string where "ReasonAllClaimsAccepted = ''AllClaimsAccepted''"
definition ReasonReservedClaimsDropped :: string where "ReasonReservedClaimsDropped = ''ReservedClaimsDropped''"
definition ReasonInvalidClaimValues :: string where "ReasonInvalidClaimValues = ''InvalidClaimValues''"

lemmas condition_consts = ConditionReady_def ConditionMinted_def ConditionClaimsAccepted_def

section \<open>Conditions\<close>

fun replace_condition :: "gtime \<Rightarrow> int \<Rightarrow> string \<Rightarrow> bool \<Rightarrow> string \<Rightarrow> string \<Rightarrow> condition list \<Rightarrow> condition list" where
  "replace_condition now gen t st rs msg [] =
    [\<lparr>c_Type = t, c_Status = st, c_Reason = rs, c_Message = msg, c_LastTransitionTime = now, c_ObservedGeneration = gen\<rparr>]"
| "replace_condition now gen t st rs msg (c # cs) =
    (if c_Type c \<noteq> t then c # replace_condition now gen t st rs msg cs
     else \<lparr>c_Type = t, c_Status = st, c_Reason = rs, c_Message = msg,
           c_LastTransitionTime = (if c_Status c \<noteq> st then now else c_LastTransitionTime c),
           c_ObservedGeneration = gen\<rparr> # cs)"

definition setCondition :: "gtime \<Rightarrow> string \<Rightarrow> bool \<Rightarrow> string \<Rightarrow> string \<Rightarrow> jwt_request \<Rightarrow> jwt_request" where
  "setCondition now t st rs msg jr =
    jr\<lparr>jr_Status := (jr_Status jr)\<lparr>Conditions :=
      replace_condition now (jr_Generation jr) t st rs msg (Conditions (jr_Status jr))\<rparr>\<rparr>"

definition setMinted :: "gtime \<Rightarrow> gtime \<Rightarrow> bool \<Rightarrow> jwt_request \<Rightarrow> jwt_request" where
  "setMinted t1 t2 fresh jr =
    (let rs = (if fresh then ReasonMinted else ReasonRefreshed)
     in setCondition t2 ConditionMinted True rs ''token minted''
          (setCondition t1 ConditionReady True rs ''secret up to date'' jr))"

definition setFailed :: "gtime \<Rightarrow> gtime \<Rightarrow> string \<Rightarrow> jwt_request \<Rightarrow> jwt_request" where
  "setFailed t1 t2 msg jr =
    setCondition t2 ConditionMinted False ReasonMintFailed msg
      (setCondition t1 ConditionReady False ReasonMintFailed msg jr)"

text \<open>The rejected extra claims: reserved keys and keys whose value is not valid JSON, each sorted.\<close>

record mint_result =
  dropped_reserved :: "string list"
  dropped_invalid :: "string list"

definition setClaimsAccepted :: "gtime \<Rightarrow> mint_result \<Rightarrow> jwt_request \<Rightarrow> jwt_request" where
  "setClaimsAccepted now res jr =
    (let reserved = dropped_reserved res; invalid = dropped_invalid res in
     if reserved = [] \<and> invalid = []
     then setCondition now ConditionClaimsAccepted True ReasonAllClaimsAccepted ''all extraClaims used'' jr
     else
       let p1 = (if reserved \<noteq> [] then [''reserved keys: '' @ Join reserved '', '' @ '' (set via dedicated spec fields)''] else []);
           p2 = (if invalid \<noteq> [] then [''invalid JSON values: '' @ Join invalid '', ''] else []);
           reason = (if invalid \<noteq> [] \<and> reserved = [] then ReasonInvalidClaimValues else ReasonReservedClaimsDropped)
       in setCondition now ConditionClaimsAccepted False reason
            (''ignored extraClaims '' @ [CHR 0xE2, CHR 0x80, CHR 0x94] @ '' '' @ Join (p1 @ p2) ''; '') jr)"

section \<open>Minting\<close>

fun extra_claims ::
  "(string \<Rightarrow> gval option) \<Rightarrow> (string \<times> string) list \<Rightarrow> mapclaims \<times> string list \<times> string list \<Rightarrow>
   mapclaims \<times> string list \<times> string list" where
  "extra_claims unmarshal [] acc = acc"
| "extra_claims unmarshal ((k, raw) # ecs) (c, reserved, invalid) =
    (if IsRegisteredClaim k then extra_claims unmarshal ecs (c, reserved @ [k], invalid)
     else (case unmarshal raw of
             None \<Rightarrow> extra_claims unmarshal ecs (c, reserved, invalid @ [k])
           | Some v \<Rightarrow> extra_claims unmarshal ecs (fmupd k v c, reserved, invalid)))"

definition spec_claims :: "spec \<Rightarrow> mapclaims" where
  "spec_claims s =
    (let c = fmempty;
         c = (if spec.Subject s \<noteq> [] then SetSubject c (spec.Subject s) else c);
         c = (if spec.Issuer s \<noteq> [] then SetIssuer c (spec.Issuer s) else c);
         c = (if spec.Audience s \<noteq> [] then SetAudience c (Slice (spec.Audience s)) else c);
         c = (if spec.Groups s \<noteq> [] then SetGroups c (Slice (spec.Groups s)) else c);
         c = (if spec.Roles s \<noteq> [] then SetRoles c (Slice (spec.Roles s)) else c);
         c = (if spec.Entitlements s \<noteq> [] then SetEntitlements c (Slice (spec.Entitlements s)) else c)
     in c)"

definition mint_claims :: "lib \<Rightarrow> (string \<Rightarrow> gval option) \<Rightarrow> gtime \<Rightarrow> duration \<Rightarrow> spec \<Rightarrow> mapclaims \<times> mint_result" where
  "mint_claims L unmarshal now d s =
    (case extra_claims unmarshal (ExtraClaims s) (spec_claims s, [], []) of
       (c, reserved, invalid) \<Rightarrow>
         (SetExpiresAt L c (time_Add now d), \<lparr>dropped_reserved = sort reserved, dropped_invalid = sort invalid\<rparr>))"

definition mint ::
  "lib \<Rightarrow> reconciler \<Rightarrow> gtime \<Rightarrow> ctx_err \<Rightarrow> jwt_request \<Rightarrow> duration \<Rightarrow> (string \<times> token) result \<times> mint_result" where
  "mint L r now ctx jr d =
    (case mint_claims L (rc_unmarshal r) now d (jr_Spec jr) of
       (c, res) \<Rightarrow> (rc_Signer r ctx c fmempty, res))"

section \<open>Refresh decisions\<close>

definition resolveExpiration :: "lib \<Rightarrow> string \<Rightarrow> duration \<Rightarrow> duration result" where
  "resolveExpiration L s defaultExp =
    (if s = [] then Inr (if defaultExp \<le> 0 then Hour else defaultExp)
     else (case parseDuration L s of
             None \<Rightarrow> Inl [ErrExternal ''time'']
           | Some d \<Rightarrow> if d \<le> 0 then Inl [] else Inr d))"

definition threshold_of :: "spec \<Rightarrow> rat" where
  "threshold_of s =
    (case RefreshThreshold s of
       Some t \<Rightarrow> if 0 < t \<and> t \<le> 1 then t else DefaultRefreshThreshold
     | None \<Rightarrow> DefaultRefreshThreshold)"

text \<open>\<open>time.Duration(float64(expiration) * threshold)\<close>.\<close>

definition cutoff :: "lib \<Rightarrow> duration \<Rightarrow> rat \<Rightarrow> duration" where
  "cutoff L d threshold =
    (let f = Fin (rnd64 (rnd64 (of_int d) * threshold))
     in case int64_of_float f of Some n \<Rightarrow> n | None \<Rightarrow> float_overflow_int L f)"

definition evaluateRefresh :: "lib \<Rightarrow> gtime \<Rightarrow> secret option \<Rightarrow> duration \<Rightarrow> rat \<Rightarrow> bool \<times> duration" where
  "evaluateRefresh L now sec d threshold =
    (case sec of
       None \<Rightarrow> (True, 0)
     | Some s \<Rightarrow>
         (case fmlookup (sec_data s) SecretDataKey of
            None \<Rightarrow> (True, 0)
          | Some tokenBytes \<Rightarrow>
              if tokenBytes = [] then (True, 0)
              else (case parseUnverified L tokenBytes of
                      Inl _ \<Rightarrow> (True, 0)
                    | Inr tok \<Rightarrow>
                        (case Claims.ExpiresAt L (t_claims tok) of
                           Inl _ \<Rightarrow> (True, 0)
                         | Inr ex \<Rightarrow>
                             let remaining = time_Sub ex now; co = cutoff L d threshold in
                             if remaining \<le> co then (True, 0) else (False, wrap64 (remaining - co))))))"

definition nextRefresh :: "lib \<Rightarrow> gtime \<Rightarrow> gtime \<Rightarrow> duration \<Rightarrow> rat \<Rightarrow> duration" where
  "nextRefresh L now ex d threshold =
    (let x = wrap64 (time_Sub ex now - cutoff L d threshold) in if x < Second then Second else x)"

section \<open>Secrets\<close>

definition empty_secret :: secret where
  "empty_secret = \<lparr>sec_data = fmempty, sec_annotations = fmempty, sec_type = [], sec_owner = None\<rparr>"

text \<open>
  \<open>CreateOrUpdate\<close> reads the object (an absent one starts empty), applies the closure and stores the
  result; an error of the closure or of the server leaves the store unchanged.
\<close>

definition upsertSecret :: "api \<Rightarrow> gtime \<Rightarrow> jwt_request \<Rightarrow> string \<Rightarrow> cluster \<Rightarrow> gerror option \<times> cluster" where
  "upsertSecret a now jr tok cl =
    (let key = (jr_Namespace jr, SecretName (jr_Spec jr));
         s0 = (case fmlookup (secrets cl) key of None \<Rightarrow> empty_secret | Some s \<Rightarrow> s);
         s1 = s0\<lparr>sec_annotations := fmupd ''jwtmint.io/mintedAt'' (api_formatTime a now) (sec_annotations s0),
                 sec_data := fmupd SecretDataKey tok (sec_data s0),
                 sec_type := SecretTypeOpaque\<rparr>
     in case api_setOwner a jr s1 of
          Inl e \<Rightarrow> (Some e, cl)
        | Inr s2 \<Rightarrow>
            (case api_upsert a of
               Some e \<Rightarrow> (Some e, cl)
             | None \<Rightarrow> (None, cl\<lparr>secrets := fmupd key s2 (secrets cl)\<rparr>)))"

text \<open>The Secret, or \<open>None\<close> when it does not exist; only another error of the server is an error.\<close>

definition getSecret :: "api \<Rightarrow> string \<Rightarrow> string \<Rightarrow> cluster \<Rightarrow> secret option result" where
  "getSecret a namespace name cl =
    (case api_getSecret a of Some e \<Rightarrow> Inl e | None \<Rightarrow> Inr (fmlookup (secrets cl) (namespace, name)))"

definition updateStatus :: "api \<Rightarrow> jwt_request \<Rightarrow> cluster \<Rightarrow> gerror option \<times> cluster" where
  "updateStatus a jr cl =
    (case api_status a of
       Some e \<Rightarrow> (Some e, cl)
     | None \<Rightarrow>
         (None, cl\<lparr>requests := (case fmlookup (requests cl) (jr_Namespace jr, jr_Name jr) of
            None \<Rightarrow> requests cl
          | Some old \<Rightarrow> fmupd (jr_Namespace jr, jr_Name jr) (old\<lparr>jr_Status := jr_Status jr\<rparr>) (requests cl))\<rparr>))"

section \<open>Reconciliation\<close>

record times =
  t_eval :: gtime
  t_mint :: gtime
  t_annot :: gtime
  t_now :: gtime
  t_ready :: gtime
  t_minted :: gtime
  t_accepted :: gtime
  t_next :: gtime

definition minted_status :: "lib \<Rightarrow> times \<Rightarrow> bool \<Rightarrow> token \<Rightarrow> mint_result \<Rightarrow> jwt_request \<Rightarrow> jwt_request" where
  "minted_status L t first tok res jr =
    (let mc = t_claims tok;
         ex = (case Claims.ExpiresAt L mc of Inr e \<Rightarrow> e | Inl _ \<Rightarrow> zero_time);
         jti = (case ID mc of Inr j \<Rightarrow> j | Inl _ \<Rightarrow> []);
         jr = jr\<lparr>jr_Status := (jr_Status jr)\<lparr>LastMintedAt := Some (t_now t), status.ExpiresAt := Some ex, status.JTI := jti,
                   st_SecretName := SecretName (jr_Spec jr), ObservedGeneration := jr_Generation jr\<rparr>\<rparr>
     in setClaimsAccepted (t_accepted t) res (setMinted (t_ready t) (t_minted t) first jr))"

definition Reconcile ::
  "lib \<Rightarrow> reconciler \<Rightarrow> api \<Rightarrow> times \<Rightarrow> ctx_err \<Rightarrow> string \<times> string \<Rightarrow> cluster \<Rightarrow> (duration \<times> gerror option) \<times> cluster" where
  "Reconcile L r a t ctx key cl =
    (case api_get a of
       Some e \<Rightarrow> ((0, Some e), cl)
     | None \<Rightarrow>
        (case fmlookup (requests cl) key of
           None \<Rightarrow> ((0, None), cl)
         | Some jr \<Rightarrow>
            let failed = (\<lambda>msg cl. case updateStatus a (setFailed (t_ready t) (t_minted t) msg jr) cl of
                                    (e, cl') \<Rightarrow> ((0, e), cl')) in
            if SecretName (jr_Spec jr) = [] then failed ''spec.secretName required'' cl
            else (case resolveExpiration L (ExpiresIn (jr_Spec jr)) (rc_DefaultExpiration r) of
               Inl e \<Rightarrow> failed (rc_errText r e) cl
             | Inr d \<Rightarrow>
                let threshold = threshold_of (jr_Spec jr) in
                (case getSecret a (jr_Namespace jr) (SecretName (jr_Spec jr)) cl of
                   Inl e \<Rightarrow> ((0, Some e), cl)
                 | Inr sec \<Rightarrow>
                    (case evaluateRefresh L (t_eval t) sec d threshold of
                       (needsRefresh, requeueAfter) \<Rightarrow>
                         if \<not> needsRefresh \<and> sec \<noteq> None
                         then (case updateStatus a (jr\<lparr>jr_Status := (jr_Status jr)\<lparr>st_SecretName := SecretName (jr_Spec jr)\<rparr>\<rparr>) cl of
                                 (e, cl') \<Rightarrow> ((requeueAfter, e), cl'))
                         else (case mint L r (t_mint t) ctx jr d of
                                 (Inl e, _) \<Rightarrow> failed (rc_errText r e) cl
                               | (Inr (signed, tok), res) \<Rightarrow>
                                   (case upsertSecret a (t_annot t) jr signed cl of
                                      (Some e, cl') \<Rightarrow> failed (rc_errText r e) cl'
                                    | (None, cl') \<Rightarrow>
                                        let jr' = minted_status L t (sec = None) tok res jr;
                                            ex = (case Claims.ExpiresAt L (t_claims tok) of Inr e \<Rightarrow> e | Inl _ \<Rightarrow> zero_time)
                                        in (case updateStatus a jr' cl' of
                                              (e, cl'') \<Rightarrow> ((nextRefresh L (t_next t) ex d threshold, e), cl''))))))))) "

end
