(* ===== verification/Controller_Facts.thy ===== *)
theory Controller_Facts
  imports Controller "HOL-Library.Multiset"
begin

text \<open>
  What the reconciler promises: which claims a mint passes to the signer and that the order of the
  extra claims does not matter, how conditions change, when a token is refreshed, and what a run
  leaves in the cluster.
\<close>

section \<open>Extra claims\<close>

definition usable :: "(string \<Rightarrow> gval option) \<Rightarrow> (string \<times> string) list \<Rightarrow> string \<Rightarrow> gval option" where
  "usable unmarshal ecs k =
    (if IsRegisteredClaim k then None else Option.bind (map_of ecs k) unmarshal)"

definition invalid_keys :: "(string \<Rightarrow> gval option) \<Rightarrow> (string \<times> string) list \<Rightarrow> string list" where
  "invalid_keys unmarshal ecs = map fst (filter (\<lambda>(k, raw). \<not> IsRegisteredClaim k \<and> unmarshal raw = None) ecs)"

lemma usable_Cons:
  "usable unmarshal ((k, raw) # ecs) j =
    (if j = k then (if IsRegisteredClaim k then None else unmarshal raw) else usable unmarshal ecs j)"
  by (simp add: usable_def)

lemma usable_None: "k \<notin> fst ` set ecs \<Longrightarrow> usable unmarshal ecs k = None"
  by (simp add: usable_def map_of_eq_None_iff [THEN iffD2])

lemma extra_claims_eq:
  "distinct (map fst ecs) \<Longrightarrow>
    (\<exists>c'. extra_claims unmarshal ecs (c, reserved, invalid) =
        (c', reserved @ filter IsRegisteredClaim (map fst ecs), invalid @ invalid_keys unmarshal ecs) \<and>
      (\<forall>k. fmlookup c' k = (case usable unmarshal ecs k of Some v \<Rightarrow> Some v | None \<Rightarrow> fmlookup c k)))"
proof (induction ecs arbitrary: c reserved invalid)
  case Nil
  then show ?case by (simp add: usable_def invalid_keys_def)
next
  case (Cons e ecs)
  obtain k raw where e: "e = (k, raw)" by (cases e)
  have ih: "\<exists>c'. extra_claims unmarshal ecs (d, rs, iv) =
        (c', rs @ filter IsRegisteredClaim (map fst ecs), iv @ invalid_keys unmarshal ecs) \<and>
      (\<forall>k. fmlookup c' k = (case usable unmarshal ecs k of Some v \<Rightarrow> Some v | None \<Rightarrow> fmlookup d k))" for d rs iv
    using Cons by simp
  have fresh: "usable unmarshal ecs k = None" using Cons.prems e by (intro usable_None) simp
  consider (reg) "IsRegisteredClaim k" | (inv) "\<not> IsRegisteredClaim k" "unmarshal raw = None"
    | (ok) v where "\<not> IsRegisteredClaim k" "unmarshal raw = Some v"
    by (cases "unmarshal raw") auto
  then show ?case
  proof cases
    case reg
    obtain c' where "extra_claims unmarshal ecs (c, reserved @ [k], invalid) =
        (c', (reserved @ [k]) @ filter IsRegisteredClaim (map fst ecs), invalid @ invalid_keys unmarshal ecs)"
      "\<forall>k. fmlookup c' k = (case usable unmarshal ecs k of Some v \<Rightarrow> Some v | None \<Rightarrow> fmlookup c k)"
      using ih by blast
    then show ?thesis using reg fresh by (intro exI [of _ c']) (simp add: e usable_Cons invalid_keys_def)
  next
    case inv
    obtain c' where "extra_claims unmarshal ecs (c, reserved, invalid @ [k]) =
        (c', reserved @ filter IsRegisteredClaim (map fst ecs), (invalid @ [k]) @ invalid_keys unmarshal ecs)"
      "\<forall>k. fmlookup c' k = (case usable unmarshal ecs k of Some v \<Rightarrow> Some v | None \<Rightarrow> fmlookup c k)"
      using ih by blast
    then show ?thesis using inv fresh by (intro exI [of _ c']) (simp add: e usable_Cons invalid_keys_def)
  next
    case ok
    obtain c' where "extra_claims unmarshal ecs (fmupd k v c, reserved, invalid) =
        (c', reserved @ filter IsRegisteredClaim (map fst ecs), invalid @ invalid_keys unmarshal ecs)"
      "\<forall>j. fmlookup c' j = (case usable unmarshal ecs j of Some v \<Rightarrow> Some v | None \<Rightarrow> fmlookup (fmupd k v c) j)"
      using ih by blast
    then show ?thesis using ok fresh
      by (intro exI [of _ c']) (simp add: e usable_Cons invalid_keys_def split: option.split)
  qed
qed

lemma usable_perm:
  assumes "distinct (map fst xs)" "mset xs = mset ys"
  shows "usable unmarshal xs = usable unmarshal ys"
proof -
  have "distinct (map fst ys)" using assms by (metis mset_eq_imp_distinct_iff mset_map)
  then have "map_of xs = map_of ys"
    using assms by (metis map_of_inject_set mset_eq_setD)
  then show ?thesis by (simp add: usable_def fun_eq_iff)
qed

lemma sort_perm: "mset xs = mset ys \<Longrightarrow> sort xs = sort (ys :: 'a :: linorder list)"
  by (simp add: properties_for_sort)

section \<open>Conditions\<close>

lemma replace_condition_other:
  "u \<noteq> t \<Longrightarrow> filter (\<lambda>c. c_Type c = u) (replace_condition now gen t st rs msg cs) = filter (\<lambda>c. c_Type c = u) cs"
  by (induction cs) auto

lemma replace_condition_types:
  "map c_Type (replace_condition now gen t st rs msg cs) = map c_Type cs @ (if t \<in> set (map c_Type cs) then [] else [t])"
  by (induction cs) auto

definition cond_of :: "string \<Rightarrow> condition list \<Rightarrow> condition option" where
  "cond_of t cs = find (\<lambda>c. c_Type c = t) cs"

lemma cond_of_replace:
  "cond_of u (replace_condition now gen t st rs msg cs) =
    (if u = t then
       Some \<lparr>c_Type = t, c_Status = st, c_Reason = rs, c_Message = msg,
         c_LastTransitionTime = (case cond_of t cs of
            Some d \<Rightarrow> if c_Status d \<noteq> st then now else c_LastTransitionTime d | None \<Rightarrow> now),
         c_ObservedGeneration = gen\<rparr>
     else cond_of u cs)"
  by (induction cs) (auto simp: cond_of_def)

section \<open>Refresh decisions\<close>

lemma nextRefresh_ge: "Second \<le> nextRefresh L now ex d threshold"
  by (simp add: nextRefresh_def Let_def)

lemma rnd64_times:
  assumes "0 \<le> a" "0 \<le> th" "0 \<le> b" "\<bar>a - b\<bar> \<le> b / 2 ^ 53"
  shows "\<bar>rnd64 (a * th) - b * th\<bar> \<le> b * th / 2 ^ 51"
proof -
  have 1: "\<bar>a * th - b * th\<bar> \<le> b * th / 2 ^ 53"
    using mult_right_mono [OF assms(4,2)] assms(2) by (simp add: left_diff_distrib [symmetric] abs_mult)
  have 2: "\<bar>rnd64 (a * th) - a * th\<bar> \<le> a * th / 2 ^ 53" using assms(1,2) by (intro rnd64_error) simp
  have 3: "0 \<le> b * th" using assms(2,3) by simp
  have "a * th \<le> b * th + b * th / 2 ^ 53" using abs_le_D1 [OF 1] by linarith
  then have "a * th / 2 ^ 53 \<le> b * th / 2 ^ 52" using 3 by (simp add: field_simps)
  moreover have "b * th / 2 ^ 52 + b * th / 2 ^ 53 \<le> b * th / 2 ^ 51" using 3 by (simp add: field_simps)
  moreover have "\<bar>rnd64 (a * th) - b * th\<bar> \<le> \<bar>rnd64 (a * th) - a * th\<bar> + \<bar>a * th - b * th\<bar>"
    using abs_triangle_ineq [of "rnd64 (a * th) - a * th" "a * th - b * th"] by simp
  ultimately show ?thesis using 1 2 by linarith
qed

text \<open>The cutoff is the threshold share of the lifetime, up to the rounding of two float64 operations and the
  truncation to nanoseconds.\<close>

lemma cutoff_share:
  assumes "0 \<le> d" "d \<le> 2 ^ 60" "0 \<le> th" "th \<le> 1"
  shows "0 \<le> cutoff L d th" "cutoff L d th \<le> 2 ^ 61"
    "\<bar>of_int (cutoff L d th) - of_int d * th\<bar> \<le> 1 + of_int d * th / 2 ^ 51"
proof -
  define f where "f = rnd64 (rnd64 (of_int d) * th)"
  have d0: "0 \<le> rnd64 (of_int d)" using assms(1) by (intro rnd64_nonneg) simp
  have err: "\<bar>f - of_int d * th\<bar> \<le> of_int d * th / 2 ^ 51"
    unfolding f_def using d0 assms(1,3) by (intro rnd64_times rnd64_error) simp_all
  have lo: "0 \<le> f" unfolding f_def using d0 assms(3) by (intro rnd64_nonneg) simp
  have "(of_int d :: rat) \<le> of_int (2 ^ 60)" using assms(2) by (simp only: of_int_le_iff)
  then have "of_int d * th \<le> 2 ^ 60 * 1" using assms by (intro mult_mono) simp_all
  then have up: "f \<le> of_int (2 ^ 61)" using abs_le_D1 [OF err] by (simp add: field_simps)
  then have fl: "0 \<le> \<lfloor>f\<rfloor>" "\<lfloor>f\<rfloor> \<le> 2 ^ 61" using lo by (simp_all add: floor_le_iff)
  then have c: "cutoff L d th = \<lfloor>f\<rfloor>" using lo by (simp add: cutoff_def trunc_rat_def f_def [symmetric])
  show "0 \<le> cutoff L d th" "cutoff L d th \<le> 2 ^ 61" using fl by (simp_all add: c)
  have "of_int \<lfloor>f\<rfloor> \<le> f" "f < of_int \<lfloor>f\<rfloor> + 1" by linarith+
  then show "\<bar>of_int (cutoff L d th) - of_int d * th\<bar> \<le> 1 + of_int d * th / 2 ^ 51"
    using abs_le_D1 [OF err] abs_le_D2 [OF err] unfolding c by (intro abs_leI) linarith+
qed

definition usable_secret :: "lib \<Rightarrow> secret option \<Rightarrow> gtime \<Rightarrow> bool" where
  "usable_secret L sec ex \<longleftrightarrow> (\<exists>sc text tok. sec = Some sc \<and> fmlookup (sec_data sc) SecretDataKey = Some text \<and> text \<noteq> [] \<and>
     parseUnverified L text = Inr tok \<and> Claims.ExpiresAt L (t_claims tok) = Inr ex)"

lemma evaluateRefresh_keep:
  "evaluateRefresh L now sec d th = (False, after) \<longleftrightarrow>
    (\<exists>ex. usable_secret L sec ex \<and> cutoff L d th < time_Sub ex now \<and> after = wrap64 (time_Sub ex now - cutoff L d th))"
  by (auto simp: evaluateRefresh_def usable_secret_def Let_def split: option.splits sum.splits if_splits)

section \<open>Properties\<close>

lemma registered_not_usable: "IsRegisteredClaim k \<Longrightarrow> usable unmarshal ecs k = None"
  by (simp add: usable_def)

lemma KeyExpiresAt_registered: "IsRegisteredClaim KeyExpiresAt"
  by (simp add: IsRegisteredClaim_def)

lemma mint_claims_lookup:
  assumes "distinct (map fst (ExtraClaims s))" "mint_claims L unmarshal now d s = (c, res)"
  shows "fmlookup c k = (if k = KeyExpiresAt then Some (date (newNumericDate L (now + d)))
      else case usable unmarshal (ExtraClaims s) k of Some v \<Rightarrow> Some v | None \<Rightarrow> fmlookup (spec_claims s) k)"
    and "dropped_reserved res = sort (filter IsRegisteredClaim (map fst (ExtraClaims s)))"
    and "dropped_invalid res = sort (invalid_keys unmarshal (ExtraClaims s))"
proof -
  obtain c' where "extra_claims unmarshal (ExtraClaims s) (spec_claims s, [], []) =
      (c', [] @ filter IsRegisteredClaim (map fst (ExtraClaims s)), [] @ invalid_keys unmarshal (ExtraClaims s))"
    and c': "\<forall>k. fmlookup c' k = (case usable unmarshal (ExtraClaims s) k of Some v \<Rightarrow> Some v | None \<Rightarrow> fmlookup (spec_claims s) k)"
    using extra_claims_eq [OF assms(1), of unmarshal "spec_claims s" "[]" "[]"] by blast
  then have m: "c = SetExpiresAt L c' (now + d)"
    "res = \<lparr>dropped_reserved = sort (filter IsRegisteredClaim (map fst (ExtraClaims s))),
       dropped_invalid = sort (invalid_keys unmarshal (ExtraClaims s))\<rparr>"
    using assms(2) by (simp_all add: mint_claims_def time_simps)
  show "fmlookup c k = (if k = KeyExpiresAt then Some (date (newNumericDate L (now + d)))
      else case usable unmarshal (ExtraClaims s) k of Some v \<Rightarrow> Some v | None \<Rightarrow> fmlookup (spec_claims s) k)"
    using c' by (simp add: m(1) SetExpiresAt_def)
  show "dropped_reserved res = sort (filter IsRegisteredClaim (map fst (ExtraClaims s)))"
    "dropped_invalid res = sort (invalid_keys unmarshal (ExtraClaims s))"
    by (simp_all add: m(2))
qed

lemma set_invalid_keys:
  "set (invalid_keys unmarshal ecs) =
    {k. \<exists>raw. (k, raw) \<in> set ecs \<and> \<not> IsRegisteredClaim k \<and> unmarshal raw = None}"
  by (force simp: invalid_keys_def)

definition registered_names :: "string set" where
  "registered_names = {''iss'', ''sub'', ''aud'', ''exp'', ''nbf'', ''iat'', ''jti''}"

definition field_string :: "string \<Rightarrow> gval option" where
  "field_string x = (if x = [] then None else Some (VString x))"

definition field_list :: "string list \<Rightarrow> gval option" where
  "field_list xs = (if xs = [] then None else Some (VStrings (Slice xs)))"

text \<open>An extra claim is used when its name is not registered and its value is JSON.\<close>

definition used_extra :: "(string \<Rightarrow> gval option) \<Rightarrow> spec \<Rightarrow> string \<Rightarrow> gval \<Rightarrow> bool" where
  "used_extra unmarshal s k v \<longleftrightarrow> k \<notin> registered_names \<and> (\<exists>raw. (k, raw) \<in> set (ExtraClaims s) \<and> unmarshal raw = Some v)"

lemma registered_names_iff: "k \<in> registered_names \<longleftrightarrow> IsRegisteredClaim k"
  by (auto simp: registered_names_def IsRegisteredClaim_def key_defs)

lemma usable_used:
  assumes "distinct (map fst (ExtraClaims s))"
  shows "usable unmarshal (ExtraClaims s) k = Some v \<longleftrightarrow> used_extra unmarshal s k v"
  using assms by (auto simp: usable_def used_extra_def registered_names_iff split: if_splits option.splits dest: map_of_SomeD simp: bind_eq_Some_conv)

lemma spec_claims_fields:
  "fmlookup (spec_claims s) ''sub'' = field_string (spec.Subject s)" "fmlookup (spec_claims s) ''iss'' = field_string (spec.Issuer s)"
  "fmlookup (spec_claims s) ''aud'' = field_list (spec.Audience s)" "fmlookup (spec_claims s) ''groups'' = field_list (spec.Groups s)"
  "fmlookup (spec_claims s) ''roles'' = field_list (spec.Roles s)" "fmlookup (spec_claims s) ''entitlements'' = field_list (spec.Entitlements s)"
  "fmlookup (spec_claims s) ''iat'' = None" "fmlookup (spec_claims s) ''nbf'' = None" "fmlookup (spec_claims s) ''jti'' = None"
  by (simp_all add: spec_claims_def field_string_def field_list_def SetSubject_def SetIssuer_def SetAudience_def SetGroups_def SetRoles_def
      SetEntitlements_def key_defs Let_def)

lemma spec_claims_only:
  "fset (fmdom (spec_claims s)) \<subseteq> {''sub'', ''iss'', ''aud'', ''groups'', ''roles'', ''entitlements''}"
  unfolding spec_claims_def SetSubject_def SetIssuer_def SetAudience_def SetGroups_def SetRoles_def SetEntitlements_def key_defs Let_def
  by simp

text \<open>C28. The claims a reconciler signs: sub, iss and aud are the dedicated fields of the spec, absent where the field
  is empty, exp is the resolved lifetime from now, and iat, nbf and jti are left to the signer: no
  registered claim comes from extraClaims. groups, roles and entitlements are their fields unless a
  usable extra claim of that name replaces them. Every other extra claim with valid JSON is used, nothing
  else is in the set, and exactly the registered and the invalid extra keys are reported as dropped,
  sorted.\<close>

theorem mint_claims_correct:
  assumes "distinct (map fst (ExtraClaims s))" "mint_claims L unmarshal now d s = (c, res)"
  shows "fmlookup c ''sub'' = field_string (spec.Subject s) \<and> fmlookup c ''iss'' = field_string (spec.Issuer s) \<and>
    fmlookup c ''aud'' = field_list (spec.Audience s) \<and> fmlookup c ''exp'' = Some (date (newNumericDate L (now + d))) \<and>
    fmlookup c ''iat'' = None \<and> fmlookup c ''nbf'' = None \<and> fmlookup c ''jti'' = None \<and>
    (\<forall>(k, xs) \<in> {(''groups'', spec.Groups s), (''roles'', spec.Roles s), (''entitlements'', spec.Entitlements s)}.
      (\<nexists>v. used_extra unmarshal s k v) \<longrightarrow> fmlookup c k = field_list xs) \<and>
    (\<forall>k v. used_extra unmarshal s k v \<longrightarrow> fmlookup c k = Some v) \<and>
    (\<forall>k v. fmlookup c k = Some v \<longrightarrow>
      k \<in> {''sub'', ''iss'', ''aud'', ''exp'', ''groups'', ''roles'', ''entitlements''} \<or> used_extra unmarshal s k v) \<and>
    sorted (dropped_reserved res) \<and> sorted (dropped_invalid res) \<and>
    set (dropped_reserved res) = fst ` set (ExtraClaims s) \<inter> registered_names \<and>
    set (dropped_invalid res) = {k. k \<notin> registered_names \<and> (\<exists>raw. (k, raw) \<in> set (ExtraClaims s) \<and> unmarshal raw = None)}"
proof -
  note l = mint_claims_lookup [OF assms] and u = usable_used [OF assms(1), of unmarshal] and f = spec_claims_fields [where s = s]
  have reg: "fmlookup c k = fmlookup (spec_claims s) k" if "k \<in> registered_names" "k \<noteq> ''exp''" for k
    using that registered_not_usable by (simp add: l(1) key_defs registered_names_iff)
  have field: "fmlookup c k = fmlookup (spec_claims s) k" if "\<nexists>v. used_extra unmarshal s k v" "k \<noteq> ''exp''" for k
    using that u by (cases "usable unmarshal (ExtraClaims s) k") (auto simp: l(1) key_defs)
  have extra: "fmlookup c k = Some v" if "used_extra unmarshal s k v" for k v
  proof -
    have "k \<noteq> KeyExpiresAt" using that by (auto simp: used_extra_def registered_names_def key_defs)
    moreover have "usable unmarshal (ExtraClaims s) k = Some v" using that u by blast
    ultimately show ?thesis by (simp add: l(1))
  qed
  have only: "k \<in> {''sub'', ''iss'', ''aud'', ''exp'', ''groups'', ''roles'', ''entitlements''} \<or> used_extra unmarshal s k v"
    if v: "fmlookup c k = Some v" for k v
  proof (cases "usable unmarshal (ExtraClaims s) k")
    case None
    with v have "k = ''exp'' \<or> k \<in> fset (fmdom (spec_claims s))" by (simp add: l(1) key_defs fmlookup_dom_iff split: if_splits)
    then have "k = ''exp'' \<or> k \<in> {''sub'', ''iss'', ''aud'', ''groups'', ''roles'', ''entitlements''}"
      by (rule disj_forward) (assumption, rule subsetD [OF spec_claims_only])
    then show ?thesis unfolding insert_iff empty_iff by (elim disjE) simp_all
  next
    case (Some w)
    with v have "k = ''exp'' \<or> w = v" by (simp add: l(1) key_defs split: if_splits)
    then show ?thesis using Some u by blast
  qed
  have "set (dropped_reserved res) = fst ` set (ExtraClaims s) \<inter> registered_names" by (auto simp: l(2) registered_names_iff)
  moreover have "set (dropped_invalid res) =
      {k. k \<notin> registered_names \<and> (\<exists>raw. (k, raw) \<in> set (ExtraClaims s) \<and> unmarshal raw = None)}"
    by (auto simp: l(3) set_invalid_keys registered_names_iff)
  moreover have "sorted (dropped_reserved res)" "sorted (dropped_invalid res)" by (simp_all add: l(2,3))
  moreover have "fmlookup c ''sub'' = field_string (spec.Subject s)" "fmlookup c ''iss'' = field_string (spec.Issuer s)"
    "fmlookup c ''aud'' = field_list (spec.Audience s)" "fmlookup c ''iat'' = None" "fmlookup c ''nbf'' = None" "fmlookup c ''jti'' = None"
    using reg f by (simp_all add: registered_names_def)
  moreover have "fmlookup c ''exp'' = Some (date (newNumericDate L (now + d)))" by (simp add: l(1) key_defs)
  ultimately show ?thesis using field f(4-6) extra only by simp
qed

definition extra_spec :: spec where
  "extra_spec = \<lparr>SecretName = [], Subject = [], Issuer = [], Audience = [], Groups = [''dev''], Roles = [''r''], Entitlements = [],
     ExtraClaims = [(''sub'', ''other''), (''x'', []), (''roles'', [])], ExpiresIn = [], RefreshThreshold = None\<rparr>"

theorem mint_claims_correct_witness:
  "\<exists>c res. mint_claims no_lib (\<lambda>_. Some VNil) 0 Hour extra_spec = (c, res) \<and> fmlookup c ''sub'' = None \<and>
    fmlookup c ''groups'' = Some (VStrings (Slice [''dev''])) \<and> fmlookup c ''roles'' = Some VNil \<and> set (dropped_reserved res) = {''sub''}"
proof -
  obtain c res where m: "mint_claims no_lib (\<lambda>_. Some VNil) 0 Hour extra_spec = (c, res)" by force
  have d: "distinct (map fst (ExtraClaims extra_spec))" by (simp add: extra_spec_def)
  have "\<nexists>v. used_extra (\<lambda>_. Some VNil) extra_spec ''groups'' v" "used_extra (\<lambda>_. Some VNil) extra_spec ''roles'' VNil"
    by (auto simp: used_extra_def extra_spec_def registered_names_def)
  with mint_claims_correct [OF d m] have "fmlookup c ''sub'' = None \<and> fmlookup c ''groups'' = Some (VStrings (Slice [''dev''])) \<and>
      fmlookup c ''roles'' = Some VNil \<and> set (dropped_reserved res) = {''sub''}"
    by (auto simp: field_string_def field_list_def extra_spec_def registered_names_def)
  with m show ?thesis by blast
qed

text \<open>Go iterates a map in no fixed order; the claims and the reported drops of a mint do not depend on
  it: any two orders of the same extra claims give the same result.\<close>

theorem mint_order_independent:
  assumes "distinct (map fst xs)" "mset xs = mset ys"
  shows "mint_claims L unmarshal now d (s\<lparr>ExtraClaims := xs\<rparr>) = mint_claims L unmarshal now d (s\<lparr>ExtraClaims := ys\<rparr>)"
proof -
  obtain c res where x: "mint_claims L unmarshal now d (s\<lparr>ExtraClaims := xs\<rparr>) = (c, res)" by force
  obtain c' res' where y: "mint_claims L unmarshal now d (s\<lparr>ExtraClaims := ys\<rparr>) = (c', res')" by force
  have dy: "distinct (map fst ys)" using assms by (metis mset_eq_imp_distinct_iff mset_map)
  have sp: "spec_claims (s\<lparr>ExtraClaims := zs\<rparr>) = spec_claims s" for zs by (simp add: spec_claims_def)
  have ex: "ExtraClaims (s\<lparr>ExtraClaims := zs\<rparr>) = zs" for zs by simp
  have dx: "distinct (map fst (ExtraClaims (s\<lparr>ExtraClaims := xs\<rparr>)))" using assms(1) by simp
  have dy': "distinct (map fst (ExtraClaims (s\<lparr>ExtraClaims := ys\<rparr>)))" using dy by simp
  note lx = mint_claims_lookup [OF dx x] and ly = mint_claims_lookup [OF dy' y]
  have "fmlookup c k = fmlookup c' k" for k
    using fun_cong [OF usable_perm [OF assms, of unmarshal], of k] by (simp only: lx(1) ly(1) sp ex)
  then have "c = c'" by (rule fmap_ext)
  moreover have "mset (filter IsRegisteredClaim (map fst xs)) = mset (filter IsRegisteredClaim (map fst ys))"
    "mset (invalid_keys unmarshal xs) = mset (invalid_keys unmarshal ys)"
    using assms(2) by (simp_all add: invalid_keys_def mset_filter mset_map)
  then have "dropped_reserved res = dropped_reserved res'" "dropped_invalid res = dropped_invalid res'"
    by (simp_all only: lx(2,3) ly(2,3) ex sort_perm [of "filter IsRegisteredClaim (map fst xs)"]
      sort_perm [of "invalid_keys unmarshal xs"])
  then have "res = res'" by simp
  ultimately show ?thesis by (simp add: x y)
qed

theorem mint_order_independent_witness:
  "\<forall>s. mint_claims no_lib (\<lambda>_. Some VNil) 0 Hour (s\<lparr>ExtraClaims := [(''a'', []), (''b'', [])]\<rparr>) =
   mint_claims no_lib (\<lambda>_. Some VNil) 0 Hour (s\<lparr>ExtraClaims := [(''b'', []), (''a'', [])]\<rparr>)"
  by (intro allI mint_order_independent) simp_all

text \<open>Setting a condition keeps one condition per type: it replaces the condition of its type in place,
  or appends it, leaves every other condition as it is, and moves the transition time exactly when the
  status changes or the condition is new.\<close>

theorem set_condition_correct:
  assumes "distinct (map c_Type (Conditions (jr_Status jr)))"
  shows "distinct (map c_Type (Conditions (jr_Status (setCondition now t st rs msg jr)))) \<and>
    cond_of t (Conditions (jr_Status (setCondition now t st rs msg jr))) =
      Some \<lparr>c_Type = t, c_Status = st, c_Reason = rs, c_Message = msg,
        c_LastTransitionTime = (case cond_of t (Conditions (jr_Status jr)) of
           Some d \<Rightarrow> if c_Status d \<noteq> st then now else c_LastTransitionTime d | None \<Rightarrow> now),
        c_ObservedGeneration = jr_Generation jr\<rparr> \<and>
    (\<forall>u. u \<noteq> t \<longrightarrow>
      cond_of u (Conditions (jr_Status (setCondition now t st rs msg jr))) = cond_of u (Conditions (jr_Status jr)))"
  using assms by (auto simp: setCondition_def cond_of_replace replace_condition_types)

definition demo_request :: jwt_request where
  "demo_request = \<lparr>jr_Namespace = ''ns'', jr_Name = ''r'', jr_Generation = 1,
     jr_Spec = \<lparr>SecretName = ''s'', Subject = [], Issuer = [], Audience = [], Groups = [], Roles = [], Entitlements = [],
       ExtraClaims = [], ExpiresIn = [], RefreshThreshold = None\<rparr>,
     jr_Status = \<lparr>st_SecretName = [], LastMintedAt = None, ExpiresAt = None, JTI = [], ObservedGeneration = 0, Conditions = []\<rparr>\<rparr>"

theorem set_condition_correct_witness:
  "distinct (map c_Type (Conditions (jr_Status (setCondition 5 ConditionReady True ReasonMinted [] demo_request))))"
  using set_condition_correct [of demo_request] by (simp add: demo_request_def)

text \<open>C29. When a reconciler mints again, for lifetimes up to \<open>2 ^ 60\<close> nanoseconds (36 years): it keeps the token of the
  Secret exactly when that decodes, has an expiry, and more of its life remains than the threshold share
  of the configured lifetime, and then looks again when the remaining life has shrunk to that share, which
  is in the future and not after the expiry; in every other case it mints. The share is the spec's
  threshold if that is in (0, 1] and a quarter otherwise, times the lifetime, up to a nanosecond and one
  part in \<open>2 ^ 51\<close>. After a mint the next look is when the new token's life has shrunk to the share, at
  least a second away.\<close>

theorem refresh_decision_correct:
  assumes "0 \<le> d" "d \<le> 2 ^ 60"
  shows "\<exists>share. 0 \<le> share \<and> \<bar>of_int share - of_int d * threshold_of s\<bar> \<le> 1 + of_int d * threshold_of s / 2 ^ 51 \<and>
    threshold_of s = (case RefreshThreshold s of None \<Rightarrow> 1 / 4 | Some t \<Rightarrow> if 0 < t \<and> t \<le> 1 then t else 1 / 4) \<and>
    (\<forall>now sec after. evaluateRefresh L now sec d (threshold_of s) = (False, after) \<longleftrightarrow>
      (\<exists>ex. usable_secret L sec ex \<and> share < time_Sub ex now \<and> after = time_Sub ex now - share)) \<and>
    (\<forall>now sec after. evaluateRefresh L now sec d (threshold_of s) = (False, after) \<longrightarrow>
      (\<exists>ex. usable_secret L sec ex \<and> 0 < after \<and> now + after \<le> ex)) \<and>
    (\<forall>now sec. fst (evaluateRefresh L now sec d (threshold_of s)) \<longrightarrow> evaluateRefresh L now sec d (threshold_of s) = (True, 0)) \<and>
    (\<forall>now ex. now \<le> ex \<longrightarrow> nextRefresh L now ex d (threshold_of s) = max Second (time_Sub ex now - share))"
proof (rule exI [of _ "cutoff L d (threshold_of s)"], intro conjI allI impI)
  let ?th = "threshold_of s"
  have th: "0 \<le> ?th" "?th \<le> 1" by (auto simp: threshold_of_def DefaultRefreshThreshold_def split: option.split)
  note c = cutoff_share [OF assms th, of L]
  have sub: "time_Sub ex now < 2 ^ 63" for ex now by (simp add: time_Sub_def maxDuration_def minDuration_def)
  have wrap: "cutoff L d ?th < time_Sub ex now \<and> after = wrap64 (time_Sub ex now - cutoff L d ?th) \<longleftrightarrow>
      cutoff L d ?th < time_Sub ex now \<and> after = time_Sub ex now - cutoff L d ?th" for ex now after
    using wrap64_id [of "time_Sub ex now - cutoff L d ?th"] c(1) sub [of ex now] by auto
  show "0 \<le> cutoff L d ?th" "\<bar>of_int (cutoff L d ?th) - of_int d * ?th\<bar> \<le> 1 + of_int d * ?th / 2 ^ 51" using c by simp_all
  show "?th = (case RefreshThreshold s of None \<Rightarrow> 1 / 4 | Some t \<Rightarrow> if 0 < t \<and> t \<le> 1 then t else 1 / 4)"
    by (simp add: threshold_of_def DefaultRefreshThreshold_def split: option.split)
  show keep: "evaluateRefresh L now sec d ?th = (False, after) \<longleftrightarrow>
      (\<exists>ex. usable_secret L sec ex \<and> cutoff L d ?th < time_Sub ex now \<and> after = time_Sub ex now - cutoff L d ?th)" for now sec after
    unfolding evaluateRefresh_keep using wrap by blast
  show "\<exists>ex. usable_secret L sec ex \<and> 0 < after \<and> now + after \<le> ex" if kept: "evaluateRefresh L now sec d ?th = (False, after)" for now sec after
  proof -
    obtain ex where ex: "usable_secret L sec ex" "cutoff L d ?th < time_Sub ex now" "after = time_Sub ex now - cutoff L d ?th"
      using kept unfolding keep by blast
    have "time_Sub ex now \<le> ex - now" using c(1) ex(2) by (auto simp: time_Sub_def minDuration_def max_def split: if_splits)
    then show ?thesis using ex c(1) by fastforce
  qed
  show "evaluateRefresh L now sec d ?th = (True, 0)" if "fst (evaluateRefresh L now sec d ?th)" for now sec
    using that by (auto simp: evaluateRefresh_def Let_def split: option.splits sum.splits if_splits)
  show "nextRefresh L now ex d ?th = max Second (time_Sub ex now - cutoff L d ?th)" if "now \<le> ex" for now ex
  proof -
    have "0 \<le> time_Sub ex now" using that by (simp add: time_Sub_def maxDuration_def minDuration_def)
    then have "wrap64 (time_Sub ex now - cutoff L d ?th) = time_Sub ex now - cutoff L d ?th" using c(1,2) sub [of ex now] by (intro wrap64_id) simp_all
    then show ?thesis by (simp add: nextRefresh_def max_def)
  qed
qed

lemma cutoff_hour: "cutoff L Hour (1 / 4) = 900000000000"
proof -
  have "rnd64 (of_int Hour) = of_int Hour"
    by (rule rnd64_of_int) (simp add: Hour_def Minute_def Second_def)
  moreover have "of_int Hour * (1 / 4) = (of_int 900000000000 :: rat)"
    by (simp add: Hour_def Minute_def Second_def)
  moreover have "rnd64 (of_int 900000000000) = of_int 900000000000"
    by (rule rnd64_of_int) simp
  ultimately have "cutoff L Hour (1 / 4) =
      (case int64_of_float (Fin (of_int 900000000000)) of Some n \<Rightarrow> n | None \<Rightarrow> float_overflow_int L (Fin (of_int 900000000000)))"
    by (simp only: cutoff_def Let_def)
  then show ?thesis by (simp add: trunc_rat_def)
qed

definition demo_minted :: token where
  "demo_minted = \<lparr>t_method = SigningMethodES256, t_header = fmempty,
     t_claims = fmupd KeyExpiresAt (VFloat (Fin 3600)) fmempty, t_signature = [], t_valid = False\<rparr>"

definition demo_secret :: secret where
  "demo_secret = empty_secret\<lparr>sec_data := fmupd SecretDataKey ''t'' fmempty\<rparr>"

definition demo_mint_lib :: lib where
  "demo_mint_lib = mk_lib (\<lambda>s. if s = ''t'' then Inr demo_minted else Inl []) (\<lambda>_ _ _. True) (\<lambda>_ _. Inr ''t'') (\<lambda>_ _. True)"

lemma demo_minted_exp: "Claims.ExpiresAt demo_mint_lib (t_claims demo_minted) = Inr Hour"
proof -
  have "Timestamp demo_mint_lib (VFloat (Fin (of_int (unix_seconds Hour)))) = Inr (trunc_second Hour)"
    by (rule Timestamp_json_date) (simp_all add: demo_mint_lib_def Hour_def Minute_def Second_def)
  then show ?thesis
    by (simp add: Claims.ExpiresAt_def readTime_def demo_minted_def unix_seconds_def trunc_second_def Hour_def Minute_def Second_def)
qed

lemma demo_keep: "evaluateRefresh demo_mint_lib 0 (Some demo_secret) Hour (1 / 4) = (False, 2700000000000)"
proof -
  have "parseUnverified demo_mint_lib ''t'' = Inr demo_minted" by (simp add: demo_mint_lib_def)
  then show ?thesis
    using demo_minted_exp cutoff_hour
    by (simp add: evaluateRefresh_def demo_secret_def time_Sub_def maxDuration_def minDuration_def Let_def wrap64_def
        Hour_def Minute_def Second_def)
qed

theorem refresh_decision_correct_witness:
  "\<exists>ex. usable_secret demo_mint_lib (Some demo_secret) ex \<and> 2700000000000 \<le> ex"
proof -
  have th: "threshold_of (jr_Spec demo_request) = 1 / 4"
    by (simp add: threshold_of_def demo_request_def DefaultRefreshThreshold_def)
  have "0 \<le> Hour" "Hour \<le> 2 ^ 60" by (simp_all add: Hour_def Minute_def Second_def)
  from refresh_decision_correct [OF this, where L = demo_mint_lib and s = "jr_Spec demo_request"]
  have "\<forall>now sec after. evaluateRefresh demo_mint_lib now sec Hour (1 / 4) = (False, after) \<longrightarrow>
      (\<exists>ex. usable_secret demo_mint_lib sec ex \<and> 0 < after \<and> now + after \<le> ex)" unfolding th by (elim exE conjE)
  with demo_keep show ?thesis by fastforce
qed

end
