(* ===== verification/Reconcile_Facts.thy ===== *)
theory Reconcile_Facts
  imports Controller_Facts
begin

text \<open>
  The reconciliation loop as a whole: what one run may change in the cluster, what a successful run
  leaves behind, and what a failed one does.
\<close>

section \<open>The parts of a run\<close>

text \<open>\<open>controllerutil.SetControllerReference\<close> sets the owner of an object and nothing else of it.\<close>

definition owner_law :: "api \<Rightarrow> bool" where
  "owner_law a \<longleftrightarrow> (\<forall>jr s s'. api_setOwner a jr s = Inr s' \<longrightarrow>
     sec_data s' = sec_data s \<and> sec_annotations s' = sec_annotations s \<and> sec_type s' = sec_type s)"

text \<open>Every request is stored under its own namespace and name.\<close>

definition named_requests :: "cluster \<Rightarrow> bool" where
  "named_requests cl \<longleftrightarrow> (\<forall>key jr. fmlookup (requests cl) key = Some jr \<longrightarrow> key = (jr_Namespace jr, jr_Name jr))"

text \<open>What a status update may do: the status of the one request changes, and nothing else.\<close>

definition status_step :: "string \<times> string \<Rightarrow> cluster \<Rightarrow> cluster \<Rightarrow> bool" where
  "status_step key cl cl' \<longleftrightarrow> secrets cl' = secrets cl \<and>
    (\<forall>k. k \<noteq> key \<longrightarrow> fmlookup (requests cl') k = fmlookup (requests cl) k) \<and>
    (\<forall>jr. fmlookup (requests cl) key = Some jr \<longrightarrow> (\<exists>st. fmlookup (requests cl') key = Some (jr\<lparr>jr_Status := st\<rparr>)))"

lemma status_step_refl: "status_step key cl cl"
proof -
  have "\<exists>st. jr = jr\<lparr>jr_Status := st\<rparr>" for jr :: jwt_request by (rule exI [of _ "jr_Status jr"]) simp
  then show ?thesis by (auto simp: status_step_def)
qed

lemma same_request:
  "jr_Namespace (setFailed t1 t2 msg jr) = jr_Namespace jr" "jr_Name (setFailed t1 t2 msg jr) = jr_Name jr"
  "jr_Namespace (minted_status L t f tok res jr) = jr_Namespace jr" "jr_Name (minted_status L t f tok res jr) = jr_Name jr"
  by (simp_all add: setFailed_def minted_status_def setMinted_def setClaimsAccepted_def setCondition_def Let_def)

lemma updateStatus_step:
  assumes "updateStatus a jr cl = (e, cl')" "key = (jr_Namespace jr, jr_Name jr)"
  shows "status_step key cl cl'"
  using assms status_step_refl
  by (auto simp: updateStatus_def status_step_def split: option.splits)

lemma updateStatus_ok:
  assumes "api_status a = None" "fmlookup (requests cl) (jr_Namespace jr, jr_Name jr) = Some old"
  shows "updateStatus a jr cl =
    (None, cl\<lparr>requests := fmupd (jr_Namespace jr, jr_Name jr) (old\<lparr>jr_Status := jr_Status jr\<rparr>) (requests cl)\<rparr>)"
  using assms by (simp add: updateStatus_def)

text \<open>The Secret that an upsert leaves: the token, the time of the mint, the type and the owner reference are
  written, every other key and annotation stays.\<close>

definition secret_written :: "api \<Rightarrow> gtime \<Rightarrow> jwt_request \<Rightarrow> string \<Rightarrow> secret option \<Rightarrow> secret \<Rightarrow> bool" where
  "secret_written a now jr tok old s \<longleftrightarrow>
    sec_data s = fmupd ''token'' tok (case old of None \<Rightarrow> fmempty | Some s0 \<Rightarrow> sec_data s0) \<and>
    sec_annotations s = fmupd ''jwtmint.io/mintedAt'' (api_formatTime a now) (case old of None \<Rightarrow> fmempty | Some s0 \<Rightarrow> sec_annotations s0) \<and>
    sec_type s = ''Opaque'' \<and> (\<exists>s1. api_setOwner a jr s1 = Inr s)"

lemma upsertSecret_frame:
  assumes "upsertSecret a now jr tok cl = (e, cl')" "owner_law a"
  shows "requests cl' = requests cl \<and>
    (\<forall>k. k \<noteq> (jr_Namespace jr, SecretName (jr_Spec jr)) \<longrightarrow> fmlookup (secrets cl') k = fmlookup (secrets cl) k) \<and>
    (e \<noteq> None \<longrightarrow> cl' = cl) \<and>
    (e = None \<longrightarrow> (\<exists>s. fmlookup (secrets cl') (jr_Namespace jr, SecretName (jr_Spec jr)) = Some s \<and>
      secret_written a now jr tok (fmlookup (secrets cl) (jr_Namespace jr, SecretName (jr_Spec jr))) s))"
proof -
  let ?key = "(jr_Namespace jr, SecretName (jr_Spec jr))"
  define s0 where "s0 = (case fmlookup (secrets cl) ?key of None \<Rightarrow> empty_secret | Some s \<Rightarrow> s)"
  define s1 where "s1 = s0\<lparr>sec_annotations := fmupd ''jwtmint.io/mintedAt'' (api_formatTime a now) (sec_annotations s0),
    sec_data := fmupd SecretDataKey tok (sec_data s0), sec_type := SecretTypeOpaque\<rparr>"
  have w: "secret_written a now jr tok (fmlookup (secrets cl) ?key) s2" if "api_setOwner a jr s1 = Inr s2" for s2
  proof -
    have "sec_data s2 = sec_data s1" "sec_annotations s2 = sec_annotations s1" "sec_type s2 = sec_type s1"
      using assms(2) that unfolding owner_law_def by blast+
    then show ?thesis using that
      by (auto simp: secret_written_def s1_def s0_def empty_secret_def SecretDataKey_def SecretTypeOpaque_def split: option.split)
  qed
  have "upsertSecret a now jr tok cl = (case api_setOwner a jr s1 of Inl e \<Rightarrow> (Some e, cl) | Inr s2 \<Rightarrow>
      (case api_upsert a of Some e \<Rightarrow> (Some e, cl) | None \<Rightarrow> (None, cl\<lparr>secrets := fmupd ?key s2 (secrets cl)\<rparr>)))"
    by (simp add: upsertSecret_def s1_def s0_def Let_def)
  with assms(1) w show ?thesis by (auto split: sum.splits option.splits)
qed

lemma secret_written_token: "secret_written a now jr tok old s \<Longrightarrow> fmlookup (sec_data s) SecretDataKey = Some tok"
  by (simp add: secret_written_def SecretDataKey_def)

text \<open>A run that changes the cluster updates one status, after writing at most one secret.\<close>

definition mint_run ::
  "lib \<Rightarrow> reconciler \<Rightarrow> api \<Rightarrow> times \<Rightarrow> ctx_err \<Rightarrow> jwt_request \<Rightarrow> cluster \<Rightarrow> cluster \<Rightarrow> bool" where
  "mint_run L r a t ctx jr cl cl1 \<longleftrightarrow>
    (\<exists>d signed tok res e. resolveExpiration L (ExpiresIn (jr_Spec jr)) (rc_DefaultExpiration r) = Inr d \<and>
       mint L r (t_mint t) ctx jr d = (Inr (signed, tok), res) \<and> upsertSecret a (t_annot t) jr signed cl = (e, cl1))"

definition status_written :: "api \<Rightarrow> jwt_request \<Rightarrow> cluster \<Rightarrow> cluster \<Rightarrow> bool" where
  "status_written a jr cl1 cl' \<longleftrightarrow>
    (\<exists>jr' e. jr_Namespace jr' = jr_Namespace jr \<and> jr_Name jr' = jr_Name jr \<and> updateStatus a jr' cl1 = (e, cl'))"

lemma status_written_by:
  "jr_Namespace jr' = jr_Namespace jr \<Longrightarrow> jr_Name jr' = jr_Name jr \<Longrightarrow> updateStatus a jr' cl1 = (e, cl') \<Longrightarrow>
   status_written a jr cl1 cl'"
  unfolding status_written_def by blast

lemma status_writtenI:
  "updateStatus a (setFailed t1 t2 msg jr) cl1 = (e, cl') \<Longrightarrow> status_written a jr cl1 cl'"
  "updateStatus a (minted_status L t f tok res jr) cl1 = (e, cl') \<Longrightarrow> status_written a jr cl1 cl'"
  "updateStatus a (jr\<lparr>jr_Status := st\<rparr>) cl1 = (e, cl') \<Longrightarrow> status_written a jr cl1 cl'"
  by (auto elim: status_written_by [rotated 2] simp: same_request)

lemma Reconcile_cases:
  assumes "Reconcile L r a t ctx key cl = (out, cl')"
  shows "cl' = cl \<or>
    (\<exists>jr cl1. fmlookup (requests cl) key = Some jr \<and> (cl1 = cl \<or> mint_run L r a t ctx jr cl cl1) \<and>
      status_written a jr cl1 cl')"
proof (cases "fmlookup (requests cl) key")
  case None
  then show ?thesis using assms by (auto simp: Reconcile_def getSecret_def split: option.splits)
next
  case (Some jr)
  have m: "mint_run L r a t ctx jr cl cl1"
    if "resolveExpiration L (ExpiresIn (jr_Spec jr)) (rc_DefaultExpiration r) = Inr d"
      "mint L r (t_mint t) ctx jr d = (Inr (signed, tok), res)" "upsertSecret a (t_annot t) jr signed cl = (e, cl1)"
    for d signed tok res e cl1
    using that unfolding mint_run_def by blast
  have "cl' = cl \<or> status_written a jr cl cl' \<or> (\<exists>cl1. mint_run L r a t ctx jr cl cl1 \<and> status_written a jr cl1 cl')"
    using assms Some
    by (auto simp: Reconcile_def getSecret_def Let_def split: option.splits sum.splits if_splits prod.splits
        dest!: status_writtenI dest: m)
  then show ?thesis using Some by blast
qed

section \<open>Properties\<close>

lemma status_written_step:
  assumes "status_written a jr cl1 cl'" "key = (jr_Namespace jr, jr_Name jr)"
  shows "status_step key cl1 cl'"
  using assms updateStatus_step unfolding status_written_def by metis

lemma status_step_named:
  assumes "status_step key cl cl'" "named_requests cl" "fmlookup (requests cl) key = Some jr"
  shows "named_requests cl'"
proof -
  obtain st where "fmlookup (requests cl') key = Some (jr\<lparr>jr_Status := st\<rparr>)"
    using assms(1,3) by (auto simp: status_step_def)
  then show ?thesis
    using assms unfolding named_requests_def status_step_def
    by (metis option.inject jwt_request.select_convs(1,2) jwt_request.surjective jwt_request.update_convs(5))
qed

text \<open>C26. One reconciliation is confined: it changes at most the status of its own request and the Secret its
  spec names in the request's namespace; it never changes the spec of a request, another request or
  another Secret. Of that Secret it writes the token, the annotation with the time of the mint, the type
  Opaque and the owner reference, and keeps every other data key and annotation; the token it writes is
  one the signer returned for the claims and the lifetime of the spec.\<close>

theorem reconcile_confined:
  assumes "owner_law a" "named_requests cl" "Reconcile L r a t ctx key cl = (out, cl')"
  shows "named_requests cl' \<and>
    (\<forall>k. k \<noteq> key \<longrightarrow> fmlookup (requests cl') k = fmlookup (requests cl) k) \<and>
    (\<forall>jr. fmlookup (requests cl) key = Some jr \<longrightarrow> (\<exists>st. fmlookup (requests cl') key = Some (jr\<lparr>jr_Status := st\<rparr>))) \<and>
    (\<forall>k. fmlookup (secrets cl') k \<noteq> fmlookup (secrets cl) k \<longrightarrow>
      (\<exists>jr s d signed tok res. fmlookup (requests cl) key = Some jr \<and> k = (fst key, SecretName (jr_Spec jr)) \<and>
        fmlookup (secrets cl') k = Some s \<and>
        resolveExpiration L (ExpiresIn (jr_Spec jr)) (rc_DefaultExpiration r) = Inr d \<and>
        mint L r (t_mint t) ctx jr d = (Inr (signed, tok), res) \<and>
        secret_written a (t_annot t) jr signed (fmlookup (secrets cl) k) s))"
  using Reconcile_cases [OF assms(3)]
proof (elim disjE exE conjE)
  assume "cl' = cl"
  then show ?thesis using assms(2) status_step_refl [of key cl] by (simp add: status_step_def)
next
  fix jr cl1
  assume jr: "fmlookup (requests cl) key = Some jr" and w: "status_written a jr cl1 cl'" and c: "cl1 = cl"
  have k: "key = (jr_Namespace jr, jr_Name jr)" using assms(2) jr unfolding named_requests_def by blast
  show ?thesis
    using status_written_step [OF w k] status_step_named [OF _ assms(2) jr] by (simp add: status_step_def c)
next
  fix jr cl1
  assume jr: "fmlookup (requests cl) key = Some jr" and w: "status_written a jr cl1 cl'"
    and m: "mint_run L r a t ctx jr cl cl1"
  have k: "key = (jr_Namespace jr, jr_Name jr)" using assms(2) jr unfolding named_requests_def by blast
  obtain d signed tok res e where mm: "mint L r (t_mint t) ctx jr d = (Inr (signed, tok), res)"
    "resolveExpiration L (ExpiresIn (jr_Spec jr)) (rc_DefaultExpiration r) = Inr d"
    and up: "upsertSecret a (t_annot t) jr signed cl = (e, cl1)"
    using m by (auto simp: mint_run_def)
  note f = upsertSecret_frame [OF up assms(1)]
  have n1: "named_requests cl1" "fmlookup (requests cl1) key = Some jr" using f jr assms(2) by (simp_all add: named_requests_def)
  note st = status_written_step [OF w k]
  have "named_requests cl'" by (rule status_step_named [OF st n1])
  moreover have "\<forall>k. k \<noteq> key \<longrightarrow> fmlookup (requests cl') k = fmlookup (requests cl) k"
    using st f by (simp add: status_step_def)
  moreover have "\<forall>j. fmlookup (requests cl) key = Some j \<longrightarrow> (\<exists>st. fmlookup (requests cl') key = Some (j\<lparr>jr_Status := st\<rparr>))"
    using st n1(2) jr by (simp add: status_step_def)
  moreover have "\<exists>s. fmlookup (secrets cl') k = Some s \<and> k = (fst key, SecretName (jr_Spec jr)) \<and>
      secret_written a (t_annot t) jr signed (fmlookup (secrets cl) k) s"
    if "fmlookup (secrets cl') k \<noteq> fmlookup (secrets cl) k" for k
  proof -
    have s: "secrets cl' = secrets cl1" using st by (simp add: status_step_def)
    have "k = (jr_Namespace jr, SecretName (jr_Spec jr))" using that f unfolding s by blast
    moreover have "e = None" using that f unfolding s by blast
    ultimately show ?thesis using f by (simp add: s \<open>key = _\<close>)
  qed
  ultimately show ?thesis using jr mm by meson
qed

definition demo_api :: api where
  "demo_api = \<lparr>api_get = None, api_getSecret = None, api_upsert = None, api_status = None,
     api_setOwner = (\<lambda>jr s. Inr (s\<lparr>sec_owner := Some (jr_Name jr)\<rparr>)), api_formatTime = (\<lambda>_. [])\<rparr>"

definition demo_reconciler :: reconciler where
  "demo_reconciler = \<lparr>rc_Signer = (\<lambda>_ _ _. Inr (''t'', demo_minted)), rc_DefaultExpiration = Hour,
     rc_unmarshal = (\<lambda>_. None), rc_errText = (\<lambda>_. ''failed'')\<rparr>"

definition demo_cluster :: cluster where
  "demo_cluster = \<lparr>requests = fmupd (''ns'', ''r'') demo_request fmempty, secrets = fmempty\<rparr>"

definition demo_times :: times where
  "demo_times = \<lparr>t_eval = 0, t_mint = 0, t_annot = 0, t_now = 0, t_ready = 0, t_minted = 0, t_accepted = 0, t_next = 0\<rparr>"

lemma demo_laws: "owner_law demo_api" "named_requests demo_cluster"
  by (auto simp: owner_law_def demo_api_def named_requests_def demo_cluster_def demo_request_def split: if_splits)

lemma cond_of_setCondition:
  "cond_of u (Conditions (jr_Status (setCondition now t st rs msg jr))) =
    (if u = t then
       Some \<lparr>c_Type = t, c_Status = st, c_Reason = rs, c_Message = msg,
         c_LastTransitionTime = (case cond_of t (Conditions (jr_Status jr)) of
            Some d \<Rightarrow> if c_Status d \<noteq> st then now else c_LastTransitionTime d | None \<Rightarrow> now),
         c_ObservedGeneration = jr_Generation jr\<rparr>
     else cond_of u (Conditions (jr_Status jr)))"
  by (simp add: setCondition_def cond_of_replace)

definition reports :: "string \<Rightarrow> bool \<Rightarrow> jwt_request \<Rightarrow> bool" where
  "reports t st jr \<longleftrightarrow> (\<exists>c. cond_of t (Conditions (jr_Status jr)) = Some c \<and> c_Status c = st \<and>
     c_ObservedGeneration c = jr_Generation jr)"

lemma setCondition_Generation [simp]: "jr_Generation (setCondition now t st rs msg jr) = jr_Generation jr"
  by (simp add: setCondition_def)

lemma reports_setCondition:
  "reports u b (setCondition now t st rs msg jr) = (if u = t then b = st else reports u b jr)"
  by (auto simp: reports_def cond_of_setCondition)

lemma setFailed_reports: "reports ConditionReady False (setFailed t1 t2 msg jr)" "reports ConditionMinted False (setFailed t1 t2 msg jr)"
  by (simp_all add: setFailed_def reports_setCondition condition_consts)

lemma minted_status_reports:
  "reports ConditionReady True (minted_status L t f tok res jr)"
  "reports ConditionMinted True (minted_status L t f tok res jr)"
  "reports ConditionClaimsAccepted (dropped_reserved res = [] \<and> dropped_invalid res = []) (minted_status L t f tok res jr)"
  by (simp_all add: minted_status_def setMinted_def setClaimsAccepted_def reports_setCondition condition_consts Let_def)

lemma Reconcile_minting:
  assumes "owner_law a" "api_get a = None" "api_getSecret a = None" "api_upsert a = None" "api_status a = None"
    "\<forall>s. \<exists>s'. api_setOwner a jr s = Inr s'" "fmlookup (requests cl) key = Some jr" "key = (jr_Namespace jr, jr_Name jr)"
    "SecretName (jr_Spec jr) \<noteq> []" "resolveExpiration L (ExpiresIn (jr_Spec jr)) (rc_DefaultExpiration r) = Inr d"
    "evaluateRefresh L (t_eval t) (fmlookup (secrets cl) (jr_Namespace jr, SecretName (jr_Spec jr))) d (threshold_of (jr_Spec jr)) = (True, after)"
    "mint L r (t_mint t) ctx jr d = (Inr (signed, tok), res)"
  shows "\<exists>requeue cl' jr' s. Reconcile L r a t ctx key cl = ((requeue, None), cl') \<and> Second \<le> requeue \<and>
    fmlookup (secrets cl') (jr_Namespace jr, SecretName (jr_Spec jr)) = Some s \<and>
    fmlookup (sec_data s) SecretDataKey = Some signed \<and>
    fmlookup (requests cl') key = Some jr' \<and> jr_Spec jr' = jr_Spec jr \<and>
    reports ConditionReady True jr' \<and> reports ConditionMinted True jr' \<and>
    reports ConditionClaimsAccepted (dropped_reserved res = [] \<and> dropped_invalid res = []) jr' \<and>
    ObservedGeneration (jr_Status jr') = jr_Generation jr \<and> st_SecretName (jr_Status jr') = SecretName (jr_Spec jr) \<and>
    (\<forall>e. Claims.ExpiresAt L (t_claims tok) = Inr e \<longrightarrow> status.ExpiresAt (jr_Status jr') = Some e) \<and>
    (\<forall>j. ID (t_claims tok) = Inr j \<longrightarrow> status.JTI (jr_Status jr') = j)"
proof -
  obtain e cl1 where up: "upsertSecret a (t_annot t) jr signed cl = (e, cl1)" by force
  have "e = None"
    using up assms(4,6) by (auto simp: upsertSecret_def Let_def split: sum.splits) (metis sum.distinct(1))
  note f = upsertSecret_frame [OF up assms(1)]
  let ?first = "fmlookup (secrets cl) (jr_Namespace jr, SecretName (jr_Spec jr)) = None"
  let ?m = "minted_status L t ?first tok res jr"
  have "fmlookup (requests cl1) (jr_Namespace ?m, jr_Name ?m) = Some jr" using f assms(7,8) by (simp add: same_request)
  note us = updateStatus_ok [OF assms(5) this]
  let ?jr' = "jr\<lparr>jr_Status := jr_Status ?m\<rparr>"
  have m: "?m = ?jr'" by (simp add: minted_status_def setMinted_def setClaimsAccepted_def setCondition_def Let_def)
  have "\<exists>q. Reconcile L r a t ctx key cl = ((q, None), cl1\<lparr>requests := fmupd key ?jr' (requests cl1)\<rparr>) \<and> Second \<le> q"
    using assms(2,3,7-12) up us \<open>e = None\<close> nextRefresh_ge
    by (simp add: Reconcile_def getSecret_def Let_def same_request)
  moreover have "reports ConditionReady True ?jr'" "reports ConditionMinted True ?jr'"
    "reports ConditionClaimsAccepted (dropped_reserved res = [] \<and> dropped_invalid res = []) ?jr'"
    unfolding m [symmetric] by (rule minted_status_reports)+
  moreover have "ObservedGeneration (jr_Status ?m) = jr_Generation jr \<and> st_SecretName (jr_Status ?m) = SecretName (jr_Spec jr)"
    by (simp add: minted_status_def setMinted_def setClaimsAccepted_def setCondition_def Let_def)
  moreover have "(\<forall>e. Claims.ExpiresAt L (t_claims tok) = Inr e \<longrightarrow> status.ExpiresAt (jr_Status ?m) = Some e) \<and>
      (\<forall>j. ID (t_claims tok) = Inr j \<longrightarrow> status.JTI (jr_Status ?m) = j)"
    by (simp add: minted_status_def setMinted_def setClaimsAccepted_def setCondition_def Let_def)
  ultimately show ?thesis using f \<open>e = None\<close> by (auto dest: secret_written_token)
qed

text \<open>C14. A reconciliation that has to mint and whose signer, store and status calls succeed leaves the signed
  token in the Secret the spec names, the request Ready and Minted at its generation, its ClaimsAccepted
  condition true exactly when no extra claim was dropped, the recorded expiry and id those of the
  token, and a requeue at least a second ahead.\<close>

theorem reconcile_mints:
  assumes "owner_law a" "api_get a = None" "api_getSecret a = None" "api_upsert a = None" "api_status a = None"
    "\<forall>s. \<exists>s'. api_setOwner a jr s = Inr s'" "fmlookup (requests cl) key = Some jr" "key = (jr_Namespace jr, jr_Name jr)"
    "SecretName (jr_Spec jr) \<noteq> []" "resolveExpiration L (ExpiresIn (jr_Spec jr)) (rc_DefaultExpiration r) = Inr d"
    "evaluateRefresh L (t_eval t) (fmlookup (secrets cl) (jr_Namespace jr, SecretName (jr_Spec jr))) d (threshold_of (jr_Spec jr)) = (True, after)"
    "mint L r (t_mint t) ctx jr d = (Inr (signed, tok), res)"
  shows "\<exists>requeue cl' jr' s. Reconcile L r a t ctx key cl = ((requeue, None), cl') \<and> Second \<le> requeue \<and>
    fmlookup (secrets cl') (jr_Namespace jr, SecretName (jr_Spec jr)) = Some s \<and>
    fmlookup (sec_data s) SecretDataKey = Some signed \<and>
    fmlookup (requests cl') key = Some jr' \<and> jr_Spec jr' = jr_Spec jr \<and>
    reports ConditionReady True jr' \<and> reports ConditionMinted True jr' \<and>
    reports ConditionClaimsAccepted (dropped_reserved res = [] \<and> dropped_invalid res = []) jr' \<and>
    ObservedGeneration (jr_Status jr') = jr_Generation jr \<and> st_SecretName (jr_Status jr') = SecretName (jr_Spec jr) \<and>
    (\<forall>e. Claims.ExpiresAt L (t_claims tok) = Inr e \<longrightarrow> status.ExpiresAt (jr_Status jr') = Some e) \<and>
    (\<forall>j. ID (t_claims tok) = Inr j \<longrightarrow> status.JTI (jr_Status jr') = j)"
  using assms by (rule Reconcile_minting)

theorem reconcile_mints_witness:
  "\<exists>cl' s. Reconcile demo_mint_lib demo_reconciler demo_api demo_times None (''ns'', ''r'') demo_cluster = cl' \<and>
    fmlookup (secrets (snd cl')) (''ns'', ''s'') = Some s \<and> fmlookup (sec_data s) SecretDataKey = Some ''t''"
proof -
  let ?t = demo_times
  obtain res where m: "mint demo_mint_lib demo_reconciler 0 None demo_request Hour = (Inr (''t'', demo_minted), res)"
    by (cases "mint_claims demo_mint_lib (\<lambda>_. None) 0 Hour (jr_Spec demo_request)") (simp add: mint_def demo_reconciler_def)
  have "resolveExpiration demo_mint_lib (ExpiresIn (jr_Spec demo_request)) (rc_DefaultExpiration demo_reconciler) = Inr Hour"
    by (simp add: resolveExpiration_def demo_request_def demo_reconciler_def Hour_def Minute_def Second_def)
  note d = this
  have "\<exists>requeue cl' jr' s. Reconcile demo_mint_lib demo_reconciler demo_api ?t None (''ns'', ''r'') demo_cluster = ((requeue, None), cl') \<and>
      Second \<le> requeue \<and> fmlookup (secrets cl') (jr_Namespace demo_request, SecretName (jr_Spec demo_request)) = Some s \<and>
      fmlookup (sec_data s) SecretDataKey = Some ''t'' \<and> fmlookup (requests cl') (''ns'', ''r'') = Some jr' \<and>
      jr_Spec jr' = jr_Spec demo_request \<and> reports ConditionReady True jr' \<and> reports ConditionMinted True jr' \<and>
      reports ConditionClaimsAccepted (dropped_reserved res = [] \<and> dropped_invalid res = []) jr' \<and>
      ObservedGeneration (jr_Status jr') = jr_Generation demo_request \<and>
      st_SecretName (jr_Status jr') = SecretName (jr_Spec demo_request) \<and>
      (\<forall>e. Claims.ExpiresAt demo_mint_lib (t_claims demo_minted) = Inr e \<longrightarrow> status.ExpiresAt (jr_Status jr') = Some e) \<and>
      (\<forall>j. ID (t_claims demo_minted) = Inr j \<longrightarrow> status.JTI (jr_Status jr') = j)"
    by (rule reconcile_mints [OF demo_laws(1) _ _ _ _ _ _ _ _ d])
      (simp_all add: m demo_times_def, simp_all add: demo_api_def demo_cluster_def demo_request_def evaluateRefresh_def demo_times_def)
  then show ?thesis by (auto simp: demo_request_def)
qed

lemma demo_mints:
  "\<exists>s. fmlookup (secrets (snd (Reconcile demo_mint_lib demo_reconciler demo_api demo_times None (''ns'', ''r'') demo_cluster))) (''ns'', ''s'') = Some s"
proof -
  obtain res where m: "mint demo_mint_lib demo_reconciler 0 None demo_request Hour = (Inr (''t'', demo_minted), res)"
    by (cases "mint_claims demo_mint_lib (\<lambda>_. None) 0 Hour (jr_Spec demo_request)") (simp add: mint_def demo_reconciler_def)
  then show ?thesis
    by (simp add: Reconcile_def demo_api_def demo_cluster_def demo_request_def demo_times_def demo_reconciler_def resolveExpiration_def
        getSecret_def evaluateRefresh_def upsertSecret_def updateStatus_def minted_status_def setMinted_def setClaimsAccepted_def
        setCondition_def Let_def Hour_def Minute_def Second_def)
qed

theorem reconcile_confined_witness:
  "\<exists>s signed. fmlookup (secrets (snd (Reconcile demo_mint_lib demo_reconciler demo_api demo_times None (''ns'', ''r'') demo_cluster))) (''ns'', ''s'') = Some s \<and>
    secret_written demo_api 0 demo_request signed None s"
proof -
  let ?r = "Reconcile demo_mint_lib demo_reconciler demo_api demo_times None (''ns'', ''r'') demo_cluster"
  have "fmlookup (secrets (snd ?r)) (''ns'', ''s'') \<noteq> fmlookup (secrets demo_cluster) (''ns'', ''s'')"
    using demo_mints by (auto simp: demo_cluster_def)
  moreover have "fmlookup (secrets demo_cluster) (''ns'', ''s'') = None" "t_annot demo_times = 0" by (simp_all add: demo_cluster_def demo_times_def)
  moreover have "fmlookup (requests demo_cluster) (''ns'', ''r'') = Some demo_request" by (simp add: demo_cluster_def)
  moreover have "\<forall>k. fmlookup (secrets (snd ?r)) k \<noteq> fmlookup (secrets demo_cluster) k \<longrightarrow>
      (\<exists>jr s d signed tok res. fmlookup (requests demo_cluster) (''ns'', ''r'') = Some jr \<and> k = (fst (''ns'', ''r''), SecretName (jr_Spec jr)) \<and>
        fmlookup (secrets (snd ?r)) k = Some s \<and>
        resolveExpiration demo_mint_lib (ExpiresIn (jr_Spec jr)) (rc_DefaultExpiration demo_reconciler) = Inr d \<and>
        mint demo_mint_lib demo_reconciler (t_mint demo_times) None jr d = (Inr (signed, tok), res) \<and>
        secret_written demo_api (t_annot demo_times) jr signed (fmlookup (secrets demo_cluster) k) s)"
    using reconcile_confined [OF demo_laws, of demo_mint_lib demo_reconciler demo_times None "(''ns'', ''r'')" "fst ?r" "snd ?r"] by simp
  ultimately show ?thesis by (metis option.inject)
qed

text \<open>The two halves of a failed run: it ends in one status update, and what that update leaves.\<close>

lemma failed_status:
  assumes "api_status a = None" "fmlookup (requests cl) key = Some jr" "key = (jr_Namespace jr, jr_Name jr)"
  shows "\<exists>cl' jr'. (case updateStatus a (setFailed (t_ready t) (t_minted t) msg jr) cl of (e, cl') \<Rightarrow> ((0, e), cl')) = ((0, None), cl') \<and>
      secrets cl' = secrets cl \<and> fmlookup (requests cl') key = Some jr' \<and> jr_Spec jr' = jr_Spec jr \<and>
      reports ConditionReady False jr' \<and> reports ConditionMinted False jr'"
proof -
  let ?m = "setFailed (t_ready t) (t_minted t) msg jr"
  have m: "?m = jr\<lparr>jr_Status := jr_Status ?m\<rparr>" by (simp add: setFailed_def setCondition_def)
  have r: "reports ConditionReady False (jr\<lparr>jr_Status := jr_Status ?m\<rparr>)" "reports ConditionMinted False (jr\<lparr>jr_Status := jr_Status ?m\<rparr>)"
    unfolding m [symmetric] by (rule setFailed_reports)+
  have "fmlookup (requests cl) (jr_Namespace ?m, jr_Name ?m) = Some jr" using assms(2,3) by (simp add: same_request)
  note updateStatus_ok [OF assms(1) this]
  then show ?thesis using r assms(3) by (simp add: same_request)
qed

lemma upsertSecret_fails:
  assumes "api_upsert a \<noteq> None \<or> (\<forall>s. isl (api_setOwner a jr s))"
  shows "\<exists>e. upsertSecret a now jr tok cl = (Some e, cl)"
proof -
  have "\<not> (api_setOwner a jr s = Inr s' \<and> api_upsert a = None)" for s s' using assms by (metis sum.disc(2))
  then show ?thesis unfolding upsertSecret_def Let_def by (auto split: sum.split option.split)
qed

lemma Reconcile_failed:
  assumes "api_get a = None" "api_getSecret a = None" "fmlookup (requests cl) key = Some jr" "key = (jr_Namespace jr, jr_Name jr)"
    "SecretName (jr_Spec jr) = [] \<or>
     isl (resolveExpiration L (ExpiresIn (jr_Spec jr)) (rc_DefaultExpiration r)) \<or>
     (\<exists>d after. resolveExpiration L (ExpiresIn (jr_Spec jr)) (rc_DefaultExpiration r) = Inr d \<and>
       evaluateRefresh L (t_eval t) (fmlookup (secrets cl) (jr_Namespace jr, SecretName (jr_Spec jr))) d (threshold_of (jr_Spec jr)) = (True, after) \<and>
       (case fst (mint L r (t_mint t) ctx jr d) of Inl e \<Rightarrow> True
        | Inr (signed, tok) \<Rightarrow> api_upsert a \<noteq> None \<or> (\<forall>s. isl (api_setOwner a jr s))))"
  shows "\<exists>msg. Reconcile L r a t ctx key cl =
      (case updateStatus a (setFailed (t_ready t) (t_minted t) msg jr) cl of (e, cl') \<Rightarrow> ((0, e), cl'))"
proof (cases "SecretName (jr_Spec jr) = [] \<or> isl (resolveExpiration L (ExpiresIn (jr_Spec jr)) (rc_DefaultExpiration r))")
  case True
  then show ?thesis using assms(1,3) by (auto simp: Reconcile_def getSecret_def Let_def isl_def)
next
  case False
  then obtain d after where d: "resolveExpiration L (ExpiresIn (jr_Spec jr)) (rc_DefaultExpiration r) = Inr d"
    "evaluateRefresh L (t_eval t) (fmlookup (secrets cl) (jr_Namespace jr, SecretName (jr_Spec jr))) d (threshold_of (jr_Spec jr)) = (True, after)"
    "case fst (mint L r (t_mint t) ctx jr d) of Inl e \<Rightarrow> True
      | Inr (signed, tok) \<Rightarrow> api_upsert a \<noteq> None \<or> (\<forall>s. isl (api_setOwner a jr s))" using assms(5) by blast
  obtain m res where m: "mint L r (t_mint t) ctx jr d = (m, res)" by force
  show ?thesis
  proof (cases m)
    case (Inl e)
    then show ?thesis using assms(1-3) False d(1,2) m by (auto simp: Reconcile_def getSecret_def Let_def)
  next
    case (Inr st)
    obtain signed tok where st: "st = (signed, tok)" by force
    obtain e where "upsertSecret a (t_annot t) jr signed cl = (Some e, cl)" using upsertSecret_fails d(3) m Inr st by fastforce
    then show ?thesis using assms(1-3) False d(1,2) m Inr st by (auto simp: Reconcile_def getSecret_def Let_def)
  qed
qed

text \<open>C27. A reconciliation that cannot mint: when the request and the Secret can be read, and the spec names no Secret,
  has an invalid lifetime, the signer refuses the claims or the Secret cannot be written, every Secret
  stays as it was. If the status update succeeds, the request reports Ready and Minted false at its
  generation, and the run returns no error and asks for no requeue, so it is not retried by itself; if the
  status update fails, nothing is reported and the run returns that error, so it is retried.\<close>

theorem reconcile_fails:
  assumes "api_get a = None" "api_getSecret a = None" "fmlookup (requests cl) key = Some jr" "key = (jr_Namespace jr, jr_Name jr)"
    "SecretName (jr_Spec jr) = [] \<or>
     isl (resolveExpiration L (ExpiresIn (jr_Spec jr)) (rc_DefaultExpiration r)) \<or>
     (\<exists>d after. resolveExpiration L (ExpiresIn (jr_Spec jr)) (rc_DefaultExpiration r) = Inr d \<and>
       evaluateRefresh L (t_eval t) (fmlookup (secrets cl) (jr_Namespace jr, SecretName (jr_Spec jr))) d (threshold_of (jr_Spec jr)) = (True, after) \<and>
       (case fst (mint L r (t_mint t) ctx jr d) of Inl e \<Rightarrow> True
        | Inr (signed, tok) \<Rightarrow> api_upsert a \<noteq> None \<or> (\<forall>s. isl (api_setOwner a jr s))))"
  shows "case api_status a of
      None \<Rightarrow> \<exists>cl' jr'. Reconcile L r a t ctx key cl = ((0, None), cl') \<and> secrets cl' = secrets cl \<and>
        fmlookup (requests cl') key = Some jr' \<and> jr_Spec jr' = jr_Spec jr \<and>
        reports ConditionReady False jr' \<and> reports ConditionMinted False jr'
    | Some e \<Rightarrow> Reconcile L r a t ctx key cl = ((0, Some e), cl)"
proof -
  obtain msg where r: "Reconcile L r a t ctx key cl =
      (case updateStatus a (setFailed (t_ready t) (t_minted t) msg jr) cl of (e, cl') \<Rightarrow> ((0, e), cl'))"
    using Reconcile_failed [OF assms] by blast
  show ?thesis
  proof (cases "api_status a")
    case None
    then show ?thesis using failed_status [OF None assms(3,4), of t msg] by (simp add: r)
  next
    case (Some e)
    then show ?thesis by (simp add: r updateStatus_def)
  qed
qed

theorem reconcile_fails_witness:
  "\<forall>t. \<exists>cl'. Reconcile demo_mint_lib demo_reconciler demo_api t None (''ns'', ''r'')
      (demo_cluster\<lparr>requests := fmupd (''ns'', ''r'') (demo_request\<lparr>jr_Spec := (jr_Spec demo_request)\<lparr>SecretName := []\<rparr>\<rparr>) fmempty\<rparr>) = ((0, None), cl')"
proof
  fix t
  let ?jr = "demo_request\<lparr>jr_Spec := (jr_Spec demo_request)\<lparr>SecretName := []\<rparr>\<rparr>"
  let ?cl = "demo_cluster\<lparr>requests := fmupd (''ns'', ''r'') ?jr fmempty\<rparr>"
  have a: "api_get demo_api = None" "api_getSecret demo_api = None" "api_status demo_api = None" by (simp_all add: demo_api_def)
  have "fmlookup (requests ?cl) (''ns'', ''r'') = Some ?jr" "(''ns'', ''r'') = (jr_Namespace ?jr, jr_Name ?jr)" "SecretName (jr_Spec ?jr) = []"
    by (simp_all add: demo_request_def)
  from reconcile_fails [OF a(1,2) this(1,2) disjI1, OF this(3), of demo_mint_lib demo_reconciler t None]
  show "\<exists>cl'. Reconcile demo_mint_lib demo_reconciler demo_api t None (''ns'', ''r'') ?cl = ((0, None), cl')" using a(3) by auto
qed

text \<open>While the token in the Secret is fresh a reconciliation keeps every Secret, requeues for the time the
  decision gave, and writes only the Secret's name into the status: the conditions, the mint time and the
  generation observed stay as they were, also when the spec has changed since the mint.\<close>

theorem reconcile_keeps_fresh:
  assumes "api_get a = None" "api_getSecret a = None" "api_status a = None"
    "fmlookup (requests cl) key = Some jr" "key = (jr_Namespace jr, jr_Name jr)" "SecretName (jr_Spec jr) \<noteq> []"
    "resolveExpiration L (ExpiresIn (jr_Spec jr)) (rc_DefaultExpiration r) = Inr d"
    "evaluateRefresh L (t_eval t) (fmlookup (secrets cl) (jr_Namespace jr, SecretName (jr_Spec jr))) d (threshold_of (jr_Spec jr)) = (False, after)"
  shows "Reconcile L r a t ctx key cl = ((after, None),
    cl\<lparr>requests := fmupd key (jr\<lparr>jr_Status := (jr_Status jr)\<lparr>st_SecretName := SecretName (jr_Spec jr)\<rparr>\<rparr>) (requests cl)\<rparr>)"
proof -
  have "fmlookup (secrets cl) (jr_Namespace jr, SecretName (jr_Spec jr)) \<noteq> None"
    using assms(8) unfolding evaluateRefresh_keep usable_secret_def by auto
  moreover have "updateStatus a (jr\<lparr>jr_Status := st\<rparr>) cl = (None, cl\<lparr>requests := fmupd key (jr\<lparr>jr_Status := st\<rparr>) (requests cl)\<rparr>)" for st
    using updateStatus_ok [of a cl "jr\<lparr>jr_Status := st\<rparr>" jr] assms(3-5) by simp
  ultimately show ?thesis
    using assms(1,2,4,6-8) by (simp add: Reconcile_def getSecret_def Let_def)
qed

theorem reconcile_keeps_fresh_witness:
  "fst (Reconcile demo_mint_lib demo_reconciler demo_api demo_times None (''ns'', ''r'')
     (demo_cluster\<lparr>secrets := fmupd (''ns'', ''s'') demo_secret fmempty\<rparr>)) = (2700000000000, None)"
proof -
  let ?cl = "demo_cluster\<lparr>secrets := fmupd (''ns'', ''s'') demo_secret fmempty\<rparr>"
  have "t_eval demo_times = 0" by (simp add: demo_times_def)
  moreover have "threshold_of (jr_Spec demo_request) = 1 / 4"
    by (simp add: threshold_of_def demo_request_def DefaultRefreshThreshold_def)
  moreover have "fmlookup (secrets ?cl) (jr_Namespace demo_request, SecretName (jr_Spec demo_request)) = Some demo_secret"
    by (simp add: demo_request_def)
  ultimately have e: "evaluateRefresh demo_mint_lib (t_eval demo_times)
      (fmlookup (secrets ?cl) (jr_Namespace demo_request, SecretName (jr_Spec demo_request))) Hour (threshold_of (jr_Spec demo_request)) = (False, 2700000000000)"
    using demo_keep by (simp only:)
  show "fst (Reconcile demo_mint_lib demo_reconciler demo_api demo_times None (''ns'', ''r'') ?cl) = (2700000000000, None)"
    by (subst reconcile_keeps_fresh [OF _ _ _ _ _ _ _ e])
      (simp_all add: demo_api_def demo_cluster_def demo_request_def resolveExpiration_def demo_reconciler_def Hour_def Minute_def Second_def)
qed

text \<open>The admission policy limits the keys of extraClaims only: once "groups" is an allowed key, any requester can
  have an admitted request minted with any groups claim, although spec.groups is limited to the
  requester's own groups.\<close>

theorem extra_claims_escape_group_check:
  assumes "allow_listed [KeyGroups] (AllowedExtraClaimKeys p)" "unmarshal raw = Some v"
  shows "\<exists>jr. Allow p u (Some jr) = None \<and> set (spec.Groups (jr_Spec jr)) \<subseteq> set (ui_Groups u) \<and>
    fmlookup (fst (mint_claims L unmarshal now d (jr_Spec jr))) KeyGroups = Some v"
proof -
  let ?s = "\<lparr>SecretName = ''s'', Subject = [], Issuer = [], Audience = [], Groups = [], Roles = [], Entitlements = [],
      ExtraClaims = [(KeyGroups, raw)], ExpiresIn = [], RefreshThreshold = None\<rparr>"
  let ?jr = "demo_request\<lparr>jr_Spec := ?s\<rparr>"
  have "\<not> IsRegisteredClaim KeyGroups" by (simp add: IsRegisteredClaim_def key_defs)
  then have "fmlookup (fst (mint_claims L unmarshal now d ?s)) KeyGroups = Some v"
    using assms(2) by (simp add: mint_claims_def SetExpiresAt_def key_defs)
  moreover have "Allow p u (Some ?jr) = None" using assms(1) by (simp add: Allow_None permitted_def allow_listed_def)
  ultimately show ?thesis by (intro exI [of _ ?jr]) simp
qed

theorem extra_claims_escape_group_check_witness:
  "\<exists>jr. Allow \<lparr>AllowedAudiences = [], AllowedEntitlements = [], AllowedRoles = [], AllowedExtraClaimKeys = [''*''],
        AdminUsers = [], AdminGroups = []\<rparr> \<lparr>Username = ''eve'', ui_Groups = []\<rparr> (Some jr) = None \<and>
     fmlookup (fst (mint_claims no_lib (\<lambda>_. Some (VAnys (Slice [VString ''admins'']))) 0 Hour (jr_Spec jr))) KeyGroups =
       Some (VAnys (Slice [VString ''admins'']))"
  using extra_claims_escape_group_check
    [of "\<lparr>AllowedAudiences = [], AllowedEntitlements = [], AllowedRoles = [], AllowedExtraClaimKeys = [''*''],
        AdminUsers = [], AdminGroups = []\<rparr>" "\<lambda>_. Some (VAnys (Slice [VString ''admins'']))" "[]"]
  by (simp add: allow_listed_def AllowAny_def) blast

end
