(* ===== verification/Remote_Termination.thy ===== *)
theory Remote_Termination
  imports Jwks_Remote
begin

text \<open>
  Progress and termination of the concurrent callers of \<open>jwks.Remote\<close>: the calls that have started never
  block one another for ever, and without new calls every execution ends.
\<close>

text \<open>The steps a call has left at most; an idle or finished caller has none.\<close>

fun steps_left :: "caller \<Rightarrow> nat" where
  "steps_left WaitKeySet = 3"
| "steps_left WaitRefresh = 2"
| "steps_left Holding = 2"
| "steps_left Fetching = 1"
| "steps_left _ = 0"

definition busy :: "world \<Rightarrow> nat set" where
  "busy w = {i. steps_left (w_pc w i) \<noteq> 0}"

definition load :: "world \<Rightarrow> nat" where
  "load w = (\<Sum>i \<in> busy w. steps_left (w_pc w i))"

text \<open>A step of a call that has started.\<close>

definition inner_step :: "(string \<Rightarrow> jwks result) \<Rightarrow> world \<Rightarrow> world \<Rightarrow> bool" where
  "inner_step decode w w' \<longleftrightarrow> step decode w w' \<and> (\<forall>i. w_pc w i = Idle \<longrightarrow> w_pc w' i = Idle)"

lemma busy_set_pc: "busy (set_pc i c (w\<lparr>w_owner := own\<rparr>)) \<subseteq> insert i (busy w)"
  "busy (set_pc i c w) \<subseteq> insert i (busy w)"
  "busy (set_pc i c (w\<lparr>w_remote := r, w_owner := own\<rparr>)) \<subseteq> insert i (busy w)"
  by (auto simp: busy_def set_pc_def)

lemma step_busy: "step decode w w' \<Longrightarrow> finite (busy w) \<Longrightarrow> finite (busy w')"
  by (erule step.cases) (auto intro: finite_subset [OF busy_set_pc(1)] finite_subset [OF busy_set_pc(2)]
      finite_subset [OF busy_set_pc(3)])

lemma reachable_busy: "reachable decode r0 w \<Longrightarrow> finite (busy w)"
proof (induction rule: reachable.induct)
  case start
  then show ?case by (simp add: busy_def)
qed (rule step_busy)

text \<open>Such a step changes one busy caller, and takes one of its steps.\<close>

lemma inner_step_caller:
  assumes "inner_step decode w w'"
  shows "\<exists>i c. w_pc w' = (w_pc w)(i := c) \<and> steps_left c < steps_left (w_pc w i)"
proof -
  have s: "step decode w w'" and idle: "\<And>i. w_pc w i = Idle \<Longrightarrow> w_pc w' i = Idle" using assms by (auto simp: inner_step_def)
  from s show ?thesis
  proof (cases rule: step.cases)
    case (call_hit i t ks)
    with idle [of i] show ?thesis by (simp add: set_pc_def)
  next
    case (call_miss i t)
    with idle [of i] show ?thesis by (simp add: set_pc_def)
  next
    case (call_refresh i)
    with idle [of i] show ?thesis by (simp add: set_pc_def)
  next
    case (lock i)
    then show ?thesis by (intro exI [of _ i] exI [of _ Holding]) (simp add: set_pc_def)
  next
    case (lock_refresh i)
    then show ?thesis by (intro exI [of _ i] exI [of _ Fetching]) (simp add: set_pc_def)
  next
    case (answer i t1 t2 a)
    then show ?thesis by (intro exI [of _ i] exI [of _ "Done a"]) (simp add: set_pc_def)
  next
    case (request i t1 t2)
    then show ?thesis by (intro exI [of _ i] exI [of _ Fetching]) (simp add: set_pc_def)
  next
    case (complete i reply t a r')
    then show ?thesis by (intro exI [of _ i] exI [of _ "Done a"]) (simp add: set_pc_def)
  qed
qed

lemma inner_step_load:
  assumes "inner_step decode w w'" "finite (busy w)"
  shows "load w' < load w"
proof -
  obtain i c where i: "w_pc w' = (w_pc w)(i := c)" "steps_left c < steps_left (w_pc w i)"
    using inner_step_caller [OF assms(1)] by blast
  have sub: "busy w' \<subseteq> busy w" "i \<in> busy w" using i by (auto simp: busy_def split: if_splits)
  have "load w' = (\<Sum>j \<in> busy w. steps_left (w_pc w' j))"
    unfolding load_def using assms(2) sub(1) by (intro sum.mono_neutral_left) (auto simp: busy_def)
  also have "\<dots> < (\<Sum>j \<in> busy w. steps_left (w_pc w j))"
    using assms(2) sub(2) i by (intro sum_strict_mono_ex1) auto
  finally show ?thesis by (simp add: load_def)
qed

lemma inner_chain_bound:
  assumes "\<forall>n. inner_step decode (f n) (f (Suc n))" "finite (busy (f 0))"
  shows "finite (busy (f n)) \<and> load (f n) + n \<le> load (f 0)"
proof (induction n)
  case (Suc n)
  have s: "inner_step decode (f n) (f (Suc n))" using assms(1) by blast
  with Suc step_busy [of decode "f n" "f (Suc n)"] inner_step_load [OF s] show ?case by (auto simp: inner_step_def)
qed (simp add: assms)

lemma inner_step_set_pc:
  "step decode w w' \<Longrightarrow> w_pc w' = (w_pc w)(i := c) \<Longrightarrow> w_pc w i \<noteq> Idle \<Longrightarrow> inner_step decode w w'"
  by (auto simp: inner_step_def)

lemma owner_progress:
  assumes "w_pc w j \<in> {Holding, Fetching}"
  shows "\<exists>w'. inner_step decode w w'"
proof (cases "w_pc w j = Fetching")
  case True
  obtain a r' where f: "fetchLocked decode undefined 0 (w_remote w) = (a, r')" by (cases "fetchLocked decode undefined 0 (w_remote w)")
  show ?thesis
    by (rule exI, rule inner_step_set_pc [OF step.complete [OF True f], of j]) (simp_all add: set_pc_def True)
next
  case False
  then have h: "w_pc w j = Holding" using assms by simp
  show ?thesis
  proof (cases "cache_answer 0 0 (w_remote w)")
    case None
    show ?thesis
      by (rule exI, rule inner_step_set_pc [OF step.request [OF h None], of j]) (simp_all add: set_pc_def h)
  next
    case (Some a)
    show ?thesis
      by (rule exI, rule inner_step_set_pc [OF step.answer [OF h Some], of j]) (simp_all add: set_pc_def h)
  qed
qed

lemma waiting_progress:
  assumes "w_owner w = None" "w_pc w i \<in> {WaitKeySet, WaitRefresh}"
  shows "\<exists>w'. inner_step decode w w'"
proof (cases "w_pc w i = WaitKeySet")
  case True
  show ?thesis
    by (rule exI, rule inner_step_set_pc [OF step.lock [OF True assms(1)], of i]) (simp_all add: set_pc_def True)
next
  case False
  then have r: "w_pc w i = WaitRefresh" using assms(2) by simp
  show ?thesis
    by (rule exI, rule inner_step_set_pc [OF step.lock_refresh [OF r assms(1)], of i]) (simp_all add: set_pc_def r)
qed

text \<open>C23. The calls of any number of callers that have started come to an end, provided every request meets a reply
  or an error, which the default client's timeout of 10 seconds sees to (a client without a timeout may
  hang): from every reachable state there is no infinite execution without new calls, whatever the network
  answers and the clocks show, and as long as a call is unfinished some call can make a step, so nobody
  waits for the lock for ever.\<close>

theorem remote_calls_terminate:
  assumes "reachable decode r0 w" "cached r0 = None"
  shows "(\<nexists>f. f 0 = w \<and> (\<forall>n. inner_step decode (f n) (f (Suc n)))) \<and>
    (w_pc w i \<in> {WaitKeySet, WaitRefresh, Holding, Fetching} \<longrightarrow> (\<exists>w'. inner_step decode w w'))"
proof (intro conjI impI notI)
  assume "\<exists>f. f 0 = w \<and> (\<forall>n. inner_step decode (f n) (f (Suc n)))"
  then obtain f where f: "f 0 = w" "\<forall>n. inner_step decode (f n) (f (Suc n))" by blast
  then have "load (f (Suc (load w))) + Suc (load w) \<le> load w"
    using inner_chain_bound [OF f(2), of "Suc (load w)"] reachable_busy [OF assms(1)] by simp
  then show False by simp
next
  assume b: "w_pc w i \<in> {WaitKeySet, WaitRefresh, Holding, Fetching}"
  have inv: "remote_inv w" using assms by (rule reachable_inv)
  show "\<exists>w'. inner_step decode w w'"
  proof (cases "w_owner w")
    case None
    then have "w_pc w i \<notin> {Holding, Fetching}" using inv by (simp add: remote_inv_def)
    then show ?thesis using waiting_progress [OF None] b by blast
  next
    case (Some j)
    then show ?thesis using inv owner_progress by (metis remote_inv_def)
  qed
qed

theorem remote_calls_terminate_witness:
  "\<exists>w w'. reachable (\<lambda>_. Inl []) demo_remote w \<and> w_pc w 0 = Fetching \<and> inner_step (\<lambda>_. Inl []) w w'"
proof -
  define w where "w = set_pc 0 Fetching (\<lparr>w_remote = demo_remote, w_owner = None, w_pc = (\<lambda>_. Idle)(0 := WaitRefresh)\<rparr>\<lparr>w_owner := Some 0\<rparr>)"
  have r: "reachable (\<lambda>_. Inl []) demo_remote w" unfolding w_def by (rule reachable_demo)
  have "cached demo_remote = None" "w_pc w 0 = Fetching" by (simp_all add: demo_remote_def w_def set_pc_def)
  with remote_calls_terminate [OF r, where i = 0] r show ?thesis by auto
qed

end
