(* ===== verification/Server_Run.thy ===== *)
theory Server_Run
  imports Http_Facts
begin

text \<open>
  Package \<open>httpserver\<close>, third part: the life of a running server (\<open>Server.Run\<close>) as a step relation of its
  two goroutines, and what the wrappers \<open>instrument\<close> and \<open>logRequests\<close> record of the requests it serves.
\<close>

section \<open>Run\<close>

text \<open>
  The serving goroutine accepts requests in \<open>Serve\<close> until that returns, then reports one value on \<open>errCh\<close>, a
  channel of capacity one. \<open>Run\<close> waits for the context or the channel, and shuts down in the first case.
  Of \<open>http.Server\<close> the model has what its documentation says: requests are answered concurrently, after
  \<open>Shutdown\<close> no new one is accepted and \<open>Serve\<close> returns \<open>ErrServerClosed\<close>, and \<open>Shutdown\<close> returns nil once no
  request is in flight and the error of its context, or of closing the listener, otherwise.
\<close>

abbreviation ErrServerClosed :: sentinel where "ErrServerClosed \<equiv> ErrExternal ''http: Server closed''"

datatype serving = Serving | Reporting "gerror option" | Ended
datatype running = Selecting | ShuttingDown | Returned "gerror option"

record run_state =
  ru_server :: serving
  ru_errCh :: "gerror option list"
  ru_cancelled :: bool
  ru_closed :: bool
  ru_inflight :: nat
  ru_pc :: running

definition serve_report :: "gerror \<Rightarrow> gerror option" where
  "serve_report err = (if \<not> errors_Is err ErrServerClosed then Some err else None)"

definition Run_start :: "gerror option \<Rightarrow> bool \<Rightarrow> run_state" where
  "Run_start listenErr cancelled =
    (case listenErr of
       Some e \<Rightarrow> \<lparr>ru_server = Ended, ru_errCh = [], ru_cancelled = cancelled, ru_closed = False, ru_inflight = 0,
         ru_pc = Returned (Some (ErrInvalidValue # e))\<rparr>
     | None \<Rightarrow> \<lparr>ru_server = Serving, ru_errCh = [], ru_cancelled = cancelled, ru_closed = False, ru_inflight = 0, ru_pc = Selecting\<rparr>)"

text \<open>Requests come and are answered.\<close>

inductive request_step :: "run_state \<Rightarrow> run_state \<Rightarrow> bool" where
  accept: "ru_server s = Serving \<Longrightarrow> \<not> ru_closed s \<Longrightarrow> request_step s (s\<lparr>ru_inflight := Suc (ru_inflight s)\<rparr>)"
| answered: "ru_inflight s = Suc n \<Longrightarrow> request_step s (s\<lparr>ru_inflight := n\<rparr>)"

text \<open>What else the surroundings do: the context is cancelled, the listener fails.\<close>

inductive env_step :: "run_state \<Rightarrow> run_state \<Rightarrow> bool" where
  cancel: "\<not> ru_cancelled s \<Longrightarrow> env_step s (s\<lparr>ru_cancelled := True\<rparr>)"
| serve_fails: "ru_server s = Serving \<Longrightarrow> \<not> errors_Is e ErrServerClosed \<Longrightarrow>
    env_step s (s\<lparr>ru_server := Reporting (serve_report e)\<rparr>)"

text \<open>What the two goroutines do.\<close>

inductive own_step :: "run_state \<Rightarrow> run_state \<Rightarrow> bool" where
  serve_closed: "ru_server s = Serving \<Longrightarrow> ru_closed s \<Longrightarrow>
    own_step s (s\<lparr>ru_server := Reporting (serve_report [ErrServerClosed])\<rparr>)"
| report: "ru_server s = Reporting x \<Longrightarrow> ru_errCh s = [] \<Longrightarrow> own_step s (s\<lparr>ru_server := Ended, ru_errCh := [x]\<rparr>)"
| select_ctx: "ru_pc s = Selecting \<Longrightarrow> ru_cancelled s \<Longrightarrow> own_step s (s\<lparr>ru_pc := ShuttingDown, ru_closed := True\<rparr>)"
| select_err: "ru_pc s = Selecting \<Longrightarrow> ru_errCh s = x # xs \<Longrightarrow> own_step s (s\<lparr>ru_pc := Returned x, ru_errCh := xs\<rparr>)"
| shutdown: "ru_pc s = ShuttingDown \<Longrightarrow> ru_inflight s = 0 \<Longrightarrow> own_step s (s\<lparr>ru_pc := Returned None\<rparr>)"
| shutdown_error: "ru_pc s = ShuttingDown \<Longrightarrow> own_step s (s\<lparr>ru_pc := Returned (Some err)\<rparr>)"

definition run_step :: "run_state \<Rightarrow> run_state \<Rightarrow> bool" where
  "run_step s s' \<longleftrightarrow> request_step s s' \<or> env_step s s' \<or> own_step s s'"

inductive Run :: "gerror option \<Rightarrow> bool \<Rightarrow> run_state \<Rightarrow> bool" for listenErr cancelled where
  begin_run: "Run listenErr cancelled (Run_start listenErr cancelled)"
| step_run: "Run listenErr cancelled s \<Longrightarrow> run_step s s' \<Longrightarrow> Run listenErr cancelled s'"

inductive_cases request_stepE: "request_step s s'"
inductive_cases env_stepE: "env_step s s'"
inductive_cases own_stepE: "own_step s s'"

text \<open>The invariant: the report is made once and never blocks, a nil report or a nil result needs a shutdown, a
  shutdown needs a cancelled context, and a nil result leaves no request in flight.\<close>

definition run_inv :: "run_state \<Rightarrow> bool" where
  "run_inv s \<longleftrightarrow>
    (ru_server s \<noteq> Ended \<longrightarrow> ru_errCh s = []) \<and>
    (ru_server s = Reporting None \<or> None \<in> set (ru_errCh s) \<or> ru_pc s = Returned None \<longrightarrow> ru_closed s) \<and>
    (ru_closed s \<longrightarrow> ru_pc s \<noteq> Selecting) \<and> (ru_pc s = ShuttingDown \<longrightarrow> ru_closed s) \<and>
    (ru_closed s \<longrightarrow> ru_cancelled s) \<and>
    (ru_pc s = Selecting \<and> ru_server s = Ended \<longrightarrow> ru_errCh s \<noteq> []) \<and>
    (\<not> ru_closed s \<and> ru_pc s \<noteq> Selecting \<longrightarrow> ru_server s = Ended) \<and>
    (ru_pc s = Returned None \<longrightarrow> ru_inflight s = 0)"

lemma Run_start_inv: "run_inv (Run_start l c)"
  by (simp add: run_inv_def Run_start_def split: option.split)

lemma request_step_inv:
  assumes "request_step s s'" "run_inv s"
  shows "run_inv s'"
proof -
  have "ru_pc s \<noteq> Returned None" using assms by (auto simp: run_inv_def elim: request_stepE)
  moreover have f: "ru_server s' = ru_server s" "ru_errCh s' = ru_errCh s" "ru_cancelled s' = ru_cancelled s" "ru_closed s' = ru_closed s"
    "ru_pc s' = ru_pc s" using assms(1) by (auto elim: request_stepE)
  ultimately show ?thesis using assms(2) unfolding run_inv_def f by blast
qed

lemma env_step_inv: "env_step s s' \<Longrightarrow> run_inv s \<Longrightarrow> run_inv s'"
proof (erule env_stepE)
  fix e
  assume s: "ru_server s = Serving" "\<not> errors_Is e ErrServerClosed" "s' = s\<lparr>ru_server := Reporting (serve_report e)\<rparr>" "run_inv s"
  have "serve_report e = Some e" using s(2) by (simp add: serve_report_def)
  then show "run_inv s'" unfolding s(3) using s(1,4) by (auto simp: run_inv_def)
qed (auto simp: run_inv_def)

lemma own_step_inv: "own_step s s' \<Longrightarrow> run_inv s \<Longrightarrow> run_inv s'"
proof (erule own_stepE)
  fix x
  assume "ru_server s = Reporting x" "ru_errCh s = []" "s' = s\<lparr>ru_server := Ended, ru_errCh := [x]\<rparr>" "run_inv s"
  then show "run_inv s'" by (cases x) (auto simp: run_inv_def)
next
  fix x xs
  assume "ru_pc s = Selecting" "ru_errCh s = x # xs" "s' = s\<lparr>ru_pc := Returned x, ru_errCh := xs\<rparr>" "run_inv s"
  then show "run_inv s'" by (cases x) (auto simp: run_inv_def)
qed (auto simp: run_inv_def serve_report_def errors_Is_def)

lemma Run_inv: "Run l c s \<Longrightarrow> run_inv s"
  by (induction rule: Run.induct) (auto simp: run_step_def intro: Run_start_inv request_step_inv env_step_inv own_step_inv)

text \<open>Every step but a request uses up one of at most five.\<close>

fun serving_left :: "serving \<Rightarrow> nat" where
  "serving_left Serving = 2" | "serving_left (Reporting _) = 1" | "serving_left Ended = 0"

fun running_left :: "running \<Rightarrow> nat" where
  "running_left Selecting = 2" | "running_left ShuttingDown = 1" | "running_left (Returned _) = 0"

definition run_left :: "run_state \<Rightarrow> nat" where
  "run_left s = serving_left (ru_server s) + running_left (ru_pc s) + (if ru_cancelled s then 0 else 1)"

lemma life_step_left: "env_step s s' \<or> own_step s s' \<Longrightarrow> run_left s' < run_left s"
  by (elim disjE env_stepE own_stepE) (simp_all add: run_left_def)

lemma request_step_left: "request_step s s' \<Longrightarrow> run_left s' = run_left s"
  by (erule request_stepE) (simp_all add: run_left_def)

lemma run_requests_only:
  assumes "\<forall>n. run_step (f n) (f (Suc n))"
  shows "\<exists>n. \<forall>m \<ge> n. request_step (f m) (f (Suc m))"
proof -
  have le: "run_left (f (Suc n)) \<le> run_left (f n)" for n
    using assms life_step_left [of "f n" "f (Suc n)"] request_step_left [of "f n" "f (Suc n)"] unfolding run_step_def
    by (metis less_imp_le_nat order_refl)
  obtain n where n: "\<forall>m. run_left (f n) \<le> run_left (f m)"
    using ex_has_least_nat [where P = "\<lambda>_. True" and m = "\<lambda>n. run_left (f n)"] by blast
  have "request_step (f m) (f (Suc m))" if "n \<le> m" for m
  proof (rule ccontr)
    assume "\<not> ?thesis"
    then have "run_left (f (Suc m)) < run_left (f m)" using assms life_step_left by (auto simp: run_step_def)
    moreover have "run_left (f m) \<le> run_left (f n)" using lift_Suc_antimono_le [of "\<lambda>n. run_left (f n)", OF le that] .
    ultimately show False using n by (metis leD less_le_trans)
  qed
  then show ?thesis by blast
qed

text \<open>A server that is serving can go on for ever: one request after the other.\<close>

lemma serves_for_ever:
  assumes "ru_server s = Serving" "\<not> ru_closed s"
  shows "\<exists>f. f 0 = s \<and> (\<forall>n. request_step (f n) (f (Suc n)) \<and> ru_pc (f n) = ru_pc s)"
proof -
  define f where "f n = (if even n then s else s\<lparr>ru_inflight := Suc (ru_inflight s)\<rparr>)" for n :: nat
  have "request_step (f n) (f (Suc n)) \<and> ru_pc (f n) = ru_pc s" for n
  proof (cases "even n")
    case True
    then show ?thesis using request_step.accept [OF assms] by (simp add: f_def)
  next
    case False
    then show ?thesis using request_step.answered [of "s\<lparr>ru_inflight := Suc (ru_inflight s)\<rparr>" "ru_inflight s"] by (simp add: f_def)
  qed
  then show ?thesis by (intro exI [of _ f]) (simp add: f_def)
qed

lemma own_step_progress:
  assumes "run_inv s" "ru_cancelled s" "\<And>s'. \<not> own_step s s'"
  shows "\<exists>r. ru_pc s = Returned r" "ru_server s = Ended"
proof -
  have "ru_pc s \<noteq> Selecting" using assms(2,3) own_step.select_ctx by blast
  moreover have "ru_pc s \<noteq> ShuttingDown" using assms(3) own_step.shutdown_error by blast
  ultimately show "\<exists>r. ru_pc s = Returned r" by (cases "ru_pc s") auto
  show "ru_server s = Ended"
  proof (cases "ru_server s")
    case Serving
    with assms(1) \<open>ru_pc s \<noteq> Selecting\<close> have "ru_closed s" by (auto simp: run_inv_def)
    with Serving assms(3) show ?thesis using own_step.serve_closed by blast
  next
    case (Reporting x)
    with assms(1) have "ru_errCh s = []" by (simp add: run_inv_def)
    with Reporting assms(3) show ?thesis using own_step.report by blast
  qed simp
qed

lemma report_unblocked:
  assumes "run_inv s" "ru_server s = Reporting x"
  shows "\<exists>s'. own_step s s' \<and> ru_server s' = Ended"
proof -
  have "ru_errCh s = []" using assms by (simp add: run_inv_def)
  from own_step.report [OF assms(2) this] show ?thesis
    by (intro exI [of _ "s\<lparr>ru_server := Ended, ru_errCh := [x]\<rparr>"]) simp
qed

text \<open>C39. A running server blocks until its context is cancelled and then shuts down gracefully: before a
  cancellation \<open>Run\<close> is waiting or has returned the error of listening or serving, and while it serves it can
  go on for ever; it returns nil only after a cancellation and a shutdown that left no request in flight.
  Its serving goroutine never blocks on the error channel. In every endless run all but finitely many
  steps are requests, and once the context is cancelled one of the two goroutines can move until \<open>Run\<close> has
  returned and the serving goroutine has ended, so with goroutines that are scheduled \<open>Run\<close> returns and
  none is leaked.\<close>

theorem server_run_correct:
  assumes "Run listenErr cancelled s"
  shows "(\<not> ru_cancelled s \<longrightarrow> ru_pc s = Selecting \<or> (\<exists>e. ru_pc s = Returned (Some e))) \<and>
    (ru_server s = Serving \<and> \<not> ru_closed s \<longrightarrow> (\<exists>f. f 0 = s \<and> (\<forall>n. request_step (f n) (f (Suc n)) \<and> ru_pc (f n) = ru_pc s))) \<and>
    (ru_pc s = Returned None \<longrightarrow> ru_cancelled s \<and> ru_closed s \<and> ru_inflight s = 0) \<and>
    (\<forall>x. ru_server s = Reporting x \<longrightarrow> (\<exists>s'. own_step s s' \<and> ru_server s' = Ended)) \<and>
    (\<forall>f. f 0 = s \<and> (\<forall>n. run_step (f n) (f (Suc n))) \<longrightarrow> (\<exists>n. \<forall>m \<ge> n. request_step (f m) (f (Suc m)))) \<and>
    (ru_cancelled s \<and> \<not> ((\<exists>r. ru_pc s = Returned r) \<and> ru_server s = Ended) \<longrightarrow> (\<exists>s'. own_step s s'))"
proof (intro conjI allI impI)
  note inv = Run_inv [OF assms]
  show "ru_pc s = Selecting \<or> (\<exists>e. ru_pc s = Returned (Some e))" if "\<not> ru_cancelled s"
    using inv that unfolding run_inv_def by (metis not_None_eq running.exhaust)
  show "ru_cancelled s" "ru_closed s" "ru_inflight s = 0" if "ru_pc s = Returned None"
    using inv that unfolding run_inv_def by blast+
  show "\<exists>f. f 0 = s \<and> (\<forall>n. request_step (f n) (f (Suc n)) \<and> ru_pc (f n) = ru_pc s)" if "ru_server s = Serving \<and> \<not> ru_closed s"
    using that serves_for_ever by blast
  show "\<exists>s'. own_step s s' \<and> ru_server s' = Ended" if "ru_server s = Reporting x" for x
    using inv that by (rule report_unblocked)
  show "\<exists>n. \<forall>m \<ge> n. request_step (f m) (f (Suc m))" if "f 0 = s \<and> (\<forall>n. run_step (f n) (f (Suc n)))" for f
    using that run_requests_only by blast
  show "\<exists>s'. own_step s s'" if "ru_cancelled s \<and> \<not> ((\<exists>r. ru_pc s = Returned r) \<and> ru_server s = Ended)"
    using that own_step_progress [OF inv] by blast
qed

text \<open>A run with a request that is answered during the shutdown.\<close>

theorem server_run_correct_witness:
  "\<exists>s. Run None False s \<and> ru_pc s = Returned None \<and> ru_closed s \<and> ru_inflight s = 0 \<and> ru_server s = Ended"
proof -
  let ?s0 = "Run_start None False"
  let ?s1 = "?s0\<lparr>ru_inflight := 1\<rparr>"
  let ?s2 = "?s1\<lparr>ru_cancelled := True\<rparr>"
  let ?s3 = "?s2\<lparr>ru_pc := ShuttingDown, ru_closed := True\<rparr>"
  let ?s4 = "?s3\<lparr>ru_inflight := 0\<rparr>"
  let ?s5 = "?s4\<lparr>ru_pc := Returned None\<rparr>"
  let ?s6 = "?s5\<lparr>ru_server := Reporting (serve_report [ErrServerClosed])\<rparr>"
  let ?s7 = "?s6\<lparr>ru_server := Ended, ru_errCh := [serve_report [ErrServerClosed]]\<rparr>"
  have "request_step ?s0 ?s1" using request_step.accept [of ?s0] by (simp add: Run_start_def)
  moreover have "env_step ?s1 ?s2" by (rule env_step.cancel) (simp add: Run_start_def)
  moreover have "own_step ?s2 ?s3" by (rule own_step.select_ctx) (simp_all add: Run_start_def)
  moreover have "request_step ?s3 ?s4" by (rule request_step.answered) simp
  moreover have "own_step ?s4 ?s5" by (rule own_step.shutdown) simp_all
  moreover have "own_step ?s5 ?s6" by (rule own_step.serve_closed) (simp_all add: Run_start_def)
  moreover have "own_step ?s6 ?s7" by (rule own_step.report) (simp_all add: Run_start_def)
  ultimately have "Run None False ?s7" by (meson begin_run step_run run_step_def)
  then show ?thesis using server_run_correct [of None False ?s7] by (intro exI [of _ ?s7]) simp
qed

section \<open>Metrics and access log\<close>

text \<open>
  \<open>metrics\<close>: a counter per path, method and status and the observed durations per path and method. The label
  of a status is its decimal text; the model keeps the number. A log line is what \<open>logRequests\<close> writes, without
  the remote address.
\<close>

record metrics =
  m_requests :: "(string \<times> string \<times> int, nat) fmap"
  m_duration :: "(string \<times> string, duration list) fmap"

record access =
  ac_method :: string
  ac_path :: string
  ac_status :: int
  ac_dur :: duration

definition newMetrics :: metrics where
  "newMetrics = \<lparr>m_requests = fmempty, m_duration = fmempty\<rparr>"

definition requests_total :: "metrics \<Rightarrow> string \<times> string \<times> int \<Rightarrow> nat" where
  "requests_total m l = (case fmlookup (m_requests m) l of None \<Rightarrow> 0 | Some n \<Rightarrow> n)"

definition durations :: "metrics \<Rightarrow> string \<times> string \<Rightarrow> duration list" where
  "durations m l = (case fmlookup (m_duration m) l of None \<Rightarrow> [] | Some ds \<Rightarrow> ds)"

fun observe :: "string \<Rightarrow> string \<Rightarrow> int \<Rightarrow> duration \<Rightarrow> metrics option \<Rightarrow> metrics option" where
  "observe path meth status dur None = None"
| "observe path meth status dur (Some m) =
    Some (m\<lparr>m_requests := fmupd (path, meth, status) (requests_total m (path, meth, status) + 1) (m_requests m),
            m_duration := fmupd (path, meth) (durations m (path, meth) @ [dur]) (m_duration m)\<rparr>)"

text \<open>
  \<open>statusRecorder\<close>: the recorded status is the one of the last \<open>WriteHeader\<close>, 200 without one; the wrapped
  \<open>http.ResponseWriter\<close> sends the first.
\<close>

record recorder =
  rec_status :: int
  rec_sent :: "int option"

definition new_recorder :: recorder where "new_recorder = \<lparr>rec_status = 200, rec_sent = None\<rparr>"

definition WriteHeader :: "int \<Rightarrow> recorder \<Rightarrow> recorder" where
  "WriteHeader code w = w\<lparr>rec_status := code, rec_sent := Some (case rec_sent w of None \<Rightarrow> code | Some c \<Rightarrow> c)\<rparr>"

text \<open>A handler writes the status of its response once.\<close>

definition recorded_status :: "response \<Rightarrow> int" where
  "recorded_status rsp = rec_status (WriteHeader (rs_Status rsp) new_recorder)"

text \<open>The wrappers over a state: the metrics, and the lines of the log. A nil \<open>m\<close> panics at construction, a nil
  logger turns logging off.\<close>

type_synonym 's timed = "duration \<Rightarrow> http_request \<Rightarrow> 's \<Rightarrow> response \<times> 's"

definition instrument :: "server_config \<Rightarrow> bool \<Rightarrow> (http_request \<Rightarrow> response) \<Rightarrow> metrics option timed option" where
  "instrument cfg present next =
    (if \<not> present then None
     else Some (\<lambda>dur r m. let rsp = next r in (rsp, observe (routePath cfg r) (rq_Method r) (recorded_status rsp) dur m)))"

definition logRequests :: "bool \<Rightarrow> 's timed \<Rightarrow> duration \<Rightarrow> duration \<Rightarrow> http_request \<Rightarrow> 's \<times> access list \<Rightarrow> response \<times> ('s \<times> access list)" where
  "logRequests logger next d1 d2 r st =
    (case next d1 r (fst st) of
       (rsp, s) \<Rightarrow>
         (rsp, s, if logger
                  then snd st @ [\<lparr>ac_method = rq_Method r, ac_path = rq_Path r, ac_status = recorded_status rsp, ac_dur = d2\<rparr>]
                  else snd st))"

text \<open>The handler of the server, on the state of its observers.\<close>

definition observed_serve ::
  "lib \<Rightarrow> env \<Rightarrow> server \<Rightarrow> duration \<Rightarrow> duration \<Rightarrow> http_request \<Rightarrow> metrics option \<times> access list \<Rightarrow>
   (response \<times> (metrics option \<times> access list)) option" where
  "observed_serve L en srv d1 d2 r st =
    (case instrument (sr_cfg srv) True (\<lambda>r. fst (serve L en srv r)) of
       None \<Rightarrow> None
     | Some h \<Rightarrow> Some (logRequests (sv_Logger (sr_cfg srv)) h d1 d2 r st))"

text \<open>A sequence of requests, each in its own environment and with its own durations.\<close>

type_synonym call = "env \<times> duration \<times> duration \<times> http_request"

fun serve_all ::
  "lib \<Rightarrow> server \<Rightarrow> call list \<Rightarrow> metrics option \<times> access list \<Rightarrow> (response list \<times> (metrics option \<times> access list)) option" where
  "serve_all L srv [] st = Some ([], st)"
| "serve_all L srv ((en, d1, d2, r) # cs) st =
    (case observed_serve L en srv d1 d2 r st of
       None \<Rightarrow> None
     | Some (rsp, st') \<Rightarrow>
         (case serve_all L srv cs st' of None \<Rightarrow> None | Some (rsps, st'') \<Rightarrow> Some (rsp # rsps, st'')))"

text \<open>What the calls should leave behind: the labels of each, and its log line.\<close>

definition call_label :: "lib \<Rightarrow> server \<Rightarrow> call \<Rightarrow> string \<times> string \<times> int" where
  "call_label L srv c =
    (case c of (en, d1, d2, r) \<Rightarrow> (routePath (sr_cfg srv) r, rq_Method r, rs_Status (fst (serve L en srv r))))"

definition call_line :: "lib \<Rightarrow> server \<Rightarrow> call \<Rightarrow> access" where
  "call_line L srv c =
    (case c of (en, d1, d2, r) \<Rightarrow>
       \<lparr>ac_method = rq_Method r, ac_path = rq_Path r, ac_status = rs_Status (fst (serve L en srv r)), ac_dur = d2\<rparr>)"

lemma recorded_status_eq [simp]: "recorded_status rsp = rs_Status rsp"
  by (simp add: recorded_status_def WriteHeader_def)

lemma requests_total_observe:
  "observe p m st d (Some ms) = Some ms' \<Longrightarrow>
    requests_total ms' l = requests_total ms l + (if l = (p, m, st) then 1 else 0) \<and>
    durations ms' k = durations ms k @ (if k = (p, m) then [d] else [])"
  by (auto simp: requests_total_def durations_def)

lemma observed_serve_eq:
  "observed_serve L en srv d1 d2 r (Some ms, lg) =
    Some (fst (serve L en srv r),
      (observe (routePath (sr_cfg srv) r) (rq_Method r) (rs_Status (fst (serve L en srv r))) d1 (Some ms),
       if sv_Logger (sr_cfg srv) then lg @ [call_line L srv (en, d1, d2, r)] else lg))"
  by (simp add: observed_serve_def instrument_def logRequests_def call_line_def Let_def)

lemma serve_all_records:
  "\<exists>ms'. serve_all L srv cs (Some ms, lg) =
      Some (map (\<lambda>(en, d1, d2, r). fst (serve L en srv r)) cs,
        (Some ms', if sv_Logger (sr_cfg srv) then lg @ map (call_line L srv) cs else lg)) \<and>
    (\<forall>l. requests_total ms' l = requests_total ms l + count_list (map (call_label L srv) cs) l) \<and>
    (\<forall>p m. length (durations ms' (p, m)) =
       length (durations ms (p, m)) + length (filter (\<lambda>c. \<exists>st. call_label L srv c = (p, m, st)) cs))"
proof (induction cs arbitrary: ms lg)
  case Nil
  then show ?case by simp
next
  case (Cons c cs)
  obtain en d1 d2 r where c: "c = (en, d1, d2, r)" by (cases c) auto
  obtain ms1 where o: "observe (routePath (sr_cfg srv) r) (rq_Method r) (rs_Status (fst (serve L en srv r))) d1 (Some ms) = Some ms1"
    by simp
  let ?lg = "if sv_Logger (sr_cfg srv) then lg @ [call_line L srv c] else lg"
  from Cons.IH [of ms1 ?lg] obtain ms' where ih:
    "serve_all L srv cs (Some ms1, ?lg) =
      Some (map (\<lambda>(en, d1, d2, r). fst (serve L en srv r)) cs,
        (Some ms', if sv_Logger (sr_cfg srv) then ?lg @ map (call_line L srv) cs else ?lg))"
    "\<And>l. requests_total ms' l = requests_total ms1 l + count_list (map (call_label L srv) cs) l"
    "\<And>p m. length (durations ms' (p, m)) =
       length (durations ms1 (p, m)) + length (filter (\<lambda>c. \<exists>st. call_label L srv c = (p, m, st)) cs)"
    by blast
  have "serve_all L srv (c # cs) (Some ms, lg) =
      Some (map (\<lambda>(en, d1, d2, r). fst (serve L en srv r)) (c # cs),
        (Some ms', if sv_Logger (sr_cfg srv) then lg @ map (call_line L srv) (c # cs) else lg))"
    using ih(1) by (cases "sv_Logger (sr_cfg srv)") (simp_all add: c observed_serve_eq o del: observe.simps)
  moreover have "requests_total ms' l = requests_total ms l + count_list (map (call_label L srv) (c # cs)) l" for l
    using ih(2) [of l] requests_total_observe [OF o, of l] by (auto simp: c call_label_def)
  moreover have "length (durations ms' (p, m)) =
      length (durations ms (p, m)) + length (filter (\<lambda>c. \<exists>st. call_label L srv c = (p, m, st)) (c # cs))" for p m
    using ih(3) [of p m] requests_total_observe [OF o, of _ "(p, m)"] by (auto simp: c call_label_def)
  ultimately show ?case by blast
qed

text \<open>C40. The observers of a server agree with what it answered: after any sequence of requests the request counter of
  every path, method and status is the number of requests answered so, the number of observed durations
  of a path and method is the number of its requests, the log has one line per request in their order
  with the status sent, and the responses are those of the server without observers.\<close>

theorem observers_agree_with_answers:
  "\<exists>ms. serve_all L srv cs (Some newMetrics, []) =
      Some (map (\<lambda>(en, d1, d2, r). fst (serve L en srv r)) cs,
        (Some ms, if sv_Logger (sr_cfg srv) then map (call_line L srv) cs else [])) \<and>
    (\<forall>l. requests_total ms l = count_list (map (call_label L srv) cs) l) \<and>
    (\<forall>p m. length (durations ms (p, m)) = length (filter (\<lambda>c. \<exists>st. call_label L srv c = (p, m, st)) cs))"
proof -
  have "requests_total newMetrics l = 0" "durations newMetrics k = []" for l k
    by (simp_all add: requests_total_def durations_def newMetrics_def)
  with serve_all_records [of L srv cs newMetrics "[]"] show ?thesis by (cases "sv_Logger (sr_cfg srv)") simp_all
qed

end
