(* ===== verification/Sign_Verify.thy ===== *)
theory Sign_Verify
  imports Signing_Facts Verification_Facts
begin

text \<open>
  Signer and verifier together: what a signer produces is what a verifier with the matching public key
  accepts. The lemmas are shared by the properties of the server and of the controller.
\<close>

section \<open>A verifier without checks\<close>

abbreviation plain_base :: "string list \<Rightarrow> verifier_base" where
  "plain_base algs \<equiv> \<lparr>staticCheck = [], vb_leeway = DefaultLeeway, skipRegisteredClaims = False, vb_algs = algs\<rparr>"

lemma plain_verify_complete:
  assumes "parser_complete L" "Alg (t_method tok0) \<in> set algs" "TrimSpace t \<noteq> []" "parseUnverified L t = Inr tok0"
    "\<And>tok. same_content tok0 tok \<Longrightarrow> kf tok = Inr k"
    "sigVerifies L (t_method tok0) t k" "validatorOK L (30 * Second) now (t_claims tok0)"
  shows "\<exists>tok. verify_with L (plain_base algs) (buildParser (plain_base algs)) kf now None t [] = Inr tok \<and> same_content tok0 tok"
proof -
  have "method_allowed (buildParser (plain_base algs)) (t_method tok0)" "claims_allowed L (buildParser (plain_base algs)) now (t_claims tok0)"
    using assms(2,7) by (simp_all add: method_allowed_def claims_allowed_def buildParser_def DefaultLeeway_def Second_def)
  with assms(1,4-6) obtain tok where "parseWithClaims L (buildParser (plain_base algs)) now t kf = Inr tok" "same_content tok0 tok"
    unfolding parser_complete_def by blast
  then show ?thesis using assms(3) by (intro exI [of _ tok]) (simp add: verify_with_Inr all_pass_def)
qed

section \<open>Signed tokens\<close>

lemma signed_window:
  assumes "numericDate_spec L" "validator_spec L" "fmlookup c ''exp'' = Some (date e)" "fmlookup c ''nbf'' = Some (date n)"
    "trunc_second e = e" "trunc_second n = n" "Second \<le> e" "e < 2 ^ 53 * Second" "Second \<le> n" "n < 2 ^ 53 * Second"
  shows "validatorOK L lw now (json_map L c) \<longleftrightarrow> now < e + lw \<and> n - lw \<le> now"
proof -
  have "json_rt L (date e) = Some (VFloat (Fin (of_int (unix_seconds e))))" "json_rt L (date n) = Some (VFloat (Fin (of_int (unix_seconds n))))"
    using json_rt_date(1) [OF assms(1,7,8)] json_rt_date(1) [OF assms(1,9,10)] assms(1,5,6) by simp_all
  then have "fmlookup (json_map L c) ''exp'' = Some (VFloat (Fin (of_int (unix_seconds e))))"
    "fmlookup (json_map L c) ''nbf'' = Some (VFloat (Fin (of_int (unix_seconds n))))"
    using assms(3,4) by (simp_all add: json_map_lookup)
  moreover have "0 < unix_seconds e" "unix_seconds e < 2 ^ 53" "0 < unix_seconds n" "unix_seconds n < 2 ^ 53"
    using json_rt_date(2,3) [OF assms(1,7,8)] json_rt_date(2,3) [OF assms(1,9,10)] by simp_all
  moreover have "unix_seconds e * Second = e" "unix_seconds n * Second = n" using assms(5,6) by (simp_all add: unix_seconds_mult)
  ultimately show ?thesis using assms(2) unfolding validator_spec_def by metis
qed

lemma std_asymmetric: "m \<in> set std_methods \<Longrightarrow> asymmetric m"
proof -
  have "list_all asymmetric std_methods" by code_simp
  then show "m \<in> set std_methods \<Longrightarrow> asymmetric m" by (simp add: list_all_iff)
qed

text \<open>The dates of a signed token, and the moments at which a verifier looks at it.\<close>

definition accepted_window :: "mapclaims \<Rightarrow> gtime \<Rightarrow> gtime \<Rightarrow> gtime \<Rightarrow> bool" where
  "accepted_window c e n later \<longleftrightarrow>
    fmlookup c ''exp'' = Some (date e) \<and> fmlookup c ''nbf'' = Some (date n) \<and>
    Second \<le> e \<and> e < 2 ^ 53 * Second \<and> Second \<le> n \<and> n < 2 ^ 53 * Second \<and>
    n - 30 * Second \<le> later \<and> later < e + 30 * Second"

lemma signed_accepted:
  assumes lib: "numericDate_spec L" "newWithClaims_spec L" "signing_spec L" "parser_complete L" "validator_spec L"
    and s: "signer_wf s" "s_method s = m" "m \<in> set std_methods" "keyPair L pub (signingKey s)"
    and sign: "Sign L now uuid s None c h = Inr (t, tok)"
    and json: "json_ok L (t_claims tok)" "json_ok L (t_header tok)"
    and window: "accepted_window (t_claims tok) e n later"
    and v: "Alg m \<in> set algs" "\<And>tok'. t_method tok' = m \<Longrightarrow> t_header tok' = json_map L (t_header tok) \<Longrightarrow> kf tok' = Inr pub"
  shows "\<exists>tok'. verify_with L (plain_base algs) (buildParser (plain_base algs)) kf later None t [] = Inr tok' \<and>
    t \<noteq> [] \<and> t_claims tok' = json_map L (t_claims tok) \<and> t_header tok' = json_map L (t_header tok)"
proof -
  note p = Sign_post [OF lib(1,2) s(1) sign]
  have signed: "signedString L tok (signingKey s) = Inr t" "t_method tok \<in> set std_methods"
    "fmlookup (t_header tok) ''alg'' = Some (VString (Alg (t_method tok)))"
    using p s(2,3) by (simp_all add: HeaderKeyAlg_def)
  obtain tok0 where t0: "parseUnverified L t = Inr tok0" "t_method tok0 = m"
    "t_header tok0 = json_map L (t_header tok)" "t_claims tok0 = json_map L (t_claims tok)"
    using signing_spec_parses [OF lib(3) signed json(2,1)] p s(2) by metis
  have t: "TrimSpace t \<noteq> []" "sigVerifies L m t pub"
    using signing_spec_signature [OF lib(3) signed] s(2,4) p by simp_all
  note w = window [unfolded accepted_window_def]
  have "trunc_second e = e \<and> trunc_second n = n" using signed_dates [OF lib(1)] p w by fastforce
  then have "validatorOK L (30 * Second) later (t_claims tok0)"
    using signed_window [OF lib(1,5), of "t_claims tok" e n "30 * Second" later] w t0(4) by simp
  moreover have "kf tok' = Inr pub" if "same_content tok0 tok'" for tok'
    using that v(2) t0(2,3) by (simp add: same_content_def)
  ultimately obtain tok' where "verify_with L (plain_base algs) (buildParser (plain_base algs)) kf later None t [] = Inr tok'"
    "same_content tok0 tok'"
    using plain_verify_complete [OF lib(4) _ t(1) t0(1), of algs kf pub later] v(1) t0(2) t(2) by blast
  moreover have "t \<noteq> []" using t(1) by auto
  ultimately show ?thesis using t0 by (intro exI [of _ tok']) (simp add: same_content_def)
qed

lemma NewVerifier_plain:
  assumes "NewVerifier (Some m) (Some k) [] = Inr v"
  shows "Verify L v = verify_with L (plain_base [Alg m]) (buildParser (plain_base [Alg m])) (public_key_func m k)"
proof -
  have "v_keyFunc v = public_key_func m k" "v_base v = plain_base [Alg m]" "v_parser v = buildParser (plain_base [Alg m])"
    using NewVerifier_Inr [OF assms] by (auto simp: applyOpts_def)
  then show ?thesis by (intro ext) (simp only: Verify_def)
qed

text \<open>C7. Signing and verifying are inverse: a token that a signer built by \<open>NewSigner\<close> returns is accepted by the
  verifier \<open>NewVerifier\<close> builds for the same method and the matching public key, at every moment between
  nbf and exp with 30 seconds of leeway, and the verifier returns the JSON of the signed claims and headers,
  provided JSON can hold every claim and header that was given, to the signer or to the call: a number
  too large for a float64, which can be signed, cannot be parsed back.\<close>

theorem sign_verify_roundtrip:
  assumes "numericDate_spec L" "newWithClaims_spec L" "signing_spec L" "parser_complete L" "validator_spec L"
    and "NewSigner (Some m) (Some priv) opts = Inr s" "\<forall>opt \<in> set opts. signer_option opt" "m \<in> set std_methods"
    and "NewVerifier (Some m) (Some pub) [] = Inr v" "keyPair L pub priv"
    and "Sign L now uuid s None c h = Inr (t, tok)" "accepted_window (t_claims tok) e n later"
    and "json_ok L (staticClaims s)" "json_ok L c" "json_ok L (staticHeaders s)" "json_ok L h"
  shows "\<exists>tok'. Verify L v later None t [] = Inr tok' \<and>
    t_claims tok' = json_map L (t_claims tok) \<and> t_header tok' = json_map L (t_header tok)"
proof -
  have s: "signer_wf s" "s_method s = m" "signingKey s = priv" using NewSigner_Inr [OF assms(6,7)] by simp_all
  have "Alg m \<noteq> []" using NewVerifier_Inr [OF assms(9)] by simp
  then have "public_key_func m pub tok' = Inr pub" if "t_method tok' = m" for tok'
    using that std_asymmetric [OF assms(8)] by (simp add: public_key_func_Inr)
  with signed_accepted [OF assms(1-5) s(1,2) assms(8) _ assms(11) Sign_json_ok [OF assms(1,2) s(1) assms(11,13-16)] assms(12),
      of pub "[Alg m]" "public_key_func m pub"] assms(10) s(3)
  show ?thesis unfolding NewVerifier_plain [OF assms(9)] by auto
qed

section \<open>A signed token\<close>

lemma sign_claims_empty:
  assumes "numericDate_spec L"
  shows "sign_claims L now uuid fmempty d iss =
    Inr (fmupd KeyID (VString uuid) (fmupd KeyIssuer (VString iss) (fmupd KeyNotBefore (date (trunc_second now))
      (fmupd KeyIssuedAt (date (trunc_second now)) (fmupd KeyExpiresAt (date (trunc_second (now + d))) fmempty)))))"
  using assms
  by (simp add: sign_claims_def default_exp_def default_iat_def default_nbf_def default_iss_def default_jti_def Claims.ExpiresAt_def
      Claims.IssuedAt_def Claims.NotBefore_def Claims.Issuer_def Claims.ID_def readTime_def readString_def SetExpiresAt_def SetIssuedAt_def SetNotBefore_def
      SetIssuer_def SetID_def time_Add_def key_defs)

text \<open>The same when the expiry was set by the caller, as the controller does.\<close>

lemma sign_claims_exp:
  assumes "numericDate_spec L" "Second \<le> e" "e < 2 ^ 53 * Second" "trunc_second e = e" "now \<le> e"
  shows "sign_claims L now uuid (SetExpiresAt L fmempty e) d iss =
    Inr (fmupd KeyID (VString uuid) (fmupd KeyIssuer (VString iss) (fmupd KeyNotBefore (date (trunc_second now))
      (fmupd KeyIssuedAt (date (trunc_second now)) (fmupd KeyExpiresAt (date e) fmempty)))))"
proof -
  let ?f = "VFloat (Fin (of_int (unix_seconds e)))"
  let ?c = "SetExpiresAt L fmempty e"
  have "fmlookup (DeepCopy L ?c) KeyExpiresAt = Some ?f"
    unfolding SetExpiresAt_def by (rule DeepCopy_date_lookup [OF assms(1-3)]) (simp add: json_ok_def)
  moreover have "fmlookup (DeepCopy L ?c) k = None" if "k \<noteq> KeyExpiresAt" for k using that by (simp add: SetExpiresAt_def)
  ultimately have c0: "DeepCopy L ?c = fmupd KeyExpiresAt ?f fmempty" by (intro fmap_ext) simp
  have t: "Timestamp L ?f = Inr e" using Timestamp_json_date [OF assms(1-3)] assms(4) by simp
  have n: "newNumericDate L x = trunc_second x" for x using assms(1) by (simp add: numericDate_spec_def)
  have "?c \<noteq> fmempty" by (simp add: SetExpiresAt_def)
  then show ?thesis
    unfolding sign_claims_def c0 using assms(4,5)
    by (simp add: default_exp_def default_iat_def default_nbf_def default_iss_def default_jti_def Claims.ExpiresAt_def
        Claims.IssuedAt_def Claims.NotBefore_def Claims.Issuer_def Claims.ID_def readTime_def readString_def SetExpiresAt_def SetIssuedAt_def SetNotBefore_def
        SetIssuer_def SetID_def time_Add_def key_defs c0 t n time_Before_def del: Timestamp.simps)
qed

abbreviation demo_priv :: pkey where "demo_priv \<equiv> Ed25519Private (replicate 64 (CHR ''k''))"
abbreviation lib_pub :: pkey where "lib_pub \<equiv> Ed25519Public (replicate 32 (CHR ''p''))"

definition signed_demo :: "headers \<Rightarrow> token" where
  "signed_demo h = \<lparr>t_method = SigningMethodEdDSA,
     t_header = sign_header h DefaultTyp (fmupd ''alg'' (VString ''EdDSA'') (fmupd ''typ'' (VString ''JWT'') fmempty)),
     t_claims = fmupd KeyID (VString ''u'') (fmupd KeyIssuer (VString DefaultIssuer) (fmupd KeyNotBefore (date 1700000000000000000)
       (fmupd KeyIssuedAt (date 1700000000000000000) (fmupd KeyExpiresAt (date 1700003600000000000) fmempty)))),
     t_signature = [], t_valid = False\<rparr>"

abbreviation signing_lib :: "token \<Rightarrow> pkey \<Rightarrow> lib" where
  "signing_lib tok pub \<equiv> one_token_lib tok demo_priv pub ''a.b.c''"

lemma signing_lib_specs:
  "numericDate_spec (signing_lib tok pub)" "newWithClaims_spec (signing_lib tok pub)" "signing_spec (signing_lib tok pub)"
  "parser_complete (signing_lib tok pub)" "validator_spec (signing_lib tok pub)" "keyPair (signing_lib tok pub) pub demo_priv"
proof -
  have "TrimSpace ''a.b.c'' \<noteq> []" by code_simp
  then show "signing_spec (signing_lib tok pub)" by (rule one_token_lib_signing)
qed (simp_all add: one_token_lib_def)

lemma Sign_demo_token:
  "Sign (signing_lib (signed_demo h) pub) 1700000000000000000 ''u'' \<lparr>s_method = SigningMethodEdDSA, signingKey = demo_priv,
      staticHeaders = h, staticClaims = fmempty, expiration = Hour, issuer = DefaultIssuer, s_typ = DefaultTyp\<rparr> None fmempty fmempty =
    Inr (''a.b.c'', signed_demo h)"
proof -
  define L where "L = signing_lib (signed_demo h) pub"
  have n: "newWithClaims L m c = \<lparr>t_method = m,
      t_header = fmupd ''alg'' (VString (Alg m)) (fmupd ''typ'' (VString ''JWT'') fmempty), t_claims = c, t_signature = [], t_valid = False\<rparr>" for m c
    by (simp add: L_def one_token_lib_def)
  have "numericDate_spec L" "signedString L (signed_demo h) demo_priv = Inr ''a.b.c''"
    by (simp_all add: L_def signing_lib_specs(1) one_token_lib_def)
  moreover have "mergeHeaders h fmempty = h" by (simp add: mergeHeaders_def)
  ultimately show ?thesis
    unfolding Sign_def signWith_def L_def [symmetric]
    by (simp add: mergedClaims_def sign_claims_empty n trunc_second_def Hour_def Minute_def Second_def signed_demo_def method_consts)
qed

lemma signed_demo_window:
  "1699999970000000000 \<le> later \<Longrightarrow> later < 1700003630000000000 \<Longrightarrow>
    accepted_window (t_claims (signed_demo h)) 1700003600000000000 1700000000000000000 later"
  by (simp add: accepted_window_def signed_demo_def key_defs Second_def)

theorem sign_verify_roundtrip_witness:
  "\<exists>s v tok'. NewSigner (Some SigningMethodEdDSA) (Some demo_priv) [] = Inr s \<and>
    NewVerifier (Some SigningMethodEdDSA) (Some lib_pub) [] = Inr v \<and>
    Sign (signing_lib (signed_demo fmempty) lib_pub) 1700000000000000000 ''u'' s None fmempty fmempty = Inr (''a.b.c'', signed_demo fmempty) \<and>
    Verify (signing_lib (signed_demo fmempty) lib_pub) v 1700003629000000000 None ''a.b.c'' [] = Inr tok'"
proof -
  let ?s = "\<lparr>s_method = SigningMethodEdDSA, signingKey = demo_priv, staticHeaders = fmempty, staticClaims = fmempty, expiration = Hour,
      issuer = DefaultIssuer, s_typ = DefaultTyp\<rparr>"
  have s: "NewSigner (Some SigningMethodEdDSA) (Some demo_priv) [] = Inr ?s"
    by (simp add: NewSigner_def validateMethodAndKey_def method_consts DefaultExpiration_def)
  obtain v where v: "NewVerifier (Some SigningMethodEdDSA) (Some lib_pub) [] = Inr v"
    by (simp add: NewVerifier_def PublicKeyFunc_def method_consts is_public_key_def applyOpts_def)
  have m: "SigningMethodEdDSA \<in> set std_methods" by (simp add: std_methods_def)
  have w: "accepted_window (t_claims (signed_demo fmempty)) 1700003600000000000 1700000000000000000 1700003629000000000"
    by (rule signed_demo_window) simp_all
  show ?thesis
    using sign_verify_roundtrip [OF signing_lib_specs(1-5) s _ m v signing_lib_specs(6) Sign_demo_token w] s v Sign_demo_token
    by (auto simp: json_ok_empty)
qed

end
