(* ===== verification/Controller_Main.thy ===== *)
theory Controller_Main
  imports Cli_Facts Reconcile_Facts Sign_Verify
begin

text \<open>
  \<open>cmd/jwtmint-controller\<close>: the flags of the controller process, the signer, policy and reconciler it
  builds from them, and the order in which its start can fail. What the controller runtime answers
  while the process starts is the record \<open>runtime\<close>; the process is what was registered with it.
\<close>

section \<open>Flags\<close>

record ctl_flags =
  cf_method :: string
  cf_privPath :: string
  cf_pubPath :: string
  cf_kid :: string
  cf_issuer :: string
  cf_defaultExpiration :: duration
  cf_metricsAddr :: string
  cf_probeAddr :: string
  cf_leaderElection :: bool
  cf_enableWebhook :: bool
  cf_webhookPort :: int
  cf_webhookCertDir :: string
  cf_allowedAudiences :: "string list"
  cf_allowedEntitlements :: "string list"
  cf_adminUsers :: "string list"
  cf_adminGroups :: "string list"

definition ctl_defaults :: ctl_flags where
  "ctl_defaults =
    \<lparr>cf_method = ''ES256'', cf_privPath = [], cf_pubPath = [], cf_kid = [], cf_issuer = ''jwtmint-controller'',
     cf_defaultExpiration = Hour, cf_metricsAddr = '':8080'', cf_probeAddr = '':8081'', cf_leaderElection = False,
     cf_enableWebhook = False, cf_webhookPort = 9443, cf_webhookCertDir = ''/tmp/k8s-webhook-server/serving-certs'',
     cf_allowedAudiences = [], cf_allowedEntitlements = [], cf_adminUsers = [], cf_adminGroups = []\<rparr>"

definition ctl_stringSlice_String :: "string list \<Rightarrow> string" where "ctl_stringSlice_String s = Join s '',''"
definition ctl_stringSlice_Set :: "string \<Rightarrow> string list \<Rightarrow> string list" where "ctl_stringSlice_Set v s = s @ [v]"

section \<open>The process\<close>

definition loadPrivate :: "crypto \<Rightarrow> files \<Rightarrow> string \<Rightarrow> string \<Rightarrow> pkey result" where
  "loadPrivate C fs meth path =
    (case ReadPEMFile path fs of
       Inl e \<Rightarrow> Inl e
     | Inr pem \<Rightarrow>
         if meth \<in> set ecdsa_names then map_sum id (EcdsaPrivate \<circ> Some) (LoadECDSAPrivateFromPEM C pem)
         else if meth \<in> set rsa_names then map_sum id (RsaPrivate \<circ> Some) (LoadRSAPrivateFromPEM C pem)
         else if meth = ''EdDSA'' then map_sum id Ed25519Private (LoadEd25519PrivateFromPEM C pem)
         else Inl [])"

definition ctl_signer_opts :: "ctl_flags \<Rightarrow> signer_opt list" where
  "ctl_signer_opts f =
    [WithDefaultIssuer (cf_issuer f), Signing.WithDefaultExpiration (cf_defaultExpiration f)] @
    (if cf_kid f \<noteq> [] then [WithStaticHeaders (fmupd ''kid'' (VString (cf_kid f)) fmempty)] else [])"

definition ctl_policy :: "ctl_flags \<Rightarrow> self_only_policy" where
  "ctl_policy f =
    \<lparr>AllowedAudiences = cf_allowedAudiences f, AllowedEntitlements = cf_allowedEntitlements f, AllowedRoles = [],
     AllowedExtraClaimKeys = [], AdminUsers = cf_adminUsers f, AdminGroups = cf_adminGroups f\<rparr>"

text \<open>The error of each call of the runtime, if it has one.\<close>

record runtime =
  rt_logger :: "gerror option"
  rt_manager :: "gerror option"
  rt_setup :: "gerror option"
  rt_healthz :: "gerror option"
  rt_readyz :: "gerror option"

record manager_options =
  mo_MetricsAddr :: string
  mo_ProbeAddr :: string
  mo_LeaderElection :: bool
  mo_LeaderElectionID :: string
  mo_Webhook :: "(int \<times> string) option"

record ctl_process =
  cp_options :: manager_options
  cp_webhook :: "(string \<times> self_only_policy) option"
  cp_signer :: signer
  cp_defaultExpiration :: duration

definition PathValidate :: string where "PathValidate = ''/admission/validate-jwtrequest''"

definition ctl_options :: "ctl_flags \<Rightarrow> manager_options" where
  "ctl_options f =
    \<lparr>mo_MetricsAddr = cf_metricsAddr f, mo_ProbeAddr = cf_probeAddr f, mo_LeaderElection = cf_leaderElection f,
     mo_LeaderElectionID = ''jwtmint-controller-leader'',
     mo_Webhook = (if cf_enableWebhook f then Some (cf_webhookPort f, cf_webhookCertDir f) else None)\<rparr>"

definition ctl_run :: "crypto \<Rightarrow> files \<Rightarrow> runtime \<Rightarrow> ctl_flags \<Rightarrow> ctl_process result" where
  "ctl_run C fs rt f =
    (if cf_privPath f = [] \<or> cf_pubPath f = [] then Inl []
     else case rt_logger rt of
       Some e \<Rightarrow> Inl e
     | None \<Rightarrow>
        (case SigningMethod (cf_method f) of
           Inl e \<Rightarrow> Inl e
         | Inr m \<Rightarrow>
            (case loadPrivate C fs (cf_method f) (cf_privPath f) of
               Inl e \<Rightarrow> Inl e
             | Inr priv \<Rightarrow>
                (case NewSigner (Some m) (Some priv) (ctl_signer_opts f) of
                   Inl e \<Rightarrow> Inl e
                 | Inr s \<Rightarrow>
                    (case rt_manager rt of
                       Some e \<Rightarrow> Inl e
                     | None \<Rightarrow>
                        (case rt_setup rt of
                           Some e \<Rightarrow> Inl e
                         | None \<Rightarrow>
                            (case rt_healthz rt of
                               Some e \<Rightarrow> Inl e
                             | None \<Rightarrow>
                                (case rt_readyz rt of
                                   Some e \<Rightarrow> Inl e
                                 | None \<Rightarrow>
                                    Inr \<lparr>cp_options = ctl_options f,
                                         cp_webhook = (if cf_enableWebhook f then Some (PathValidate, ctl_policy f) else None),
                                         cp_signer = s, cp_defaultExpiration = cf_defaultExpiration f\<rparr>))))))))"

text \<open>The reconciler of a process, at one clock reading and generated id of its signer.\<close>

definition ctl_reconciler :: "lib \<Rightarrow> gtime \<Rightarrow> string \<Rightarrow> (string \<Rightarrow> gval option) \<Rightarrow> (gerror \<Rightarrow> string) \<Rightarrow> ctl_process \<Rightarrow> reconciler" where
  "ctl_reconciler L now uuid unmarshal errText p =
    \<lparr>rc_Signer = Sign L now uuid (cp_signer p), rc_DefaultExpiration = cp_defaultExpiration p,
     rc_unmarshal = unmarshal, rc_errText = errText\<rparr>"

section \<open>What a started process is\<close>

lemma ctl_run_Inr:
  assumes "ctl_run C fs rt f = Inr p"
  obtains m priv where "SigningMethod (cf_method f) = Inr m" "loadPrivate C fs (cf_method f) (cf_privPath f) = Inr priv"
    "NewSigner (Some m) (Some priv) (ctl_signer_opts f) = Inr (cp_signer p)" "cp_defaultExpiration p = cf_defaultExpiration f"
    "cp_webhook p = (if cf_enableWebhook f then Some (PathValidate, ctl_policy f) else None)"
    "cf_privPath f \<noteq> []" "cf_pubPath f \<noteq> []"
  using assms by (auto simp: ctl_run_def split: if_splits option.splits sum.splits)

lemma ctl_signer:
  assumes "NewSigner (Some m) (Some priv) (ctl_signer_opts f) = Inr s"
  shows "signer_wf s" "s_method s = m" "signingKey s = priv" "issuer s = cf_issuer f" "expiration s = cf_defaultExpiration f"
    "cf_issuer f \<noteq> []" "0 < cf_defaultExpiration f"
    "staticHeaders s = (if cf_kid f = [] then fmempty else fmupd ''kid'' (VString (cf_kid f)) fmempty)" "staticClaims s = fmempty"
proof -
  have "\<forall>opt \<in> set (ctl_signer_opts f). signer_option opt" by (auto simp: ctl_signer_opts_def intro: signer_option.intros)
  from NewSigner_Inr [OF assms this] show "signer_wf s" "s_method s = m" "signingKey s = priv" by simp_all
  show "issuer s = cf_issuer f" "expiration s = cf_defaultExpiration f" "cf_issuer f \<noteq> []" "0 < cf_defaultExpiration f"
    "staticHeaders s = (if cf_kid f = [] then fmempty else fmupd ''kid'' (VString (cf_kid f)) fmempty)" "staticClaims s = fmempty"
    using assms by (auto simp: NewSigner_def ctl_signer_opts_def WithDefaultIssuer_def Signing.WithDefaultExpiration_def WithStaticHeaders_def
        split: option.splits if_splits)
qed

lemma ctl_run_pub_unread:
  assumes "cf_pubPath f \<noteq> []" "q \<noteq> []"
  shows "ctl_run C fs rt (f\<lparr>cf_pubPath := q\<rparr>) = ctl_run C fs rt f"
  using assms by (simp add: ctl_run_def ctl_options_def ctl_policy_def ctl_signer_opts_def cong: option.case_cong sum.case_cong)

lemma ctl_policy_permits:
  assumes "\<not> isAdmin (ctl_policy f) u" "Allow (ctl_policy f) u (Some jr) = None"
  shows "Subject (jr_Spec jr) \<in> {[], Username u}" "\<forall>g \<in> set (Groups (jr_Spec jr)). listed (ui_Groups u) g"
    "allow_listed (Audience (jr_Spec jr)) (cf_allowedAudiences f)" "allow_listed (Entitlements (jr_Spec jr)) (cf_allowedEntitlements f)"
    "Roles (jr_Spec jr) = []" "ExtraClaims (jr_Spec jr) = []"
  using assms unfolding Allow_None by (auto simp: permitted_def ctl_policy_def allow_listed_def)

text \<open>A controller process that starts signs with the configured method and the private key it loaded, under
  the issuer, lifetime and kid of its flags, and its reconciler has the same default lifetime; it serves
  the admission webhook exactly when asked to, with the policy of its flags, under which a requester who
  is not an administrator gets neither roles nor extra claims, since no flag allows any. The file of
  --pub is required but never read: any other path gives the same process.\<close>

theorem controller_process_configured:
  assumes "ctl_run C fs rt f = Inr p"
  shows "(\<exists>m priv. SigningMethod (cf_method f) = Inr m \<and> loadPrivate C fs (cf_method f) (cf_privPath f) = Inr priv \<and>
      signer_wf (cp_signer p) \<and> s_method (cp_signer p) = m \<and> signingKey (cp_signer p) = priv) \<and>
    issuer (cp_signer p) = cf_issuer f \<and> expiration (cp_signer p) = cf_defaultExpiration f \<and>
    cp_defaultExpiration p = cf_defaultExpiration f \<and> 0 < cp_defaultExpiration p \<and>
    fmlookup (staticHeaders (cp_signer p)) ''kid'' = (if cf_kid f = [] then None else Some (VString (cf_kid f))) \<and>
    cp_webhook p = (if cf_enableWebhook f then Some (PathValidate, ctl_policy f) else None) \<and>
    (\<forall>u jr. \<not> isAdmin (ctl_policy f) u \<and> Allow (ctl_policy f) u (Some jr) = None \<longrightarrow>
      Roles (jr_Spec jr) = [] \<and> ExtraClaims (jr_Spec jr) = []) \<and>
    (\<forall>q. q \<noteq> [] \<longrightarrow> ctl_run C fs rt (f\<lparr>cf_pubPath := q\<rparr>) = Inr p)"
proof -
  from assms obtain m priv where p: "SigningMethod (cf_method f) = Inr m" "loadPrivate C fs (cf_method f) (cf_privPath f) = Inr priv"
    "NewSigner (Some m) (Some priv) (ctl_signer_opts f) = Inr (cp_signer p)" "cp_defaultExpiration p = cf_defaultExpiration f"
    "cp_webhook p = (if cf_enableWebhook f then Some (PathValidate, ctl_policy f) else None)" "cf_pubPath f \<noteq> []"
    by (rule ctl_run_Inr)
  note s = ctl_signer [OF p(3)]
  have "\<forall>q. q \<noteq> [] \<longrightarrow> ctl_run C fs rt (f\<lparr>cf_pubPath := q\<rparr>) = Inr p" using ctl_run_pub_unread [OF p(6)] assms by simp
  then show ?thesis using p s ctl_policy_permits(5,6) [of f] by (intro conjI) (auto simp: s)
qed

text \<open>What a mint of the process signs.\<close>

lemma ctl_mint:
  assumes "mint L (ctl_reconciler L now uuid unmarshal errText p) tm None jr d = (Inr (signed, tok), res)"
  obtains c where "mint_claims L unmarshal tm d (jr_Spec jr) = (c, res)" "Sign L now uuid (cp_signer p) None c fmempty = Inr (signed, tok)"
  using assms by (auto simp: mint_def ctl_reconciler_def split: prod.splits)

lemma spec_claims_json_ok: "json_ok L (spec_claims s)"
  unfolding spec_claims_def SetSubject_def SetIssuer_def SetAudience_def SetGroups_def SetRoles_def SetEntitlements_def Let_def
  by (auto intro!: json_ok_upd json_ok_empty)

lemma extra_claims_json_ok:
  "unmarshal_spec unmarshal \<Longrightarrow> json_ok L (fst acc) \<Longrightarrow> json_ok L (fst (extra_claims unmarshal ecs acc))"
proof (induction unmarshal ecs acc rule: extra_claims.induct)
  case (2 unmarshal k raw ecs c reserved invalid)
  show ?case
  proof (cases "unmarshal raw")
    case (Some v)
    have "json_rt L v \<noteq> None" using "2.prems"(1) Some json_rt_json_value by (auto simp: unmarshal_spec_def)
    then have "json_ok L (fmupd k v c)" using "2.prems"(2) by (auto intro: json_ok_upd)
    with Some 2 show ?thesis by auto
  qed (use 2 in auto)
qed simp

lemma mint_claims_json_ok:
  assumes "numericDate_spec L" "unmarshal_spec unmarshal" "mint_claims L unmarshal now d s = (c, res)"
  shows "json_ok L c"
proof -
  have "json_ok L (fst (extra_claims unmarshal (ExtraClaims s) (spec_claims s, [], [])))"
    using assms(2) by (rule extra_claims_json_ok) (simp add: spec_claims_json_ok)
  moreover have "c = SetExpiresAt L (fst (extra_claims unmarshal (ExtraClaims s) (spec_claims s, [], []))) (time_Add now d)"
    using assms(3) by (auto simp: mint_claims_def split: prod.splits)
  ultimately show ?thesis using SetExpiresAt_json_ok [OF assms(1)] by simp
qed

text \<open>The token minted from a spec without roles and extra claims.\<close>

abbreviation json_field :: "string list \<Rightarrow> gval option" where
  "json_field xs \<equiv> (if xs = [] then None else Some (VAnys (Slice (map VString xs))))"

lemma minted_fields:
  assumes lib: "numericDate_spec L" "newWithClaims_spec L" and s: "signer_wf s" "staticClaims s = fmempty"
    and mint: "mint_claims L unmarshal tm d sp = (c, res)" "Sign L now uuid s None c fmempty = Inr (signed, tok)"
    and sp: "Roles sp = []" "ExtraClaims sp = []"
  shows "fset (fmdom (t_claims tok)) \<subseteq>
      {''sub'', ''iss'', ''aud'', ''groups'', ''entitlements'', ''exp'', ''iat'', ''nbf'', ''jti''}"
    "fmlookup (t_claims tok) ''sub'' = field_string (spec.Subject sp)"
    "fmlookup (t_claims tok) ''iss'' = Some (VString (if spec.Issuer sp = [] then issuer s else spec.Issuer sp))"
    "fmlookup (t_claims tok) ''jti'' = Some (VString uuid)"
    "fmlookup (t_claims tok) ''groups'' = json_field (spec.Groups sp)" "fmlookup (t_claims tok) ''aud'' = json_field (spec.Audience sp)"
    "fmlookup (t_claims tok) ''entitlements'' = json_field (spec.Entitlements sp)"
proof -
  have c: "c = SetExpiresAt L (spec_claims sp) (time_Add tm d)" using mint(1) sp(2) by (auto simp: mint_claims_def)
  then have "json_ok L c" using SetExpiresAt_json_ok [OF lib(1) spec_claims_json_ok] by simp
  moreover have "mergedClaims L s c = c" using s(2) by (simp add: mergedClaims_def)
  ultimately have p: "signed_claims L now uuid (expiration s) (issuer s) (json_map L c) (t_claims tok)"
    using Sign_post [OF lib s(1) mint(2)] by (simp add: DeepCopy_json_ok)
  have l: "fmlookup c k = (if k = ''exp'' then Some (date (newNumericDate L (time_Add tm d))) else fmlookup (spec_claims sp) k)" for k
    by (simp add: c SetExpiresAt_def key_defs)
  note f = spec_claims_fields [where s = sp]
  have keep: "fmlookup (t_claims tok) k = fmlookup (json_map L c) k" if "k \<notin> {''exp'', ''iat'', ''nbf'', ''iss'', ''jti''}" for k
    using p that unfolding signed_claims_def key_defs by blast
  show "fset (fmdom (t_claims tok)) \<subseteq> {''sub'', ''iss'', ''aud'', ''groups'', ''entitlements'', ''exp'', ''iat'', ''nbf'', ''jti''}"
  proof
    fix k
    assume "k \<in> fset (fmdom (t_claims tok))"
    then have "fmlookup (t_claims tok) k \<noteq> None" by (simp add: fmlookup_dom_iff)
    then have "k \<in> {''exp'', ''iat'', ''nbf'', ''iss'', ''jti''} \<or> fmlookup (spec_claims sp) k \<noteq> None"
      using keep [of k] by (cases "k \<in> {''exp'', ''iat'', ''nbf'', ''iss'', ''jti''}") (simp_all add: json_map_lookup l)
    moreover have "k \<noteq> ''roles''" if "fmlookup (spec_claims sp) k \<noteq> None" using that f(5) sp(1) by (auto simp: field_list_def)
    moreover have "k \<in> {''sub'', ''iss'', ''aud'', ''groups'', ''roles'', ''entitlements''}" if "fmlookup (spec_claims sp) k \<noteq> None"
      using that by (intro subsetD [OF spec_claims_only]) (auto simp: fmlookup_dom_iff)
    ultimately show "k \<in> {''sub'', ''iss'', ''aud'', ''groups'', ''entitlements'', ''exp'', ''iat'', ''nbf'', ''jti''}"
      unfolding insert_iff empty_iff by argo
  qed
  show "fmlookup (t_claims tok) ''sub'' = field_string (spec.Subject sp)" using keep [of "''sub''"] f(1) by (simp add: json_map_lookup l field_string_def)
  show "fmlookup (t_claims tok) ''iss'' = Some (VString (if spec.Issuer sp = [] then issuer s else spec.Issuer sp))"
    "fmlookup (t_claims tok) ''jti'' = Some (VString uuid)"
    using p f(2,9) unfolding signed_claims_def key_defs by (simp_all add: json_map_lookup l field_string_def)
  show "fmlookup (t_claims tok) ''groups'' = json_field (spec.Groups sp)" "fmlookup (t_claims tok) ''aud'' = json_field (spec.Audience sp)"
    "fmlookup (t_claims tok) ''entitlements'' = json_field (spec.Entitlements sp)"
    using keep [of "''groups''"] keep [of "''aud''"] keep [of "''entitlements''"] f(3,4,6) by (simp_all add: json_map_lookup l field_list_def)
qed


text \<open>C8. A workload can use what the controller gives it: when a reconciliation of a started process has to mint,
  the signer accepts the claims (one whose lifetime ends within the current second is refused as expired)
  and the API server accepts the writes, the Secret that the request names holds a token which a verifier
  for the method and the matching public key accepts at every moment between its nbf and its exp, 30
  seconds of leeway included, with the JSON of the signed claims and under the kid of the flags.\<close>

theorem controller_token_verifies:
  assumes lib: "numericDate_spec L" "newWithClaims_spec L" "signing_spec L" "parser_complete L" "validator_spec L" "unmarshal_spec unmarshal"
    and run: "ctl_run C fs rt f = Inr p" "SigningMethod (cf_method f) = Inr m"
      "loadPrivate C fs (cf_method f) (cf_privPath f) = Inr priv" "keyPair L pub priv" "NewVerifier (Some m) (Some pub) [] = Inr v"
    and api: "owner_law a" "api_get a = None" "api_getSecret a = None" "api_upsert a = None" "api_status a = None"
      "\<forall>s. \<exists>s'. api_setOwner a jr s = Inr s'"
    and req: "fmlookup (requests cl) key = Some jr" "key = (jr_Namespace jr, jr_Name jr)" "SecretName (jr_Spec jr) \<noteq> []"
      "resolveExpiration L (ExpiresIn (jr_Spec jr)) (cp_defaultExpiration p) = Inr d"
      "evaluateRefresh L (t_eval t) (fmlookup (secrets cl) (jr_Namespace jr, SecretName (jr_Spec jr))) d (threshold_of (jr_Spec jr)) = (True, after)"
    and mint: "r = ctl_reconciler L now uuid unmarshal errText p" "mint L r (t_mint t) None jr d = (Inr (signed, tok), res)"
      "accepted_window (t_claims tok) e n later"
  shows "\<exists>requeue cl' s text tok'. Reconcile L r a t None key cl = ((requeue, None), cl') \<and>
    fmlookup (secrets cl') (jr_Namespace jr, SecretName (jr_Spec jr)) = Some s \<and>
    fmlookup (sec_data s) SecretDataKey = Some text \<and> Verify L v later None text [] = Inr tok' \<and>
    t_claims tok' = json_map L (t_claims tok) \<and>
    (cf_kid f \<noteq> [] \<longrightarrow> fmlookup (t_header tok') ''kid'' = Some (VString (cf_kid f)))"
proof -
  have "NewSigner (Some m) (Some priv) (ctl_signer_opts f) = Inr (cp_signer p)" using run(1-3) by (auto elim: ctl_run_Inr)
  note s = ctl_signer [OF this]
  have m: "m \<in> set std_methods" using run(2) by (auto simp: SigningMethod_iff)
  obtain c where c: "mint_claims L unmarshal (t_mint t) d (jr_Spec jr) = (c, res)"
    and sign: "Sign L now uuid (cp_signer p) None c fmempty = Inr (signed, tok)"
    using mint(2) unfolding mint(1) by (rule ctl_mint)
  have json: "json_ok L (t_claims tok)" "json_ok L (t_header tok)"
    using Sign_json_ok [OF lib(1,2) s(1) sign _ mint_claims_json_ok [OF lib(1,6) c]] s(8,9) by (simp_all add: json_ok_upd json_ok_empty)
  have "Alg m \<noteq> []" using NewVerifier_Inr [OF run(5)] by simp
  then have key: "public_key_func m pub tok' = Inr pub" if "t_method tok' = m" for tok'
    using that std_asymmetric [OF m] by (simp add: public_key_func_Inr)
  have pair: "keyPair L pub (signingKey (cp_signer p))" using run(4) s(3) by simp
  from signed_accepted [OF lib(1-5) s(1,2) m pair sign json mint(3), of "[Alg m]" "public_key_func m pub"] key obtain tok' where
    tok': "Verify L v later None signed [] = Inr tok'" "t_claims tok' = json_map L (t_claims tok)" "t_header tok' = json_map L (t_header tok)"
    unfolding NewVerifier_plain [OF run(5)] by auto
  have "fmlookup (t_header tok') ''kid'' = Some (VString (cf_kid f))" if "cf_kid f \<noteq> []"
    using Sign_header [OF lib(2) sign, of "''kid''"] s(8) that tok'(3) by (simp add: json_map_lookup)
  moreover have "resolveExpiration L (ExpiresIn (jr_Spec jr)) (rc_DefaultExpiration r) = Inr d" using req(4) mint(1) by (simp add: ctl_reconciler_def)
  note Reconcile_minting [OF api req(1-3) this req(5) mint(2)]
  ultimately show ?thesis using tok' by blast
qed

section \<open>A process that starts\<close>

abbreviation no_errors :: runtime where
  "no_errors \<equiv> \<lparr>rt_logger = None, rt_manager = None, rt_setup = None, rt_healthz = None, rt_readyz = None\<rparr>"

definition demo_ctl :: ctl_flags where
  "demo_ctl = ctl_defaults\<lparr>cf_method := ''EdDSA'', cf_privPath := ''k.pem'', cf_pubPath := ''p.pem'', cf_kid := ''a'', cf_enableWebhook := True\<rparr>"

abbreviation ctl_demo_signer :: signer where
  "ctl_demo_signer \<equiv> \<lparr>s_method = SigningMethodEdDSA, signingKey = demo_priv, staticHeaders = fmupd ''kid'' (VString ''a'') fmempty,
     staticClaims = fmempty, expiration = Hour, issuer = ''jwtmint-controller'', s_typ = DefaultTyp\<rparr>"

lemma loadPrivate_demo: "loadPrivate pem_crypto pem_files ''EdDSA'' ''k.pem'' = Inr demo_priv"
  by (simp add: loadPrivate_def ReadPEMFile_def os_ReadFile_def pem_files_def ecdsa_names_def rsa_names_def LoadEd_demo)

lemma ctl_run_demo:
  "\<exists>p. ctl_run pem_crypto pem_files no_errors demo_ctl = Inr p \<and> cp_signer p = ctl_demo_signer \<and>
    cp_webhook p = Some (PathValidate, ctl_policy demo_ctl) \<and> cp_defaultExpiration p = Hour"
  by (simp add: ctl_run_def demo_ctl_def ctl_defaults_def SigningMethod_EdDSA loadPrivate_demo ctl_signer_opts_def NewSigner_def
      validateMethodAndKey_def method_consts WithDefaultIssuer_def Signing.WithDefaultExpiration_def WithStaticHeaders_def
      Hour_def Minute_def Second_def HeaderKeyAlg_def)

theorem controller_process_configured_witness:
  "\<exists>p. ctl_run pem_crypto pem_files no_errors demo_ctl = Inr p \<and> issuer (cp_signer p) = ''jwtmint-controller'' \<and>
    ctl_run pem_crypto pem_files no_errors (demo_ctl\<lparr>cf_pubPath := ''missing.pem''\<rparr>) = Inr p"
proof -
  obtain p where p: "ctl_run pem_crypto pem_files no_errors demo_ctl = Inr p" using ctl_run_demo by blast
  show ?thesis using p controller_process_configured [OF p] by (intro exI [of _ p]) (simp add: demo_ctl_def ctl_defaults_def)
qed

definition ctl_token :: token where
  "ctl_token = \<lparr>t_method = SigningMethodEdDSA,
     t_header = sign_header (fmupd ''kid'' (VString ''a'') fmempty) DefaultTyp
       (fmupd ''alg'' (VString ''EdDSA'') (fmupd ''typ'' (VString ''JWT'') fmempty)),
     t_claims = fmupd KeyID (VString ''u'') (fmupd KeyIssuer (VString ''jwtmint-controller'') (fmupd KeyNotBefore (date 1700000000000000000)
       (fmupd KeyIssuedAt (date 1700000000000000000) (fmupd KeyExpiresAt (date 1700003600000000000) fmempty)))),
     t_signature = [], t_valid = False\<rparr>"

lemma mint_demo:
  assumes "cp_signer p = ctl_demo_signer"
  shows "\<exists>res. mint (signing_lib ctl_token lib_pub) (ctl_reconciler (signing_lib ctl_token lib_pub) 1700000000000000000 ''u'' (\<lambda>_. None) (\<lambda>_. []) p)
    1700000000000000000 None Controller_Facts.demo_request Hour = (Inr (''a.b.c'', ctl_token), res)"
proof -
  define L where "L = signing_lib ctl_token lib_pub"
  have n: "newWithClaims L m c = \<lparr>t_method = m,
      t_header = fmupd ''alg'' (VString (Alg m)) (fmupd ''typ'' (VString ''JWT'') fmempty), t_claims = c, t_signature = [], t_valid = False\<rparr>" for m c
    by (simp add: L_def one_token_lib_def)
  have L: "numericDate_spec L" "signedString L ctl_token demo_priv = Inr ''a.b.c''"
    by (simp_all add: L_def signing_lib_specs(1) one_token_lib_def)
  have "sign_claims L 1700000000000000000 ''u'' (SetExpiresAt L fmempty 1700003600000000000) Hour ''jwtmint-controller'' = Inr (t_claims ctl_token)"
    using sign_claims_exp [OF L(1), of 1700003600000000000 1700000000000000000 "''u''" Hour "''jwtmint-controller''"]
    by (simp add: Second_def trunc_second_def ctl_token_def)
  then have "Sign L 1700000000000000000 ''u'' ctl_demo_signer None (SetExpiresAt L fmempty 1700003600000000000) fmempty = Inr (''a.b.c'', ctl_token)"
    using L(2) by (simp add: Sign_def signWith_def mergedClaims_def mergeHeaders_def n) (simp add: ctl_token_def method_consts)
  moreover have "spec_claims (jr_Spec Controller_Facts.demo_request) = fmempty" "ExtraClaims (jr_Spec Controller_Facts.demo_request) = []"
    by (simp_all add: spec_claims_def Controller_Facts.demo_request_def)
  ultimately show ?thesis
    unfolding L_def [symmetric]
    by (simp add: mint_def mint_claims_def ctl_reconciler_def assms time_Add_def Hour_def Minute_def Second_def)
qed


theorem controller_token_verifies_witness:
  "\<exists>p v cl' s tok'. ctl_run pem_crypto pem_files no_errors demo_ctl = Inr p \<and>
    NewVerifier (Some SigningMethodEdDSA) (Some lib_pub) [] = Inr v \<and>
    snd (Reconcile (signing_lib ctl_token lib_pub) (ctl_reconciler (signing_lib ctl_token lib_pub) 1700000000000000000 ''u'' (\<lambda>_. None) (\<lambda>_. []) p)
      demo_api (demo_times\<lparr>t_mint := 1700000000000000000\<rparr>) None (''ns'', ''r'') demo_cluster) = cl' \<and>
    fmlookup (secrets cl') (''ns'', ''s'') = Some s \<and> fmlookup (sec_data s) SecretDataKey = Some ''a.b.c'' \<and>
    Verify (signing_lib ctl_token lib_pub) v 1700000100000000000 None ''a.b.c'' [] = Inr tok'"
proof -
  let ?L = "signing_lib ctl_token lib_pub" and ?t = "demo_times\<lparr>t_mint := 1700000000000000000\<rparr>" and ?jr = "Controller_Facts.demo_request"
  obtain p where p: "ctl_run pem_crypto pem_files no_errors demo_ctl = Inr p" "cp_signer p = ctl_demo_signer" "cp_defaultExpiration p = Hour"
    using ctl_run_demo by blast
  obtain v where v: "NewVerifier (Some SigningMethodEdDSA) (Some lib_pub) [] = Inr v"
    by (simp add: NewVerifier_def PublicKeyFunc_def method_consts is_public_key_def applyOpts_def)
  obtain res where m: "mint ?L (ctl_reconciler ?L 1700000000000000000 ''u'' (\<lambda>_. None) (\<lambda>_. []) p) (t_mint ?t) None ?jr Hour =
      (Inr (''a.b.c'', ctl_token), res)" using mint_demo [OF p(2)] by auto
  have unmarshal: "unmarshal_spec (\<lambda>_. None)" by (simp add: unmarshal_spec_def)
  have w: "accepted_window (t_claims ctl_token) 1700003600000000000 1700000000000000000 1700000100000000000"
    by (simp add: accepted_window_def ctl_token_def key_defs Second_def)
  have f: "SigningMethod (cf_method demo_ctl) = Inr SigningMethodEdDSA"
    "loadPrivate pem_crypto pem_files (cf_method demo_ctl) (cf_privPath demo_ctl) = Inr demo_priv"
    by (simp_all add: demo_ctl_def SigningMethod_EdDSA loadPrivate_demo)
  have api: "api_get demo_api = None" "api_getSecret demo_api = None" "api_upsert demo_api = None" "api_status demo_api = None"
    "\<forall>s. \<exists>s'. api_setOwner demo_api ?jr s = Inr s'" by (simp_all add: demo_api_def)
  have req: "fmlookup (requests demo_cluster) (''ns'', ''r'') = Some ?jr" "(''ns'', ''r'') = (jr_Namespace ?jr, jr_Name ?jr)" "SecretName (jr_Spec ?jr) \<noteq> []"
    "resolveExpiration ?L (ExpiresIn (jr_Spec ?jr)) (cp_defaultExpiration p) = Inr Hour"
    "evaluateRefresh ?L (t_eval ?t) (fmlookup (secrets demo_cluster) (jr_Namespace ?jr, SecretName (jr_Spec ?jr))) Hour (threshold_of (jr_Spec ?jr)) = (True, 0)"
    by (simp_all add: demo_cluster_def Controller_Facts.demo_request_def resolveExpiration_def evaluateRefresh_def p(3) Hour_def Minute_def Second_def)
  from controller_token_verifies [OF signing_lib_specs(1-5) unmarshal p(1) f signing_lib_specs(6) v demo_laws(1) api req refl m w]
  obtain requeue cl' s str tok' where r: "Reconcile ?L (ctl_reconciler ?L 1700000000000000000 ''u'' (\<lambda>_. None) (\<lambda>_. []) p) demo_api ?t None (''ns'', ''r'') demo_cluster =
      ((requeue, None), cl')" "fmlookup (secrets cl') (jr_Namespace ?jr, SecretName (jr_Spec ?jr)) = Some s"
      "fmlookup (sec_data s) SecretDataKey = Some str" "Verify ?L v 1700000100000000000 None str [] = Inr tok'" by blast
  have "str = ''a.b.c''" using r(4) unfolding NewVerifier_plain [OF v] verify_with_Inr by (auto simp: one_token_lib_def checked_parse_def split: if_splits)
  with r p v show ?thesis by (auto simp: Controller_Facts.demo_request_def)
qed

end
