(* ===== verification/Cli_Pipe.thy ===== *)
theory Cli_Pipe
  imports Cli_Facts Sign_Verify
begin

text \<open>
  Two commands in a pipe: the token \<open>jwtmint sign\<close> prints is one \<open>jwtmint verify\<close> accepts from its standard
  input, for a key pair in two files.
\<close>

section \<open>The sign command as a signer\<close>

abbreviation cli_signer :: "smethod \<Rightarrow> pkey \<Rightarrow> duration \<Rightarrow> signer" where
  "cli_signer m priv d \<equiv> \<lparr>s_method = m, signingKey = priv, staticHeaders = fmempty, staticClaims = fmempty, expiration = d,
     issuer = DefaultIssuer, s_typ = DefaultTyp\<rparr>"

lemma SignedWithExpiration_Sign:
  assumes "fst (SignedWithExpiration L now1 now2 uuid d (Some m) (Some k) h (Some c)) = Inr res"
  shows "Sign L now2 uuid (cli_signer m k d) None (SetExpiresAt L c (now1 + d)) h = Inr res" "signer_wf (cli_signer m k d)"
proof -
  have "mergeHeaders fmempty h = h" by (simp add: mergeHeaders_def)
  then show "Sign L now2 uuid (cli_signer m k d) None (SetExpiresAt L c (now1 + d)) h = Inr res"
    using assms by (auto simp: SignedWithExpiration_def Sign_def mergedClaims_def SetExpiresAt_def time_Add_def Let_def
        split: if_splits option.splits)
  have "0 < d" "validateMethodAndKey (Some m) (Some k) = None"
    using assms by (auto simp: SignedWithExpiration_def split: if_splits option.splits)
  then show "signer_wf (cli_signer m k d)"
    by (auto simp: validateMethodAndKey_None signer_wf_def DefaultIssuer_def DefaultTyp_def)
qed

lemma kv_loop_json_ok: "kv_loop err kvs c = Inr h \<Longrightarrow> json_ok L c \<Longrightarrow> json_ok L h"
proof (induction err kvs c rule: kv_loop.induct)
  case (2 err kv kvs c)
  obtain k v ok where cut: "Cut kv (CHR ''='') = (k, v, ok)" by (cases "Cut kv (CHR ''='')")
  then have "kv_loop err kvs (fmupd k (VString v) c) = Inr h" "ok" "k \<noteq> []" using "2.prems" by (auto split: if_splits)
  then show ?case using "2.IH" [OF cut [symmetric] refl] json_ok_upd [OF "2.prems"(2)] by simp
qed simp

lemma runSign_Inr:
  assumes "runSign L C unmarshal fs now1 now2 uuid f = Inr t" "SigningMethod (sf_method f) = Inr m"
    "loadPrivateKeyForMethod C fs m (sf_privPath f) = Inr priv" "buildClaims L unmarshal fs f = Inr c"
  obtains h tok where "Sign L now2 uuid (cli_signer m priv (sf_expiration f)) None (SetExpiresAt L c (now1 + sf_expiration f)) h = Inr (t, tok)"
    "signer_wf (cli_signer m priv (sf_expiration f))" "json_ok L h"
proof -
  obtain h tok where s: "fst (SignedWithExpiration L now1 now2 uuid (sf_expiration f) (Some m) (Some priv) h (Some c)) = Inr (t, tok)"
    "parseKVPairs (sf_headerKV f) = Inr h"
    using assms by (auto simp: runSign_def split: sum.splits)
  have "json_ok L h" using s(2) unfolding parseKVPairs_def by (rule kv_loop_json_ok) (rule json_ok_empty)
  with SignedWithExpiration_Sign [OF s(1)] show thesis by (rule that)
qed

text \<open>Without --not-before the token is valid from the signing second until the lifetime has passed.\<close>

lemma cli_token_window:
  assumes "numericDate_spec L" "newWithClaims_spec L" "signer_wf (cli_signer m priv d)"
    "Sign L now2 uuid (cli_signer m priv d) None (SetExpiresAt L c (now1 + d)) h = Inr (t, tok)"
    and c: "json_ok L c" "fmlookup c KeyNotBefore = None"
    and range: "Second \<le> now1 + d" "now1 + d < 2 ^ 53 * Second"
  shows "fmlookup (t_claims tok) ''exp'' = Some (date (trunc_second (now1 + d)))"
    "fmlookup (t_claims tok) ''nbf'' = Some (date (trunc_second now2))"
proof -
  let ?c = "SetExpiresAt L c (now1 + d)"
  have exp: "ExpiresAt L (DeepCopy L ?c) = Inr (trunc_second (now1 + d))"
    using DeepCopy_date_lookup [OF assms(1) range c(1)] Timestamp_json_date [OF assms(1) range]
    by (simp add: SetExpiresAt_def Claims.ExpiresAt_def readTime_def)
  have "fmlookup (DeepCopy L ?c) KeyNotBefore = None" using c(2) by (simp add: SetExpiresAt_def key_defs)
  then obtain e where nbf: "NotBefore L (DeepCopy L ?c) = Inl e" by (simp add: Claims.NotBefore_def readTime_def)
  have "signed_claims L now2 uuid d DefaultIssuer (DeepCopy L ?c) (t_claims tok)"
    using Sign_post [OF assms(1-4)] by (simp add: mergedClaims_def)
  then show "fmlookup (t_claims tok) ''exp'' = Some (date (trunc_second (now1 + d)))"
    "fmlookup (t_claims tok) ''nbf'' = Some (date (trunc_second now2))"
    by (auto simp: signed_claims_def exp nbf key_defs)
qed

section \<open>The verify command with a key file\<close>

lemma std_methods_Alg: "m \<in> set std_methods \<Longrightarrow> Alg m \<noteq> []"
proof -
  have "list_all (\<lambda>m. Alg m \<noteq> []) std_methods" by code_simp
  then show "m \<in> set std_methods \<Longrightarrow> Alg m \<noteq> []" by (simp add: list_all_iff)
qed

lemma map_sum_Inr_iff: "map_sum f g x = Inr y \<longleftrightarrow> (\<exists>z. x = Inr z \<and> y = g z)"
  by (cases x) auto

lemma loadPublicKeyForMethod_public: "loadPublicKeyForMethod C fs m path = Inr pub \<Longrightarrow> is_public_key pub"
  by (auto simp: loadPublicKeyForMethod_def is_public_key_def map_sum_Inr_iff split: if_splits sum.splits smethod.splits)

definition file_verify_flags :: "string \<Rightarrow> string \<Rightarrow> verifyFlags" where
  "file_verify_flags name path = verify_defaults\<lparr>vf_method := name, vf_pubPath := path\<rparr>"

text \<open>With one source of a key and no further checks, the command accepts what the verifier of that key accepts.\<close>

definition plain_flags :: "verifyFlags \<Rightarrow> bool" where
  "plain_flags f \<longleftrightarrow> (vf_pubPath f = []) \<noteq> (vf_jwksURL f = []) \<and> \<not> vf_printClaims f \<and>
    vf_issuer f = [] \<and> vf_audience f = [] \<and> vf_groups f = [] \<and> vf_roles f = [] \<and> vf_entitlements f = [] \<and> vf_requireKeys f = []"

lemma runVerify_plain:
  assumes f: "plain_flags f" "SigningMethod (vf_method f) = Inr m" "resolvePublicKey L C fs n m f = Inr pub" "is_public_key pub"
    and t: "verify_with L (plain_base [Alg m]) (buildParser (plain_base [Alg m])) (public_key_func m pub) now ctx (vf_token f) [] = Inr tok"
  shows "runVerify L C fs n now ctx f = Inr None"
proof -
  have m: "Alg m \<noteq> []" using f(2) std_methods_Alg by (auto simp: SigningMethod_iff)
  obtain v where v: "NewVerifier (Some m) (Some pub) [] = Inr v" "NewVerifier (Some m) (Some pub) [WithStaticChecks []] = Inr v"
    using m f(4) by (simp add: NewVerifier_def PublicKeyFunc_def applyOpts_def WithStaticChecks_def)
  have checks: "buildVerifyChecks L f = []"
    using f(1) by (simp add: buildVerifyChecks_def verify_checks_def opt_check_def trimAll_def plain_flags_def)
  have "Verify L v now ctx (vf_token f) [] = Inr tok" using t NewVerifier_plain [OF v(1)] by simp
  then show ?thesis unfolding runVerify_def checks using f v(2) by (auto simp: plain_flags_def)
qed

lemma newVerifyCmd_file:
  assumes "SigningMethod name = Inr m" "loadPublicKeyForMethod C fs m path = Inr pub" "t \<noteq> []" "TrimSpace (t @ [CHR 0x0A]) = t"
    "verify_with L (plain_base [Alg m]) (buildParser (plain_base [Alg m])) (public_key_func m pub) now ctx t [] = Inr tok"
  shows "newVerifyCmd L C fs n now ctx (file_verify_flags name path) [] (Inr (t @ [CHR 0x0A])) = Inr None"
proof -
  have p: "path \<noteq> []" using assms(2) by (auto simp: loadPublicKeyForMethod_def)
  let ?f = "file_verify_flags name path\<lparr>vf_token := t\<rparr>"
  have fields: "plain_flags ?f" "vf_method ?f = name" "vf_pubPath ?f = path" "vf_token ?f = t" "vf_token (file_verify_flags name path) = []"
    using p by (simp_all add: file_verify_flags_def verify_defaults_def plain_flags_def)
  have "resolvePublicKey L C fs n m ?f = Inr pub" unfolding resolvePublicKey_def fields using p assms(2) by simp
  from runVerify_plain [OF fields(1) _ this] have "runVerify L C fs n now ctx ?f = Inr None"
    unfolding fields using assms(1,5) loadPublicKeyForMethod_public [OF assms(2)] by blast
  moreover have "token_argument [] [] (Inr (t @ [CHR 0x0A])) = Inr t" using assms(3,4) by (simp add: token_argument_def)
  ultimately show ?thesis by (simp add: newVerifyCmd_def fields(5))
qed

section \<open>The pipe\<close>

text \<open>\<open>jwtmint sign | jwtmint verify\<close> exits with 0: the token the sign command prints for a private key file,
  without an nbf claim of its own, is accepted from standard input by the verify command with the same
  method and the paired public key file, from the signing second on until the lifetime has passed, with
  30 seconds of leeway at both ends, whatever other claims and headers the flags asked for.\<close>

theorem sign_pipe_verify:
  assumes lib: "numericDate_spec L" "newWithClaims_spec L" "signing_spec L" "parser_complete L" "validator_spec L"
    and sign: "newSignCmd L C unmarshal fs now1 now2 uuid changed f = Inr t"
    and claims: "buildClaims L unmarshal fs f = Inr c" "json_ok L c" "fmlookup c KeyNotBefore = None"
    and keys: "SigningMethod (sf_method f) = Inr m" "loadPrivateKeyForMethod C fs m (sf_privPath f) = Inr priv"
      "loadPublicKeyForMethod C fs m pubPath = Inr pub" "keyPair L pub priv"
    and printed: "TrimSpace (t @ [CHR 0x0A]) = t"
    and range: "Second \<le> trunc_second (now1 + sf_expiration f)" "now1 + sf_expiration f < 2 ^ 53 * Second"
      "Second \<le> trunc_second now2" "now2 < 2 ^ 53 * Second"
    and window: "trunc_second now2 - 30 * Second \<le> later" "later < trunc_second (now1 + sf_expiration f) + 30 * Second"
  shows "exit_of (newVerifyCmd L C fs n later None (file_verify_flags (sf_method f) pubPath) [] (Inr (t @ [CHR 0x0A]))) = ExitOK"
proof -
  let ?d = "sf_expiration f"
  have run: "runSign L C unmarshal fs now1 now2 uuid f = Inr t" using sign by (simp add: newSignCmd_def split: if_splits)
  obtain h tok where s: "Sign L now2 uuid (cli_signer m priv ?d) None (SetExpiresAt L c (now1 + ?d)) h = Inr (t, tok)"
    "signer_wf (cli_signer m priv ?d)" "json_ok L h"
    using runSign_Inr [OF run keys(1,2) claims(1)] by metis
  have tr: "trunc_second x \<le> x" for x using trunc_second_le .
  have "accepted_window (t_claims tok) (trunc_second (now1 + ?d)) (trunc_second now2) later"
    using cli_token_window [OF lib(1,2) s(2,1) claims(2,3)] range window tr [of "now1 + ?d"] tr [of now2]
    by (simp add: accepted_window_def)
  moreover have "json_ok L (t_claims tok)" "json_ok L (t_header tok)"
    using Sign_json_ok [OF lib(1,2) s(2,1)] SetExpiresAt_json_ok [OF lib(1) claims(2)] s(3) by (simp_all add: json_ok_empty)
  moreover have m: "m \<in> set std_methods" using keys(1) by (simp add: SigningMethod_iff)
  moreover have "public_key_func m pub tok' = Inr pub" if "t_method tok' = m" for tok'
    using that std_asymmetric [OF m] std_methods_Alg [OF m] by (simp add: public_key_func_Inr)
  ultimately obtain tok' where
    "verify_with L (plain_base [Alg m]) (buildParser (plain_base [Alg m])) (public_key_func m pub) later None t [] = Inr tok'" "t \<noteq> []"
    using signed_accepted [OF lib s(2) _ m _ s(1), of pub "trunc_second (now1 + ?d)" "trunc_second now2" later "[Alg m]" "public_key_func m pub"] keys(4) by auto
  from newVerifyCmd_file [OF keys(1,3) this(2) printed this(1)] show ?thesis by (simp add: exit_of_ok)
qed

abbreviation pipe_lib :: lib where "pipe_lib \<equiv> signing_lib (signed_demo fmempty) lib_pub"

definition pipe_flags :: signFlags where
  "pipe_flags = sign_defaults\<lparr>sf_method := ''EdDSA'', sf_privPath := ''k.pem''\<rparr>"

lemma pipe_fields:
  "sf_method pipe_flags = ''EdDSA''" "sf_privPath pipe_flags = ''k.pem''" "sf_expiration pipe_flags = Hour" "sf_headerKV pipe_flags = []"
  by (simp_all add: pipe_flags_def sign_defaults_def)

lemma pipe_claims: "buildClaims L unmarshal fs pipe_flags = Inr fmempty"
  by (simp add: buildClaims_def pipe_flags_def sign_defaults_def profile_claims_def set_nonempty_def trimAll_def merge_file_def)

lemma pipe_keys:
  "loadPrivateKeyForMethod pem_crypto pem_files SigningMethodEdDSA ''k.pem'' = Inr demo_priv"
  "loadPublicKeyForMethod pem_crypto pem_files SigningMethodEdDSA ''p.pem'' = Inr lib_pub"
  using loadPublic_demo
  by (simp_all add: loadPrivateKeyForMethod_def ReadPEMFile_def os_ReadFile_def pem_files_def method_consts LoadEd_demo demo_pub_def)

lemma pipe_signed:
  "signWith pipe_lib 1700000000000000000 ''u'' SigningMethodEdDSA demo_priv fmempty
     (SetExpiresAt pipe_lib fmempty 1700003600000000000) Hour DefaultIssuer DefaultTyp = Inr (''a.b.c'', signed_demo fmempty)"
proof -
  define L where "L = pipe_lib"
  have n: "newWithClaims L m c = \<lparr>t_method = m,
      t_header = fmupd ''alg'' (VString (Alg m)) (fmupd ''typ'' (VString ''JWT'') fmempty), t_claims = c, t_signature = [], t_valid = False\<rparr>" for m c
    by (simp add: L_def one_token_lib_def)
  have s: "signedString L (signed_demo fmempty) demo_priv = Inr ''a.b.c''" by (simp add: L_def one_token_lib_def)
  have "numericDate_spec L" by (simp only: L_def signing_lib_specs(1))
  note c = sign_claims_exp [OF this, of 1700003600000000000 1700000000000000000 "''u''" Hour DefaultIssuer]
  show ?thesis
    unfolding signWith_def L_def [symmetric] using c s
    by (simp add: n trunc_second_def Second_def signed_demo_def method_consts)
qed

lemma pipe_sign_command_of:
  assumes "loadPrivateKeyForMethod C fs SigningMethodEdDSA ''k.pem'' = Inr demo_priv"
  shows "newSignCmd pipe_lib C unmarshal fs 1700000000000000000 1700000000000000000 ''u'' {''priv''} pipe_flags = Inr ''a.b.c''"
proof -
  have "validateMethodAndKey (Some SigningMethodEdDSA) (Some demo_priv) = None" by (simp add: validateMethodAndKey_def method_consts)
  with pipe_signed [unfolded SetExpiresAt_def]
  have "fst (SignedWithExpiration pipe_lib 1700000000000000000 1700000000000000000 ''u'' Hour
      (Some SigningMethodEdDSA) (Some demo_priv) fmempty (Some fmempty)) = Inr (''a.b.c'', signed_demo fmempty)"
    by (simp add: SignedWithExpiration_def time_Add_def Hour_def Minute_def Second_def Let_def)
  moreover have "parseKVPairs [] = Inr fmempty" by (simp add: parseKVPairs_def)
  ultimately show ?thesis using assms by (simp add: newSignCmd_def runSign_def pipe_fields pipe_claims SigningMethod_EdDSA)
qed

lemmas pipe_sign_command = pipe_sign_command_of [OF pipe_keys(1)]

theorem sign_pipe_verify_witness:
  "newSignCmd pipe_lib pem_crypto (\<lambda>_. Inl []) pem_files 1700000000000000000 1700000000000000000 ''u'' {''priv''} pipe_flags = Inr ''a.b.c'' \<and>
   (\<forall>n. exit_of (newVerifyCmd pipe_lib pem_crypto pem_files n 1700003629000000000 None
      (file_verify_flags ''EdDSA'' ''p.pem'') [] (Inr (''a.b.c'' @ [CHR 0x0A]))) = ExitOK)"
proof -
  let ?t = "1700000000000000000"
  have c: "json_ok pipe_lib fmempty" "fmlookup fmempty KeyNotBefore = None" by (simp_all add: json_ok_def)
  have m: "SigningMethod (sf_method pipe_flags) = Inr SigningMethodEdDSA"
    "loadPrivateKeyForMethod pem_crypto pem_files SigningMethodEdDSA (sf_privPath pipe_flags) = Inr demo_priv"
    by (simp_all add: pipe_fields SigningMethod_EdDSA pipe_keys)
  have trim: "TrimSpace (''a.b.c'' @ [CHR 0x0A]) = ''a.b.c''" by code_simp
  note th = sign_pipe_verify [OF signing_lib_specs(1-5) pipe_sign_command [of "\<lambda>_. Inl []"] pipe_claims c m pipe_keys(2)
      signing_lib_specs(6) trim, of 1700003629000000000]
  show ?thesis using pipe_sign_command [of "\<lambda>_. Inl []"] th
    by (simp add: pipe_fields trunc_second_def Hour_def Minute_def Second_def)
qed

end
