(* ===== verification/Federation.thy ===== *)
theory Federation
  imports Cli_Pipe
begin

text \<open>
  The service and a remote party that knows only its URL: the key set that the JWKS endpoint answers with
  is the one a fetcher loads, so the command line tool verifies the tokens of the service with
  \<open>--jwks-url\<close>.
\<close>

section \<open>The published key set\<close>

lemma entries_kids_distinct:
  "collect_entries es byKid algs = Inr res \<Longrightarrow> distinct (map Kid es) \<and> set (map Kid es) \<inter> fset (fmdom byKid) = {}"
proof (induction es byKid algs rule: collect_entries.induct)
  case (2 e es byKid algs)
  then show ?case by (auto simp: fmlookup_dom_iff split: if_splits option.splits)
qed simp

lemma server_kids_distinct:
  assumes "New C ecBytes cfg = Some (Inr srv)"
  shows "distinct (map Kid (server_entries cfg))"
proof (cases "sv_AdditionalKeys cfg = []")
  case False
  then obtain res where "collect_entries (server_entries cfg) fmempty [] = Inr res"
    using New_Inr(4) [OF assms] by (auto simp: buildVerifier_def NewMultiKeyVerifier_def Let_def split: sum.splits if_splits)
  from entries_kids_distinct [OF this] show ?thesis by blast
qed simp

lemma FromJWKS_loads: "distinct (map j_Kid js) \<Longrightarrow> \<exists>ks. FromJWKS js = Inr ks"
  using add_all_distinct [of js NewKeySet] by (simp add: FromJWKS_def NewKeySet_def)

text \<open>Loading a published set gives back the key of every entry under its kid.\<close>

lemma published_loads:
  assumes "list_all2 entry_published es js" "distinct (map Kid es)"
  shows "\<exists>ks. FromJWKS js = Inr ks \<and> (\<forall>e \<in> set es. \<forall>k. key_entry.PublicKey e = Some k \<longrightarrow> Jwks.PublicKey ks (Kid e) = Inr k)"
proof -
  have "map j_Kid js = map Kid es"
    using assms(1) by (induction rule: list_all2_induct) (auto simp: entry_published_def)
  then obtain ks where ks: "FromJWKS js = Inr ks" using assms(2) FromJWKS_loads by metis
  moreover have "Jwks.PublicKey ks (Kid e) = Inr k" if e: "e \<in> set es" "key_entry.PublicKey e = Some k" for e k
  proof -
    obtain j where "j \<in> set js" "entry_published e j" using list_all2_matches(1) [OF assms(1) e(1)] by blast
    then have "fmlookup ks (Kid e) = Some j" "PublicKeyFromJWK j = Inr k"
      using e(2) by (auto simp: FromJWKS_lookup [OF ks] entry_published_def)
    then show ?thesis by (simp add: Jwks.PublicKey_def Lookup_def)
  qed
  ultimately show ?thesis by blast
qed

lemma PublicKey_public: "Jwks.PublicKey ks kid = Inr k \<Longrightarrow> is_public_key k"
  by (auto simp: Jwks.PublicKey_def PublicKeyFromJWK_def map_sum_Inr_iff is_public_key_def split: sum.splits if_splits)

section \<open>The fetch\<close>

text \<open>A new fetcher has nothing cached, so the first call asks the network.\<close>

lemma first_fetch:
  assumes "NewRemote u [] = Inr r" "reply = Reply 200 cc raw None" "length raw \<le> 2 ^ 20" "decode raw = Inr js" "FromJWKS js = Inr ks"
  shows "fst (remote_PublicKey decode reply t0 t1 t2 t3 kid r) = Jwks.PublicKey ks kid"
proof -
  have r: "cached r = None" "lastErr r = None" "maxBodyBytes r = 2 ^ 20" "\<not> ignoreCacheControl r"
    using assms(1) by (auto simp: NewRemote_def DefaultMaxBodyBytes_def split: if_splits)
  have "limited_read (wrap64 (maxBodyBytes r + 1)) raw None = Inr raw" using assms(3) by (simp add: r(3) limited_read_def wrap64_def)
  then have "doFetch decode r reply = Inr (ks, case parseCacheControlMaxAge cc of Some a \<Rightarrow> if a < ttl r then a else ttl r | None \<Rightarrow> ttl r)"
    using assms(2-5) r(3,4) by (simp add: doFetch_def)
  moreover have "\<not> fresh t r" "cache_answer t t' r = None" for t t' using r(1,2) by (simp_all add: fresh_def cache_answer_def negative_def)
  ultimately show ?thesis by (simp add: remote_PublicKey_def KeySet_def cachedOrFetch_def fetchLocked_def)
qed

section \<open>Tokens of the service\<close>

lemma server_signer:
  assumes "NewSigner meth key (signer_opts cfg) = Inr s"
  shows "staticHeaders s = (if sv_Kid cfg = [] then fmempty else fmupd ''kid'' (VString (sv_Kid cfg)) fmempty) \<and>
    staticClaims s = fmempty \<and> signer_wf s \<and> meth = Some (s_method s) \<and> key = Some (signingKey s)"
proof -
  have "\<forall>opt \<in> set (signer_opts cfg). signer_option opt" by (auto simp: signer_opts_def intro: signer_option.intros)
  then have "signer_wf s \<and> meth = Some (s_method s) \<and> key = Some (signingKey s)" using NewSigner_Inr [OF assms] by blast
  moreover have "staticHeaders s = (if sv_Kid cfg = [] then fmempty else fmupd ''kid'' (VString (sv_Kid cfg)) fmempty) \<and> staticClaims s = fmempty"
    using assms by (auto simp: NewSigner_def signer_opts_def WithDefaultIssuer_def Signing.WithDefaultExpiration_def WithStaticHeaders_def
        split: option.splits if_splits)
  ultimately show ?thesis by blast
qed

text \<open>What the service signs survives JSON when the claims and headers of the call do.\<close>

lemma server_json_ok:
  assumes "numericDate_spec L" "newWithClaims_spec L" "NewSigner meth key (signer_opts cfg) = Inr s"
    "Sign L now uuid s ctx c h = Inr (t, tok)" "json_ok L c" "json_ok L h"
  shows "json_ok L (t_claims tok)" "json_ok L (t_header tok)"
proof -
  have "json_ok L (staticClaims s)" "json_ok L (staticHeaders s)" "signer_wf s"
    using server_signer [OF assms(3)] by (auto intro: json_ok_upd json_ok_empty)
  with Sign_json_ok [OF assms(1,2) _ assms(4) _ assms(5) _ assms(6)] show "json_ok L (t_claims tok)" "json_ok L (t_header tok)" by blast+
qed

lemma signed_parses:
  assumes "numericDate_spec L" "newWithClaims_spec L" "signing_spec L" "signer_wf s" "Sign L now uuid s ctx c h = Inr (t, tok)"
    "s_method s \<in> set std_methods" "json_ok L (t_header tok)" "json_ok L (t_claims tok)"
  shows "\<exists>tok0. parseUnverified L t = Inr tok0 \<and> t_header tok0 = json_map L (t_header tok)"
proof -
  note p = Sign_post [OF assms(1,2,4,5)]
  have "signedString L tok (signingKey s) = Inr t" "t_method tok \<in> set std_methods"
    "fmlookup (t_header tok) ''alg'' = Some (VString (Alg (t_method tok)))" using p assms(6) by (simp_all add: HeaderKeyAlg_def)
  from signing_spec_parses [OF assms(3) this assms(7,8)] show ?thesis by blast
qed

lemma jwks_endpoint:
  assumes "rq_Method q = ''GET''" "rq_Path q = ''/.well-known/jwks.json''"
  shows "rs_Status (fst (serve L en srv q)) = 200" "rs_Body (fst (serve L en srv q)) = JWKSResponse (sr_jwksSet srv)"
proof -
  have "lookup_path q = rq_Path q" using assms by (simp add: lookup_path_def metadata_lookup_path)
  moreover have "find_route (sr_cfg srv) (rq_Method q) (rq_Path q) = Some (''GET'', rq_Path q, RJWKS)" using assms by (simp add: find_route_eq)
  ultimately have "fst (serve L en srv q) =
      withCORS (handleJWKS L (sr_jwksSet srv)) (secured (sv_CertFile (sr_cfg srv) \<noteq> [] \<or> rq_TLS q)) q"
    unfolding serve_eq by (simp add: mux_routed run_route_def)
  then show "rs_Status (fst (serve L en srv q)) = 200" "rs_Body (fst (serve L en srv q)) = JWKSResponse (sr_jwksSet srv)"
    using assms(1) by (simp_all add: withCORS_def handleJWKS_def Write_def body_marshals_def)
qed

definition url_verify_flags :: "string \<Rightarrow> string \<Rightarrow> verifyFlags" where
  "url_verify_flags name u = verify_defaults\<lparr>vf_method := name, vf_jwksURL := u\<rparr>"

lemma newVerifyCmd_url:
  assumes "SigningMethod name = Inr m" "TrimSpace u \<noteq> []" "t \<noteq> []" "parseUnverified L t = Inr tok0"
    "fmlookup (t_header tok0) ''kid'' = Some (VString kid)" "kid \<noteq> []"
    "\<And>r. NewRemote u [] = Inr r \<Longrightarrow> fst (remote_PublicKey (net_decode n) (net_reply n) (net_t0 n) (net_t1 n) (net_t2 n) (net_t3 n) kid r) = Inr pub"
    "is_public_key pub"
    "verify_with L (plain_base [Alg m]) (buildParser (plain_base [Alg m])) (public_key_func m pub) now ctx t [] = Inr tok"
  shows "newVerifyCmd L C fs n now ctx (url_verify_flags name u) [t] stdin = Inr None"
proof -
  let ?f = "url_verify_flags name u\<lparr>vf_token := t\<rparr>"
  have u: "u \<noteq> []" using assms(2) by auto
  have fields: "plain_flags ?f" "vf_method ?f = name" "vf_pubPath ?f = []" "vf_jwksURL ?f = u" "vf_token ?f = t"
    "vf_token (url_verify_flags name u) = []"
    using u by (simp_all add: url_verify_flags_def verify_defaults_def plain_flags_def)
  obtain r where r: "NewRemote u [] = Inr r" using assms(2) by (simp add: NewRemote_def)
  have "resolvePublicKey L C fs n m ?f = Inr pub"
    unfolding resolvePublicKey_def fields using r assms(4-6) assms(7) [OF r] by simp
  from runVerify_plain [OF fields(1) _ this assms(8)] have "runVerify L C fs n now ctx ?f = Inr None"
    unfolding fields using assms(1,9) by blast
  then show ?thesis using assms(3) by (simp add: newVerifyCmd_def token_argument_def fields(6))
qed

text \<open>C15. The tokens of the service verify wherever its URL and its signing method are known: for a token that
  the service's signer issued under its configured kid (the call named no kid of its own), of claims and
  headers that JSON can hold, \<open>jwtmint verify --method <the method of the service> --jwks-url <url>\<close>, whose
  fetch meets the service's own answer to GET /.well-known/jwks.json, exits with 0 at every moment between
  nbf and exp with 30 seconds of leeway. The method has to be given: without it the command expects ES256.
  The body may be any bytes that decode to the answered key set and fit the fetcher's limit of one
  mebibyte; the cache headers and the clock readings of the fetcher do not matter, nor does a revoker of
  the service, which this way of verifying does not consult.\<close>

theorem service_token_verifies_by_url:
  assumes lib: "numericDate_spec L" "newWithClaims_spec L" "signing_spec L" "parser_complete L" "validator_spec L"
    and srv: "New C ecBytes cfg = Some (Inr srv)" "sv_Method cfg = Some m" "m \<in> set std_methods" "sv_PublicKey cfg = Some pub"
      "sv_PrivateKey cfg = Some priv" "keyPair L pub priv" "sv_Kid cfg \<noteq> []"
      "\<forall>e \<in> set (server_entries cfg). \<forall>k. key_entry.PublicKey e = Some k \<longrightarrow> jwk_encodable ecBytes k"
    and sign: "Sign L now uuid (sr_signer srv) None c h = Inr (t, tok)" "fmlookup h ''kid'' = None" "json_ok L c" "json_ok L h"
    and window: "accepted_window (t_claims tok) e nb later"
    and fetch: "rq_Method q = ''GET''" "rq_Path q = ''/.well-known/jwks.json''"
      "net_reply n = Reply (rs_Status (fst (serve L en srv q))) cc raw None" "length raw \<le> 2 ^ 20" "TrimSpace u \<noteq> []"
    and body: "\<And>js. rs_Body (fst (serve L en srv q)) = JWKSResponse js \<Longrightarrow> net_decode n raw = Inr js"
  shows "exit_of (newVerifyCmd L C' fs n later None (url_verify_flags (Alg m) u) [t] stdin) = ExitOK"
proof -
  note n = New_Inr [OF srv(1)]
  have s: "staticHeaders (sr_signer srv) = fmupd ''kid'' (VString (sv_Kid cfg)) fmempty"
    "signer_wf (sr_signer srv)" "s_method (sr_signer srv) = m" "signingKey (sr_signer srv) = priv"
    using server_signer [OF n(3)] srv(2,5,7) by simp_all
  note json = server_json_ok [OF lib(1,2) n(3) sign(1,3,4)]
  have kid: "fmlookup (t_header tok) ''kid'' = Some (VString (sv_Kid cfg))"
    using Sign_header [OF lib(2) sign(1), of "''kid''"] sign(2) s(1) by simp
  have pair: "keyPair L pub (signingKey (sr_signer srv))" using srv(6) s(4) by simp
  have m: "SigningMethod (Alg m) = Inr m" using srv(3) by (simp add: SigningMethod_iff)
  have "public_key_func m pub tok' = Inr pub" if "t_method tok' = m" for tok'
    using that std_asymmetric [OF srv(3)] std_methods_Alg [OF srv(3)] by (simp add: public_key_func_Inr)
  with signed_accepted [OF lib s(2,3) srv(3) pair sign(1) json window, of "[Alg m]" "public_key_func m pub"] obtain tok' where
    v: "verify_with L (plain_base [Alg m]) (buildParser (plain_base [Alg m])) (public_key_func m pub) later None t [] = Inr tok'" "t \<noteq> []"
    by auto
  obtain tok0 where t0: "parseUnverified L t = Inr tok0" "t_header tok0 = json_map L (t_header tok)"
    using signed_parses [OF lib(1-3) s(2) sign(1) _ json(2,1)] srv(3) s(3) by auto
  have "list_all2 entry_published (server_entries cfg) (sr_jwksSet srv)"
    using n(6) srv(8) by (intro entries_jwks_published) (simp_all add: buildJWKS_def)
  from published_loads [OF this server_kids_distinct [OF srv(1)]] obtain ks where
    ks: "FromJWKS (sr_jwksSet srv) = Inr ks" "Jwks.PublicKey ks (sv_Kid cfg) = Inr pub" using srv(4) by auto
  have "net_reply n = Reply 200 cc raw None" using fetch(3) jwks_endpoint(1) [OF fetch(1,2)] by simp
  note key = first_fetch [where decode = "net_decode n", OF _ this fetch(4) body [OF jwks_endpoint(2) [OF fetch(1,2)]] ks(1)]
  note pubk = PublicKey_public [OF ks(2)]
  from newVerifyCmd_url [OF m fetch(5) v(2) t0(1) _ srv(7) _ pubk v(1), of n] kid key ks(2)
  have "newVerifyCmd L C' fs n later None (url_verify_flags (Alg m) u) [t] stdin = Inr None"
    by (simp add: t0(2) json_map_lookup)
  then show ?thesis by (simp add: exit_of_ok)
qed

abbreviation demo_signed :: token where "demo_signed \<equiv> signed_demo (fmupd ''kid'' (VString ''a'') fmempty)"
abbreviation demo_signing_lib :: lib where "demo_signing_lib \<equiv> signing_lib demo_signed demo_pub"

lemma Sign_server_demo:
  assumes "New demo_crypto ec demo_config = Some (Inr srv)"
  shows "Sign demo_signing_lib 1700000000000000000 ''u'' (sr_signer srv) None fmempty fmempty = Inr (''a.b.c'', demo_signed)"
proof -
  have "sr_signer srv = \<lparr>s_method = SigningMethodEdDSA, signingKey = demo_priv,
      staticHeaders = fmupd ''kid'' (VString ''a'') fmempty, staticClaims = fmempty, expiration = Hour, issuer = DefaultIssuer, s_typ = DefaultTyp\<rparr>"
    using New_Inr(3) [OF assms]
    by (simp add: NewSigner_def demo_config_def validateMethodAndKey_def method_consts signer_opts_def withDefaults_def
        Signing.WithDefaultExpiration_def WithStaticHeaders_def Hour_def Minute_def Second_def HeaderKeyAlg_def)
  then show ?thesis by (simp add: Sign_demo_token)
qed

definition demo_net :: "jwks \<Rightarrow> net" where
  "demo_net js = \<lparr>net_decode = (\<lambda>_. Inr js), net_reply = Reply 200 [] ''{}'' None, net_t0 = 0, net_t1 = 0, net_t2 = 0, net_t3 = 0\<rparr>"

theorem service_token_verifies_by_url_witness:
  "\<exists>srv. New demo_crypto (\<lambda>_. Inl []) demo_config = Some (Inr srv) \<and>
    Sign demo_signing_lib 1700000000000000000 ''u'' (sr_signer srv) None fmempty fmempty = Inr (''a.b.c'', demo_signed) \<and>
    exit_of (newVerifyCmd demo_signing_lib pem_crypto fmempty (demo_net (sr_jwksSet srv)) 1700003629000000000 None
      (url_verify_flags ''EdDSA'' ''https://jwt.example'') [''a.b.c''] (Inr [])) = ExitOK"
proof -
  obtain srv where n: "New demo_crypto (\<lambda>_. Inl []) demo_config = Some (Inr srv)" using New_demo by blast
  note s = Sign_server_demo [OF n]
  let ?q = "Http_Facts.demo_request ''GET'' ''/.well-known/jwks.json'' fmempty"
  have m: "SigningMethodEdDSA \<in> set std_methods" "Alg SigningMethodEdDSA = ''EdDSA''" by (simp_all add: std_methods_def method_consts)
  have q: "rq_Method ?q = ''GET''" "rq_Path ?q = ''/.well-known/jwks.json''" by (simp_all add: Http_Facts.demo_request_def)
  have w: "accepted_window (t_claims demo_signed) 1700003600000000000 1700000000000000000 1700003629000000000"
    by (rule signed_demo_window) simp_all
  have cfg: "sv_Method demo_config = Some SigningMethodEdDSA" "sv_PublicKey demo_config = Some demo_pub" "sv_PrivateKey demo_config = Some demo_priv"
    "sv_Kid demo_config \<noteq> []"
    "\<forall>e \<in> set (server_entries demo_config). \<forall>k. key_entry.PublicKey e = Some k \<longrightarrow> jwk_encodable (\<lambda>_. Inl []) k"
    by (simp_all add: demo_config_def demo_pub_encodable)
  have u: "TrimSpace ''https://jwt.example'' \<noteq> []" by code_simp
  have "exit_of (newVerifyCmd demo_signing_lib pem_crypto fmempty (demo_net (sr_jwksSet srv)) 1700003629000000000 None
      (url_verify_flags (Alg SigningMethodEdDSA) ''https://jwt.example'') [''a.b.c''] (Inr [])) = ExitOK"
    by (rule service_token_verifies_by_url [OF signing_lib_specs(1-5) n cfg(1) m(1) cfg(2,3) signing_lib_specs(6) cfg(4,5) s _ json_ok_empty json_ok_empty w q _ _ u,
          where cc = "[]" and raw = "''{}''" and en = demo_env])
      (use jwks_endpoint [OF q] in \<open>simp_all add: demo_net_def\<close>)
  then show ?thesis using n s m(2) by auto
qed

end
