(* ===== verification/Cli_Session.thy ===== *)
theory Cli_Session
  imports Cli_Pipe
begin

text \<open>
  The three commands of a session: the files \<open>jwtmint gen-key\<close> writes are the ones \<open>sign\<close> and \<open>verify\<close> load.
\<close>

section \<open>Generated keys\<close>

text \<open>
  What the sources rely on of the PEM and DER codecs: the PEM text of a generated key is not empty and
  the parser of its family reads the same key from it.
\<close>

definition pem_spec :: "crypto \<Rightarrow> bool" where
  "pem_spec C \<longleftrightarrow>
    (\<forall>t der. pem_EncodeToMemory C t der \<noteq> []) \<and>
    (\<forall>cv k der. ecdsa_GenerateKey C cv = Inr k \<longrightarrow>
      (MarshalECPrivateKey C (Some k) = Inr der \<longrightarrow> ParseECPrivateKeyFromPEM C (pem_EncodeToMemory C ''EC PRIVATE KEY'' der) = Inr k) \<and>
      (MarshalPKIXPublicKey C (EcdsaPublic (Some (ec_pub k))) = Inr der \<longrightarrow>
        ParseECPublicKeyFromPEM C (pem_EncodeToMemory C ''PUBLIC KEY'' der) = Inr (ec_pub k))) \<and>
    (\<forall>bits k der. rsa_GenerateKey C bits = Inr k \<longrightarrow>
      ParseRSAPrivateKeyFromPEM C (pem_EncodeToMemory C ''RSA PRIVATE KEY'' (MarshalPKCS1PrivateKey C (Some k))) = Inr k \<and>
      (MarshalPKIXPublicKey C (RsaPublic (Some (rsa_pub k))) = Inr der \<longrightarrow>
        ParseRSAPublicKeyFromPEM C (pem_EncodeToMemory C ''PUBLIC KEY'' der) = Inr (rsa_pub k))) \<and>
    (\<forall>pub priv der. ed25519_GenerateKey C = Inr (pub, priv) \<longrightarrow>
      (MarshalPKCS8PrivateKey C (Ed25519Private priv) = Inr der \<longrightarrow>
        ParseEdPrivateKeyFromPEM C (pem_EncodeToMemory C ''PRIVATE KEY'' der) = Inr (Ed25519Private priv)) \<and>
      (MarshalPKIXPublicKey C (Ed25519Public pub) = Inr der \<longrightarrow>
        ParseEdPublicKeyFromPEM C (pem_EncodeToMemory C ''PUBLIC KEY'' der) = Inr (Ed25519Public pub)))"

inductive generated :: "crypto \<Rightarrow> pkey \<Rightarrow> pkey \<Rightarrow> bool" for C where
  ecdsa: "ecdsa_GenerateKey C cv = Inr k \<Longrightarrow> generated C (EcdsaPrivate (Some k)) (EcdsaPublic (Some (ec_pub k)))"
| rsa: "rsa_GenerateKey C bits = Inr k \<Longrightarrow> generated C (RsaPrivate (Some k)) (RsaPublic (Some (rsa_pub k)))"
| ed25519: "ed25519_GenerateKey C = Inr (pub, priv) \<Longrightarrow> generated C (Ed25519Private priv) (Ed25519Public pub)"

lemma generatePair_generated: "generatePair C algorithm curve bits = Inr (priv, pub) \<Longrightarrow> generated C priv pub"
  by (auto simp: generatePair_def GenerateECDSA_def GenerateRSA_def GenerateEd25519_def Let_def
      intro: generated.intros split: if_splits sum.splits)

lemma pem_loads:
  assumes "pem_spec C"
  shows "ecdsa_GenerateKey C cv = Inr k \<Longrightarrow> EncodePrivateKeyPEM C (Some (EcdsaPrivate (Some k))) = Inr d \<Longrightarrow> LoadECDSAPrivateFromPEM C d = Inr k"
    and "ecdsa_GenerateKey C cv = Inr k \<Longrightarrow> EncodePublicKeyPEM C (Some (EcdsaPublic (Some (ec_pub k)))) = Inr d \<Longrightarrow>
      LoadECDSAPublicFromPEM C d = Inr (ec_pub k)"
    and "rsa_GenerateKey C bits = Inr r \<Longrightarrow> EncodePrivateKeyPEM C (Some (RsaPrivate (Some r))) = Inr d \<Longrightarrow> LoadRSAPrivateFromPEM C d = Inr r"
    and "rsa_GenerateKey C bits = Inr r \<Longrightarrow> EncodePublicKeyPEM C (Some (RsaPublic (Some (rsa_pub r)))) = Inr d \<Longrightarrow>
      LoadRSAPublicFromPEM C d = Inr (rsa_pub r)"
    and "ed25519_GenerateKey C = Inr (pub, priv) \<Longrightarrow> EncodePrivateKeyPEM C (Some (Ed25519Private priv)) = Inr d \<Longrightarrow>
      LoadEd25519PrivateFromPEM C d = Inr priv"
    and "ed25519_GenerateKey C = Inr (pub, priv) \<Longrightarrow> EncodePublicKeyPEM C (Some (Ed25519Public pub)) = Inr d \<Longrightarrow>
      LoadEd25519PublicFromPEM C d = Inr pub"
  using assms unfolding pem_spec_def
  by (auto simp: EncodePrivateKeyPEM_def EncodePublicKeyPEM_def is_public_key_def load_pem_def BlockTypeECPrivate_def BlockTypeRSAPrivate_def
      BlockTypePKCS8Private_def BlockTypePublic_def LoadECDSAPrivateFromPEM_def LoadECDSAPublicFromPEM_def LoadRSAPrivateFromPEM_def
      LoadRSAPublicFromPEM_def LoadEd25519PrivateFromPEM_def LoadEd25519PublicFromPEM_def split: sum.splits)

text \<open>The files of either half of a generated pair load back, for every method the key fits.\<close>

lemma generated_files_load:
  assumes "pem_spec C" "generated C priv pub" "key_fits m priv" "EncodePrivateKeyPEM C (Some priv) = Inr d1"
    "EncodePublicKeyPEM C (Some pub) = Inr d2" "ReadPEMFile p1 fs = Inr d1" "ReadPEMFile p2 fs = Inr d2" "p1 \<noteq> []" "p2 \<noteq> []"
  shows "loadPrivateKeyForMethod C fs m p1 = Inr priv \<and> loadPublicKeyForMethod C fs m p2 = Inr pub"
  using assms(2)
proof cases
  case (ecdsa cv k)
  then obtain a b where "m = SigningMethodECDSA a b" using assms(3) by (cases m) auto
  with ecdsa assms(4-) pem_loads(1,2) [OF assms(1) ecdsa(3)] show ?thesis
    by (simp add: loadPrivateKeyForMethod_def loadPublicKeyForMethod_def)
next
  case (rsa bits k)
  then have "(\<exists>a. m = SigningMethodRSA a) \<or> (\<exists>a. m = SigningMethodRSAPSS a)" using assms(3) by (cases m) auto
  with rsa assms(4-) pem_loads(3,4) [OF assms(1) rsa(3)] show ?thesis
    by (auto simp: loadPrivateKeyForMethod_def loadPublicKeyForMethod_def)
next
  case (ed25519 pk sk)
  then obtain a where "m = SigningMethodEd25519 a" using assms(3) by (cases m) auto
  with ed25519 assms(4-) pem_loads(5,6) [OF assms(1) ed25519(3)] show ?thesis
    by (simp add: loadPrivateKeyForMethod_def loadPublicKeyForMethod_def)
qed

lemma gen_key_files_load:
  assumes "pem_spec C" "runGenKey C fail algorithm curve bits privOut pubOut False fs = (Inr printed, fs')" "privOut \<noteq> pubOut"
    "generatePair C algorithm curve bits = Inr (priv, pub)" "key_fits m priv"
  shows "loadPrivateKeyForMethod C fs' m privOut = Inr priv \<and> loadPublicKeyForMethod C fs' m pubOut = Inr pub"
proof -
  obtain d1 d2 x1 x2 where d: "EncodePrivateKeyPEM C (Some priv) = Inr d1" "EncodePublicKeyPEM C (Some pub) = Inr d2"
    "fmlookup fs' privOut = Some (d1, x1)" "fmlookup fs' pubOut = Some (d2, x2)"
    using gen_key_writes_pair [OF assms(2,3)] assms(4) by auto
  have "d1 \<noteq> []" "d2 \<noteq> []" using d(1,2) assms(1)
    by (auto simp: pem_spec_def EncodePrivateKeyPEM_def EncodePublicKeyPEM_def split: pkey.splits sum.splits if_splits)
  then have "ReadPEMFile privOut fs' = Inr d1" "ReadPEMFile pubOut fs' = Inr d2" using d(3,4) by (simp_all add: ReadPEMFile_def os_ReadFile_def)
  moreover have "privOut \<noteq> []" "pubOut \<noteq> []" using assms(2,4) by (auto simp: runGenKey_def split: if_splits)
  ultimately show ?thesis using generated_files_load [OF assms(1) generatePair_generated [OF assms(4)] assms(5) d(1,2)] by blast
qed

section \<open>A session\<close>

text \<open>C35. \<open>jwtmint gen-key\<close>, then \<open>jwtmint sign | jwtmint verify\<close> exits with 0: for a key pair generated into two
  different files (whatever the files held before), every token the sign command prints with the private
  key file, for a method the key fits and without an nbf claim of its own, is accepted from standard
  input by the verify command with the public key file, from the signing second on until the lifetime has
  passed, with 30 seconds of leeway at both ends and whatever other claims and headers were asked for.\<close>

theorem gen_key_sign_verify:
  assumes lib: "numericDate_spec L" "newWithClaims_spec L" "signing_spec L" "parser_complete L" "validator_spec L" "pem_spec C"
    and gen: "newGenKeyCmd C fail g fs = (Inr printed, fs')" "\<not> gk_printPEM g" "gk_privOut g \<noteq> gk_pubOut g"
      "generatePair C (gk_algorithm g) (gk_curve g) (gk_bits g) = Inr (priv, pub)" "keyPair L pub priv"
    and alg: "SigningMethod (sf_method f) = Inr m" "key_fits m priv"
    and sign: "newSignCmd L C unmarshal fs' now1 now2 uuid changed f = Inr t" "sf_privPath f = gk_privOut g"
    and claims: "buildClaims L unmarshal fs' f = Inr c" "json_ok L c" "fmlookup c KeyNotBefore = None"
    and printed: "TrimSpace (t @ [CHR 0x0A]) = t"
    and range: "Second \<le> trunc_second (now1 + sf_expiration f)" "now1 + sf_expiration f < 2 ^ 53 * Second"
      "Second \<le> trunc_second now2" "now2 < 2 ^ 53 * Second"
    and window: "trunc_second now2 - 30 * Second \<le> later" "later < trunc_second (now1 + sf_expiration f) + 30 * Second"
  shows "exit_of (newVerifyCmd L C fs' n later None (file_verify_flags (sf_method f) (gk_pubOut g)) [] (Inr (t @ [CHR 0x0A]))) = ExitOK"
proof -
  have "runGenKey C fail (gk_algorithm g) (gk_curve g) (gk_bits g) (gk_privOut g) (gk_pubOut g) False fs = (Inr printed, fs')"
    using gen(1,2) by (simp add: newGenKeyCmd_def)
  note k = gen_key_files_load [OF lib(6) this gen(3,4) alg(2)]
  have loaded: "loadPrivateKeyForMethod C fs' m (sf_privPath f) = Inr priv" using k sign(2) by simp
  show ?thesis
    by (rule sign_pipe_verify [OF lib(1-5) sign(1) claims alg(1) loaded conjunct2 [OF k] gen(5) printed range window])
qed

definition session_crypto :: crypto where
  "session_crypto = pem_crypto\<lparr>ed25519_GenerateKey := Inr (replicate 32 (CHR ''p''), replicate 64 (CHR ''k'')),
     MarshalPKCS8PrivateKey := (\<lambda>_. Inr ''d1''), MarshalPKIXPublicKey := (\<lambda>_. Inr ''d2''),
     pem_EncodeToMemory := (\<lambda>t der. ''BEGIN '' @ t @ der)\<rparr>"

definition session_keys :: genKeyFlags where
  "session_keys = genkey_defaults\<lparr>gk_algorithm := ''ed25519'', gk_privOut := ''k.pem'', gk_pubOut := ''p.pem''\<rparr>"

lemma session_pem: "pem_spec session_crypto"
  by (simp add: pem_spec_def session_crypto_def pem_crypto_def demo_crypto_def demo_pub_def)

lemma session_pair:
  "generatePair session_crypto (gk_algorithm session_keys) (gk_curve session_keys) (gk_bits session_keys) = Inr (demo_priv, lib_pub)"
proof -
  have "ToLower ''ed25519'' = ''ed25519''" by code_simp
  then show ?thesis
    by (simp add: generatePair_def session_keys_def genkey_defaults_def algECDSA_def algRSA_def algEd25519_def GenerateEd25519_def
        session_crypto_def Let_def)
qed

lemma session_generated:
  "newGenKeyCmd session_crypto (\<lambda>_. None) session_keys fmempty =
    (Inr [], fmupd ''p.pem'' (''BEGIN PUBLIC KEYd2'', 420) (fmupd ''k.pem'' (''BEGIN PRIVATE KEYd1'', 384) fmempty))"
proof -
  have flags: "gk_privOut session_keys = ''k.pem''" "gk_pubOut session_keys = ''p.pem''" "\<not> gk_printPEM session_keys"
    by (simp_all add: session_keys_def genkey_defaults_def)
  show ?thesis
    unfolding newGenKeyCmd_def runGenKey_def session_pair flags
    by (simp add: flags SavePrivateKey_def SavePublicKey_def EncodePrivateKeyPEM_def EncodePublicKeyPEM_def session_crypto_def pem_crypto_def
        demo_crypto_def is_public_key_def os_WriteFile_def PublicKeyFilePerm_def PrivateKeyFilePerm_def BlockTypePKCS8Private_def BlockTypePublic_def)
qed

theorem gen_key_sign_verify_witness:
  "\<exists>fs'. newGenKeyCmd session_crypto (\<lambda>_. None) session_keys fmempty = (Inr [], fs') \<and>
    newSignCmd pipe_lib session_crypto (\<lambda>_. Inl []) fs' 1700000000000000000 1700000000000000000 ''u'' {''priv''} pipe_flags = Inr ''a.b.c'' \<and>
    (\<forall>n. exit_of (newVerifyCmd pipe_lib session_crypto fs' n 1700003629000000000 None
      (file_verify_flags ''EdDSA'' ''p.pem'') [] (Inr (''a.b.c'' @ [CHR 0x0A]))) = ExitOK)"
proof -
  obtain fs' where g: "newGenKeyCmd session_crypto (\<lambda>_. None) session_keys fmempty = (Inr [], fs')" using session_generated by blast
  have flags: "\<not> gk_printPEM session_keys" "gk_privOut session_keys = ''k.pem''" "gk_pubOut session_keys = ''p.pem''"
    by (simp_all add: session_keys_def genkey_defaults_def)
  have m: "SigningMethod (sf_method pipe_flags) = Inr SigningMethodEdDSA" "key_fits SigningMethodEdDSA demo_priv"
    by (simp_all add: pipe_fields SigningMethod_EdDSA method_consts)
  have "runGenKey session_crypto (\<lambda>_. None) (gk_algorithm session_keys) (gk_curve session_keys) (gk_bits session_keys) ''k.pem'' ''p.pem'' False
      fmempty = (Inr [], fs')" using g flags by (simp add: newGenKeyCmd_def)
  from gen_key_files_load [OF session_pem this _ session_pair m(2)]
  have "loadPrivateKeyForMethod session_crypto fs' SigningMethodEdDSA ''k.pem'' = Inr demo_priv" by simp
  note s = pipe_sign_command_of [OF this, of "\<lambda>_. Inl []"]
  have c: "json_ok pipe_lib fmempty" "fmlookup fmempty KeyNotBefore = None" by (simp_all add: json_ok_def)
  have trim: "TrimSpace (''a.b.c'' @ [CHR 0x0A]) = ''a.b.c''" by code_simp
  note th = gen_key_sign_verify [OF signing_lib_specs(1-5) session_pem g flags(1) _ session_pair signing_lib_specs(6) m s _ pipe_claims c trim,
      of 1700003629000000000]
  show ?thesis using g s th
    by (intro exI [of _ fs'] conjI) (simp_all add: pipe_fields flags trunc_second_def Hour_def Minute_def Second_def)
qed

end
