(* ===== verification/Deep_Copy.thy ===== *)
theory Deep_Copy
  imports Admission
begin

text \<open>
  The hand-written deep copies of \<open>k8s/api/v1alpha1\<close>. Go's references are explicit here: a heap is a
  list of cells, an address is an index into it and allocation appends a cell. The structs hold slice
  headers, map and pointer addresses as the Go structs do. \<open>JSON.DeepCopy\<close>, \<open>Condition.DeepCopyInto\<close>,
  \<open>ObjectMeta.DeepCopyInto\<close> and \<open>ListMeta.DeepCopyInto\<close> belong to the Kubernetes libraries and are
  arguments, with \<open>Other\<close> cells for what they refer to; \<open>spare n\<close> is the capacity beyond \<open>n\<close> elements that
  the run time gives the array of an \<open>append\<close>.
\<close>

section \<open>References and structs\<close>

type_synonym addr = nat

record slice_hdr =
  hd_array :: addr
  hd_off :: nat
  hd_len :: nat
  hd_cap :: nat

type_synonym sref = "slice_hdr option"

record json_obj =
  Raw :: sref

record type_meta =
  Kind :: string
  APIVersion :: string

record JWTRequestSpec =
  so_SecretName :: string
  so_Subject :: string
  so_Issuer :: string
  so_Audience :: sref
  so_Groups :: sref
  so_Roles :: sref
  so_Entitlements :: sref
  so_ExtraClaims :: "addr option"
  so_ExpiresIn :: string
  so_RefreshThreshold :: "addr option"

record JWTRequestStatus =
  to_SecretName :: string
  to_LastMintedAt :: "addr option"
  to_ExpiresAt :: "addr option"
  to_JTI :: string
  to_ObservedGeneration :: int
  to_Conditions :: sref

record 'm JWTRequest =
  ro_TypeMeta :: type_meta
  ro_ObjectMeta :: 'm
  ro_Spec :: JWTRequestSpec
  ro_Status :: JWTRequestStatus

record 'l JWTRequestList =
  lo_TypeMeta :: type_meta
  lo_ListMeta :: 'l
  lo_Items :: sref

datatype ('m, 'l, 'c) cell =
    Strings "string list"
  | Bytes string
  | ExtraMap "(string \<times> json_obj) list"
  | Float64 rat
  | MetaTime gtime
  | ConditionArray "condition list"
  | RequestArray "'m JWTRequest list"
  | SpecCell JWTRequestSpec
  | StatusCell JWTRequestStatus
  | RequestCell "'m JWTRequest"
  | ListCell "'l JWTRequestList"
  | Other 'c

type_synonym ('m, 'l, 'c) heap = "('m, 'l, 'c) cell list"

definition at :: "'h list \<Rightarrow> addr \<Rightarrow> 'h option" where
  "at h a = (if a < length h then Some (h ! a) else None)"

definition new :: "'h \<Rightarrow> 'h list \<Rightarrow> addr \<times> 'h list" where
  "new c h = (length h, h @ [c])"

definition window :: "slice_hdr \<Rightarrow> 'a list \<Rightarrow> 'a list" where
  "window s xs = take (hd_len s) (drop (hd_off s) xs)"

fun strings_of :: "('m, 'l, 'c) cell option \<Rightarrow> string list" where
  "strings_of (Some (Strings xs)) = xs"
| "strings_of _ = []"

fun conditions_of :: "('m, 'l, 'c) cell option \<Rightarrow> condition list" where
  "conditions_of (Some (ConditionArray xs)) = xs"
| "conditions_of _ = []"

fun requests_of :: "('m, 'l, 'c) cell option \<Rightarrow> 'm JWTRequest list" where
  "requests_of (Some (RequestArray xs)) = xs"
| "requests_of _ = []"

fun bytes_of :: "('m, 'l, 'c) cell option \<Rightarrow> string" where
  "bytes_of (Some (Bytes xs)) = xs"
| "bytes_of _ = []"

fun extra_of :: "('m, 'l, 'c) cell option \<Rightarrow> (string \<times> json_obj) list" where
  "extra_of (Some (ExtraMap kvs)) = kvs"
| "extra_of _ = []"

definition read_slice :: "(('m, 'l, 'c) cell option \<Rightarrow> 'a list) \<Rightarrow> ('m, 'l, 'c) heap \<Rightarrow> sref \<Rightarrow> 'a list" where
  "read_slice elems_of h s = (case s of None \<Rightarrow> [] | Some s \<Rightarrow> window s (elems_of (at h (hd_array s))))"

section \<open>Copies of the fields\<close>

text \<open>\<open>append([]string(nil), xs...)\<close>: without elements the result is nil.\<close>

definition append_strings :: "(nat \<Rightarrow> nat) \<Rightarrow> string list \<Rightarrow> ('m, 'l, 'c) heap \<Rightarrow> sref \<times> ('m, 'l, 'c) heap" where
  "append_strings spare xs h =
    (if xs = [] then (None, h)
     else let n = length xs; (a, h') = new (Strings (xs @ replicate (spare n) [])) h
          in (Some \<lparr>hd_array = a, hd_off = 0, hd_len = n, hd_cap = n + spare n\<rparr>, h'))"

definition copy_strings :: "(nat \<Rightarrow> nat) \<Rightarrow> sref \<Rightarrow> ('m, 'l, 'c) heap \<Rightarrow> sref \<times> ('m, 'l, 'c) heap" where
  "copy_strings spare s h =
    (case s of None \<Rightarrow> (None, h) | Some _ \<Rightarrow> append_strings spare (read_slice strings_of h s) h)"

text \<open>\<open>v := *p; out = &v\<close>, for a pointer that is not nil.\<close>

definition copy_pointer :: "addr option \<Rightarrow> 'h list \<Rightarrow> addr option \<times> 'h list" where
  "copy_pointer p h =
    (case p of
       None \<Rightarrow> (None, h)
     | Some a \<Rightarrow> (case at h a of None \<Rightarrow> (None, h) | Some c \<Rightarrow> apfst Some (new c h)))"

text \<open>A loop that copies one element after the other.\<close>

fun copy_each :: "('a \<Rightarrow> 'h list \<Rightarrow> 'a \<times> 'h list) \<Rightarrow> 'a list \<Rightarrow> 'h list \<Rightarrow> 'a list \<times> 'h list" where
  "copy_each copy [] h = ([], h)"
| "copy_each copy (x # xs) h =
    (let (y, h1) = copy x h; (ys, h2) = copy_each copy xs h1 in (y # ys, h2))"

definition copy_entry :: "(json_obj \<Rightarrow> 'h list \<Rightarrow> json_obj \<times> 'h list) \<Rightarrow> string \<times> json_obj \<Rightarrow> 'h list \<Rightarrow> (string \<times> json_obj) \<times> 'h list" where
  "copy_entry jcopy kv h = (case kv of (k, v) \<Rightarrow> apfst (Pair k) (jcopy v h))"

text \<open>The map is made first and filled by the loop.\<close>

definition copy_extra ::
  "(json_obj \<Rightarrow> ('m, 'l, 'c) heap \<Rightarrow> json_obj \<times> ('m, 'l, 'c) heap) \<Rightarrow> addr option \<Rightarrow> ('m, 'l, 'c) heap \<Rightarrow>
   addr option \<times> ('m, 'l, 'c) heap" where
  "copy_extra jcopy p h =
    (case p of
       None \<Rightarrow> (None, h)
     | Some a \<Rightarrow>
         let (b, h1) = new (ExtraMap []) h;
             (kvs, h2) = copy_each (copy_entry jcopy) (extra_of (at h a)) h1
         in (Some b, h2[b := ExtraMap kvs]))"

definition make_slice :: "nat \<Rightarrow> addr \<Rightarrow> slice_hdr" where
  "make_slice n a = \<lparr>hd_array = a, hd_off = 0, hd_len = n, hd_cap = n\<rparr>"

definition copy_conditions :: "(condition \<Rightarrow> condition) \<Rightarrow> sref \<Rightarrow> ('m, 'l, 'c) heap \<Rightarrow> sref \<times> ('m, 'l, 'c) heap" where
  "copy_conditions ccopy s h =
    (case s of
       None \<Rightarrow> (None, h)
     | Some _ \<Rightarrow>
         let cs = read_slice conditions_of h s; (b, h1) = new (ConditionArray (map ccopy cs)) h
         in (Some (make_slice (length cs) b), h1))"

section \<open>The deep copies\<close>

definition Spec_DeepCopyInto ::
  "(nat \<Rightarrow> nat) \<Rightarrow> (json_obj \<Rightarrow> ('m, 'l, 'c) heap \<Rightarrow> json_obj \<times> ('m, 'l, 'c) heap) \<Rightarrow> JWTRequestSpec \<Rightarrow> ('m, 'l, 'c) heap \<Rightarrow>
   JWTRequestSpec \<times> ('m, 'l, 'c) heap" where
  "Spec_DeepCopyInto spare jcopy s h =
    (let out = s;
         (aud, h) = copy_strings spare (so_Audience s) h; out = out\<lparr>so_Audience := aud\<rparr>;
         (grp, h) = copy_strings spare (so_Groups s) h; out = out\<lparr>so_Groups := grp\<rparr>;
         (rol, h) = copy_strings spare (so_Roles s) h; out = out\<lparr>so_Roles := rol\<rparr>;
         (ent, h) = copy_strings spare (so_Entitlements s) h; out = out\<lparr>so_Entitlements := ent\<rparr>;
         (ext, h) = copy_extra jcopy (so_ExtraClaims s) h; out = out\<lparr>so_ExtraClaims := ext\<rparr>;
         (thr, h) = copy_pointer (so_RefreshThreshold s) h; out = out\<lparr>so_RefreshThreshold := thr\<rparr>
     in (out, h))"

definition Status_DeepCopyInto ::
  "(condition \<Rightarrow> condition) \<Rightarrow> JWTRequestStatus \<Rightarrow> ('m, 'l, 'c) heap \<Rightarrow> JWTRequestStatus \<times> ('m, 'l, 'c) heap" where
  "Status_DeepCopyInto ccopy s h =
    (let out = s;
         (lm, h) = copy_pointer (to_LastMintedAt s) h; out = out\<lparr>to_LastMintedAt := lm\<rparr>;
         (ex, h) = copy_pointer (to_ExpiresAt s) h; out = out\<lparr>to_ExpiresAt := ex\<rparr>;
         (cs, h) = copy_conditions ccopy (to_Conditions s) h; out = out\<lparr>to_Conditions := cs\<rparr>
     in (out, h))"

text \<open>What the Kubernetes libraries provide.\<close>

record ('m, 'l, 'c) k8s_copies =
  kc_json :: "json_obj \<Rightarrow> ('m, 'l, 'c) heap \<Rightarrow> json_obj \<times> ('m, 'l, 'c) heap"
  kc_condition :: "condition \<Rightarrow> condition"
  kc_meta :: "'m \<Rightarrow> ('m, 'l, 'c) heap \<Rightarrow> 'm \<times> ('m, 'l, 'c) heap"
  kc_list :: "'l \<Rightarrow> ('m, 'l, 'c) heap \<Rightarrow> 'l \<times> ('m, 'l, 'c) heap"

definition Request_DeepCopyInto ::
  "(nat \<Rightarrow> nat) \<Rightarrow> ('m, 'l, 'c) k8s_copies \<Rightarrow> 'm JWTRequest \<Rightarrow> ('m, 'l, 'c) heap \<Rightarrow> 'm JWTRequest \<times> ('m, 'l, 'c) heap" where
  "Request_DeepCopyInto spare K r h =
    (let out = r;
         out = out\<lparr>ro_TypeMeta := ro_TypeMeta r\<rparr>;
         (m, h) = kc_meta K (ro_ObjectMeta r) h; out = out\<lparr>ro_ObjectMeta := m\<rparr>;
         (sp, h) = Spec_DeepCopyInto spare (kc_json K) (ro_Spec r) h; out = out\<lparr>ro_Spec := sp\<rparr>;
         (st, h) = Status_DeepCopyInto (kc_condition K) (ro_Status r) h; out = out\<lparr>ro_Status := st\<rparr>
     in (out, h))"

text \<open>The array is made first and filled element by element.\<close>

definition copy_items ::
  "(nat \<Rightarrow> nat) \<Rightarrow> ('m, 'l, 'c) k8s_copies \<Rightarrow> sref \<Rightarrow> ('m, 'l, 'c) heap \<Rightarrow> sref \<times> ('m, 'l, 'c) heap" where
  "copy_items spare K s h =
    (case s of
       None \<Rightarrow> (None, h)
     | Some _ \<Rightarrow>
         let items = read_slice requests_of h s;
             (b, h1) = new (RequestArray []) h;
             (outs, h2) = copy_each (Request_DeepCopyInto spare K) items h1
         in (Some (make_slice (length items) b), h2[b := RequestArray outs]))"

definition List_DeepCopyInto ::
  "(nat \<Rightarrow> nat) \<Rightarrow> ('m, 'l, 'c) k8s_copies \<Rightarrow> 'l JWTRequestList \<Rightarrow> ('m, 'l, 'c) heap \<Rightarrow> 'l JWTRequestList \<times> ('m, 'l, 'c) heap" where
  "List_DeepCopyInto spare K l h =
    (let out = l;
         out = out\<lparr>lo_TypeMeta := lo_TypeMeta l\<rparr>;
         (m, h) = kc_list K (lo_ListMeta l) h; out = out\<lparr>lo_ListMeta := m\<rparr>;
         (is, h) = copy_items spare K (lo_Items l) h; out = out\<lparr>lo_Items := is\<rparr>
     in (out, h))"

text \<open>
  \<open>DeepCopy\<close> of a pointer: nil for nil, else a new object that \<open>DeepCopyInto\<close> overwrites with \<open>*in\<close> first and
  completes. \<open>as\<close> reads the cell of the type and \<open>mk\<close> builds it; a pointer of the Go type always refers to
  such a cell.
\<close>

definition DeepCopy_ptr ::
  "('h option \<Rightarrow> 'a option) \<Rightarrow> ('a \<Rightarrow> 'h) \<Rightarrow> ('a \<Rightarrow> 'h list \<Rightarrow> 'a \<times> 'h list) \<Rightarrow> addr option \<Rightarrow> 'h list \<Rightarrow> addr option \<times> 'h list" where
  "DeepCopy_ptr as mk copyInto p h =
    (case p of
       None \<Rightarrow> (None, h)
     | Some a \<Rightarrow>
         (case as (at h a) of
            None \<Rightarrow> (None, h)
          | Some x \<Rightarrow> let (b, h1) = new (mk x) h; (y, h2) = copyInto x h1 in (Some b, h2[b := mk y])))"

fun spec_cell :: "('m, 'l, 'c) cell option \<Rightarrow> JWTRequestSpec option" where
  "spec_cell (Some (SpecCell x)) = Some x"
| "spec_cell _ = None"

fun status_cell :: "('m, 'l, 'c) cell option \<Rightarrow> JWTRequestStatus option" where
  "status_cell (Some (StatusCell x)) = Some x"
| "status_cell _ = None"

fun request_cell :: "('m, 'l, 'c) cell option \<Rightarrow> 'm JWTRequest option" where
  "request_cell (Some (RequestCell x)) = Some x"
| "request_cell _ = None"

fun list_cell :: "('m, 'l, 'c) cell option \<Rightarrow> 'l JWTRequestList option" where
  "list_cell (Some (ListCell x)) = Some x"
| "list_cell _ = None"

definition Spec_DeepCopy ::
  "(nat \<Rightarrow> nat) \<Rightarrow> ('m, 'l, 'c) k8s_copies \<Rightarrow> addr option \<Rightarrow> ('m, 'l, 'c) heap \<Rightarrow> addr option \<times> ('m, 'l, 'c) heap" where
  "Spec_DeepCopy spare K = DeepCopy_ptr spec_cell SpecCell (Spec_DeepCopyInto spare (kc_json K))"

definition Status_DeepCopy ::
  "('m, 'l, 'c) k8s_copies \<Rightarrow> addr option \<Rightarrow> ('m, 'l, 'c) heap \<Rightarrow> addr option \<times> ('m, 'l, 'c) heap" where
  "Status_DeepCopy K = DeepCopy_ptr status_cell StatusCell (Status_DeepCopyInto (kc_condition K))"

definition Request_DeepCopy ::
  "(nat \<Rightarrow> nat) \<Rightarrow> ('m, 'l, 'c) k8s_copies \<Rightarrow> addr option \<Rightarrow> ('m, 'l, 'c) heap \<Rightarrow> addr option \<times> ('m, 'l, 'c) heap" where
  "Request_DeepCopy spare K = DeepCopy_ptr request_cell RequestCell (Request_DeepCopyInto spare K)"

definition List_DeepCopy ::
  "(nat \<Rightarrow> nat) \<Rightarrow> ('m, 'l, 'c) k8s_copies \<Rightarrow> addr option \<Rightarrow> ('m, 'l, 'c) heap \<Rightarrow> addr option \<times> ('m, 'l, 'c) heap" where
  "List_DeepCopy spare K = DeepCopy_ptr list_cell ListCell (List_DeepCopyInto spare K)"

text \<open>The copies the machinery asks for: an interface value, nil for a nil receiver.\<close>

definition Request_DeepCopyObject ::
  "(nat \<Rightarrow> nat) \<Rightarrow> ('m, 'l, 'c) k8s_copies \<Rightarrow> addr option \<Rightarrow> ('m, 'l, 'c) heap \<Rightarrow> addr option \<times> ('m, 'l, 'c) heap" where
  "Request_DeepCopyObject spare K p h = (case p of None \<Rightarrow> (None, h) | Some a \<Rightarrow> Request_DeepCopy spare K (Some a) h)"

definition List_DeepCopyObject ::
  "(nat \<Rightarrow> nat) \<Rightarrow> ('m, 'l, 'c) k8s_copies \<Rightarrow> addr option \<Rightarrow> ('m, 'l, 'c) heap \<Rightarrow> addr option \<times> ('m, 'l, 'c) heap" where
  "List_DeepCopyObject spare K p h = (case p of None \<Rightarrow> (None, h) | Some a \<Rightarrow> List_DeepCopy spare K (Some a) h)"

end
