(* ===== verification/Deep_Copy_Facts.thy ===== *)
theory Deep_Copy_Facts
  imports Deep_Copy
begin

text \<open>
  What a deep copy promises, as the locale \<open>deep_copier\<close>: the value of an object depends only on the cells
  of its footprint, and a copy has the same value and a footprint of new cells only. The contract is
  closed under structs, loops and pointers, so the deep copies of the API types have it whenever those
  of the Kubernetes libraries do, and reading an object out of the heap gives the record that the
  controller and the admission policy work on.
\<close>

section \<open>Heaps\<close>

lemma at_append [simp]: "a < length h \<Longrightarrow> at (h @ t) a = at h a"
  by (simp add: at_def nth_append)

lemma at_new [simp]: "at (h @ c # t) (length h) = Some c"
  by (simp add: at_def)

lemma at_update [simp]: "at (h[b := c]) a = (if a = b \<and> b < length h then Some c else at h a)"
  by (simp add: at_def)

definition in_heap :: "'h list \<Rightarrow> addr set \<Rightarrow> bool" where
  "in_heap h A \<longleftrightarrow> (\<forall>a \<in> A. a < length h)"

definition fresh_in :: "'h list \<Rightarrow> 'h list \<Rightarrow> addr set \<Rightarrow> bool" where
  "fresh_in h h' A \<longleftrightarrow> (\<forall>a \<in> A. length h \<le> a \<and> a < length h')"

definition same_on :: "addr set \<Rightarrow> 'h list \<Rightarrow> 'h list \<Rightarrow> bool" where
  "same_on A h h' \<longleftrightarrow> (\<forall>a \<in> A. at h' a = at h a)"

lemmas heap_defs = in_heap_def fresh_in_def same_on_def

lemma in_heap_mono: "in_heap h A \<Longrightarrow> length h \<le> length h' \<Longrightarrow> in_heap h' A"
  by (auto simp: in_heap_def)

lemma same_on_append: "in_heap h A \<Longrightarrow> same_on A h (h @ t)"
  by (simp add: heap_defs)

section \<open>The contract\<close>

locale deep_copier =
  fixes val :: "'h list \<Rightarrow> 'a \<Rightarrow> 'v"
    and foot :: "'h list \<Rightarrow> 'a \<Rightarrow> addr set"
    and copy :: "'a \<Rightarrow> 'h list \<Rightarrow> 'a \<times> 'h list"
  assumes footprint: "same_on (foot h x) h h' \<Longrightarrow> val h' x = val h x \<and> foot h' x = foot h x"
    and copied: "in_heap h (foot h x) \<Longrightarrow> copy x h = (y, h') \<Longrightarrow>
      (\<exists>t. h' = h @ t) \<and> fresh_in h h' (foot h' y) \<and> val h' y = val h x"
begin

lemma extend:
  assumes "in_heap h (foot h x)"
  shows "val (h @ t) x = val h x" "foot (h @ t) x = foot h x"
  using footprint [OF same_on_append [OF assms]] by blast+

text \<open>Original and copy do not influence each other.\<close>

lemma isolated:
  assumes "in_heap h (foot h x)" "copy x h = (y, h')"
  shows "val h' y = val h x" "foot h x \<inter> foot h' y = {}"
    "same_on (- foot h' y) h' k \<Longrightarrow> val k x = val h x"
    "same_on (- foot h x) h' k \<Longrightarrow> val k y = val h x"
proof -
  obtain t where c: "h' = h @ t" "fresh_in h h' (foot h' y)" "val h' y = val h x" using copied [OF assms] by blast
  show "val h' y = val h x" by (rule c(3))
  show d: "foot h x \<inter> foot h' y = {}" using c(2) assms(1) by (force simp: heap_defs)
  show "val k x = val h x" if "same_on (- foot h' y) h' k"
  proof -
    have "same_on (foot h x) h k"
      using that d assms(1) c(1) unfolding heap_defs by (metis ComplI at_append disjoint_iff)
    then show ?thesis using footprint by blast
  qed
  show "val k y = val h x" if "same_on (- foot h x) h' k"
  proof -
    have "same_on (foot h' y) h' k" using that d unfolding heap_defs by blast
    then show ?thesis using footprint c(3) by metis
  qed
qed

end

section \<open>Values without references\<close>

definition no_foot :: "'h list \<Rightarrow> 'a \<Rightarrow> addr set" where
  "no_foot h x = {}"

definition keep :: "'a \<Rightarrow> 'h list \<Rightarrow> 'a \<times> 'h list" where
  "keep x h = (x, h)"

interpretation flat: deep_copier "\<lambda>h x. x" no_foot keep
  by unfold_locales (simp_all add: no_foot_def keep_def heap_defs)

section \<open>Composition\<close>

definition pair_val :: "('h list \<Rightarrow> 'a \<Rightarrow> 'v) \<Rightarrow> ('h list \<Rightarrow> 'b \<Rightarrow> 'w) \<Rightarrow> 'h list \<Rightarrow> 'a \<times> 'b \<Rightarrow> 'v \<times> 'w" where
  "pair_val v w h p = (v h (fst p), w h (snd p))"

definition pair_foot :: "('h list \<Rightarrow> 'a \<Rightarrow> addr set) \<Rightarrow> ('h list \<Rightarrow> 'b \<Rightarrow> addr set) \<Rightarrow> 'h list \<Rightarrow> 'a \<times> 'b \<Rightarrow> addr set" where
  "pair_foot f g h p = f h (fst p) \<union> g h (snd p)"

definition pair_copy ::
  "('a \<Rightarrow> 'h list \<Rightarrow> 'a \<times> 'h list) \<Rightarrow> ('b \<Rightarrow> 'h list \<Rightarrow> 'b \<times> 'h list) \<Rightarrow> 'a \<times> 'b \<Rightarrow> 'h list \<Rightarrow> ('a \<times> 'b) \<times> 'h list" where
  "pair_copy c d p h = (let (x, h1) = c (fst p) h; (y, h2) = d (snd p) h1 in ((x, y), h2))"

lemmas pair_defs = pair_val_def pair_foot_def pair_copy_def

locale two_copiers = a: deep_copier v f c + b: deep_copier w g d
  for v :: "'h list \<Rightarrow> 'a \<Rightarrow> 'v" and f c and w :: "'h list \<Rightarrow> 'b \<Rightarrow> 'w" and g d

sublocale two_copiers \<subseteq> both: deep_copier "pair_val v w" "pair_foot f g" "pair_copy c d"
proof (unfold_locales, goal_cases)
  case (1 h p h')
  then have "same_on (f h (fst p)) h h'" "same_on (g h (snd p)) h h'" by (auto simp: pair_foot_def heap_defs)
  then show ?case using a.footprint b.footprint by (metis pair_val_def pair_foot_def)
next
  case (2 h p q h2)
  obtain x h1 y where c: "c (fst p) h = (x, h1)" "d (snd p) h1 = (y, h2)" "q = (x, y)"
    using 2(2) by (auto simp: pair_copy_def split: prod.splits)
  have in1: "in_heap h (f h (fst p))" "in_heap h (g h (snd p))" using 2(1) by (auto simp: pair_foot_def in_heap_def)
  obtain t where 1: "h1 = h @ t" "fresh_in h h1 (f h1 x)" "v h1 x = v h (fst p)" using a.copied [OF in1(1) c(1)] by blast
  note e = b.extend [OF in1(2), of t]
  have "in_heap h1 (g h1 (snd p))" unfolding 1(1) e by (rule in_heap_mono [OF in1(2)]) simp
  then obtain u where 2: "h2 = h1 @ u" "fresh_in h1 h2 (g h2 y)" "w h2 y = w h (snd p)" using b.copied [OF _ c(2)] e 1(1) by metis
  have "in_heap h1 (f h1 x)" using 1(2) by (simp add: heap_defs)
  note e' = a.extend [OF this, of u]
  show ?case using 1 2 e' c(3) by (auto simp: pair_defs fresh_in_def)
qed

context two_copiers
begin

lemma both_deep: "deep_copier (pair_val v w) (pair_foot f g) (pair_copy c d)"
  by (rule both.deep_copier_axioms)

end

lemma pair_rule:
  "deep_copier v f c \<Longrightarrow> deep_copier w g d \<Longrightarrow> deep_copier (pair_val v w) (pair_foot f g) (pair_copy c d)"
  by (rule two_copiers.both_deep) (rule two_copiers.intro)

text \<open>A struct whose references are read by \<open>get\<close> and replaced by \<open>upd\<close>; \<open>V\<close> gives its value from theirs.\<close>

locale struct_copier = deep_copier v f c
  for v :: "'h list \<Rightarrow> 'b \<Rightarrow> 'w" and f c +
  fixes get :: "'a \<Rightarrow> 'b" and upd :: "'a \<Rightarrow> 'b \<Rightarrow> 'a" and V :: "'a \<Rightarrow> 'w \<Rightarrow> 'v" and copyInto :: "'a \<Rightarrow> 'h list \<Rightarrow> 'a \<times> 'h list"
  assumes get_upd: "get (upd x r) = r" and V_upd: "V (upd x r) w = V x w"
    and copyInto: "copyInto x h = apfst (upd x) (c (get x) h)"

sublocale struct_copier \<subseteq> struct: deep_copier "\<lambda>h x. V x (v h (get x))" "\<lambda>h x. f h (get x)" copyInto
proof (unfold_locales, goal_cases)
  case (1 h x h')
  then show ?case using footprint by simp
next
  case (2 h x y h')
  then obtain r where "c (get x) h = (r, h')" "y = upd x r" by (auto simp: copyInto apfst_def map_prod_def split: prod.splits)
  with copied [OF 2(1)] show ?case by (simp add: get_upd V_upd)
qed

context struct_copier
begin

lemma struct_deep: "deep_copier (\<lambda>h x. V x (v h (get x))) (\<lambda>h x. f h (get x)) copyInto"
  by (rule struct.deep_copier_axioms)

end

lemma struct_rule:
  assumes "deep_copier v f c" "\<And>x r. get (upd x r) = r" "\<And>x r w. V (upd x r) w = V x w"
    "\<And>x h. copyInto x h = apfst (upd x) (c (get x) h)"
    "\<And>h x. val h x = V x (v h (get x))" "\<And>h x. foot h x = f h (get x)"
  shows "deep_copier val foot copyInto"
proof -
  have "struct_copier v f c get upd V copyInto" using assms(1-4) by (simp add: struct_copier_def struct_copier_axioms_def)
  from struct_copier.struct_deep [OF this] show ?thesis unfolding assms(5,6) [abs_def] .
qed

text \<open>A loop over the elements.\<close>

lemma copy_each_length: "copy_each c xs h = (ys, h') \<Longrightarrow> length ys = length xs"
  by (induction xs arbitrary: h ys) (auto split: prod.splits)

definition each_foot :: "('h list \<Rightarrow> 'a \<Rightarrow> addr set) \<Rightarrow> 'h list \<Rightarrow> 'a list \<Rightarrow> addr set" where
  "each_foot f h xs = (\<Union>x \<in> set xs. f h x)"

locale each_copier = deep_copier v f c for v :: "'h list \<Rightarrow> 'a \<Rightarrow> 'v" and f c
begin

lemma copy_each_copied:
  assumes "in_heap h (each_foot f h xs)" "copy_each c xs h = (ys, h')"
  shows "(\<exists>t. h' = h @ t) \<and> fresh_in h h' (each_foot f h' ys) \<and> map (v h') ys = map (v h) xs"
  using assms
proof (induction xs arbitrary: h ys)
  case Nil
  then show ?case by (simp add: each_foot_def heap_defs)
next
  case (Cons x xs)
  obtain y h1 zs where c: "c x h = (y, h1)" "copy_each c xs h1 = (zs, h')" "ys = y # zs"
    using Cons.prems(2) by (auto split: prod.splits)
  have i: "in_heap h (f h x)" "\<And>z. z \<in> set xs \<Longrightarrow> in_heap h (f h z)" using Cons.prems(1) by (auto simp: each_foot_def in_heap_def)
  obtain t where 1: "h1 = h @ t" "fresh_in h h1 (f h1 y)" "v h1 y = v h x" using copied [OF i(1) c(1)] by blast
  have e: "f h1 z = f h z \<and> v h1 z = v h z" if "z \<in> set xs" for z using extend [OF i(2) [OF that], of t] 1(1) by simp
  have "in_heap h1 (each_foot f h1 xs)" using i(2) e 1(1) by (fastforce simp: each_foot_def in_heap_def)
  with Cons.IH c(2) obtain u where 2: "h' = h1 @ u" "fresh_in h1 h' (each_foot f h' zs)" "map (v h') zs = map (v h1) xs" by blast
  have "in_heap h1 (f h1 y)" using 1(2) by (simp add: heap_defs)
  note e' = extend [OF this, of u]
  have "fresh_in h h' (f h' y)" "fresh_in h h' (each_foot f h' zs)" using 1 2 e' by (auto simp: fresh_in_def)
  moreover have "map (v h1) xs = map (v h) xs" using e by simp
  ultimately show ?case using 1 2 e' c(3) by (auto simp: each_foot_def fresh_in_def)
qed

end

sublocale each_copier \<subseteq> each: deep_copier "\<lambda>h. map (v h)" "each_foot f" "copy_each c"
proof (unfold_locales, goal_cases)
  case (1 h xs h')
  then have "v h' x = v h x \<and> f h' x = f h x" if "x \<in> set xs" for x
    using that by (intro footprint) (auto simp: each_foot_def same_on_def)
  then show ?case by (simp add: each_foot_def)
next
  case (2 h xs ys h')
  then show ?case by (rule copy_each_copied)
qed

context each_copier
begin

lemma each_deep: "deep_copier (\<lambda>h. map (v h)) (each_foot f) (copy_each c)"
  by (rule each.deep_copier_axioms)

end

lemma each_rule: "deep_copier v f c \<Longrightarrow> deep_copier (\<lambda>h. map (v h)) (each_foot f) (copy_each c)"
  by (rule each_copier.each_deep) (rule each_copier.intro)

text \<open>
  A reference to one cell: \<open>cont r c\<close> is what a reference \<open>r\<close> sees in the cell \<open>c\<close> at its address. The new cell
  is allocated with \<open>place x\<close>, the contents are copied, and the cell is filled.
\<close>

definition box_val :: "('h list \<Rightarrow> 'a \<Rightarrow> 'v) \<Rightarrow> ('r \<Rightarrow> 'h option \<Rightarrow> 'a option) \<Rightarrow> ('r \<Rightarrow> addr) \<Rightarrow> 'h list \<Rightarrow> 'r option \<Rightarrow> 'v option" where
  "box_val v cont adr h p = (case p of None \<Rightarrow> None | Some r \<Rightarrow> map_option (v h) (cont r (at h (adr r))))"

definition box_foot ::
  "('h list \<Rightarrow> 'a \<Rightarrow> addr set) \<Rightarrow> ('r \<Rightarrow> 'h option \<Rightarrow> 'a option) \<Rightarrow> ('r \<Rightarrow> addr) \<Rightarrow> 'h list \<Rightarrow> 'r option \<Rightarrow> addr set" where
  "box_foot f cont adr h p =
    (case p of None \<Rightarrow> {} | Some r \<Rightarrow> insert (adr r) (case cont r (at h (adr r)) of None \<Rightarrow> {} | Some x \<Rightarrow> f h x))"

definition box_copy ::
  "('a \<Rightarrow> 'h list \<Rightarrow> 'a \<times> 'h list) \<Rightarrow> ('r \<Rightarrow> 'h option \<Rightarrow> 'a option) \<Rightarrow> ('r \<Rightarrow> addr) \<Rightarrow> ('a \<Rightarrow> 'h) \<Rightarrow> ('a \<Rightarrow> 'h) \<Rightarrow>
   ('a \<Rightarrow> addr \<Rightarrow> 'r) \<Rightarrow> 'r option \<Rightarrow> 'h list \<Rightarrow> 'r option \<times> 'h list" where
  "box_copy c cont adr place mk ref p h =
    (case p of
       None \<Rightarrow> (None, h)
     | Some r \<Rightarrow>
         (case cont r (at h (adr r)) of
            None \<Rightarrow> (None, h)
          | Some x \<Rightarrow> let (b, h1) = new (place x) h; (y, h2) = c x h1 in (Some (ref x b), h2[b := mk y])))"

locale box_copier = deep_copier v f c for v :: "'h list \<Rightarrow> 'a \<Rightarrow> 'v" and f c +
  fixes cont :: "'r \<Rightarrow> 'h option \<Rightarrow> 'a option" and adr :: "'r \<Rightarrow> addr" and place mk :: "'a \<Rightarrow> 'h" and ref :: "'a \<Rightarrow> addr \<Rightarrow> 'r"
  assumes adr_ref: "adr (ref x b) = b"
    and cont_ref: "c x h = (y, h') \<Longrightarrow> cont (ref x b) (Some (mk y)) = Some y"
begin

lemma box_copied:
  assumes x: "cont r (at h (adr r)) = Some x" and i: "in_heap h (f h x)" and c: "c x (h @ [place x]) = (y, h2)"
  shows "\<exists>t. h2[length h := mk y] = h @ mk y # t \<and> fresh_in h (h @ mk y # t) (f (h @ mk y # t) y) \<and> v (h @ mk y # t) y = v h x"
proof -
  let ?h1 = "h @ [place x]"
  note e = extend [OF i, of "[place x]"]
  have "in_heap ?h1 (f ?h1 x)" unfolding e by (rule in_heap_mono [OF i]) simp
  then obtain t where 1: "h2 = ?h1 @ t" "fresh_in ?h1 h2 (f h2 y)" "v h2 y = v h x" using copied [OF _ c] e(1) by metis
  let ?h3 = "h @ mk y # t"
  have "same_on (f h2 y) h2 ?h3" using 1(1,2) by (auto simp: heap_defs at_def nth_append nth_Cons split: nat.split)
  then have "v ?h3 y = v h2 y" "f ?h3 y = f h2 y" using footprint by blast+
  moreover have "h2[length h := mk y] = ?h3" using 1(1) by simp
  ultimately show ?thesis using 1 by (auto simp: fresh_in_def)
qed

end

sublocale box_copier \<subseteq> box: deep_copier "box_val v cont adr" "box_foot f cont adr" "box_copy c cont adr place mk ref"
proof (unfold_locales, goal_cases)
  case (1 h p h')
  show ?case
  proof (cases p)
    case (Some r)
    with 1 have "at h' (adr r) = at h (adr r)" by (simp add: box_foot_def same_on_def)
    moreover have "v h' x = v h x \<and> f h' x = f h x" if "cont r (at h (adr r)) = Some x" for x
      using 1 that Some by (intro footprint) (simp add: box_foot_def same_on_def)
    ultimately show ?thesis using Some by (auto simp: box_val_def box_foot_def split: option.split)
  qed (simp add: box_val_def box_foot_def)
next
  case (2 h p q h')
  show ?case
  proof (cases "\<exists>r x. p = Some r \<and> cont r (at h (adr r)) = Some x")
    case True
    then obtain r x where p: "p = Some r" "cont r (at h (adr r)) = Some x" by blast
    obtain y h2 where c: "c x (h @ [place x]) = (y, h2)" "q = Some (ref x (length h))" "h' = h2[length h := mk y]"
      using 2(2) by (auto simp: box_copy_def p new_def split: prod.splits)
    have "in_heap h (f h x)" using 2(1) by (auto simp: box_foot_def p in_heap_def)
    from box_copied [OF p(2) this c(1)] obtain t where t: "h' = h @ mk y # t" "fresh_in h h' (f h' y)" "v h' y = v h x"
      unfolding c(3) by metis
    have "at h' (length h) = Some (mk y)" by (simp add: t(1))
    then have "cont (ref x (length h)) (at h' (adr (ref x (length h)))) = Some y" using cont_ref [OF c(1)] by (simp add: adr_ref)
    with t show ?thesis by (auto simp: box_val_def box_foot_def c(2) p adr_ref fresh_in_def)
  next
    case False
    then have "q = None" "h' = h" "box_val v cont adr h p = None"
      using 2(2) by (auto simp: box_copy_def box_val_def split: option.splits)
    then show ?thesis by (simp add: box_val_def box_foot_def fresh_in_def)
  qed
qed

context box_copier
begin

lemma box_deep: "deep_copier (box_val v cont adr) (box_foot f cont adr) (box_copy c cont adr place mk ref)"
  by (rule box.deep_copier_axioms)

end

lemma box_rule:
  assumes "deep_copier v f c" "\<And>x b. adr (ref x b) = b" "\<And>x h y h' b. c x h = (y, h') \<Longrightarrow> cont (ref x b) (Some (mk y)) = Some y"
  shows "deep_copier (box_val v cont adr) (box_foot f cont adr) (box_copy c cont adr place mk ref)"
  using assms by (intro box_copier.box_deep) (simp add: box_copier_def box_copier_axioms_def)

section \<open>The fields of the API types\<close>

definition slice_foot :: "('m, 'l, 'c) heap \<Rightarrow> sref \<Rightarrow> addr set" where
  "slice_foot h s = (case s of None \<Rightarrow> {} | Some s \<Rightarrow> {hd_array s})"

definition ptr_foot :: "('m, 'l, 'c) heap \<Rightarrow> addr option \<Rightarrow> addr set" where
  "ptr_foot h p = set_option p"

lemma window_whole [simp]: "hd_off s = 0 \<Longrightarrow> hd_len s = length xs \<Longrightarrow> window s (xs @ ys) = xs"
  by (simp add: window_def)

interpretation strings: deep_copier "read_slice strings_of :: ('m, 'l, 'c) heap \<Rightarrow> sref \<Rightarrow> string list" slice_foot "copy_strings spare"
  for spare
proof (unfold_locales, goal_cases)
  case (1 h s h')
  then show ?case by (auto simp: read_slice_def slice_foot_def same_on_def split: option.split)
next
  case (2 h s q h')
  then show ?case
    by (auto simp: copy_strings_def append_strings_def new_def Let_def read_slice_def slice_foot_def fresh_in_def
        split: option.splits if_splits)
qed

text \<open>A pointer to a float or a time: the cell holds no references.\<close>

abbreviation ptr_val :: "('m, 'l, 'c) heap \<Rightarrow> addr option \<Rightarrow> ('m, 'l, 'c) cell option" where
  "ptr_val \<equiv> box_val (\<lambda>h x. x) (\<lambda>_ c. c) id"

interpretation pointer: box_copier "\<lambda>h x. x" no_foot keep "\<lambda>_ c. c" id id id "\<lambda>_ b. b"
  by unfold_locales (simp_all add: keep_def)

lemma pointer_copier: "deep_copier ptr_val ptr_foot (copy_pointer :: addr option \<Rightarrow> ('m, 'l, 'c) heap \<Rightarrow> _)"
proof -
  have 1: "(ptr_foot :: ('m, 'l, 'c) heap \<Rightarrow> _) = box_foot no_foot (\<lambda>_ c. c) id"
    by (auto simp: fun_eq_iff ptr_foot_def box_foot_def no_foot_def split: option.split)
  have 2: "(copy_pointer :: addr option \<Rightarrow> ('m, 'l, 'c) heap \<Rightarrow> _) = box_copy keep (\<lambda>_ c. c) id id id (\<lambda>_ b. b)"
    by (auto simp: fun_eq_iff copy_pointer_def box_copy_def keep_def new_def Let_def split: option.split)
  show ?thesis unfolding 1 2 by (rule pointer.box_deep)
qed

interpretation times: two_copiers ptr_val ptr_foot copy_pointer ptr_val ptr_foot copy_pointer
  by (intro two_copiers.intro pointer_copier)

text \<open>The conditions: the array's elements hold no references.\<close>

interpretation conditions: box_copier "\<lambda>h x. x" no_foot keep "\<lambda>s c. Some (window s (conditions_of c))" hd_array
    ConditionArray ConditionArray "\<lambda>cs b. make_slice (length cs) b"
  by unfold_locales (auto simp: keep_def make_slice_def window_def)

definition conditions_val :: "('m, 'l, 'c) heap \<Rightarrow> sref \<Rightarrow> condition list option" where
  "conditions_val = box_val (\<lambda>h x. x) (\<lambda>s c. Some (window s (conditions_of c))) hd_array"

lemma conditions_copier:
  assumes "\<And>c. ccopy c = c"
  shows "deep_copier conditions_val slice_foot (copy_conditions ccopy :: sref \<Rightarrow> ('m, 'l, 'c) heap \<Rightarrow> _)"
proof -
  have "map ccopy cs = cs" for cs using assms by (simp add: map_idI)
  then have 1: "(copy_conditions ccopy :: sref \<Rightarrow> ('m, 'l, 'c) heap \<Rightarrow> _) =
      box_copy keep (\<lambda>s c. Some (window s (conditions_of c))) hd_array ConditionArray ConditionArray (\<lambda>cs b. make_slice (length cs) b)"
    by (auto simp: fun_eq_iff copy_conditions_def box_copy_def keep_def new_def read_slice_def Let_def split: option.split)
  have 2: "(slice_foot :: ('m, 'l, 'c) heap \<Rightarrow> _) = box_foot no_foot (\<lambda>s c. Some (window s (conditions_of c))) hd_array"
    by (auto simp: fun_eq_iff slice_foot_def box_foot_def no_foot_def split: option.split)
  show ?thesis unfolding 1 2 conditions_val_def by (rule conditions.box_deep)
qed

section \<open>The values the controller works on\<close>

definition json_val :: "('m, 'l, 'c) heap \<Rightarrow> json_obj \<Rightarrow> string" where
  "json_val h j = read_slice bytes_of h (Raw j)"

definition json_foot :: "('m, 'l, 'c) heap \<Rightarrow> json_obj \<Rightarrow> addr set" where
  "json_foot h j = slice_foot h (Raw j)"

definition extra_val :: "('m, 'l, 'c) heap \<Rightarrow> addr option \<Rightarrow> (string \<times> string) list" where
  "extra_val h p = (case p of None \<Rightarrow> [] | Some a \<Rightarrow> map (\<lambda>(k, j). (k, json_val h j)) (extra_of (at h a)))"

definition extra_foot :: "('m, 'l, 'c) heap \<Rightarrow> addr option \<Rightarrow> addr set" where
  "extra_foot h p = (case p of None \<Rightarrow> {} | Some a \<Rightarrow> insert a (\<Union>(k, j) \<in> set (extra_of (at h a)). json_foot h j))"

fun float_of :: "('m, 'l, 'c) cell option \<Rightarrow> rat option" where
  "float_of (Some (Float64 r)) = Some r"
| "float_of _ = None"

fun time_of :: "('m, 'l, 'c) cell option \<Rightarrow> gtime option" where
  "time_of (Some (MetaTime t)) = Some t"
| "time_of _ = None"

definition deref :: "('m, 'l, 'c) heap \<Rightarrow> addr option \<Rightarrow> ('m, 'l, 'c) cell option" where
  "deref h p = Option.bind p (at h)"

definition spec_val :: "('m, 'l, 'c) heap \<Rightarrow> JWTRequestSpec \<Rightarrow> spec" where
  "spec_val h s =
    \<lparr>SecretName = so_SecretName s, Subject = so_Subject s, Issuer = so_Issuer s,
     Audience = read_slice strings_of h (so_Audience s), Groups = read_slice strings_of h (so_Groups s),
     Roles = read_slice strings_of h (so_Roles s), Entitlements = read_slice strings_of h (so_Entitlements s),
     ExtraClaims = extra_val h (so_ExtraClaims s), ExpiresIn = so_ExpiresIn s,
     RefreshThreshold = float_of (deref h (so_RefreshThreshold s))\<rparr>"

definition spec_foot :: "('m, 'l, 'c) heap \<Rightarrow> JWTRequestSpec \<Rightarrow> addr set" where
  "spec_foot h s = slice_foot h (so_Audience s) \<union> slice_foot h (so_Groups s) \<union> slice_foot h (so_Roles s) \<union>
    slice_foot h (so_Entitlements s) \<union> extra_foot h (so_ExtraClaims s) \<union> ptr_foot h (so_RefreshThreshold s)"

definition status_val :: "('m, 'l, 'c) heap \<Rightarrow> JWTRequestStatus \<Rightarrow> status" where
  "status_val h s =
    \<lparr>st_SecretName = to_SecretName s, LastMintedAt = time_of (deref h (to_LastMintedAt s)),
     ExpiresAt = time_of (deref h (to_ExpiresAt s)), JTI = to_JTI s, ObservedGeneration = to_ObservedGeneration s,
     Conditions = read_slice conditions_of h (to_Conditions s)\<rparr>"

definition status_foot :: "('m, 'l, 'c) heap \<Rightarrow> JWTRequestStatus \<Rightarrow> addr set" where
  "status_foot h s = ptr_foot h (to_LastMintedAt s) \<union> ptr_foot h (to_ExpiresAt s) \<union> slice_foot h (to_Conditions s)"

definition request_val ::
  "(('m, 'l, 'c) heap \<Rightarrow> 'm \<Rightarrow> 'mv) \<Rightarrow> ('m, 'l, 'c) heap \<Rightarrow> 'm JWTRequest \<Rightarrow> type_meta \<times> 'mv \<times> spec \<times> status" where
  "request_val mval h r = (ro_TypeMeta r, mval h (ro_ObjectMeta r), spec_val h (ro_Spec r), status_val h (ro_Status r))"

definition request_foot ::
  "(('m, 'l, 'c) heap \<Rightarrow> 'm \<Rightarrow> addr set) \<Rightarrow> ('m, 'l, 'c) heap \<Rightarrow> 'm JWTRequest \<Rightarrow> addr set" where
  "request_foot mfoot h r = mfoot h (ro_ObjectMeta r) \<union> spec_foot h (ro_Spec r) \<union> status_foot h (ro_Status r)"

definition list_val ::
  "(('m, 'l, 'c) heap \<Rightarrow> 'm \<Rightarrow> 'mv) \<Rightarrow> (('m, 'l, 'c) heap \<Rightarrow> 'l \<Rightarrow> 'lv) \<Rightarrow> ('m, 'l, 'c) heap \<Rightarrow> 'l JWTRequestList \<Rightarrow>
   type_meta \<times> 'lv \<times> (type_meta \<times> 'mv \<times> spec \<times> status) list" where
  "list_val mval lval h l = (lo_TypeMeta l, lval h (lo_ListMeta l), map (request_val mval h) (read_slice requests_of h (lo_Items l)))"

definition list_foot ::
  "(('m, 'l, 'c) heap \<Rightarrow> 'm \<Rightarrow> addr set) \<Rightarrow> (('m, 'l, 'c) heap \<Rightarrow> 'l \<Rightarrow> addr set) \<Rightarrow> ('m, 'l, 'c) heap \<Rightarrow> 'l JWTRequestList \<Rightarrow> addr set" where
  "list_foot mfoot lfoot h l = lfoot h (lo_ListMeta l) \<union> slice_foot h (lo_Items l) \<union>
    (\<Union>r \<in> set (read_slice requests_of h (lo_Items l)). request_foot mfoot h r)"

section \<open>The contract of the deep copies\<close>

text \<open>What the Kubernetes libraries promise of their own deep copies.\<close>

locale k8s_types =
  json: deep_copier "json_val :: ('m, 'l, 'c) heap \<Rightarrow> json_obj \<Rightarrow> string" json_foot "kc_json K" +
  meta: deep_copier "mval :: ('m, 'l, 'c) heap \<Rightarrow> 'm \<Rightarrow> 'mv" mfoot "kc_meta K" +
  lmeta: deep_copier "lval :: ('m, 'l, 'c) heap \<Rightarrow> 'l \<Rightarrow> 'lv" lfoot "kc_list K"
  for K :: "('m, 'l, 'c) k8s_copies" and mval mfoot lval lfoot +
  fixes spare :: "nat \<Rightarrow> nat"
  assumes condition: "kc_condition K c = c"

sublocale k8s_types \<subseteq> entry: struct_copier json_val json_foot "kc_json K" snd "\<lambda>e j. (fst e, j)" "\<lambda>e w. (fst e, w)" "copy_entry (kc_json K)"
  by unfold_locales (simp_all add: copy_entry_def apfst_def split: prod.split)

sublocale k8s_types \<subseteq> entries: each_copier "\<lambda>h e. (fst e, json_val h (snd e))" "\<lambda>h e. json_foot h (snd e)" "copy_entry (kc_json K)"
  by (rule each_copier.intro) (rule entry.struct_deep)

context k8s_types
begin

text \<open>The extra claims, a map of JSON values.\<close>

lemma extra_copier: "deep_copier extra_val extra_foot (copy_extra (kc_json K))"
proof -
  let ?cont = "\<lambda>_ c. Some (extra_of c)"
  have box: "deep_copier (box_val (\<lambda>h. map (\<lambda>e. (fst e, json_val h (snd e)))) ?cont id)
      (box_foot (each_foot (\<lambda>h e. json_foot h (snd e))) ?cont id)
      (box_copy (copy_each (copy_entry (kc_json K))) ?cont id (\<lambda>_. ExtraMap []) ExtraMap (\<lambda>_ b. b))"
    by (rule box_rule [OF entries.each_deep]) simp_all
  show ?thesis
    by (rule struct_rule [OF box, of "\<lambda>p. p" "\<lambda>_ p. p" "\<lambda>_ w. case w of None \<Rightarrow> [] | Some kvs \<Rightarrow> kvs"])
      (auto simp: copy_extra_def box_copy_def extra_val_def box_val_def extra_foot_def box_foot_def each_foot_def new_def Let_def apfst_def
        split: option.split prod.split)
qed

lemma spec_copier: "deep_copier spec_val spec_foot (Spec_DeepCopyInto spare (kc_json K))"
proof -
  note strs = strings.deep_copier_axioms [of spare]
  note parts = pair_rule [OF strs pair_rule [OF strs pair_rule [OF strs pair_rule [OF strs pair_rule [OF extra_copier pointer_copier]]]]]
  show ?thesis
    by (rule struct_rule [OF parts,
          of "\<lambda>s. (so_Audience s, so_Groups s, so_Roles s, so_Entitlements s, so_ExtraClaims s, so_RefreshThreshold s)"
            "\<lambda>s (a, g, r, e, x, t). s\<lparr>so_Audience := a, so_Groups := g, so_Roles := r, so_Entitlements := e, so_ExtraClaims := x,
               so_RefreshThreshold := t\<rparr>"
            "\<lambda>s (a, g, r, e, x, t). \<lparr>SecretName = so_SecretName s, Subject = so_Subject s, Issuer = so_Issuer s, Audience = a,
               Groups = g, Roles = r, Entitlements = e, ExtraClaims = x, ExpiresIn = so_ExpiresIn s, RefreshThreshold = float_of t\<rparr>"])
      (auto simp: Spec_DeepCopyInto_def pair_defs spec_val_def spec_foot_def deref_def box_val_def Let_def apfst_def option.map_ident
        split: prod.split option.split)
qed

lemma status_copier: "deep_copier status_val status_foot (Status_DeepCopyInto (kc_condition K))"
proof -
  note parts = pair_rule [OF times.both_deep conditions_copier [OF condition]]
  show ?thesis
    by (rule struct_rule [OF parts,
          of "\<lambda>s. ((to_LastMintedAt s, to_ExpiresAt s), to_Conditions s)"
            "\<lambda>s ((l, e), c). s\<lparr>to_LastMintedAt := l, to_ExpiresAt := e, to_Conditions := c\<rparr>"
            "\<lambda>s ((l, e), c). \<lparr>st_SecretName = to_SecretName s, LastMintedAt = time_of l, ExpiresAt = time_of e, JTI = to_JTI s,
               ObservedGeneration = to_ObservedGeneration s, Conditions = (case c of None \<Rightarrow> [] | Some cs \<Rightarrow> cs)\<rparr>"])
      (auto simp: Status_DeepCopyInto_def pair_defs status_val_def status_foot_def deref_def box_val_def conditions_val_def read_slice_def
        Let_def apfst_def option.map_ident split: prod.split option.split)
qed

lemma request_copier: "deep_copier (request_val mval) (request_foot mfoot) (Request_DeepCopyInto spare K)"
proof -
  note parts = pair_rule [OF meta.deep_copier_axioms pair_rule [OF spec_copier status_copier]]
  show ?thesis
    by (rule struct_rule [OF parts, of "\<lambda>r. (ro_ObjectMeta r, ro_Spec r, ro_Status r)"
            "\<lambda>r (m, sp, st). r\<lparr>ro_ObjectMeta := m, ro_Spec := sp, ro_Status := st\<rparr>" "\<lambda>r (m, sp, st). (ro_TypeMeta r, m, sp, st)"])
      (auto simp: Request_DeepCopyInto_def request_val_def request_foot_def pair_defs Let_def apfst_def split: prod.split)
qed

lemma items_copier:
  "deep_copier (\<lambda>h s. map (request_val mval h) (read_slice requests_of h s))
    (\<lambda>h s. slice_foot h s \<union> (\<Union>r \<in> set (read_slice requests_of h s). request_foot mfoot h r)) (copy_items spare K)"
proof -
  let ?cont = "\<lambda>s c. Some (window s (requests_of c))"
  let ?copy = "Request_DeepCopyInto spare K"
  have "window (make_slice (length rs) b) ys = ys" if "copy_each ?copy rs h = (ys, h')" for rs h ys h' b
    using copy_each_length [OF that] by (simp add: window_def make_slice_def)
  then have box: "deep_copier (box_val (\<lambda>h. map (request_val mval h)) ?cont hd_array) (box_foot (each_foot (request_foot mfoot)) ?cont hd_array)
      (box_copy (copy_each ?copy) ?cont hd_array (\<lambda>_. RequestArray []) RequestArray (\<lambda>rs b. make_slice (length rs) b))"
    by (intro box_rule [OF each_rule [OF request_copier]]) (auto simp: make_slice_def)
  show ?thesis
    by (rule struct_rule [OF box, of "\<lambda>s. s" "\<lambda>_ s. s" "\<lambda>_ w. case w of None \<Rightarrow> [] | Some rs \<Rightarrow> rs"])
      (auto simp: copy_items_def box_copy_def read_slice_def box_val_def slice_foot_def box_foot_def each_foot_def new_def Let_def apfst_def
        split: option.split prod.split)
qed

lemma list_copier: "deep_copier (list_val mval lval) (list_foot mfoot lfoot) (List_DeepCopyInto spare K)"
  by (rule struct_rule [OF pair_rule [OF lmeta.deep_copier_axioms items_copier], of "\<lambda>l. (lo_ListMeta l, lo_Items l)"
        "\<lambda>l (m, is). l\<lparr>lo_ListMeta := m, lo_Items := is\<rparr>" "\<lambda>l (m, is). (lo_TypeMeta l, m, is)"])
    (auto simp: List_DeepCopyInto_def list_val_def list_foot_def pair_defs Let_def apfst_def split: prod.split)

end

section \<open>Pointers to the API types\<close>

definition object_val :: "(('h option) \<Rightarrow> 'a option) \<Rightarrow> ('h list \<Rightarrow> 'a \<Rightarrow> 'v) \<Rightarrow> 'h list \<Rightarrow> addr \<Rightarrow> 'v option" where
  "object_val as val h a = map_option (val h) (as (at h a))"

definition reach :: "(('h option) \<Rightarrow> 'a option) \<Rightarrow> ('h list \<Rightarrow> 'a \<Rightarrow> addr set) \<Rightarrow> 'h list \<Rightarrow> addr \<Rightarrow> addr set" where
  "reach as foot h a = insert a (case as (at h a) of None \<Rightarrow> {} | Some x \<Rightarrow> foot h x)"

text \<open>The copy at \<open>q\<close> reads like the original, and no change of cells of the one changes what the other reads as.\<close>

definition isolated_copy ::
  "('h option \<Rightarrow> 'a option) \<Rightarrow> ('h list \<Rightarrow> 'a \<Rightarrow> 'v) \<Rightarrow> ('h list \<Rightarrow> 'a \<Rightarrow> addr set) \<Rightarrow> 'h list \<Rightarrow> addr \<Rightarrow> addr option \<times> 'h list \<Rightarrow> bool" where
  "isolated_copy as val foot h a res \<longleftrightarrow>
    (\<exists>b h'. res = (Some b, h') \<and> object_val as val h' b = object_val as val h a \<and> object_val as val h' a = object_val as val h a \<and>
      reach as foot h a \<inter> reach as foot h' b = {} \<and>
      (\<forall>k. same_on (- reach as foot h' b) h' k \<longrightarrow> object_val as val k a = object_val as val h a) \<and>
      (\<forall>k. same_on (- reach as foot h a) h' k \<longrightarrow> object_val as val k b = object_val as val h a))"

lemma DeepCopy_ptr_box: "DeepCopy_ptr as mk copyInto = box_copy copyInto (\<lambda>_. as) id mk mk (\<lambda>_ b. b)"
  by (auto simp: fun_eq_iff DeepCopy_ptr_def box_copy_def split: option.split)

lemma DeepCopy_ptr_isolated:
  assumes d: "deep_copier val foot copyInto" and as: "\<And>x. as (Some (mk x)) = Some x"
    and a: "as (at h a) = Some x" "in_heap h (reach as foot h a)"
  shows "isolated_copy as val foot h a (DeepCopy_ptr as mk copyInto (Some a) h)"
proof -
  let ?val = "box_val val (\<lambda>_. as) id" and ?foot = "box_foot foot (\<lambda>_. as) id"
  have dp: "deep_copier ?val ?foot (DeepCopy_ptr as mk copyInto)" unfolding DeepCopy_ptr_box by (rule box_rule [OF d]) (simp_all add: as)
  have v: "?val k (Some c) = object_val as val k c" "?foot k (Some c) = reach as foot k c" for k c
    by (simp_all add: box_val_def box_foot_def object_val_def reach_def)
  obtain b h' where r: "DeepCopy_ptr as mk copyInto (Some a) h = (Some b, h')" by (cases "copyInto x (h @ [mk x])") (auto simp: DeepCopy_ptr_def a(1) new_def)
  have "in_heap h (?foot h (Some a))" using a(2) by (simp only: v)
  note i = deep_copier.isolated [OF dp this r, unfolded v]
  have "same_on (- reach as foot h' b) h' h'" by (simp add: same_on_def)
  with i(3) have "object_val as val h' a = object_val as val h a" by blast
  with i r show ?thesis unfolding isolated_copy_def by auto
qed

section \<open>The copies the machinery takes\<close>

text \<open>C17. \<open>DeepCopyObject\<close> of a \<open>JWTRequest\<close> and of a \<open>JWTRequestList\<close>, given that the deep copies of the
  Kubernetes library types (metadata, JSON values, conditions) are deep: the copy reads as the same type
  metadata, object metadata, spec and status (for a list, of every item in order), it shares no memory
  with the original, and whatever is later written to the memory of the one leaves the other as it was;
  nil is copied to nil.\<close>

theorem deep_copy_isolated:
  assumes "k8s_types K mval mfoot lval lfoot"
  shows "(\<forall>h a r. request_cell (at h a) = Some r \<longrightarrow> in_heap h (reach request_cell (request_foot mfoot) h a) \<longrightarrow>
      isolated_copy request_cell (request_val mval) (request_foot mfoot) h a (Request_DeepCopyObject spare K (Some a) h)) \<and>
    (\<forall>h a l. list_cell (at h a) = Some l \<longrightarrow> in_heap h (reach list_cell (list_foot mfoot lfoot) h a) \<longrightarrow>
      isolated_copy list_cell (list_val mval lval) (list_foot mfoot lfoot) h a (List_DeepCopyObject spare K (Some a) h)) \<and>
    (\<forall>h. Request_DeepCopyObject spare K None h = (None, h) \<and> List_DeepCopyObject spare K None h = (None, h))"
  by (auto simp: Request_DeepCopyObject_def List_DeepCopyObject_def Request_DeepCopy_def List_DeepCopy_def
      intro!: DeepCopy_ptr_isolated [OF k8s_types.request_copier [OF assms]] DeepCopy_ptr_isolated [OF k8s_types.list_copier [OF assms]])

text \<open>The copies of the parts keep the same promise.\<close>

theorem deep_copy_parts_isolated:
  assumes "k8s_types K mval mfoot lval lfoot"
  shows "spec_cell (at h a) = Some s \<Longrightarrow> in_heap h (reach spec_cell spec_foot h a) \<Longrightarrow>
      isolated_copy spec_cell spec_val spec_foot h a (Spec_DeepCopy spare K (Some a) h)"
    and "status_cell (at h a) = Some t \<Longrightarrow> in_heap h (reach status_cell status_foot h a) \<Longrightarrow>
      isolated_copy status_cell status_val status_foot h a (Status_DeepCopy K (Some a) h)"
  unfolding Spec_DeepCopy_def Status_DeepCopy_def
  by (auto intro!: DeepCopy_ptr_isolated [OF k8s_types.spec_copier [OF assms]] DeepCopy_ptr_isolated [OF k8s_types.status_copier [OF assms]])

text \<open>
  A slice with no elements that is not nil is copied to nil: \<open>append\<close> to a nil slice allocates nothing. The
  copy reads the same, but a comparison that tells nil from empty tells them apart.
\<close>

theorem deep_copy_drops_empty:
  assumes "hd_len s = 0"
  shows "so_Audience (fst (Spec_DeepCopyInto spare jcopy (x\<lparr>so_Audience := Some s\<rparr>) h)) = None"
  using assms by (simp add: Spec_DeepCopyInto_def copy_strings_def append_strings_def read_slice_def window_def Let_def split: prod.split)

section \<open>A heap with a request\<close>

text \<open>Metadata that refers to its labels by a pointer, and the library's copy of a JSON value.\<close>

definition demo_json_copy :: "json_obj \<Rightarrow> ('m, 'l, 'c) heap \<Rightarrow> json_obj \<times> ('m, 'l, 'c) heap" where
  "demo_json_copy j h = apfst (\<lambda>s. j\<lparr>Raw := s\<rparr>)
    (box_copy keep (\<lambda>s c. Some (window s (bytes_of c))) hd_array Bytes Bytes (\<lambda>bs b. make_slice (length bs) b) (Raw j) h)"

definition demo_copies :: "(addr option, string, string) k8s_copies" where
  "demo_copies = \<lparr>kc_json = demo_json_copy, kc_condition = id, kc_meta = copy_pointer, kc_list = keep\<rparr>"

lemma demo_json_copier: "deep_copier json_val json_foot demo_json_copy"
proof -
  have box: "deep_copier (box_val (\<lambda>h x. x) (\<lambda>s c. Some (window s (bytes_of c))) hd_array)
    (box_foot no_foot (\<lambda>s c. Some (window s (bytes_of c))) hd_array)
    (box_copy keep (\<lambda>s c. Some (window s (bytes_of c))) hd_array Bytes Bytes (\<lambda>bs b. make_slice (length bs) b))"
    by (rule box_rule [OF flat.deep_copier_axioms]) (auto simp: keep_def make_slice_def window_def)
  show ?thesis
    by (rule struct_rule [OF box, of Raw "\<lambda>j s. j\<lparr>Raw := s\<rparr>" "\<lambda>_ w. case w of None \<Rightarrow> [] | Some bs \<Rightarrow> bs"])
      (auto simp: demo_json_copy_def json_val_def json_foot_def read_slice_def slice_foot_def box_val_def box_foot_def no_foot_def
        split: option.split)
qed

interpretation demo: k8s_types demo_copies ptr_val ptr_foot "\<lambda>h x. x" no_foot spare for spare
  using demo_json_copier pointer_copier flat.deep_copier_axioms
  by (intro k8s_types.intro k8s_types_axioms.intro) (simp_all add: demo_copies_def)

definition demo_request_obj :: "addr option JWTRequest" where
  "demo_request_obj = \<lparr>ro_TypeMeta = \<lparr>Kind = ''JWTRequest'', APIVersion = ''jwtmint.io/v1alpha1''\<rparr>, ro_ObjectMeta = Some 0,
     ro_Spec = \<lparr>so_SecretName = ''s'', so_Subject = [], so_Issuer = [], so_Audience = Some (make_slice 2 1), so_Groups = None,
       so_Roles = None, so_Entitlements = None, so_ExtraClaims = Some 2, so_ExpiresIn = ''1h'', so_RefreshThreshold = Some 4\<rparr>,
     ro_Status = \<lparr>to_SecretName = [], to_LastMintedAt = None, to_ExpiresAt = None, to_JTI = [], to_ObservedGeneration = 0,
       to_Conditions = None\<rparr>\<rparr>"

definition demo_heap :: "(addr option, string, string) heap" where
  "demo_heap = [Other ''labels'', Strings [''a'', ''b''], ExtraMap [(''team'', \<lparr>Raw = Some (make_slice 3 3)\<rparr>)], Bytes ''1.5'', Float64 (1 / 2),
     RequestCell demo_request_obj]"

text \<open>Overwriting the audience of the copy leaves the original's audience.\<close>

theorem deep_copy_isolated_witness:
  "\<exists>b h'. Request_DeepCopyObject (\<lambda>n. 0) demo_copies (Some 5) demo_heap = (Some b, h') \<and> b = 6 \<and>
    object_val request_cell (request_val ptr_val) (h'[8 := Strings [''x'', ''y'']]) 5 =
      object_val request_cell (request_val ptr_val) demo_heap 5"
proof -
  let ?res = "Request_DeepCopyObject (\<lambda>n. 0) demo_copies (Some 5) demo_heap"
  have r: "request_cell (at demo_heap 5) = Some demo_request_obj" by (simp add: demo_heap_def at_def)
  have w: "in_heap demo_heap (reach request_cell (request_foot ptr_foot) demo_heap 5)"
    by (simp add: in_heap_def reach_def request_foot_def spec_foot_def status_foot_def slice_foot_def extra_foot_def ptr_foot_def json_foot_def
        demo_heap_def demo_request_obj_def make_slice_def at_def)
  have res: "fst ?res = Some 6 \<and> 8 \<in> reach request_cell (request_foot ptr_foot) (snd ?res) 6"
    by code_simp
  have "isolated_copy request_cell (request_val ptr_val) (request_foot ptr_foot) demo_heap 5 ?res"
    using deep_copy_isolated [OF demo.k8s_types_axioms, of "\<lambda>n. 0"] r w by blast
  then obtain b h' where i: "?res = (Some b, h')"
    "\<And>k. same_on (- reach request_cell (request_foot ptr_foot) h' b) h' k \<Longrightarrow>
      object_val request_cell (request_val ptr_val) k 5 = object_val request_cell (request_val ptr_val) demo_heap 5"
    unfolding isolated_copy_def by blast
  with res have "b = 6" "same_on (- reach request_cell (request_foot ptr_foot) h' b) h' (h'[8 := Strings [''x'', ''y'']])"
    by (auto simp: same_on_def)
  with i show ?thesis by blast
qed

end
