(* ===== verification/Spec2Isabelle.thy ===== *)
theory Spec2Isabelle
  imports Cli_Facts Token_Review_Facts Reconcile_Facts Remote_Termination Server_Run Controller_Main Federation Cli_Session Deep_Copy_Facts
begin

text \<open>
  \<^bold>\<open>jwtmint\<close> mints, verifies, refreshes and revokes JSON Web Tokens. It is a Go library (\<open>claims\<close>, \<open>keys\<close>,
  \<open>signing\<close>, \<open>verification\<close>, \<open>revocation\<close>, \<open>refresh\<close>, \<open>jwks\<close>, \<open>middleware\<close>), an HTTP service (\<open>httpserver\<close>,
  \<open>cmd/jwtmintd\<close>), a Kubernetes controller with an admission webhook and a TokenReview webhook (\<open>k8s\<close>,
  \<open>cmd/jwtmint-controller\<close>) and a command line tool (\<open>cmd\<close>). This library models those parts as executable
  definitions translated from the source and proves what makes them correct.

  \<^bold>\<open>How the parts interact.\<close> A signer (\<open>signing.NewSigner\<close>) fills the registered claims of a claim set and signs it
  with one private key. A verifier (\<open>verification.NewVerifier\<close>, or \<open>NewMultiKeyVerifier\<close> with one key per \<open>kid\<close>) parses
  a token, resolves the key, and runs static checks (a revoker among them), then the checks of the call.
  A refresher verifies a token, optionally bounds its age and resolves new claims, and signs it again
  with the same lifetime. \<open>httpserver\<close> builds one of each from one configuration and serves them; the
  HTTP and gRPC middlewares and the TokenReview webhook call a verifier; the controller calls a signer
  for every \<open>JWTRequest\<close> and keeps a Secret and a status up to date; the admission webhook decides which
  \<open>JWTRequest\<close>s may exist. The command line tool and the daemon build these from flags, the environment and files.

  \<^bold>\<open>Theories and the code they model.\<close>
  \<^item> \<open>Go_Prelude\<close>: errors as lists of sentinels with \<open>errors_Is\<close> (\<open>pkgerr/pkgerr.go\<close>), results as sums, times and
    64-bit durations, the named collections \<open>err_simps\<close>, \<open>time_simps\<close>, \<open>str_simps\<close>, and the locale \<open>opts_invariant\<close> of a
    constructor with functional options. \<open>Go_Strings\<close>, \<open>Go_Float\<close>, \<open>Go_Bytes\<close>: what the sources use of \<open>strings\<close>,
    \<open>strconv\<close>, \<open>math\<close>, \<open>big.Int\<close> and \<open>base64\<close>.
  \<^item> \<open>Jwt_Model\<close>: dynamic claim values, tokens, keys and methods, and the record \<open>lib\<close> of the third-party functions
    the code calls (golang-jwt, JSON, RFC 3339 times) with the documented laws used as named hypotheses
    (\<open>parser_sound\<close>, \<open>parser_complete\<close> and the like); \<open>Lib_Instance\<close> is a concrete instance satisfying them, used by
    the witnesses.
  \<^item> \<open>Claims\<close> (\<open>claims/\<close>), with \<open>Claims_Facts\<close>; \<open>Keys\<close> (\<open>keys/\<close>); \<open>Signing\<close> (\<open>signing/\<close>), with \<open>Signing_Facts\<close>; \<open>Revocation\<close>
    (\<open>revocation/\<close>); \<open>Verification\<close> (\<open>verification/\<close>), with \<open>Verification_Facts\<close>; \<open>Refresh\<close> (\<open>refresh/refresh.go\<close>);
    \<open>Sign_Verify\<close>, what holds of a signer and a verifier together.
  \<^item> \<open>Jwks\<close> (\<open>jwks/jwk.go\<close>, \<open>jwks/keyset.go\<close>); \<open>Jwks_Remote\<close> (\<open>jwks/remote.go\<close>) as functions and as a step relation of
    concurrent callers; \<open>Remote_Termination\<close>, their progress.
  \<^item> \<open>Admission\<close> (\<open>k8s/admission\<close>); \<open>Controller\<close> (\<open>k8s/controller/reconciler.go\<close>, \<open>k8s/api/v1alpha1/types.go\<close>), with
    \<open>Controller_Facts\<close> and \<open>Reconcile_Facts\<close>; \<open>Deep_Copy\<close> (\<open>zz_generated_deepcopy.go\<close>, which is hand-written, on an explicit heap
    of slices, maps and pointers), with \<open>Deep_Copy_Facts\<close>; \<open>Token_Review\<close> (\<open>k8s/tokenreview\<close>), with \<open>Token_Review_Facts\<close>.
  \<^item> \<open>Http_Auth\<close> (\<open>middleware/httpauth\<close>, \<open>middleware/grpcauth\<close>, servers and clients), with \<open>Http_Auth_Facts\<close>;
    \<open>Http_Server\<close> (\<open>httpserver/server.go\<close>, \<open>build.go\<close>) and \<open>Http_Endpoints\<close> (the handlers, authenticators, security
    headers, routes, \<open>k8sauth\<close>, \<open>internal/jsonutil\<close>), with \<open>Http_Facts\<close>; \<open>Server_Run\<close> (\<open>Server.Run\<close> as a step relation of its two
    goroutines, \<open>metrics.go\<close>, \<open>middleware.go\<close>).
  \<^item> \<open>Cli\<close> (\<open>cmd/\<close>), \<open>Daemon\<close> (\<open>cmd/config\<close>, \<open>cmd/jwtmintd\<close>), with \<open>Cli_Facts\<close>; for commands in sequence, \<open>Cli_Pipe\<close>
    (\<open>sign\<close> piped into \<open>verify\<close>), \<open>Cli_Session\<close> (\<open>gen-key\<close> before them) and \<open>Federation\<close> (the service and \<open>verify --jwks-url\<close>); \<open>Controller_Main\<close> (\<open>cmd/jwtmint-controller\<close>).
  Records keep the fields of the Go structs under a short prefix; a Go function of one name in two packages
  carries a prefix in one of them (\<open>sa_New\<close>, \<open>config_String\<close>). Clock readings, generated ids, map iteration
  orders, file contents and HTTP replies are arguments. A panic is \<open>None\<close>; an error is \<open>Inl\<close> of the sentinels it wraps.

  \<^bold>\<open>What is shown.\<close>
  \<^item> Issuing: \<open>sign_postcondition\<close>, \<open>sign_rejections\<close>, \<open>new_signer_well_formed\<close>; the claim accessors' round trips
    and checks through the locales \<open>claim_accessor\<close> and \<open>accessor_pair\<close>.
  \<^item> Accepting: \<open>verify_sound\<close>, \<open>multi_verify_sound\<close>, \<open>verify_error_classification\<close>, through the locale \<open>token_verifier\<close>;
    \<open>revoked_token_never_accepted\<close>, and the revoker as a refinement of an abstract deny list (locale \<open>denylist\<close>).
  \<^item> Refreshing: \<open>refresh_sound\<close>, \<open>refresh_preserves_window\<close>.
  \<^item> Keys: \<open>jwk_roundtrip\<close>, the key store (locale \<open>key_store\<close>), the remote cache with its single-flight safety, validated
    fetches and termination of concurrent calls.
  \<^item> Kubernetes: the admission policy against its declarative reading, the minted claims, the reconcile
    loop on each of its branches, the TokenReview answer, what an admitted request can obtain
    (\<open>admitted_request_bounded\<close>) and that the minted Secret holds a verifiable token (\<open>controller_token_verifies\<close>);
    the deep copies of the API types give equal values without shared memory, by the locale \<open>deep_copier\<close>, which the copies of the
    fields, structs, loops and pointers satisfy one by one (\<open>deep_copy_isolated\<close>).
  \<^item> The service: authentication of the issuing endpoints, headers of every response, the published keys, the
    middlewares and their agreement, the settings of the daemon and the commands, the end of a run and the
    agreement of metrics and log with the answers.
  \<^item> Across components: \<open>sign_verify_roundtrip\<close>, and below: a token the service issues is accepted by the same service, a refreshed
    token is refused where several keys are configured, and the refresh endpoint ignores the revoker
    (\<open>refresh_outlives_revocation\<close>); a cluster authenticates with the service's tokens (\<open>service_token_authenticates\<close>), anyone who knows
    its URL verifies them (\<open>service_token_verifies_by_url\<close>), and a session of the three commands ends well (\<open>gen_key_sign_verify\<close>).

  \<^bold>\<open>Bounds and fuel.\<close> No definition uses fuel: every loop of the source is structural over a list, or is a
  \<open>function\<close> with a measure (\<open>fields_aux\<close>, \<open>strip_lead\<close>, \<open>be_bytes\<close>). Durations, timestamps and the RSA exponent are
  integers with the 64-bit wrap-around written out; floats are the record of exact values the claims use.

  \<^bold>\<open>Not modelled.\<close> The flag and command libraries (a command starts from its parsed flags and the names of those given), process start-up and
  signals (\<open>main.go\<close>, \<open>cmd/execute.go\<close> beyond its exit codes, \<open>cmd/io.go\<close>), log lines other than the access log, the
  registration and exposition of metrics, the scheme registration
  of \<open>k8s/api\<close>, the watch set-up of the controller runtime, and \<open>examples/\<close>: each only calls libraries. Cryptography, JSON, PEM and the Kubernetes
  API are parameters.
\<close>

section \<open>Tokens across the components\<close>

lemma collect_entries_algs:
  "collect_entries es byKid algs = Inr (byKid', algs') \<Longrightarrow>
    set algs \<subseteq> set algs' \<and> (\<forall>e \<in> set es. \<forall>m. ke_Method e = Some m \<longrightarrow> Alg m \<in> set algs')"
proof (induction es byKid algs rule: collect_entries.induct)
  case (2 e es byKid algs)
  then show ?case by (auto split: if_splits option.splits)
qed simp

text \<open>What the server's verifier accepts, when no revoker is configured.\<close>

lemma buildVerifier_base:
  assumes "buildVerifier cfg = Inr v" "sv_Revoker cfg = None" "sv_Method cfg \<noteq> None" "sv_PublicKey cfg \<noteq> None"
  shows "\<exists>algs. (\<forall>L. server_verify L v = verify_with L (plain_base algs) (buildParser (plain_base algs)) (verifier_key v)) \<and>
    (\<forall>e \<in> set (server_entries cfg). \<forall>m. ke_Method e = Some m \<longrightarrow> Alg m \<in> set algs)"
proof (cases "sv_AdditionalKeys cfg = []")
  case True
  obtain m k where mk: "sv_Method cfg = Some m" "sv_PublicKey cfg = Some k" using assms by auto
  with True assms obtain w where w: "NewVerifier (Some m) (Some k) [] = Inr w" "v = SingleKey w"
    by (auto simp: buildVerifier_def split: sum.splits)
  have "v_base w = plain_base [Alg m]" "v_parser w = buildParser (plain_base [Alg m])"
    using conjunct1 [OF NewVerifier_Inr [OF w(1)]] by (auto simp: applyOpts_def)
  with True mk w(2) show ?thesis by (intro exI [of _ "[Alg m]"]) (simp add: fun_eq_iff Verify_def)
next
  case False
  with assms obtain w where w: "NewMultiKeyVerifier (server_entries cfg) [] = Inr w" "v = MultiKey w"
    by (auto simp: buildVerifier_def Let_def split: if_splits sum.splits)
  then obtain algs where a: "collect_entries (server_entries cfg) fmempty [] = Inr (entries w, algs)"
    "applyOpts algs [] = Inr (mk_base w, mk_parser w)" using NewMultiKeyVerifier_Inr by blast
  have "mk_base w = plain_base algs" "mk_parser w = buildParser (plain_base algs)" using a(2) by (auto simp: applyOpts_def)
  with w(2) collect_entries_algs [OF a(1)] show ?thesis by (intro exI [of _ algs]) (simp add: fun_eq_iff MultiVerify_def)
qed

lemma server_key_of_signed:
  assumes "buildVerifier cfg = Inr v" "sv_Method cfg = Some m" "sv_PublicKey cfg = Some pub" "asymmetric m" "t_method tok = m"
    "sv_AdditionalKeys cfg = [] \<or> fmlookup (t_header tok) ''kid'' = Some (VString (sv_Kid cfg))"
  shows "verifier_key v tok = Inr pub"
proof (cases "sv_AdditionalKeys cfg = []")
  case True
  then show ?thesis using buildVerifier_single [OF assms(1) _ assms(2,3)] assms(4,5) by (simp add: public_key_func_Inr)
next
  case False
  then show ?thesis using buildVerifier_multi [OF assms(1) False, of tok pub] assms(2,3,5,6) by auto
qed

lemma verify_endpoint_valid:
  assumes "server_verify L (sr_verify srv) (en_now1 en) None t [] = Inr tok" "t \<noteq> []"
    "rq_Method r = ''POST''" "rq_Path r = ''/verify''" "rq_ctx r = None"
    "en_token en (limited_body MaxVerifyBodyBytes (rq_Body r)) = Some t" "body_marshals L (VerifyResponse True (t_claims tok) (t_header tok))"
  shows "rs_Status (fst (serve L en srv r)) = 200 \<and> rs_Body (fst (serve L en srv r)) = VerifyResponse True (t_claims tok) (t_header tok)"
  unfolding serve_POST(3) [OF assms(3,4)] using assms by (simp add: handleVerify_def ToMapClaims_def Write_def)

text \<open>The TokenReview endpoint.\<close>

lemma review_route:
  assumes "rq_Method r = ''POST''" "rq_Path r = ''/k8s/token-review''" "sv_EnableTokenReview (sr_cfg srv)"
  shows "fst (serve L en srv r) =
    (case serve_review L (server_verify L (sr_verify srv)) (review_config_of L []) (en_race en) (en_review en) (en_order en) (en_now1 en) (rq_ctx r) (rq_Body r) of
       (st, out) \<Rightarrow> Write L (secured (sv_CertFile (sr_cfg srv) \<noteq> [] \<or> rq_TLS r)) st (ReviewResponse out))"
proof -
  have "lookup_path r = rq_Path r" using assms by (simp add: lookup_path_def cleanPath_def Let_def)
  moreover have "find_route (sr_cfg srv) (rq_Method r) (rq_Path r) = Some (''POST'', rq_Path r, RTokenReview)"
    using assms by (simp add: find_route_eq)
  ultimately show ?thesis unfolding serve_eq by (simp add: mux_routed run_route_def)
qed

lemma mapper_total:
  assumes "Claims.Subject c = Inr s"
  shows "\<exists>u. DefaultUserInfoMapper order c = Inr u \<and> tr_Username u = s"
proof -
  have "s \<noteq> []" using assms by (auto simp: Claims.Subject_def dest: readString_nonempty)
  with assms show ?thesis by (simp add: DefaultUserInfoMapper_def Let_def)
qed

text \<open>What a running service signs is what it accepts, in whatever way the verifier is used.\<close>

lemma service_accepts:
  assumes lib: "numericDate_spec L" "newWithClaims_spec L" "signing_spec L" "parser_complete L" "validator_spec L"
    and srv: "New C ecBytes cfg = Some (Inr srv)" "sv_Revoker cfg = None" "sv_Method cfg = Some m" "m \<in> set std_methods"
      "sv_PublicKey cfg = Some pub" "sv_PrivateKey cfg = Some priv" "keyPair L pub priv"
    and sign: "Sign L now uuid (sr_signer srv) None c h = Inr (t, tok)" "sv_AdditionalKeys cfg = [] \<or> fmlookup h ''kid'' = None"
      "json_ok L c" "json_ok L h"
    and window: "accepted_window (t_claims tok) e n later"
  shows "\<exists>tok'. t \<noteq> [] \<and> t_claims tok' = json_map L (t_claims tok) \<and> t_header tok' = json_map L (t_header tok) \<and>
    body_marshals L (VerifyResponse True (t_claims tok') (t_header tok')) \<and>
    (\<forall>extra. all_pass extra None tok' \<longrightarrow> server_verify L (sr_verify srv) later None t extra = Inr tok')"
proof -
  note n = New_Inr [OF srv(1)]
  have s: "staticHeaders (sr_signer srv) = (if sv_Kid cfg = [] then fmempty else fmupd ''kid'' (VString (sv_Kid cfg)) fmempty)"
    "signer_wf (sr_signer srv)" "s_method (sr_signer srv) = m" "signingKey (sr_signer srv) = priv"
    using server_signer [OF n(3)] srv(3,6) by simp_all
  obtain algs where v: "server_verify L (sr_verify srv) =
      verify_with L (plain_base algs) (buildParser (plain_base algs)) (verifier_key (sr_verify srv))"
    and m: "Alg m \<in> set algs" using buildVerifier_base [OF n(4) [simplified] srv(2)] srv(3,5) by auto
  have key: "verifier_key (sr_verify srv) tok' = Inr pub"
    if tok': "t_method tok' = m" "t_header tok' = json_map L (t_header tok)" for tok'
  proof -
    have "fmlookup (t_header tok) ''kid'' = Some (VString (sv_Kid cfg))" if "sv_AdditionalKeys cfg \<noteq> []"
      using that sign(2) Sign_header [OF lib(2) sign(1), of "''kid''"] s(1) n(4) by (auto simp: buildVerifier_def split: if_splits)
    then have "sv_AdditionalKeys cfg = [] \<or> fmlookup (t_header tok') ''kid'' = Some (VString (sv_Kid cfg))"
      by (auto simp: tok' json_map_lookup)
    then show ?thesis using server_key_of_signed [OF n(4) [simplified] srv(3,5) std_asymmetric [OF srv(4)] tok'(1)] by blast
  qed
  have pair: "keyPair L pub (signingKey (sr_signer srv))" using srv(7) s(4) by simp
  note json = server_json_ok [OF lib(1,2) n(3) sign(1,3,4)]
  from signed_accepted [OF lib s(2,3) srv(4) pair sign(1) json window m, of "verifier_key (sr_verify srv)"] key obtain tok' where
    ok: "server_verify L (sr_verify srv) later None t [] = Inr tok'" "t \<noteq> []"
    "t_claims tok' = json_map L (t_claims tok)" "t_header tok' = json_map L (t_header tok)" unfolding v by blast
  have "server_verify L (sr_verify srv) later None t extra = Inr tok'" if "all_pass extra None tok'" for extra
    using that ok(1) unfolding v by (simp add: verify_with_Inr)
  moreover have "body_marshals L (VerifyResponse True (t_claims tok') (t_header tok'))"
    using json by (simp add: body_marshals_def ok(3,4) json_map_marshals)
  ultimately show ?thesis using ok by blast
qed




text \<open>A signed token with a subject.\<close>

definition sub_signed :: token where
  "sub_signed = demo_signed\<lparr>t_claims := fmupd KeyID (VString ''u'') (fmupd KeyIssuer (VString DefaultIssuer)
     (fmupd KeyNotBefore (date 1700000000000000000) (fmupd KeyIssuedAt (date 1700000000000000000)
       (fmupd KeyExpiresAt (date 1700003600000000000) (fmupd KeySubject (VString ''me'') fmempty)))))\<rparr>"

lemma sign_claims_sub:
  assumes "numericDate_spec L"
  shows "sign_claims L now uuid (fmupd KeySubject (VString s) fmempty) d iss =
    Inr (fmupd KeyID (VString uuid) (fmupd KeyIssuer (VString iss) (fmupd KeyNotBefore (date (trunc_second now))
      (fmupd KeyIssuedAt (date (trunc_second now)) (fmupd KeyExpiresAt (date (trunc_second (now + d)))
        (fmupd KeySubject (VString s) fmempty))))))"
proof -
  let ?c = "fmupd KeySubject (VString s) fmempty"
  have "json_ok L ?c" by (rule json_ok_upd) (simp_all add: json_ok_def)
  then have "fmlookup (DeepCopy L ?c) k = fmlookup ?c k" for k by (simp only: DeepCopy_json_ok json_map_lookup) simp
  then have "DeepCopy L ?c = ?c" by (rule fmap_ext)
  moreover have "?c \<noteq> fmempty" by simp
  ultimately show ?thesis
    using assms
    by (simp add: sign_claims_def default_exp_def default_iat_def default_nbf_def default_iss_def default_jti_def Claims.ExpiresAt_def
        Claims.IssuedAt_def Claims.NotBefore_def Claims.Issuer_def Claims.ID_def readTime_def readString_def SetExpiresAt_def SetIssuedAt_def
        SetNotBefore_def SetIssuer_def SetID_def time_Add_def key_defs)
qed

abbreviation review_demo_config :: server_config where "review_demo_config \<equiv> demo_config\<lparr>sv_EnableTokenReview := True\<rparr>"
abbreviation review_lib :: lib where "review_lib \<equiv> signing_lib sub_signed demo_pub"

lemma Sign_review_demo:
  assumes "New demo_crypto ec review_demo_config = Some (Inr srv)"
  shows "Sign review_lib 1700000000000000000 ''u'' (sr_signer srv) None (fmupd KeySubject (VString ''me'') fmempty) fmempty = Inr (''a.b.c'', sub_signed)"
proof -
  have s: "sr_signer srv = \<lparr>s_method = SigningMethodEdDSA, signingKey = demo_priv,
      staticHeaders = fmupd ''kid'' (VString ''a'') fmempty, staticClaims = fmempty, expiration = Hour, issuer = DefaultIssuer, s_typ = DefaultTyp\<rparr>"
    using New_Inr(3) [OF assms]
    by (simp add: NewSigner_def demo_config_def validateMethodAndKey_def method_consts signer_opts_def withDefaults_def
        Signing.WithDefaultExpiration_def WithStaticHeaders_def Hour_def Minute_def Second_def HeaderKeyAlg_def)
  define L where "L = review_lib"
  have n: "newWithClaims L m c = \<lparr>t_method = m,
      t_header = fmupd ''alg'' (VString (Alg m)) (fmupd ''typ'' (VString ''JWT'') fmempty), t_claims = c, t_signature = [], t_valid = False\<rparr>" for m c
    by (simp add: L_def one_token_lib_def)
  have "numericDate_spec L" "signedString L sub_signed demo_priv = Inr ''a.b.c''"
    by (simp_all add: L_def signing_lib_specs(1) one_token_lib_def)
  moreover have "mergeHeaders (fmupd ''kid'' (VString ''a'') fmempty) fmempty = fmupd ''kid'' (VString ''a'') fmempty" by (simp add: mergeHeaders_def)
  ultimately show ?thesis
    unfolding Sign_def signWith_def L_def [symmetric] s
    by (simp add: mergedClaims_def sign_claims_sub n trunc_second_def Hour_def Minute_def Second_def signed_demo_def sub_signed_def method_consts)
qed

definition review_env :: env where
  "review_env = demo_env\<lparr>en_now1 := 1700003629000000000, en_order := sorted_list_of_fmap,
     en_review := (\<lambda>_. Some (demo_review\<lparr>rv_Token := ''a.b.c''\<rparr>))\<rparr>"


text \<open>C25. A refreshed token carries no kid header, so a daemon with more than one verification key refuses every
  token its own /refresh endpoint issued, at any time.\<close>

theorem refreshed_token_refused:
  assumes "newWithClaims_spec L" "signing_spec L" "parser_sound L" "New C ecBytes cfg = Some (Inr srv)"
    "sv_AdditionalKeys cfg \<noteq> []" "sv_Method cfg = Some m" "m \<in> set std_methods"
    "Refresh.Refresh L (sr_refresh srv) now None old = Inr (tok, t)"
  shows "\<exists>err. server_verify L (sr_verify srv) later None t [] = Inl err"
proof (rule ccontr)
  assume "\<not> ?thesis"
  then obtain tok' where ok: "server_verify L (sr_verify srv) later None t [] = Inr tok'" by (metis sum.exhaust)
  note n = New_Inr [OF assms(4)]
  obtain pub priv where k: "sv_PublicKey cfg = Some pub" "sv_PrivateKey cfg = Some priv" using config_errors_None [OF n(1)] by auto
  have "r_method (sr_refresh srv) = m" using n(5) NewRefresher_Inr assms(6) k by fastforce
  with assms(8) obtain c where r: "tok = newWithClaims L m c" "signedString L tok (r_privateKey (sr_refresh srv)) = Inr t"
    by (auto simp: Refresh.Refresh_def elim: refresh_Inr)
  have hd: "t_method tok = m" "t_header tok = fmupd ''alg'' (VString (Alg m)) (fmupd ''typ'' (VString ''JWT'') fmempty)"
    using assms(1) r(1) by (simp_all add: newWithClaims_spec_def)
  have json: "json_ok L (t_header tok)" unfolding hd(2) by (intro json_ok_upd) (simp_all add: json_ok_empty)
  have t0: "t_header tok0 = json_map L (t_header tok)" if "parseUnverified L t = Inr tok0" for tok0
    using assms(2,7) r(2) hd json that unfolding signing_spec_def by (metis fmupd_lookup)
  obtain w where w: "sr_verify srv = MultiKey w"
    using n(4) assms(5) by (cases "sr_verify srv") (auto simp: buildVerifier_def Let_def split: if_splits sum.splits)
  have "parseWithClaims L (mk_parser w) later t (multi_keyFunc w) = Inr tok'"
    using ok by (simp add: w MultiVerify_def verify_with_Inr)
  then obtain kid where "fmlookup (t_header tok') ''kid'' = Some (VString kid)" "\<exists>tok0. parseUnverified L t = Inr tok0 \<and> same_content tok0 tok'"
    using assms(3) unfolding parser_sound_def by (fastforce simp: multi_keyFunc_Inr)
  moreover have "fmlookup (t_header tok0) ''kid'' = None" if "parseUnverified L t = Inr tok0" for tok0
    by (simp add: t0 [OF that] hd(2) json_map_lookup)
  ultimately show False by (auto simp: same_content_def)
qed

definition demo_refreshed :: token where
  "demo_refreshed = \<lparr>t_method = SigningMethodEdDSA,
     t_header = fmupd ''alg'' (VString ''EdDSA'') (fmupd ''typ'' (VString ''JWT'') fmempty),
     t_claims = fmupd KeyIssuedAt (date 1700000030000000000) (fmupd KeyNotBefore (date 1700000030000000000)
       (fmupd KeyExpiresAt (date 1700000090000000000) demo_claims)),
     t_signature = [], t_valid = False\<rparr>"

definition demo_refresh_lib :: lib where
  "demo_refresh_lib = mk_lib
     (\<lambda>x. if x = ''t'' then Inr (demo_token demo_claims)
          else if x = ''a.b.c'' then Inr (demo_refreshed\<lparr>t_header := json_map no_lib (t_header demo_refreshed),
            t_claims := json_map no_lib (t_claims demo_refreshed)\<rparr>)
          else Inl [])
     (\<lambda>_ _ k. k = demo_pub) (\<lambda>t k. if t = demo_refreshed then Inr ''a.b.c'' else Inl []) (\<lambda>a b. a = demo_pub)"

lemma demo_refresh_lib_specs:
  "newWithClaims_spec demo_refresh_lib" "signing_spec demo_refresh_lib" "parser_sound demo_refresh_lib"
proof -
  have "TrimSpace ''a.b.c'' \<noteq> []" by code_simp
  then show "signing_spec demo_refresh_lib"
    by (auto simp: signing_spec_def demo_refresh_lib_def json_map_mk_lib split: if_splits)
qed (simp_all add: demo_refresh_lib_def)

lemma Refresh_server_demo:
  assumes "New demo_crypto ec demo_config = Some (Inr srv)"
  shows "Refresh.Refresh demo_refresh_lib (sr_refresh srv) 1700000030000000000 None ''t'' = Inr (demo_refreshed, ''a.b.c'')"
proof -
  let ?L = demo_refresh_lib
  have r: "sr_refresh srv = demo_refresher"
    using New_Inr(5) [OF assms]
    by (simp add: NewRefresher_def method_consts demo_pub_def ValidatePair_def ValidateEd25519Pair_def demo_crypto_def
      Ed25519PublicKeySize_def Ed25519PrivateKeySize_def PublicKeyFunc_def is_public_key_def demo_config_def Let_def
      refresher_opts_def withDefaults_def Refresh.WithDefaultExpiration_def Hour_def Minute_def Second_def demo_refresher_def
      Refresh.DefaultExpiration_def)
  have parse: "parseWithClaims ?L (r_parser demo_refresher) now ''t'' (r_keyFunc demo_refresher) = Inr (demo_token demo_claims)" for now
    by (simp add: demo_refresh_lib_def demo_refresher_def checked_parse_def demo_token_def method_allowed_def public_key_func_def
      method_consts asymmetric_def)
  have times: "Claims.IssuedAt ?L demo_claims = Inr 1700000000000000000" "Claims.ExpiresAt ?L demo_claims = Inr 1700000060000000000"
    by (simp_all add: demo_claims_def Claims.IssuedAt_def Claims.ExpiresAt_def readTime_def nonzero_date_def time_IsZero_def
      zero_time_def demo_refresh_lib_def trunc_second_def Second_def)
  have age: "check_age (r_cfg demo_refresher) 1700000030000000000 (Inr 1700000000000000000) = None"
    by (simp add: check_age_def demo_refresher_def time_Sub_def Hour_def Minute_def Second_def maxDuration_def minDuration_def)
  have new: "newWithClaims ?L SigningMethodEdDSA
      (SetIssuedAt ?L (SetNotBefore ?L (SetExpiresAt ?L demo_claims 1700000090000000000) 1700000030000000000) 1700000030000000000) = demo_refreshed"
    by (simp add: demo_refresh_lib_def demo_refreshed_def SetIssuedAt_def SetNotBefore_def SetExpiresAt_def trunc_second_def
      Second_def method_consts)
  have "signedString ?L demo_refreshed k = Inr ''a.b.c''" for k by (simp add: demo_refresh_lib_def)
  moreover have "new_exp ?L (r_cfg demo_refresher) 1700000030000000000 (Inr 1700000000000000000) demo_claims = Inr 1700000090000000000"
    by (simp add: new_exp_def times time_Add_def time_Sub_def maxDuration_def minDuration_def)
  moreover have "resolve ?L (r_cfg demo_refresher) None demo_claims = Inr demo_claims" "r_method demo_refresher = SigningMethodEdDSA"
    by (simp_all add: resolve_def demo_refresher_def)
  moreover have "t_claims (demo_token demo_claims) = demo_claims" by (simp add: demo_token_def)
  ultimately show ?thesis
    using trim_t new by (simp add: r Refresh.Refresh_def refresh_def parse times age)
qed

theorem refreshed_token_refused_witness:
  "\<exists>srv err. New demo_crypto (\<lambda>_. Inl []) demo_config = Some (Inr srv) \<and>
    Refresh.Refresh demo_refresh_lib (sr_refresh srv) 1700000030000000000 None ''t'' = Inr (demo_refreshed, ''a.b.c'') \<and>
    server_verify demo_refresh_lib (sr_verify srv) 1700000031000000000 None ''a.b.c'' [] = Inl err"
proof -
  obtain srv where n: "New demo_crypto (\<lambda>_. Inl []) demo_config = Some (Inr srv)" using New_demo by blast
  have "sv_AdditionalKeys demo_config \<noteq> []" "sv_Method demo_config = Some SigningMethodEdDSA" "SigningMethodEdDSA \<in> set std_methods"
    by (simp_all add: demo_config_def std_methods_def)
  from refreshed_token_refused [OF demo_refresh_lib_specs n this Refresh_server_demo [OF n]] n Refresh_server_demo [OF n]
  show ?thesis by blast
qed

section \<open>Revocation and refresh\<close>

lemma refreshed_jti:
  assumes "numericDate_spec L" "newWithClaims_spec L" "refresh L now ctx m p kf priv cfg s = Inr (tok, str)" "resolver cfg = None"
  obtains prev where "parseWithClaims L p now s kf = Inr prev" "JTIExtractor L tok = JTIExtractor L prev"
proof -
  from assms(3) obtain prev c e where r: "parseWithClaims L p now s kf = Inr prev" "resolve L cfg ctx (t_claims prev) = Inr c"
    "tok = newWithClaims L m (SetIssuedAt L (SetNotBefore L (SetExpiresAt L c e) now) now)" by (rule refresh_Inr)
  have "c = t_claims prev" using r(2) assms(4) by (simp add: resolve_def)
  then have "fmlookup (t_claims tok) KeyID = fmlookup (t_claims prev) KeyID"
    using r(3) refreshed_claims_lookup [OF assms(1), of c e now KeyID] assms(2) by (simp add: newWithClaims_spec_def key_defs)
  then have "JTIExtractor L tok = JTIExtractor L prev"
    by (simp add: JTIExtractor_def claim_key_def ToMapClaims_def Claims.JTI_def Claims.ID_def readString_def)
  with r(1) show thesis by (rule that)
qed

lemma refresher_opts_resolver:
  "apply_opts (refresher_opts cfg) c = Inr c' \<Longrightarrow> sv_RefreshClaimsResolver cfg = None \<Longrightarrow> resolver c' = resolver c"
  by (auto simp: refresher_opts_def Refresh.WithDefaultExpiration_def WithMaxAge_def split: if_splits option.splits)

text \<open>The revoker is the verifier's alone.\<close>

lemma revoker_fields:
  "withDefaults (cfg\<lparr>sv_Revoker := R\<rparr>) = (withDefaults cfg)\<lparr>sv_Revoker := R\<rparr>"
  "signer_opts (cfg\<lparr>sv_Revoker := R\<rparr>) = signer_opts cfg" "refresher_opts (cfg\<lparr>sv_Revoker := R\<rparr>) = refresher_opts cfg"
  "buildJWKS ecBytes (cfg\<lparr>sv_Revoker := R\<rparr>) = buildJWKS ecBytes cfg" "config_errors C (cfg\<lparr>sv_Revoker := R\<rparr>) = config_errors C cfg"
  "authenticator_of (cfg\<lparr>sv_Revoker := R\<rparr>) = authenticator_of cfg"
  by (simp_all add: withDefaults_def signer_opts_def refresher_opts_def buildJWKS_def config_errors_def authenticator_of_def Let_def
      split: option.split)

lemma refresh_server_revoker:
  assumes "New C ecBytes cfg = Some (Inr srv)" "New C ecBytes (cfg\<lparr>sv_Revoker := R\<rparr>) = Some (Inr srv')"
  shows "sr_refresh srv' = sr_refresh srv" "authenticator_of (sr_cfg srv') = authenticator_of (sr_cfg srv)"
    "sv_CertFile (sr_cfg srv') = sv_CertFile (sr_cfg srv)"
  using New_Inr(2,5) [OF assms(1)] New_Inr(2,5) [OF assms(2)] by (simp_all add: revoker_fields del: withDefaults_keeps)

lemma New_with_revoker:
  assumes "New C ecBytes cfg = Some (Inr srv)" "buildVerifier (withDefaults (cfg\<lparr>sv_Revoker := R\<rparr>)) = Inr v"
  shows "\<exists>srv'. New C ecBytes (cfg\<lparr>sv_Revoker := R\<rparr>) = Some (Inr srv')"
  using New_Inr [OF assms(1)] assms(2) by (simp add: New_def revoker_fields Let_def)

text \<open>C38. Revocation does not reach POST /refresh: the endpoint answers every request alike whatever revoker the
  server is configured with. A refresh without a resolver keeps the jti, so a token revoked by jti until
  its own expiry, as the documentation of \<open>RevokeUntil\<close> advises, can be refreshed, and once the entry has
  lapsed the in-memory revoker no longer reports the refreshed token as revoked.\<close>

theorem refresh_outlives_revocation:
  assumes "numericDate_spec L" "newWithClaims_spec L" "New C ecBytes cfg = Some (Inr srv)" "sv_RefreshClaimsResolver cfg = None"
    "New C ecBytes (cfg\<lparr>sv_Revoker := R\<rparr>) = Some (Inr srv')" "rq_Method r = ''POST''" "rq_Path r = ''/refresh''"
    "Refresh.Refresh L (sr_refresh srv) now None old = Inr (tok, t)" "keyFn m = JTIExtractor L"
  shows "fst (serve L en srv' r) = fst (serve L en srv r) \<and>
    (\<exists>prev. parseWithClaims L (r_parser (sr_refresh srv)) now old (r_keyFunc (sr_refresh srv)) = Inr prev \<and>
      keyFn m tok = keyFn m prev \<and>
      (\<forall>key until later. keyFn m prev = Some key \<and> key \<noteq> [] \<and> until \<noteq> zero_time \<longrightarrow>
        Revoked later (RevokeUntil key until m) None (Some tok) = Inr (later < until)))"
proof -
  note n = New_Inr [OF assms(3)]
  obtain pub priv where "sv_PublicKey cfg = Some pub" "sv_PrivateKey cfg = Some priv" "sv_Method cfg \<noteq> None"
    using config_errors_None [OF n(1)] by auto
  then have "apply_opts (refresher_opts (withDefaults cfg)) \<lparr>defaultExpiration = Refresh.DefaultExpiration, maxAge = 24 * Hour, resolver = None\<rparr> =
      Inr (r_cfg (sr_refresh srv))" using NewRefresher_Inr n(5) by fastforce
  then have "resolver (r_cfg (sr_refresh srv)) = None" using refresher_opts_resolver assms(4) by fastforce
  with assms(8) obtain prev where p: "parseWithClaims L (r_parser (sr_refresh srv)) now old (r_keyFunc (sr_refresh srv)) = Inr prev"
    "JTIExtractor L tok = JTIExtractor L prev"
    by (auto simp: Refresh.Refresh_def elim: refreshed_jti [OF assms(1,2)])
  have "Revoked later (RevokeUntil key until m) None (Some tok) = Inr (later < until)"
    if "keyFn m prev = Some key" "key \<noteq> []" "until \<noteq> zero_time" for key until later
    using that p(2) assms(9) by (simp add: Revoked_def RevokeUntil_def time_IsZero_def time_Before_def)
  moreover have "fst (serve L en srv' r) = fst (serve L en srv r)"
    by (simp add: serve_POST(2) [OF assms(6,7)] refresh_server_revoker [OF assms(3,5)])
  ultimately show ?thesis using p assms(9) by auto
qed

theorem refresh_outlives_revocation_witness:
  "\<exists>srv srv'. New demo_crypto (\<lambda>_. Inl []) demo_config = Some (Inr srv) \<and>
    New demo_crypto (\<lambda>_. Inl []) (demo_config\<lparr>sv_Revoker := Some (\<lambda>_ _. Inr True)\<rparr>) = Some (Inr srv') \<and>
    Refresh.Refresh demo_refresh_lib (sr_refresh srv) 1700000030000000000 None ''t'' = Inr (demo_refreshed, ''a.b.c'') \<and>
    (\<forall>en. fst (serve demo_refresh_lib en srv' (Http_Facts.demo_request ''POST'' ''/refresh'' fmempty)) =
      fst (serve demo_refresh_lib en srv (Http_Facts.demo_request ''POST'' ''/refresh'' fmempty)))"
proof -
  obtain srv where n: "New demo_crypto (\<lambda>_. Inl []) demo_config = Some (Inr srv)" using New_demo by blast
  let ?cfg = "demo_config\<lparr>sv_Revoker := Some (\<lambda>_ _. Inr True)\<rparr>"
  have "\<exists>v. buildVerifier (withDefaults ?cfg) = Inr v"
    by (simp add: buildVerifier_def demo_config_def withDefaults_def NewMultiKeyVerifier_def method_consts demo_pub_def is_public_key_def
        applyOpts_def WithRevoker_def)
  then have "\<exists>srv'. New demo_crypto (\<lambda>_. Inl []) ?cfg = Some (Inr srv')" using New_with_revoker [OF n] by blast
  then obtain srv' where n': "New demo_crypto (\<lambda>_. Inl []) ?cfg = Some (Inr srv')" by blast
  note r = Refresh_server_demo [OF n]
  let ?m = "\<lparr>revoked = fmempty, keyFn = JTIExtractor demo_refresh_lib\<rparr>"
  have "numericDate_spec demo_refresh_lib" by (simp add: demo_refresh_lib_def)
  from refresh_outlives_revocation [OF this demo_refresh_lib_specs(1) n _ n' _ _ r, of "Http_Facts.demo_request ''POST'' ''/refresh'' fmempty" ?m]
  show ?thesis using n n' r by (auto simp: Http_Facts.demo_request_def demo_config_def)
qed

end
